(* ===== verification/Sheeld_Prelude.thy ===== *)
theory Sheeld_Prelude
  imports Main "HOL-Library.AList"
begin

text \<open>
  Shared base of the development: Go results as sums, Go maps as association lists, and the
  functions of Go's \<open>strings\<close>, \<open>strconv\<close> and \<open>fmt\<close> packages the modelled code calls.

  A Go \<open>string\<close> is a sequence of bytes; it is modelled as a \<^typ>\<open>string\<close>, one
  \<^typ>\<open>char\<close> per byte, so \<open>len(s)\<close> is \<^term>\<open>length s\<close> and slicing is
  \<^const>\<open>take\<close>/\<^const>\<open>drop\<close>. A Go pair \<open>(value, error)\<close> is a sum: \<open>Inl\<close> the
  error text, \<open>Inr\<close> the value. A Go map is an association list read with
  \<^const>\<open>map_of\<close>; the first entry of a key counts. No statement of the development depends on
  the order of such a list where the code iterates over a map.
\<close>

named_theorems res_simps "results as sums"
named_theorems gomap_simps "lookup in Go maps"
named_theorems text_defs "definitions of the text functions of the Go library"

subsection \<open>Results\<close>

type_synonym go_error = string
type_synonym 'a res = "go_error + 'a"

definition res_bind :: "'a res \<Rightarrow> ('a \<Rightarrow> 'b res) \<Rightarrow> 'b res" where
  "res_bind r f = (case r of Inl e \<Rightarrow> Inl e | Inr x \<Rightarrow> f x)"

text \<open>\<open>fmt.Errorf("prefix: %w", err)\<close>.\<close>

definition err_wrap :: "string \<Rightarrow> 'a res \<Rightarrow> 'a res" where
  "err_wrap pre r = (case r of Inl e \<Rightarrow> Inl (pre @ e) | Inr x \<Rightarrow> Inr x)"

definition is_err :: "'e + 'a \<Rightarrow> bool" where
  "is_err r = (case r of Inl _ \<Rightarrow> True | Inr _ \<Rightarrow> False)"

lemma res_bind_simps [simp, res_simps]:
  "res_bind (Inl e) f = Inl e"
  "res_bind (Inr x) f = f x"
  by (simp_all add: res_bind_def)

lemma res_bind_Inr_iff [res_simps]:
  "res_bind r f = Inr y \<longleftrightarrow> (\<exists>x. r = Inr x \<and> f x = Inr y)"
  by (cases r) auto

lemma res_bind_Inl_iff [res_simps]:
  "res_bind r f = Inl e \<longleftrightarrow> r = Inl e \<or> (\<exists>x. r = Inr x \<and> f x = Inl e)"
  by (cases r) auto

lemma err_wrap_simps [simp, res_simps]:
  "err_wrap p (Inl e) = Inl (p @ e)"
  "err_wrap p (Inr x) = Inr x"
  by (simp_all add: err_wrap_def)

lemma err_wrap_Inr_iff [res_simps]: "err_wrap p r = Inr x \<longleftrightarrow> r = Inr x"
  by (cases r) auto

lemma is_err_simps [simp]: "is_err (Inl e)" "\<not> is_err (Inr x)"
  by (simp_all add: is_err_def)

lemma not_is_err_iff: "\<not> is_err r \<longleftrightarrow> (\<exists>x. r = Inr x)"
  by (cases r) auto

subsection \<open>Go maps\<close>

type_synonym ('k, 'v) gomap = "('k \<times> 'v) list"

abbreviation m_get :: "('k, 'v) gomap \<Rightarrow> 'k \<Rightarrow> 'v option" where
  "m_get \<equiv> map_of"

abbreviation m_set :: "'k \<Rightarrow> 'v \<Rightarrow> ('k, 'v) gomap \<Rightarrow> ('k, 'v) gomap" where
  "m_set \<equiv> AList.update"

abbreviation m_del :: "'k \<Rightarrow> ('k, 'v) gomap \<Rightarrow> ('k, 'v) gomap" where
  "m_del \<equiv> AList.delete"

lemma m_get_set [simp, gomap_simps]:
  "m_get (m_set k v m) k' = (if k' = k then Some v else m_get m k')"
  by (simp add: update_conv')

lemma m_set_new: "k \<notin> fst ` set m \<Longrightarrow> m_set k v m = m @ [(k, v)]"
  by (induction m) auto

lemma m_get_del [simp, gomap_simps]:
  "m_get (m_del k m) k' = (if k' = k then None else m_get m k')"
  by (simp add: delete_conv')

text \<open>The map built from the entries in order: a later entry replaces an earlier one.\<close>

definition m_of_entries :: "('k \<times> 'v) list \<Rightarrow> ('k, 'v) gomap" where
  "m_of_entries kvs = fold (\<lambda>(k, v) m. m_set k v m) kvs []"

lemma m_get_fold_set:
  "m_get (fold (\<lambda>(k, v) m. m_set k v m) kvs m) k =
     (case m_get (rev kvs) k of None \<Rightarrow> m_get m k | Some v \<Rightarrow> Some v)"
  by (induction kvs arbitrary: m) (auto simp: map_add_def split: option.splits)

lemma m_get_of_entries [gomap_simps]: "m_get (m_of_entries kvs) k = m_get (rev kvs) k"
  by (simp add: m_of_entries_def m_get_fold_set split: option.splits)

lemma distinct_m_of_entries [simp]: "distinct (map fst (m_of_entries kvs))"
proof -
  have "distinct (map fst m) \<Longrightarrow> distinct (map fst (fold (\<lambda>(k, v) m. m_set k v m) kvs m))" for m
    by (induction kvs arbitrary: m) (auto simp: distinct_update)
  then show ?thesis by (simp add: m_of_entries_def)
qed

lemma m_get_rev: "distinct (map fst m) \<Longrightarrow> m_get (rev m) = m_get m"
proof
  fix k
  assume "distinct (map fst m)"
  then have "distinct (map fst (rev m))" and "set (rev m) = set m" and "distinct (map fst m)"
    by (simp_all flip: rev_map)
  then show "m_get (rev m) k = m_get m k"
    by (metis map_of_inject_set)
qed

subsection \<open>The strings package\<close>

definition has_prefix :: "string \<Rightarrow> string \<Rightarrow> bool" where
  "has_prefix s p = (take (length p) s = p)"

definition has_suffix :: "string \<Rightarrow> string \<Rightarrow> bool" where
  "has_suffix s p = has_prefix (rev s) (rev p)"

lemma has_prefix_iff: "has_prefix s p \<longleftrightarrow> (\<exists>r. s = p @ r)"
  unfolding has_prefix_def by (metis append_eq_conv_conj append_take_drop_id)

lemma has_prefix_append [simp]: "has_prefix (p @ s) p"
  by (simp add: has_prefix_def)

text \<open>The UTF-8 encodings of the runes \<open>unicode.IsSpace\<close> accepts.\<close>

definition space_encodings :: "string list" where
  "space_encodings =
     [[CHR 0x09], [CHR 0x0A], [CHR 0x0B], [CHR 0x0C], [CHR 0x0D], [CHR 0x20],
      [CHR 0xC2, CHR 0x85], [CHR 0xC2, CHR 0xA0], [CHR 0xE1, CHR 0x9A, CHR 0x80]] @
     map (\<lambda>c. [CHR 0xE2, CHR 0x80, c])
       [CHR 0x80, CHR 0x81, CHR 0x82, CHR 0x83, CHR 0x84, CHR 0x85, CHR 0x86, CHR 0x87,
        CHR 0x88, CHR 0x89, CHR 0x8A, CHR 0xA8, CHR 0xA9, CHR 0xAF] @
     [[CHR 0xE2, CHR 0x81, CHR 0x9F], [CHR 0xE3, CHR 0x80, CHR 0x80]]"

text \<open>Strip any of the given prefixes from the front until none applies.\<close>

fun strip_front :: "nat \<Rightarrow> string list \<Rightarrow> string \<Rightarrow> string" where
  "strip_front 0 ps s = s"
| "strip_front (Suc n) ps s =
     (case find (has_prefix s) ps of
        None \<Rightarrow> s
      | Some p \<Rightarrow> strip_front n ps (drop (length p) s))"

text \<open>
  \<open>strings.TrimSpace\<close>: every strip removes at least one byte, so \<open>length s\<close> rounds are
  enough on either side.
\<close>

definition trim_space :: "string \<Rightarrow> string" where
  [text_defs]: "trim_space s =
     (let t = strip_front (length s) space_encodings s
      in rev (strip_front (length t) (map rev space_encodings) (rev t)))"

text \<open>\<open>strings.TrimRight(s, "/")\<close>.\<close>

definition trim_right_slash :: "string \<Rightarrow> string" where
  [text_defs]: "trim_right_slash s = rev (dropWhile (\<lambda>c. c = CHR ''/'') (rev s))"

text \<open>\<open>strings.SplitN(s, " ", 2)\<close>.\<close>

definition split_space2 :: "string \<Rightarrow> string list" where
  [text_defs]: "split_space2 s =
     (case dropWhile (\<lambda>c. c \<noteq> CHR '' '') s of
        [] \<Rightarrow> [s]
      | _ # rest \<Rightarrow> [takeWhile (\<lambda>c. c \<noteq> CHR '' '') s, rest])"

text \<open>\<open>strings.IndexByte\<close> and \<open>strings.LastIndexByte\<close>; \<open>None\<close> is Go's -1.\<close>

definition index_of :: "char \<Rightarrow> string \<Rightarrow> nat option" where
  [text_defs]: "index_of c s =
     (if c \<in> set s then Some (length (takeWhile (\<lambda>x. x \<noteq> c) s)) else None)"

definition last_index_of :: "char \<Rightarrow> string \<Rightarrow> nat option" where
  [text_defs]: "last_index_of c s =
     (if c \<in> set s then Some (length s - 1 - length (takeWhile (\<lambda>x. x \<noteq> c) (rev s))) else None)"

fun join :: "string \<Rightarrow> string list \<Rightarrow> string" where
  "join sep [] = []"
| "join sep [x] = x"
| "join sep (x # y # xs) = x @ sep @ join sep (y # xs)"

definition ascii_lower :: "char \<Rightarrow> char" where
  "ascii_lower c =
     (let n = (of_char c :: nat) in if 65 \<le> n \<and> n \<le> 90 then char_of (n + 32) else c)"

definition is_ascii :: "char \<Rightarrow> bool" where
  "is_ascii c = ((of_char c :: nat) < 128)"

text \<open>
  \<open>strings.ToLower\<close>: byte-wise on ASCII text; on other text Go maps runes with its Unicode
  tables, which are the argument \<open>uni_lower\<close>.
\<close>

definition to_lower :: "(string \<Rightarrow> string) \<Rightarrow> string \<Rightarrow> string" where
  [text_defs]: "to_lower uni_lower s =
     (if list_all is_ascii s then map ascii_lower s else uni_lower s)"

text \<open>
  \<open>strings.EqualFold(s, "bearer")\<close>. No rune outside ASCII folds to one of the letters of
  \<open>bearer\<close> (only k and s have such partners), so the comparison is byte-wise.
\<close>

definition is_bearer :: "string \<Rightarrow> bool" where
  [text_defs]: "is_bearer s = (map ascii_lower s = ''bearer'')"

lemma last_index_ofD:
  assumes "last_index_of c s = Some i"
  shows "i < length s" "s ! i = c"
proof -
  from assms have c: "c \<in> set (rev s)"
    and i: "i = length s - 1 - length (takeWhile (\<lambda>x. x \<noteq> c) (rev s))"
    by (auto simp: last_index_of_def split: if_splits)
  let ?n = "length (takeWhile (\<lambda>x. x \<noteq> c) (rev s))"
  have "takeWhile (\<lambda>x. x \<noteq> c) (rev s) \<noteq> rev s"
    using c by (metis (mono_tags) takeWhile_eq_all_conv)
  then have n: "?n < length s"
    by (metis length_rev length_takeWhile_le nat_less_le takeWhile_eq_take take_all_iff order_refl)
  then have "rev s ! ?n = c"
    using nth_length_takeWhile [of "\<lambda>x. x \<noteq> c" "rev s"] by simp
  with n i show "s ! i = c" by (simp add: rev_nth)
  from n i show "i < length s" by simp
qed

subsection \<open>Numbers and quoting\<close>

definition digit_char :: "nat \<Rightarrow> char" where
  "digit_char d = char_of (48 + d)"

text \<open>\<open>%d\<close> on a number that is not negative, and on any integer.\<close>

fun itoa :: "nat \<Rightarrow> string" where
  "itoa n = (if n < 10 then [digit_char n] else itoa (n div 10) @ [digit_char (n mod 10)])"

declare itoa.simps [simp del]

definition int_text :: "int \<Rightarrow> string" where
  "int_text i = (if i < 0 then CHR ''-'' # itoa (nat (- i)) else itoa (nat i))"

text \<open>
  \<open>%q\<close>: a double-quoted literal. Bytes outside ASCII are kept (Go keeps printable runes and
  escapes the others; only error texts depend on it).
\<close>

definition quote_char :: "char \<Rightarrow> string" where
  "quote_char c =
     (if c = CHR 0x22 then [CHR 0x5C, CHR 0x22]
      else if c = CHR 0x5C then [CHR 0x5C, CHR 0x5C]
      else if c = CHR 0x0A then [CHR 0x5C, CHR ''n'']
      else if c = CHR 0x09 then [CHR 0x5C, CHR ''t'']
      else if c = CHR 0x0D then [CHR 0x5C, CHR ''r'']
      else [c])"

definition go_quote :: "string \<Rightarrow> string" where
  [text_defs]: "go_quote s = [CHR 0x22] @ concat (map quote_char s) @ [CHR 0x22]"

text \<open>Reading a decimal back, so that \<^const>\<open>itoa\<close> is injective.\<close>

definition atoi :: "string \<Rightarrow> nat" where
  "atoi s = foldl (\<lambda>n c. 10 * n + (of_char c - 48)) 0 s"

lemma of_char_digit: "d < 10 \<Longrightarrow> of_char (digit_char d) = (48 + d :: nat)"
  by (simp add: digit_char_def of_char_of)

lemma atoi_itoa [simp]: "atoi (itoa n) = n"
proof (induction n rule: itoa.induct)
  case (1 n)
  show ?case
  proof (cases "n < 10")
    case True
    then show ?thesis by (simp add: itoa.simps [of n] atoi_def of_char_digit)
  next
    case False
    with 1 have "foldl (\<lambda>n c. 10 * n + (of_char c - 48)) 0 (itoa (n div 10)) = n div 10"
      by (simp add: atoi_def)
    with False show ?thesis
      by (simp add: itoa.simps [of n] atoi_def of_char_digit)
  qed
qed

lemma itoa_inject [simp]: "itoa m = itoa n \<longleftrightarrow> m = n"
  by (metis atoi_itoa)

lemma itoa_digits: "c \<in> set (itoa n) \<Longrightarrow> \<exists>d < 10. c = digit_char d"
proof (induction n rule: itoa.induct)
  case (1 n)
  show ?case
  proof (cases "n < 10")
    case True
    with 1(2) show ?thesis by (auto simp: itoa.simps [of n])
  next
    case False
    with 1(2) consider "c \<in> set (itoa (n div 10))" | "c = digit_char (n mod 10)"
      by (auto simp: itoa.simps [of n])
    then show ?thesis
    proof cases
      case 1
      with "1.IH" False show ?thesis by simp
    next
      case 2
      have "n mod 10 < 10" by simp
      with 2 show ?thesis by blast
    qed
  qed
qed

lemma itoa_of_char: "c \<in> set (itoa n) \<Longrightarrow> 48 \<le> (of_char c :: nat) \<and> (of_char c :: nat) < 58"
  using itoa_digits [of c n] by (auto simp: of_char_digit)

lemma itoa_nonempty [simp]: "itoa n \<noteq> []"
  by (simp add: itoa.simps [of n])

end
