(* ===== verification/Json_Values.thy ===== *)
theory Json_Values
  imports Sheeld_Prelude Complex_Main
begin

text \<open>
  JSON values and the part of Go's \<open>encoding/json\<close> the modelled code relies on. A value is
  what the parser delivers: strings are decoded, a number is \<open>JInt\<close> when its literal is an
  integer literal (only those decode into Go integers) and \<open>JFloat\<close> otherwise, carrying the
  rational that the nearest \<open>float64\<close> denotes. Object members keep the order and the
  duplicates of the text. The byte syntax itself is not modelled: a request body is the value that
  \<open>json.Marshal\<close> prints, a response body is described by \<open>http_body\<close> below.
\<close>

datatype json =
    JNull
  | JBool bool
  | JInt int
  | JFloat rat
  | JStr string
  | JArr "json list"
  | JObj "(string \<times> json) list"

abbreviation json_type_error :: go_error where
  "json_type_error \<equiv> ''json: cannot unmarshal value into Go type''"

subsection \<open>Struct fields\<close>

text \<open>
  A member of the object belongs to the struct field whose name it equals under
  \<open>bytes.EqualFold\<close>. Field names are ASCII; outside ASCII exactly two runes fold to ASCII
  letters, U+017F to s and U+212A to k, written here with their UTF-8 bytes.
\<close>

fun fold_key :: "string \<Rightarrow> string" where
  "fold_key [] = []"
| "fold_key (c # s) =
     (case s of
        [] \<Rightarrow> [ascii_lower c]
      | d # t \<Rightarrow>
          if c = CHR 0xC5 \<and> d = CHR 0xBF then CHR ''s'' # fold_key t
          else case t of
            [] \<Rightarrow> ascii_lower c # fold_key s
          | e # u \<Rightarrow>
              if c = CHR 0xE2 \<and> d = CHR 0x84 \<and> e = CHR 0xAA then CHR ''k'' # fold_key u
              else ascii_lower c # fold_key s)"

declare fold_key.simps [simp del]

text \<open>The values of the members that decode into the field \<open>name\<close>, in order.\<close>

definition field_vals :: "string \<Rightarrow> (string \<times> json) list \<Rightarrow> json list" where
  "field_vals name kvs = map snd (filter (\<lambda>kv. fold_key (fst kv) = name) kvs)"

text \<open>
  Decoding the members of one field in order, starting from the field's current value. \<open>null\<close>
  leaves a string, bool or number unchanged and clears a pointer or a slice; \<open>None\<close> is a type
  mismatch, which makes \<open>Unmarshal\<close> return an error.
\<close>

fun dec_str :: "json list \<Rightarrow> string \<Rightarrow> string option" where
  "dec_str [] cur = Some cur"
| "dec_str (JNull # vs) cur = dec_str vs cur"
| "dec_str (JStr s # vs) cur = dec_str vs s"
| "dec_str (_ # vs) cur = None"

fun dec_bool :: "json list \<Rightarrow> bool \<Rightarrow> bool option" where
  "dec_bool [] cur = Some cur"
| "dec_bool (JNull # vs) cur = dec_bool vs cur"
| "dec_bool (JBool b # vs) cur = dec_bool vs b"
| "dec_bool (_ # vs) cur = None"

definition int64_ok :: "int \<Rightarrow> bool" where
  "int64_ok n = (- (2 ^ 63) \<le> n \<and> n < 2 ^ 63)"

fun dec_int :: "json list \<Rightarrow> int \<Rightarrow> int option" where
  "dec_int [] cur = Some cur"
| "dec_int (JNull # vs) cur = dec_int vs cur"
| "dec_int (JInt n # vs) cur = (if int64_ok n then dec_int vs n else None)"
| "dec_int (_ # vs) cur = None"

fun dec_float :: "json list \<Rightarrow> rat \<Rightarrow> rat option" where
  "dec_float [] cur = Some cur"
| "dec_float (JNull # vs) cur = dec_float vs cur"
| "dec_float (JInt n # vs) cur = dec_float vs (of_int n)"
| "dec_float (JFloat q # vs) cur = dec_float vs q"
| "dec_float (_ # vs) cur = None"

text \<open>\<open>*bool\<close>: \<open>None\<close> inside is the nil pointer.\<close>

fun dec_bool_ptr :: "json list \<Rightarrow> bool option \<Rightarrow> bool option option" where
  "dec_bool_ptr [] cur = Some cur"
| "dec_bool_ptr (JNull # vs) cur = dec_bool_ptr vs None"
| "dec_bool_ptr (JBool b # vs) cur = dec_bool_ptr vs (Some b)"
| "dec_bool_ptr (_ # vs) cur = None"

text \<open>
  The elements of an array decoded into a slice of strings. A null element leaves the element as
  it is, which is the empty string in the fresh slices decoded here.
\<close>

fun dec_strs :: "json list \<Rightarrow> string list option" where
  "dec_strs [] = Some []"
| "dec_strs (JNull # vs) = map_option ((#) []) (dec_strs vs)"
| "dec_strs (JStr s # vs) = map_option ((#) s) (dec_strs vs)"
| "dec_strs (_ # vs) = None"

fun dec_str_slice :: "json list \<Rightarrow> string list \<Rightarrow> string list option" where
  "dec_str_slice [] cur = Some cur"
| "dec_str_slice (JNull # vs) cur = dec_str_slice vs []"
| "dec_str_slice (JArr xs # vs) cur =
     (case dec_strs xs of None \<Rightarrow> None | Some ys \<Rightarrow> dec_str_slice vs ys)"
| "dec_str_slice (_ # vs) cur = None"

text \<open>\<open>map[string]string\<close>: members are added to the current map.\<close>

fun dec_str_members :: "(string \<times> json) list \<Rightarrow> (string, string) gomap
    \<Rightarrow> (string, string) gomap option" where
  "dec_str_members [] m = Some m"
| "dec_str_members ((k, JStr s) # kvs) m = dec_str_members kvs (m_set k s m)"
| "dec_str_members ((k, JNull) # kvs) m = dec_str_members kvs (m_set k [] m)"
| "dec_str_members ((k, _) # kvs) m = None"

fun dec_str_map :: "json list \<Rightarrow> (string, string) gomap \<Rightarrow> (string, string) gomap option" where
  "dec_str_map [] cur = Some cur"
| "dec_str_map (JNull # vs) cur = dec_str_map vs []"
| "dec_str_map (JObj kvs # vs) cur =
     (case dec_str_members kvs cur of None \<Rightarrow> None | Some m \<Rightarrow> dec_str_map vs m)"
| "dec_str_map (_ # vs) cur = None"

text \<open>\<open>map[string]float64\<close>, as in the scores of a moderation response.\<close>

fun dec_float_members :: "(string \<times> json) list \<Rightarrow> (string, rat) gomap
    \<Rightarrow> (string, rat) gomap option" where
  "dec_float_members [] m = Some m"
| "dec_float_members ((k, v) # kvs) m =
     (case dec_float [v] 0 of None \<Rightarrow> None | Some q \<Rightarrow> dec_float_members kvs (m_set k q m))"

fun dec_float_map :: "json list \<Rightarrow> (string, rat) gomap \<Rightarrow> (string, rat) gomap option" where
  "dec_float_map [] cur = Some cur"
| "dec_float_map (JNull # vs) cur = dec_float_map vs []"
| "dec_float_map (JObj kvs # vs) cur =
     (case dec_float_members kvs cur of None \<Rightarrow> None | Some m \<Rightarrow> dec_float_map vs m)"
| "dec_float_map (_ # vs) cur = None"

text \<open>
  Decoding into a struct: \<open>null\<close> changes nothing, an object gives its members, anything else
  is a type mismatch.
\<close>

definition struct_members :: "json \<Rightarrow> (string \<times> json) list option" where
  "struct_members j = (case j of JNull \<Rightarrow> Some [] | JObj kvs \<Rightarrow> Some kvs | _ \<Rightarrow> None)"

text \<open>Decoding into \<open>map[string]json.RawMessage\<close>: the last of several equal keys stays.\<close>

definition raw_members :: "json \<Rightarrow> (string, json) gomap option" where
  "raw_members j =
     (case j of JNull \<Rightarrow> Some [] | JObj kvs \<Rightarrow> Some (m_of_entries kvs) | _ \<Rightarrow> None)"

fun dec_bool_members :: "(string \<times> json) list \<Rightarrow> bool" where
  "dec_bool_members [] = True"
| "dec_bool_members ((k, v) # kvs) = (dec_bool [v] False \<noteq> None \<and> dec_bool_members kvs)"

subsection \<open>Library tables\<close>

text \<open>
  The parts of Go's library that the model takes as an argument: the regular-expression engine
  (\<open>rx_compile p\<close> is the error of \<open>regexp.Compile(p)\<close>, \<open>None\<close> when it compiles;
  \<open>rx_match\<close> and \<open>rx_replace_all\<close> are \<open>MatchString\<close> and \<open>ReplaceAllString\<close> of the
  compiled pattern), the Unicode table of \<open>strings.ToLower\<close>, and the JSON parser on a whole text
  (\<open>None\<close> when the text is not one JSON value).
\<close>

record go_lib =
  rx_compile :: "string \<Rightarrow> go_error option"
  rx_match :: "string \<Rightarrow> string \<Rightarrow> bool"
  rx_replace_all :: "string \<Rightarrow> string \<Rightarrow> string \<Rightarrow> string"
  uni_lower :: "string \<Rightarrow> string"
  parse_json :: "string \<Rightarrow> json option"

subsection \<open>HTTP calls\<close>

text \<open>
  The bytes of a response body: the JSON value they start with (\<open>None\<close> when they start with
  none), the offset at which that value ends, whether other text follows it, and the bytes.
\<close>

record http_body =
  b_value :: "json option"
  b_end :: nat
  b_trailing :: bool
  b_text :: string

text \<open>\<open>json.NewDecoder(io.LimitReader(body, n)).Decode\<close>, and the same without a limit.\<close>

definition decode_limited :: "nat \<Rightarrow> http_body \<Rightarrow> json res" where
  "decode_limited n b =
     (case b_value b of
        Some v \<Rightarrow> if b_end b \<le> n then Inr v else Inl ''unexpected EOF''
      | None \<Rightarrow> Inl ''invalid character in JSON'')"

definition decode_stream :: "http_body \<Rightarrow> json res" where
  "decode_stream b =
     (case b_value b of Some v \<Rightarrow> Inr v | None \<Rightarrow> Inl ''invalid character in JSON'')"

text \<open>\<open>json.Unmarshal(body, ...)\<close>: the whole text is one value.\<close>

definition unmarshal_body :: "http_body \<Rightarrow> json res" where
  "unmarshal_body b =
     (case b_value b of
        Some v \<Rightarrow> if b_trailing b then Inl ''invalid character after top-level value'' else Inr v
      | None \<Rightarrow> Inl ''invalid character in JSON'')"

record http_request =
  rq_method :: string
  rq_url :: string
  rq_headers :: "(string, string) gomap"
  rq_body :: "json option"

text \<open>
  \<open>http.Header.Set\<close> on a name: the canonical spelling, upper case at the start and after a
  hyphen, lower case elsewhere; a name with a byte that header names cannot have stays as it is.
\<close>

definition is_token_char :: "char \<Rightarrow> bool" where
  "is_token_char c =
     (let n = (of_char c :: nat) in
      (48 \<le> n \<and> n \<le> 57) \<or> (65 \<le> n \<and> n \<le> 90) \<or> (97 \<le> n \<and> n \<le> 122)
      \<or> n \<in> {33, 35, 36, 37, 38, 39, 42, 43, 45, 46, 94, 95, 96, 124, 126})"

definition ascii_upper :: "char \<Rightarrow> char" where
  "ascii_upper c =
     (let n = (of_char c :: nat) in if 97 \<le> n \<and> n \<le> 122 then char_of (n - 32) else c)"

fun canonical_from :: "bool \<Rightarrow> string \<Rightarrow> string" where
  "canonical_from up [] = []"
| "canonical_from up (c # s) =
     (if up then ascii_upper c else ascii_lower c) # canonical_from (c = CHR ''-'') s"

definition canonical_key :: "string \<Rightarrow> string" where
  "canonical_key k = (if list_all is_token_char k then canonical_from True k else k)"

definition set_headers :: "(string, string) gomap \<Rightarrow> (string, string) gomap \<Rightarrow> (string, string) gomap" where
  "set_headers hs base = fold (\<lambda>(k, v) m. m_set (canonical_key k) v m) hs base"

definition post_request :: "string \<Rightarrow> (string, string) gomap \<Rightarrow> json \<Rightarrow> http_request" where
  "post_request url headers body =
     \<lparr>rq_method = ''POST'', rq_url = url,
      rq_headers = set_headers headers [(''Content-Type'', ''application/json'')],
      rq_body = Some body\<rparr>"

text \<open>
  What the network and the peer make of one request: the request cannot be built, it cannot be
  carried out, or there is an answer with a status code and a body. The network is a parameter of
  the model, a function from requests to outcomes that is different for every call.
\<close>

datatype http_outcome =
    Build_error go_error
  | Do_error go_error
  | Response (rs_status: int) (rs_body: http_body)

type_synonym network = "http_request \<Rightarrow> http_outcome"

lemma decode_limited_Inr_iff:
  "decode_limited n b = Inr v \<longleftrightarrow> b_value b = Some v \<and> b_end b \<le> n"
  by (auto simp: decode_limited_def split: option.splits)

lemma decode_stream_Inr_iff: "decode_stream b = Inr v \<longleftrightarrow> b_value b = Some v"
  by (auto simp: decode_stream_def split: option.splits)

lemma unmarshal_body_Inr_iff:
  "unmarshal_body b = Inr v \<longleftrightarrow> b_value b = Some v \<and> \<not> b_trailing b"
  by (auto simp: unmarshal_body_def split: option.splits)

text \<open>What a reader of the object finds under a key: the last member with it.\<close>

definition obj_get :: "json \<Rightarrow> string \<Rightarrow> json option" where
  "obj_get j k = (case j of JObj kvs \<Rightarrow> m_get (rev kvs) k | _ \<Rightarrow> None)"

lemma raw_members_SomeD:
  assumes "raw_members j = Some raw"
  shows "distinct (map fst raw)" and "m_get raw k = obj_get j k"
  using assms by (auto simp: raw_members_def obj_get_def m_get_of_entries split: json.splits)

lemma obj_get_JObj: "distinct (map fst m) \<Longrightarrow> obj_get (JObj m) k = m_get m k"
  by (simp add: obj_get_def m_get_rev)

end
