(* ===== verification/Guards_Local.thy ===== *)
theory Guards_Local
  imports Json_Values
begin

text \<open>
  \<open>internal/shared/guard\<close>: the result of a guard and the call metadata (\<open>guard.go\<close>,
  \<open>meta.go\<close>) and the two guards that work without the network, the word blocklist
  (\<open>blocklist.go\<close>) and the regular expressions (\<open>regex.go\<close>).
\<close>

subsection \<open>Results and metadata\<close>

text \<open>\<open>Details\<close> is the Go map, empty for nil; the elapsed milliseconds are an argument of the
  operations that record them.\<close>

record guard_result =
  GuardName :: string
  GuardType :: string
  Passed :: bool
  ResMessage :: string
  Details :: "(string, json) gomap"
  DurationMs :: int
  Shadow :: bool

record call_meta =
  Phase :: string
  SourceRoute :: string
  AllMessagesText :: string

definition mk_result :: "string \<Rightarrow> string \<Rightarrow> bool \<Rightarrow> string \<Rightarrow> (string, json) gomap \<Rightarrow> int \<Rightarrow> guard_result" where
  "mk_result name type passed msg details ms =
     \<lparr>GuardName = name, GuardType = type, Passed = passed, ResMessage = msg, Details = details,
      DurationMs = ms, Shadow = False\<rparr>"

lemma mk_result_sel [simp]:
  "GuardName (mk_result n t p m d ms) = n" "GuardType (mk_result n t p m d ms) = t"
  "Passed (mk_result n t p m d ms) = p" "ResMessage (mk_result n t p m d ms) = m"
  "Details (mk_result n t p m d ms) = d" "DurationMs (mk_result n t p m d ms) = ms"
  "Shadow (mk_result n t p m d ms) = False"
  by (simp_all add: mk_result_def)

subsection \<open>The blocklist\<close>

record blocklist_config =
  Words :: "string list"

record blocklist_guard =
  blk_name :: string
  blk_patterns :: "(string \<times> string) list"  \<comment> \<open>term, source of the compiled pattern\<close>

text \<open>\<open>regexp.QuoteMeta\<close>.\<close>

definition special_chars :: string where
  "special_chars = [CHR 0x5C, CHR ''.'', CHR ''+'', CHR ''*'', CHR ''?'', CHR ''('', CHR '')'',
     CHR 0x7C, CHR ''['', CHR '']'', CHR ''{'', CHR ''}'', CHR ''^'', CHR ''$'']"

definition quote_meta :: "string \<Rightarrow> string" where
  "quote_meta s = concat (map (\<lambda>c. if c \<in> set special_chars then [CHR 0x5C, c] else [c]) s)"

definition block_pattern :: "string \<Rightarrow> string" where
  "block_pattern w = ''(?i)'' @ [CHR 0x5C, CHR ''b''] @ quote_meta w @ [CHR 0x5C, CHR ''b'']"

fun block_patterns_from :: "go_lib \<Rightarrow> string list \<Rightarrow> string list \<Rightarrow> (string \<times> string) list" where
  "block_patterns_from lib seen [] = []"
| "block_patterns_from lib seen (w0 # ws) =
     (let w = trim_space w0 in
      if w = [] then block_patterns_from lib seen ws
      else let key = to_lower (uni_lower lib) w in
        if key \<in> set seen then block_patterns_from lib seen ws
        else (w, block_pattern w) # block_patterns_from lib (key # seen) ws)"

definition NewBlocklistGuard :: "go_lib \<Rightarrow> string \<Rightarrow> blocklist_config \<Rightarrow> blocklist_guard" where
  "NewBlocklistGuard lib name cfg =
     \<lparr>blk_name = name, blk_patterns = block_patterns_from lib [] (Words cfg)\<rparr>"

definition Blocklist_Validate :: "go_lib \<Rightarrow> int \<Rightarrow> blocklist_guard \<Rightarrow> string \<Rightarrow> guard_result res" where
  "Blocklist_Validate lib ms g input =
     (let matchedWords = map fst (filter (\<lambda>p. rx_match lib (snd p) input) (blk_patterns g)) in
      if length matchedWords > 0
      then Inr (mk_result (blk_name g) ''blocklist'' False ''input contains blocked words''
             [(''matched_words'', JArr (map JStr matchedWords))] ms)
      else Inr (mk_result (blk_name g) ''blocklist'' True ''no blocked words found'' [] ms))"

subsection \<open>Regular expressions\<close>

record regex_config =
  Patterns :: "string list"
  rx_Mode :: string

record regex_guard =
  rxg_name :: string
  rxg_patterns :: "string list"
  rxg_mode :: string

text \<open>The patterns are compiled in order; the first that does not compile is the error.\<close>

fun compile_all :: "go_lib \<Rightarrow> string list \<Rightarrow> unit res" where
  "compile_all lib [] = Inr ()"
| "compile_all lib (p # ps) =
     (case rx_compile lib p of
        Some e \<Rightarrow> Inl (''invalid regex pattern '' @ go_quote p @ '': '' @ e)
      | None \<Rightarrow> compile_all lib ps)"

definition NewRegexGuard :: "go_lib \<Rightarrow> string \<Rightarrow> regex_config \<Rightarrow> regex_guard res" where
  "NewRegexGuard lib name cfg =
     res_bind (compile_all lib (Patterns cfg)) (\<lambda>_.
       Inr \<lparr>rxg_name = name, rxg_patterns = Patterns cfg,
            rxg_mode = (if rx_Mode cfg = [] then ''block'' else rx_Mode cfg)\<rparr>)"

definition Regex_Validate :: "go_lib \<Rightarrow> int \<Rightarrow> regex_guard \<Rightarrow> string \<Rightarrow> guard_result res" where
  "Regex_Validate lib ms g input =
     (let matchedPatterns = filter (\<lambda>p. rx_match lib p input) (rxg_patterns g);
          unmatchedPatterns = filter (\<lambda>p. \<not> rx_match lib p input) (rxg_patterns g)
      in if rxg_mode g = ''block''
         then if length matchedPatterns > 0
              then Inr (mk_result (rxg_name g) ''regex'' False ''input matches blocked patterns''
                     [(''matched_patterns'', JArr (map JStr matchedPatterns))] ms)
              else Inr (mk_result (rxg_name g) ''regex'' True ''no blocked patterns matched'' [] ms)
         else if length unmatchedPatterns > 0
              then Inr (mk_result (rxg_name g) ''regex'' False
                     ''input does not match all required patterns''
                     [(''unmatched_patterns'', JArr (map JStr unmatchedPatterns))] ms)
              else Inr (mk_result (rxg_name g) ''regex'' True ''all required patterns matched'' [] ms))"

lemma compile_all_Inr_iff: "compile_all lib ps = Inr () \<longleftrightarrow> (\<forall>p \<in> set ps. rx_compile lib p = None)"
  by (induction ps) (auto split: option.splits)

text \<open>
  A regex guard's verdict is exactly its mode's condition, on every input. In mode \<open>block\<close> it
  passes when no pattern matches, in every other mode, whatever its name, when all patterns match;
  a failing result lists exactly the offending patterns in configuration order.
\<close>

theorem Regex_Validate_verdict:
  assumes "NewRegexGuard lib name cfg = Inr g"
  shows "\<exists>r. Regex_Validate lib ms g input = Inr r
     \<and> GuardName r = name \<and> DurationMs r = ms
     \<and> (Passed r \<longleftrightarrow>
          (if rx_Mode cfg \<in> {[], ''block''}
           then \<forall>p \<in> set (Patterns cfg). \<not> rx_match lib p input
           else \<forall>p \<in> set (Patterns cfg). rx_match lib p input))
     \<and> (\<not> Passed r \<longrightarrow> map snd (Details r) =
          [JArr (map JStr (filter (\<lambda>p. rx_match lib p input = (rx_Mode cfg \<in> {[], ''block''})) (Patterns cfg)))])"
proof -
  from assms have g: "g = \<lparr>rxg_name = name, rxg_patterns = Patterns cfg,
            rxg_mode = (if rx_Mode cfg = [] then ''block'' else rx_Mode cfg)\<rparr>"
    by (auto simp: NewRegexGuard_def res_bind_Inr_iff)
  show ?thesis
    by (auto simp: g Regex_Validate_def Let_def filter_empty_conv)
qed

text \<open>A library in which every pattern compiles and matches the inputs it equals.\<close>

definition eq_lib :: go_lib where
  "eq_lib = \<lparr>rx_compile = (\<lambda>_. None), rx_match = (=), rx_replace_all = (\<lambda>p s r. if s = p then r else s),
             uni_lower = (\<lambda>s. s), parse_json = (\<lambda>_. None)\<rparr>"

theorem Regex_Validate_verdict_witness:
  "\<exists>r. Regex_Validate eq_lib 3 \<lparr>rxg_name = ''g'', rxg_patterns = [''bad''], rxg_mode = ''block''\<rparr> ''bad''
     = Inr r \<and> \<not> Passed r"
proof -
  let ?cfg = "\<lparr>Patterns = [''bad''], rx_Mode = []\<rparr>"
  have "NewRegexGuard eq_lib ''g'' ?cfg =
      Inr \<lparr>rxg_name = ''g'', rxg_patterns = [''bad''], rxg_mode = ''block''\<rparr>"
    by (simp add: NewRegexGuard_def eq_lib_def)
  from Regex_Validate_verdict [OF this, of 3 "''bad''"] show ?thesis
    by (auto simp: eq_lib_def)
qed

subsection \<open>What the blocklist matches\<close>

text \<open>
  Whole-word search, the documented meaning of \<open>(?i)\\b...\\b\<close> around a quoted literal on ASCII
  text: the term occurs up to letter case, with an ASCII word boundary at both of its ends.
\<close>

definition is_word_char :: "char \<Rightarrow> bool" where
  "is_word_char c =
     (let n = (of_char c :: nat) in
      (48 \<le> n \<and> n \<le> 57) \<or> (65 \<le> n \<and> n \<le> 90) \<or> (97 \<le> n \<and> n \<le> 122) \<or> n = 95)"

definition word_at :: "string \<Rightarrow> nat \<Rightarrow> bool" where
  "word_at s i = (i < length s \<and> is_word_char (s ! i))"

definition boundary :: "string \<Rightarrow> nat \<Rightarrow> bool" where
  "boundary s i = ((0 < i \<and> word_at s (i - 1)) \<noteq> word_at s i)"

definition word_occurs :: "string \<Rightarrow> string \<Rightarrow> bool" where
  "word_occurs w s =
     list_ex (\<lambda>i. map ascii_lower (take (length w) (drop i s)) = map ascii_lower w
                \<and> boundary s i \<and> boundary s (i + length w)) [0..<Suc (length s)]"

text \<open>The library's promise about these patterns, a hypothesis of the two properties below.\<close>

definition literal_regexp :: "go_lib \<Rightarrow> bool" where
  "literal_regexp lib \<longleftrightarrow>
     (\<forall>w s. w \<noteq> [] \<longrightarrow> list_all is_ascii w \<longrightarrow> list_all is_ascii s \<longrightarrow>
        rx_match lib (block_pattern w) s = word_occurs w s)"

lemma word_occurs_cong:
  assumes "map ascii_lower v = map ascii_lower w"
  shows "word_occurs v s = word_occurs w s"
proof -
  from assms have "length v = length w" by (rule map_eq_imp_length_eq)
  then show ?thesis by (simp add: word_occurs_def assms)
qed

declare block_patterns_from.simps(2) [simp del]

lemma strip_front_subset: "set (strip_front n ps s) \<subseteq> set s"
proof (induction n ps s rule: strip_front.induct)
  case (2 n ps s)
  show ?case
  proof (cases "find (has_prefix s) ps")
    case (Some p)
    then show ?thesis
      using 2 [OF Some] set_drop_subset [of "length p" s] by auto
  qed simp
qed simp

lemma trim_space_subset: "set (trim_space w) \<subseteq> set w"
proof -
  let ?t = "strip_front (length w) space_encodings w"
  have "set (strip_front n (map rev space_encodings) (rev ?t)) \<subseteq> set w" for n
    using strip_front_subset [of n "map rev space_encodings" "rev ?t"]
      strip_front_subset [of "length w" space_encodings w] by auto
  then show ?thesis by (simp add: trim_space_def Let_def)
qed

lemma trim_space_ascii: "list_all is_ascii w \<Longrightarrow> list_all is_ascii (trim_space w)"
  using trim_space_subset [of w] by (auto simp: list_all_iff)

lemma block_patterns_from_Cons:
  "block_patterns_from lib seen (w # ws) =
     (if trim_space w = [] \<or> to_lower (uni_lower lib) (trim_space w) \<in> set seen
      then block_patterns_from lib seen ws
      else (trim_space w, block_pattern (trim_space w))
             # block_patterns_from lib (to_lower (uni_lower lib) (trim_space w) # seen) ws)"
  by (simp add: Let_def block_patterns_from.simps(2))

lemma block_patterns_from_sound:
  "(t, p) \<in> set (block_patterns_from lib seen ws) \<Longrightarrow>
     p = block_pattern t \<and> t \<noteq> [] \<and> (\<exists>w \<in> set ws. t = trim_space w)"
proof (induction ws arbitrary: seen)
  case (Cons w ws)
  consider "(t, p) = (trim_space w, block_pattern (trim_space w))" "trim_space w \<noteq> []"
    | seen' where "(t, p) \<in> set (block_patterns_from lib seen' ws)"
    using Cons.prems unfolding block_patterns_from_Cons by (auto split: if_splits)
  then show ?case
  proof cases
    case 1
    then show ?thesis by auto
  next
    case 2
    from Cons.IH [OF 2] show ?thesis by auto
  qed
qed simp

lemma block_patterns_from_complete:
  assumes "w \<in> set ws" and "trim_space w \<noteq> []"
  shows "to_lower (uni_lower lib) (trim_space w) \<in> set seen
     \<or> (\<exists>t. (t, block_pattern t) \<in> set (block_patterns_from lib seen ws)
          \<and> to_lower (uni_lower lib) t = to_lower (uni_lower lib) (trim_space w))"
  using assms(1)
proof (induction ws arbitrary: seen)
  case (Cons w0 ws)
  let ?k = "to_lower (uni_lower lib) (trim_space w0)"
  show ?case
  proof (cases "trim_space w0 = [] \<or> ?k \<in> set seen")
    case True
    with Cons.prems assms(2) consider "?k = to_lower (uni_lower lib) (trim_space w)" "?k \<in> set seen"
      | "w \<in> set ws" by auto
    then show ?thesis
    proof cases
      case 2
      with Cons.IH True show ?thesis unfolding block_patterns_from_Cons by auto
    qed simp
  next
    case False
    show ?thesis
    proof (cases "w = w0")
      case True
      with False show ?thesis unfolding block_patterns_from_Cons by auto
    next
      case wn: False
      with Cons.prems have "w \<in> set ws" by simp
      from Cons.IH [OF this, of "?k # seen"] False show ?thesis
        unfolding block_patterns_from_Cons by auto
    qed
  qed
qed simp

text \<open>No two patterns of a guard have the same term up to letter case.\<close>

lemma block_patterns_from_distinct:
  "distinct (map (to_lower (uni_lower lib) \<circ> fst) (block_patterns_from lib seen ws))
   \<and> set (map (to_lower (uni_lower lib) \<circ> fst) (block_patterns_from lib seen ws)) \<inter> set seen = {}"
proof (induction ws arbitrary: seen)
  case (Cons w ws)
  let ?k = "to_lower (uni_lower lib) (trim_space w)"
  from Cons.IH [of seen] Cons.IH [of "?k # seen"] show ?case
    unfolding block_patterns_from_Cons by auto
qed simp

text \<open>
  The blocklist guard fails exactly when some configured term, stripped of surrounding white
  space, occurs in the input as whole words up to letter case; blank terms never match, and
  dropping a term that repeats an earlier one in another case loses nothing. Stated for ASCII
  terms and input, over any engine that matches quoted literals as documented.
\<close>

theorem Blocklist_Validate_verdict:
  assumes "literal_regexp lib" and "\<forall>w \<in> set (Words cfg). list_all is_ascii w"
    and "list_all is_ascii input"
  shows "\<exists>r. Blocklist_Validate lib ms (NewBlocklistGuard lib name cfg) input = Inr r
     \<and> (Passed r \<longleftrightarrow> \<not> (\<exists>w \<in> set (Words cfg). trim_space w \<noteq> [] \<and> word_occurs (trim_space w) input))"
proof -
  let ?ps = "block_patterns_from lib [] (Words cfg)"
  have match: "rx_match lib (block_pattern t) input = word_occurs t input"
    if "w \<in> set (Words cfg)" "t = trim_space w" "t \<noteq> []" for w t
    using assms that trim_space_ascii [of w] by (simp add: literal_regexp_def)
  have "(\<exists>p \<in> set ?ps. rx_match lib (snd p) input)
     \<longleftrightarrow> (\<exists>w \<in> set (Words cfg). trim_space w \<noteq> [] \<and> word_occurs (trim_space w) input)"
  proof
    assume "\<exists>p \<in> set ?ps. rx_match lib (snd p) input"
    then show "\<exists>w \<in> set (Words cfg). trim_space w \<noteq> [] \<and> word_occurs (trim_space w) input"
      using block_patterns_from_sound match by fastforce
  next
    assume "\<exists>w \<in> set (Words cfg). trim_space w \<noteq> [] \<and> word_occurs (trim_space w) input"
    then obtain w where w: "w \<in> set (Words cfg)" "trim_space w \<noteq> []" "word_occurs (trim_space w) input"
      by blast
    then obtain t where t: "(t, block_pattern t) \<in> set ?ps"
      and eq: "to_lower (uni_lower lib) t = to_lower (uni_lower lib) (trim_space w)"
      using block_patterns_from_complete [of w "Words cfg" lib "[]"] by auto
    from block_patterns_from_sound [OF t] obtain v
      where v: "v \<in> set (Words cfg)" "t = trim_space v" "t \<noteq> []" by blast
    have "list_all is_ascii t" "list_all is_ascii (trim_space w)"
      using assms(2) v w(1) trim_space_ascii by auto
    with eq have "map ascii_lower t = map ascii_lower (trim_space w)"
      by (simp add: to_lower_def)
    with w(3) have "word_occurs t input" using word_occurs_cong by blast
    with match [OF v] t show "\<exists>p \<in> set ?ps. rx_match lib (snd p) input" by force
  qed
  then show ?thesis
    by (auto simp: Blocklist_Validate_def NewBlocklistGuard_def Let_def filter_empty_conv)
qed

text \<open>
  A reference engine for these patterns: it undoes the quoting and searches for the whole word.
\<close>

fun unquote_meta :: "string \<Rightarrow> string" where
  "unquote_meta [] = []"
| "unquote_meta (c # s) =
     (case s of
        [] \<Rightarrow> [c]
      | d # t \<Rightarrow> if c = CHR 0x5C then d # unquote_meta t else c # unquote_meta s)"

lemma quote_meta_head: "quote_meta (c # s) \<noteq> []"
  by (simp add: quote_meta_def)

lemma unquote_quote_meta [simp]: "unquote_meta (quote_meta s) = s"
proof (induction s)
  case Nil
  then show ?case by (simp add: quote_meta_def)
next
  case (Cons c s)
  have q: "quote_meta (c # s) = (if c \<in> set special_chars then [CHR 0x5C, c] else [c]) @ quote_meta s"
    by (simp add: quote_meta_def)
  have b: "CHR 0x5C \<in> set special_chars" by (simp add: special_chars_def)
  show ?case
  proof (cases "c \<in> set special_chars")
    case True
    with Cons.IH show ?thesis by (simp add: q)
  next
    case False
    with b have "c \<noteq> CHR 0x5C" by auto
    with False have "unquote_meta (quote_meta (c # s)) = c # unquote_meta (quote_meta s)"
      by (cases "quote_meta s") (simp_all add: q)
    with Cons.IH show ?thesis by simp
  qed
qed

definition reference_match :: "string \<Rightarrow> string \<Rightarrow> bool" where
  "reference_match p s = word_occurs (unquote_meta (drop 6 (take (length p - 2) p))) s"

definition reference_lib :: go_lib where
  "reference_lib = \<lparr>rx_compile = (\<lambda>_. None), rx_match = reference_match,
     rx_replace_all = (\<lambda>_ s _. s), uni_lower = (\<lambda>s. s), parse_json = (\<lambda>_. None)\<rparr>"

lemma literal_regexp_reference: "literal_regexp reference_lib"
  by (simp add: literal_regexp_def reference_lib_def reference_match_def block_pattern_def)

theorem Blocklist_Validate_verdict_witness:
  "\<exists>r. Blocklist_Validate reference_lib 1
        (NewBlocklistGuard reference_lib ''b'' \<lparr>Words = ['' Password '', ''password'']\<rparr>) ''my PASSWORD'' = Inr r
     \<and> \<not> Passed r"
proof -
  have a: "\<forall>w \<in> set (Words \<lparr>Words = ['' Password '', ''password'']\<rparr>). list_all is_ascii w"
    and i: "list_all is_ascii ''my PASSWORD''" by code_simp+
  have "trim_space ''password'' = ''password''" "word_occurs ''password'' ''my PASSWORD''" by code_simp+
  then show ?thesis
    using Blocklist_Validate_verdict [OF literal_regexp_reference a i, of 1 "''b''"] by fastforce
qed

lemma boundary_end: "w \<noteq> [] \<Longrightarrow> boundary w (length w) = is_word_char (last w)"
  by (simp add: boundary_def word_at_def last_conv_nth)

lemma boundary_start: "w \<noteq> [] \<Longrightarrow> boundary w 0 = is_word_char (hd w)"
  by (simp add: boundary_def word_at_def hd_conv_nth)

text \<open>A term occurs in itself only when it starts and ends with a word character.\<close>

lemma word_occurs_self:
  assumes "w \<noteq> []"
  shows "word_occurs w w \<longleftrightarrow> is_word_char (hd w) \<and> is_word_char (last w)"
proof -
  have "i = 0" if "map ascii_lower (take (length w) (drop i w)) = map ascii_lower w" for i
  proof -
    from that have "length (take (length w) (drop i w)) = length w" by (rule map_eq_imp_length_eq)
    then have "length w - i = length w" by simp
    moreover from assms have "0 < length w" by simp
    ultimately show ?thesis by linarith
  qed
  then have "word_occurs w w \<longleftrightarrow> boundary w 0 \<and> boundary w (length w)"
    unfolding word_occurs_def list_ex_iff by fastforce
  with assms show ?thesis by (simp add: boundary_start boundary_end)
qed

text \<open>
  A blocked term that starts or ends with a character that is not an ASCII letter, digit or
  underscore (\<open>c++\<close>, \<open>#hate\<close>) does not block the input that is that very term: \<open>\\b\<close>
  next to such a character demands a word character on its other side. The guard's comment
  promises to reject input that contains any blocked term.
\<close>

theorem Blocklist_misses_symbol_terms:
  assumes "literal_regexp lib" and "list_all is_ascii w" and "w \<noteq> []" and "trim_space w = w"
    and "\<not> is_word_char (hd w) \<or> \<not> is_word_char (last w)"
  shows "\<exists>r. Blocklist_Validate lib ms (NewBlocklistGuard lib name \<lparr>Words = [w]\<rparr>) w = Inr r \<and> Passed r"
proof -
  have "\<not> word_occurs w w" using assms(5) word_occurs_self [OF assms(3)] by simp
  with assms(1-3) have "\<not> rx_match lib (block_pattern w) w" by (simp add: literal_regexp_def)
  with assms(3,4) show ?thesis
    by (simp add: Blocklist_Validate_def NewBlocklistGuard_def block_patterns_from_Cons)
qed

theorem Blocklist_misses_symbol_terms_witness:
  "\<exists>r. Blocklist_Validate reference_lib 1
        (NewBlocklistGuard reference_lib ''b'' \<lparr>Words = [''c++'']\<rparr>) ''c++'' = Inr r \<and> Passed r"
  by (rule Blocklist_misses_symbol_terms [OF literal_regexp_reference]) code_simp+

end
