(* ===== verification/Guard_Engine.thy ===== *)
theory Guard_Engine
  imports Guards_Remote
begin

text \<open>
  \<open>internal/shared/guard\<close>: the guard interface with its decorators (\<open>guard.go\<close>,
  \<open>scope.go\<close>) and the engine that runs the guards of a phase concurrently and decides
  (\<open>engine.go\<close>).
\<close>

subsection \<open>Guards and decorators\<close>

text \<open>
  What one execution of a guard meets outside the program: the network, the milliseconds the guard
  measures for itself and the milliseconds the engine measures when the guard returns an error.
\<close>

record guard_call =
  call_net :: network
  call_ms :: int
  err_ms :: int

text \<open>
  The built-in guards, a guard of an externally registered type (name, type, validation), and the
  decorators \<open>scopeAllMessages\<close>, \<open>failOpen\<close> and \<open>shadow\<close> around a guard.
\<close>

datatype guard =
    GBlocklist blocklist_guard
  | GRegex regex_guard
  | GOpenAIModeration openai_guard
  | GGuardrailsAI guardrails_ai_guard
  | GWebhook webhook_guard
  | GLLMClassifier llm_classifier_guard
  | GPresidio presidio_guard
  | GExternal string string "guard_call \<Rightarrow> call_meta option \<Rightarrow> string \<Rightarrow> guard_result res"
  | ScopeAllMessages guard
  | FailOpen guard
  | ShadowOf guard

definition WithScopeAllMessages :: "guard \<Rightarrow> guard" where "WithScopeAllMessages g = ScopeAllMessages g"
definition WithFailOpen :: "guard \<Rightarrow> guard" where "WithFailOpen g = FailOpen g"
definition WithShadow :: "guard \<Rightarrow> guard" where "WithShadow g = ShadowOf g"

fun Type :: "guard \<Rightarrow> string" where
  "Type (GBlocklist g) = ''blocklist''"
| "Type (GRegex g) = ''regex''"
| "Type (GOpenAIModeration g) = ''openai_moderation''"
| "Type (GGuardrailsAI g) = ''guardrails_ai''"
| "Type (GWebhook g) = ''webhook''"
| "Type (GLLMClassifier g) = ''llm_classifier''"
| "Type (GPresidio g) = ''presidio''"
| "Type (GExternal n t v) = t"
| "Type (ScopeAllMessages g) = Type g"
| "Type (FailOpen g) = Type g"
| "Type (ShadowOf g) = Type g"

fun Name :: "guard \<Rightarrow> string" where
  "Name (GBlocklist g) = blk_name g"
| "Name (GRegex g) = rxg_name g"
| "Name (GOpenAIModeration g) = omg_name g"
| "Name (GGuardrailsAI g) = gag_name g"
| "Name (GWebhook g) = whg_name g"
| "Name (GLLMClassifier g) = lcg_name g"
| "Name (GPresidio g) = prg_name g"
| "Name (GExternal n t v) = n"
| "Name (ScopeAllMessages g) = Name g"
| "Name (FailOpen g) = Name g"
| "Name (ShadowOf g) = Name g"

text \<open>\<open>scopeAllMessages.Validate\<close> chooses the text to validate.\<close>

definition scope_input :: "call_meta option \<Rightarrow> string \<Rightarrow> string" where
  "scope_input meta input =
     (case meta of
        Some m \<Rightarrow> if Phase m = ''input'' \<and> AllMessagesText m \<noteq> [] then AllMessagesText m else input
      | None \<Rightarrow> input)"

fun Validate :: "go_lib \<Rightarrow> guard_call \<Rightarrow> call_meta option \<Rightarrow> guard \<Rightarrow> string \<Rightarrow> guard_result res" where
  "Validate lib c meta (GBlocklist g) input = Blocklist_Validate lib (call_ms c) g input"
| "Validate lib c meta (GRegex g) input = Regex_Validate lib (call_ms c) g input"
| "Validate lib c meta (GOpenAIModeration g) input = OpenAIModeration_Validate (call_net c) (call_ms c) g input"
| "Validate lib c meta (GGuardrailsAI g) input = GuardrailsAI_Validate (call_net c) (call_ms c) g input"
| "Validate lib c meta (GWebhook g) input = Webhook_Validate (call_net c) (call_ms c) meta g input"
| "Validate lib c meta (GLLMClassifier g) input = LLMClassifier_Validate lib (call_net c) (call_ms c) g input"
| "Validate lib c meta (GPresidio g) input = Presidio_Validate (call_net c) (call_ms c) g input"
| "Validate lib c meta (GExternal n t v) input = v c meta input"
| "Validate lib c meta (ScopeAllMessages g) input = Validate lib c meta g (scope_input meta input)"
| "Validate lib c meta (FailOpen g) input = Validate lib c meta g input"
| "Validate lib c meta (ShadowOf g) input = Validate lib c meta g input"

text \<open>\<open>Unwrap\<close>, and \<open>guardAs\<close>: whether the guard or one it wraps satisfies the marker.\<close>

fun Unwrap :: "guard \<Rightarrow> guard option" where
  "Unwrap (ScopeAllMessages g) = Some g"
| "Unwrap (FailOpen g) = Some g"
| "Unwrap (ShadowOf g) = Some g"
| "Unwrap _ = None"

lemma Unwrap_size [termination_simp]: "Unwrap g = Some h \<Longrightarrow> size h < size g"
  by (cases g) auto

fun guardAs :: "(guard \<Rightarrow> bool) \<Rightarrow> guard \<Rightarrow> bool" where
  "guardAs marker g =
     (if marker g then True
      else case Unwrap g of None \<Rightarrow> False | Some h \<Rightarrow> guardAs marker h)"

declare guardAs.simps [simp del]

fun FailOpenGuard :: "guard \<Rightarrow> bool" where
  "FailOpenGuard (FailOpen g) = True"
| "FailOpenGuard _ = False"

fun ShadowGuard :: "guard \<Rightarrow> bool" where
  "ShadowGuard (ShadowOf g) = True"
| "ShadowGuard _ = False"

lemma guardAs_wrappers [simp]:
  "guardAs FailOpenGuard (FailOpen g)"
  "guardAs FailOpenGuard (ShadowOf g) = guardAs FailOpenGuard g"
  "guardAs FailOpenGuard (ScopeAllMessages g) = guardAs FailOpenGuard g"
  "guardAs ShadowGuard (ShadowOf g)"
  "guardAs ShadowGuard (FailOpen g) = guardAs ShadowGuard g"
  "guardAs ShadowGuard (ScopeAllMessages g) = guardAs ShadowGuard g"
  by (subst guardAs.simps; simp)+

lemma guardAs_unwrapped [simp]: "Unwrap g = None \<Longrightarrow> guardAs marker g = marker g"
  by (subst guardAs.simps) simp

subsection \<open>The engine\<close>

record eval_config =
  Criteria :: string
  Threshold :: int

record engine_result =
  er_Passed :: bool
  er_Criteria :: string
  er_Threshold :: "int option"
  er_Results :: "guard_result list"
  er_TotalDurationMs :: int
  PassCount :: nat
  FailCount :: nat

text \<open>The body of the goroutine of one guard.\<close>

definition run_guard :: "go_lib \<Rightarrow> guard_call \<Rightarrow> call_meta option \<Rightarrow> guard \<Rightarrow> string \<Rightarrow> guard_result" where
  "run_guard lib c meta g input =
     (let result =
        (case Validate lib c meta g input of
           Inr r \<Rightarrow> r
         | Inl err \<Rightarrow>
             \<lparr>GuardName = Name g, GuardType = Type g, Passed = guardAs FailOpenGuard g,
              ResMessage = ''guard error: '' @ err, Details = [(''errored'', JBool True)],
              DurationMs = err_ms c, Shadow = False\<rparr>)
      in if guardAs ShadowGuard g then result\<lparr>Shadow := True\<rparr> else result)"

definition evaluate :: "eval_config \<Rightarrow> nat \<Rightarrow> nat \<Rightarrow> bool" where
  "evaluate cfg passCount n =
     (if Criteria cfg = ''all'' then passCount = n
      else if Criteria cfg = ''any'' then passCount > 0
      else if Criteria cfg = ''n_of_m'' then int passCount \<ge> Threshold cfg
      else passCount = n)"

text \<open>The counting loop: passed, failed and enforcing guards.\<close>

fun count_results :: "guard_result list \<Rightarrow> nat \<times> nat \<times> nat \<Rightarrow> nat \<times> nat \<times> nat" where
  "count_results [] acc = acc"
| "count_results (r # rs) (p, f, e) =
     (if Shadow r then count_results rs (p, f, e)
      else if Passed r then count_results rs (p + 1, f, e + 1)
      else count_results rs (p, f + 1, e + 1))"

text \<open>After \<open>wg.Wait()\<close>: the decision over the collected results.\<close>

definition engine_decide :: "eval_config \<Rightarrow> int \<Rightarrow> guard_result list \<Rightarrow> engine_result" where
  "engine_decide cfg ms results =
     (case count_results results (0, 0, 0) of (passCount, failCount, enforcing) \<Rightarrow>
        \<lparr>er_Passed = (enforcing = 0 \<or> evaluate cfg passCount enforcing),
         er_Criteria = Criteria cfg,
         er_Threshold = (if Criteria cfg = ''n_of_m'' then Some (Threshold cfg) else None),
         er_Results = results, er_TotalDurationMs = ms,
         PassCount = passCount, FailCount = failCount\<rparr>)"

text \<open>The result at index \<open>i\<close> is the one of guard \<open>i\<close>, executed with \<open>calls i\<close>.\<close>

definition guard_results ::
    "go_lib \<Rightarrow> (nat \<Rightarrow> guard_call) \<Rightarrow> call_meta option \<Rightarrow> guard list \<Rightarrow> string \<Rightarrow> guard_result list" where
  "guard_results lib calls meta guards input =
     map (\<lambda>i. run_guard lib (calls i) meta (guards ! i) input) [0..<length guards]"

definition Engine_Run ::
    "go_lib \<Rightarrow> (nat \<Rightarrow> guard_call) \<Rightarrow> int \<Rightarrow> call_meta option \<Rightarrow> guard list \<Rightarrow> string \<Rightarrow> eval_config
     \<Rightarrow> engine_result" where
  "Engine_Run lib calls ms meta guards input cfg =
     (if length guards = 0
      then \<lparr>er_Passed = True, er_Criteria = Criteria cfg, er_Threshold = None, er_Results = [],
            er_TotalDurationMs = 0, PassCount = 0, FailCount = 0\<rparr>
      else engine_decide cfg ms (guard_results lib calls meta guards input))"

subsection \<open>The decision\<close>

abbreviation enforcing :: "guard_result list \<Rightarrow> guard_result list" where
  "enforcing rs \<equiv> filter (\<lambda>r. \<not> Shadow r) rs"

lemma count_results_eq:
  "count_results rs (p, f, e) =
     (p + length (filter Passed (enforcing rs)),
      f + length (filter (\<lambda>r. \<not> Passed r) (enforcing rs)), e + length (enforcing rs))"
  by (induction rs arbitrary: p f e) auto

lemma engine_decide_sel:
  "er_Passed (engine_decide cfg ms rs) \<longleftrightarrow>
     enforcing rs = [] \<or> evaluate cfg (length (filter Passed (enforcing rs))) (length (enforcing rs))"
  "er_Results (engine_decide cfg ms rs) = rs"
  "PassCount (engine_decide cfg ms rs) = length (filter Passed (enforcing rs))"
  "FailCount (engine_decide cfg ms rs) = length (filter (\<lambda>r. \<not> Passed r) (enforcing rs))"
  by (simp_all add: engine_decide_def count_results_eq)

lemma length_guard_results [simp]: "length (guard_results lib calls meta gs input) = length gs"
  by (simp add: guard_results_def)

lemma Engine_Run_results [simp]:
  "er_Results (Engine_Run lib calls ms meta gs input cfg) = guard_results lib calls meta gs input"
  by (simp add: Engine_Run_def engine_decide_sel guard_results_def)

lemma Engine_Run_sel:
  "er_Passed (Engine_Run lib calls ms meta gs input cfg) \<longleftrightarrow>
     (let E = enforcing (guard_results lib calls meta gs input)
      in E = [] \<or> evaluate cfg (length (filter Passed E)) (length E))"
  "PassCount (Engine_Run lib calls ms meta gs input cfg) =
     length (filter Passed (enforcing (guard_results lib calls meta gs input)))"
  "FailCount (Engine_Run lib calls ms meta gs input cfg) =
     length (filter (\<lambda>r. \<not> Passed r) (enforcing (guard_results lib calls meta gs input)))"
  by (simp_all add: Engine_Run_def engine_decide_sel guard_results_def Let_def)

text \<open>The documented meaning of the three criteria over the verdicts of the enforcing guards.\<close>

definition criteria_met :: "eval_config \<Rightarrow> bool list \<Rightarrow> bool" where
  "criteria_met cfg verdicts =
     (if Criteria cfg = ''any'' then True \<in> set verdicts
      else if Criteria cfg = ''n_of_m'' then Threshold cfg \<le> int (count_list verdicts True)
      else False \<notin> set verdicts)"

lemma evaluate_criteria_met:
  "evaluate cfg (length (filter Passed E)) (length E) \<longleftrightarrow> criteria_met cfg (map Passed E)"
proof -
  have c: "count_list (map Passed E) True = length (filter Passed E)"
    by (induction E) auto
  have a: "length (filter Passed E) = length E \<longleftrightarrow> (\<forall>r \<in> set E. Passed r)"
    by (metis filter_True length_filter_less less_irrefl)
  show ?thesis
    by (auto simp: evaluate_def criteria_met_def c a filter_empty_conv)
qed

text \<open>
  C14: the engine implements its documented criteria. The overall verdict of a phase is that there
  is no enforcing (non-shadow) guard at all, or that the verdicts of the enforcing guards meet the
  source's criterion: every one for \<open>all\<close> (and for any unknown word), at least one for \<open>any\<close>, at
  least the threshold for \<open>n_of_m\<close>. There is one result per guard, in guard order, and the two
  counters split the enforcing ones.
\<close>

theorem Engine_Run_decision:
  "let r = Engine_Run lib calls ms meta gs input cfg;
       verdicts = map Passed (enforcing (guard_results lib calls meta gs input))
   in (er_Passed r \<longleftrightarrow> verdicts = [] \<or> criteria_met cfg verdicts)
      \<and> er_Results r = guard_results lib calls meta gs input
      \<and> length (er_Results r) = length gs
      \<and> PassCount r + FailCount r = length verdicts
      \<and> PassCount r = count_list verdicts True"
proof -
  let ?E = "enforcing (guard_results lib calls meta gs input)"
  have c: "count_list (map Passed E) True = length (filter Passed E)" for E
    by (induction E) auto
  have s: "length (filter Passed ?E) + length (filter (\<lambda>r. \<not> Passed r) ?E) = length ?E"
    by (rule sum_length_filter_compl)
  show ?thesis
    unfolding Let_def Engine_Run_sel evaluate_criteria_met c using s by simp
qed

subsection \<open>Concurrency\<close>

text \<open>
  The goroutines of one run share the slice \<open>results\<close>, all nil at the start; the goroutine of guard
  \<open>i\<close> finishes by writing its own slot. \<open>wg.Wait()\<close> returns when all have finished. The step
  relation lets them finish in any order.
\<close>

inductive engine_step ::
    "(nat \<Rightarrow> guard_result) \<Rightarrow> guard_result option list \<Rightarrow> guard_result option list \<Rightarrow> bool"
  for work :: "nat \<Rightarrow> guard_result" where
  finish: "i < length slots \<Longrightarrow> slots ! i = None \<Longrightarrow> engine_step work slots (slots[i := Some (work i)])"

inductive_cases engine_stepE: "engine_step work slots slots'"

definition slots_ok :: "(nat \<Rightarrow> guard_result) \<Rightarrow> guard_result option list \<Rightarrow> bool" where
  "slots_ok work slots \<longleftrightarrow> (\<forall>i < length slots. slots ! i = None \<or> slots ! i = Some (work i))"

lemma engine_step_inv:
  "engine_step work s t \<Longrightarrow> slots_ok work s \<Longrightarrow> slots_ok work t \<and> length t = length s"
  by (erule engine_stepE) (simp add: slots_ok_def nth_list_update)

lemma engine_steps_inv:
  "(engine_step work)\<^sup>*\<^sup>* s t \<Longrightarrow> slots_ok work s \<Longrightarrow> slots_ok work t \<and> length t = length s"
proof (induction rule: rtranclp_induct)
  case (step t u)
  then show ?case using engine_step_inv [of work t u] by simp
qed simp

text \<open>Each step fills exactly one slot.\<close>

lemma engine_step_measure:
  assumes "engine_step work s t"
  shows "length (filter (\<lambda>x. x = None) t) < length (filter (\<lambda>x. x = None) s)"
  using assms
proof (rule engine_stepE)
  fix i
  assume t: "t = s[i := Some (work i)]" and i: "i < length s" and n: "s ! i = None"
  have "s = take i s @ None # drop (Suc i) s"
    using id_take_nth_drop [OF i] n by simp
  moreover have "t = take i s @ Some (work i) # drop (Suc i) s"
    using t i by (simp add: upd_conv_take_nth_drop)
  ultimately obtain a b where "s = a @ None # b" "t = a @ Some (work i) # b" by blast
  then show ?thesis by simp
qed



subsection \<open>Shadow guards and decorators\<close>

lemma filter_map_cong:
  assumes "\<And>x. x \<in> set xs \<Longrightarrow> P (f x) = P (g x) \<and> (P (f x) \<longrightarrow> f x = g x)"
  shows "filter P (map f xs) = filter P (map g xs)"
  using assms
proof (induction xs)
  case (Cons x xs)
  have x: "P (f x) = P (g x) \<and> (P (f x) \<longrightarrow> f x = g x)" by (rule Cons.prems) simp
  have xs: "filter P (map f xs) = filter P (map g xs)" by (rule Cons.IH, rule Cons.prems) simp
  show ?case
  proof (cases "P (f x)")
    case True
    with x have "f x = g x" by simp
    with xs show ?thesis by (simp only: list.map filter.simps)
  qed (use x xs in simp)
qed simp

lemma run_guard_Shadow: "guardAs ShadowGuard g \<Longrightarrow> Shadow (run_guard lib c meta g input)"
  by (simp add: run_guard_def)

text \<open>
  C15: shadow guards never influence the decision. Whatever shadow guards a source has and whatever
  they and their services answer, replacing them by other shadow guards with other answers leaves
  the overall verdict and both counters of the phase unchanged.
\<close>

theorem shadow_guards_never_decide:
  assumes "length gs' = length gs"
    and "\<forall>i < length gs. (guardAs ShadowGuard (gs ! i) \<and> guardAs ShadowGuard (gs' ! i))
                        \<or> (gs' ! i = gs ! i \<and> calls' i = calls i)"
  shows "er_Passed (Engine_Run lib calls' ms' meta gs' input cfg)
           = er_Passed (Engine_Run lib calls ms meta gs input cfg)
       \<and> PassCount (Engine_Run lib calls' ms' meta gs' input cfg)
           = PassCount (Engine_Run lib calls ms meta gs input cfg)
       \<and> FailCount (Engine_Run lib calls' ms' meta gs' input cfg)
           = FailCount (Engine_Run lib calls ms meta gs input cfg)"
proof -
  have "enforcing (guard_results lib calls' meta gs' input) = enforcing (guard_results lib calls meta gs input)"
    unfolding guard_results_def assms(1)
  proof (rule filter_map_cong)
    fix i assume "i \<in> set [0..<length gs]"
    then have "i < length gs" by simp
    with assms(2) consider "guardAs ShadowGuard (gs ! i)" "guardAs ShadowGuard (gs' ! i)"
      | "gs' ! i = gs ! i" "calls' i = calls i" by blast
    then show "(\<not> Shadow (run_guard lib (calls' i) meta (gs' ! i) input)) =
               (\<not> Shadow (run_guard lib (calls i) meta (gs ! i) input))
             \<and> (\<not> Shadow (run_guard lib (calls' i) meta (gs' ! i) input) \<longrightarrow>
                run_guard lib (calls' i) meta (gs' ! i) input = run_guard lib (calls i) meta (gs ! i) input)"
      by cases (simp_all add: run_guard_Shadow)
  qed
  then show ?thesis by (simp add: Engine_Run_sel)
qed

theorem shadow_guards_never_decide_witness:
  "er_Passed (Engine_Run eq_lib (\<lambda>_. \<lparr>call_net = (\<lambda>_. Do_error ''down''), call_ms = 1, err_ms = 2\<rparr>) 5 None
     [ShadowOf (GExternal ''a'' ''t'' (\<lambda>_ _ _. Inl ''e'')), GBlocklist \<lparr>blk_name = ''b'', blk_patterns = []\<rparr>]
     ''x'' \<lparr>Criteria = ''all'', Threshold = 0\<rparr>)"
proof -
  let ?c = "\<lambda>_ :: nat. \<lparr>call_net = (\<lambda>_. Do_error ''down''), call_ms = 1, err_ms = 2\<rparr>"
  let ?b = "GBlocklist \<lparr>blk_name = ''b'', blk_patterns = []\<rparr>"
  let ?bad = "[ShadowOf (GExternal ''a'' ''t'' (\<lambda>_ _ _. Inl ''e'')), ?b]"
  let ?good = "[ShadowOf ?b, ?b]"
  have h: "\<forall>i < length ?good. (guardAs ShadowGuard (?good ! i) \<and> guardAs ShadowGuard (?bad ! i))
                        \<or> (?bad ! i = ?good ! i \<and> ?c i = ?c i)"
    by (simp add: nth_Cons split: nat.split)
  have two: "[0..<length ?good] = [0, 1]" by (simp add: upt_rec)
  have "map (\<lambda>i. run_guard eq_lib (?c i) None (?good ! i) ''x'') [0, 1] =
      [run_guard eq_lib (?c 0) None (ShadowOf ?b) ''x'', run_guard eq_lib (?c 1) None ?b ''x'']" by simp
  also have "run_guard eq_lib (?c 1) None ?b ''x''
      = mk_result ''b'' ''blocklist'' True ''no blocked words found'' [] 1"
    by (simp add: run_guard_def Blocklist_Validate_def)
  finally have E: "enforcing (guard_results eq_lib ?c None ?good ''x'') =
      [mk_result ''b'' ''blocklist'' True ''no blocked words found'' [] 1]"
    unfolding guard_results_def two by (simp add: run_guard_Shadow)
  have "er_Passed (Engine_Run eq_lib ?c 5 None ?good ''x'' \<lparr>Criteria = ''all'', Threshold = 0\<rparr>)"
    unfolding Engine_Run_sel E by (simp add: evaluate_def)
  with shadow_guards_never_decide [of ?bad ?good ?c ?c eq_lib 5 None "''x''" "\<lparr>Criteria = ''all'', Threshold = 0\<rparr>" 5, OF _ h]
  show ?thesis by simp
qed

text \<open>What a stack of decorators around a guard amounts to.\<close>

abbreviation decorators :: "(guard \<Rightarrow> guard) set" where
  "decorators \<equiv> {ScopeAllMessages, FailOpen, ShadowOf}"

lemma decorator_distinct [simp]:
  "ScopeAllMessages \<noteq> FailOpen" "FailOpen \<noteq> ScopeAllMessages" "ShadowOf \<noteq> FailOpen"
  "FailOpen \<noteq> ShadowOf" "ShadowOf \<noteq> ScopeAllMessages" "ScopeAllMessages \<noteq> ShadowOf"
  by (metis guard.distinct(109) guard.distinct(107) guard.distinct(105) guard.distinct(103) guard.distinct(101) guard.distinct(99))+

lemma scope_input_idem [simp]: "scope_input meta (scope_input meta x) = scope_input meta x"
  by (simp add: scope_input_def split: option.splits)

lemma decorated:
  assumes "set ds \<subseteq> decorators"
  shows "Validate lib c meta (foldr id ds g) input =
           Validate lib c meta g (if ScopeAllMessages \<in> set ds then scope_input meta input else input)"
    and "Name (foldr id ds g) = Name g" and "Type (foldr id ds g) = Type g"
    and "guardAs FailOpenGuard (foldr id ds g) = (FailOpen \<in> set ds \<or> guardAs FailOpenGuard g)"
    and "guardAs ShadowGuard (foldr id ds g) = (ShadowOf \<in> set ds \<or> guardAs ShadowGuard g)"
  using assms by (induction ds arbitrary: input) auto

text \<open>
  The order in which decorators are wrapped around a guard, and wrapping the same one twice,
  makes no difference to the recorded result: verdict, fail-open treatment of an error, shadow mark
  and validated text depend only on the set of decorators. (The comment of
  \<open>WithScopeAllMessages\<close> says that the order matters.)
\<close>

theorem decorator_order_irrelevant:
  assumes "set ds \<subseteq> decorators" and "set ds' = set ds"
  shows "run_guard lib c meta (foldr id ds' g) input = run_guard lib c meta (foldr id ds g) input"
proof -
  from assms have "set ds' \<subseteq> decorators" by simp
  note d = decorated [OF assms(1)] and d' = decorated [OF this]
  show ?thesis
    unfolding run_guard_def d d' assms(2) ..
qed

theorem decorator_order_irrelevant_witness:
  "run_guard eq_lib \<lparr>call_net = (\<lambda>_. Do_error ''down''), call_ms = 1, err_ms = 2\<rparr> None
       (ShadowOf (FailOpen (ScopeAllMessages (GExternal ''a'' ''t'' (\<lambda>_ _ _. Inl ''e''))))) ''x''
     = run_guard eq_lib \<lparr>call_net = (\<lambda>_. Do_error ''down''), call_ms = 1, err_ms = 2\<rparr> None
       (ScopeAllMessages (FailOpen (ShadowOf (GExternal ''a'' ''t'' (\<lambda>_ _ _. Inl ''e''))))) ''x''"
proof -
  have "set [ScopeAllMessages, FailOpen, ShadowOf] \<subseteq> decorators"
    and "set [ShadowOf, FailOpen, ScopeAllMessages] = set [ScopeAllMessages, FailOpen, ShadowOf]"
    by auto
  from decorator_order_irrelevant [OF this] show ?thesis by simp
qed

subsection \<open>Outages\<close>

text \<open>The guards that depend on a service.\<close>

fun remote_guard :: "guard \<Rightarrow> bool" where
  "remote_guard (GWebhook g) = True"
| "remote_guard (GOpenAIModeration g) = True"
| "remote_guard (GGuardrailsAI g) = True"
| "remote_guard (GLLMClassifier g) = True"
| "remote_guard (GPresidio g) = True"
| "remote_guard _ = False"

definition outage :: "network \<Rightarrow> bool" where
  "outage net \<longleftrightarrow> (\<forall>rq. case net rq of Response status body \<Rightarrow> status < 200 \<or> 300 \<le> status | _ \<Rightarrow> True)"

lemma outageD: "outage net \<Longrightarrow> net rq = Response status body \<Longrightarrow> status < 200 \<or> 300 \<le> status"
  unfolding outage_def by (drule spec [of _ rq]) simp

lemma remote_outage_error:
  assumes "remote_guard g" and "outage (call_net c)"
  shows "is_err (Validate lib c meta g input)"
  using assms
  by (cases g)
    (auto simp: is_err_def Webhook_Validate_def OpenAIModeration_Validate_def GuardrailsAI_Validate_def
      LLMClassifier_Validate_def Presidio_Validate_def Let_def split: http_outcome.split dest: outageD)

lemma remote_unmarked: "remote_guard g \<Longrightarrow> guardAs FailOpenGuard g = False \<and> guardAs ShadowGuard g = False"
  by (cases g) simp_all

text \<open>
  C17: an outage of the service behind a guard is never a silent pass. Whatever decorators a guard
  of one of the five service-backed types carries, when no request gets a 2xx answer the recorded
  result is marked errored and passes exactly when the guard is declared fail-open; it is excluded
  from the decision exactly when it is declared shadow.
\<close>

theorem outage_fails_closed:
  assumes "remote_guard g" and "outage (call_net c)" and "set ds \<subseteq> decorators"
  shows "let r = run_guard lib c meta (foldr id ds g) input
         in (Passed r \<longleftrightarrow> FailOpen \<in> set ds) \<and> (Shadow r \<longleftrightarrow> ShadowOf \<in> set ds)
            \<and> Details r = [(''errored'', JBool True)]"
proof -
  note d = decorated [OF assms(3)]
  obtain e where "Validate lib c meta (foldr id ds g) input = Inl e"
    using remote_outage_error [OF assms(1,2)] unfolding d is_err_def
    by (metis old.sum.exhaust sum.simps(6))
  then show ?thesis
    using remote_unmarked [OF assms(1)] d(4,5) by (simp add: run_guard_def Let_def)
qed

theorem outage_fails_closed_witness:
  "Passed (run_guard eq_lib \<lparr>call_net = (\<lambda>_. Response 503 \<lparr>b_value = None, b_end = 0, b_trailing = False, b_text = []\<rparr>),
             call_ms = 1, err_ms = 2\<rparr> None
             (FailOpen (GWebhook (NewWebhookGuard ''w'' \<lparr>wh_URL = ''http://h'', wh_Headers = [], wh_TimeoutSeconds = 0\<rparr>))) ''x'')
   \<and> \<not> Passed (run_guard eq_lib \<lparr>call_net = (\<lambda>_. Response 503 \<lparr>b_value = None, b_end = 0, b_trailing = False, b_text = []\<rparr>),
             call_ms = 1, err_ms = 2\<rparr> None
             (ShadowOf (GWebhook (NewWebhookGuard ''w'' \<lparr>wh_URL = ''http://h'', wh_Headers = [], wh_TimeoutSeconds = 0\<rparr>))) ''x'')"
proof -
  let ?g = "GWebhook (NewWebhookGuard ''w'' \<lparr>wh_URL = ''http://h'', wh_Headers = [], wh_TimeoutSeconds = 0\<rparr>)"
  let ?c = "\<lparr>call_net = (\<lambda>_. Response 503 \<lparr>b_value = None, b_end = 0, b_trailing = False, b_text = []\<rparr>),
             call_ms = 1, err_ms = 2\<rparr>"
  have o: "remote_guard ?g" "outage (call_net ?c)" by (simp_all add: outage_def)
  have "set [FailOpen] \<subseteq> decorators" "set [ShadowOf] \<subseteq> decorators" by simp_all
  from outage_fails_closed [OF o this(1), of eq_lib None "''x''"] outage_fails_closed [OF o this(2), of eq_lib None "''x''"]
  show ?thesis by (simp add: Let_def)
qed

end
