(* ===== verification/Url_Policy.thy ===== *)
theory Url_Policy
  imports Sheeld_Prelude "HOL-Library.Word"
begin

text \<open>
  \<open>internal/shared/urlpolicy/urlpolicy.go\<close>: which URLs the data plane may be pointed at. An
  address is Go's \<open>net.IP\<close>, a list of bytes; the classification methods of \<open>net.IP\<close>
  are written out as in Go's \<open>net\<close> package. Parsing a URL, parsing an address, printing an
  address and resolving a host name are the environment, the record \<open>net_env\<close>.
\<close>

unbundle bit_operations_syntax

type_synonym u8 = "8 word"
type_synonym ip = "u8 list"

subsection \<open>net.IP\<close>

text \<open>\<open>To4\<close>: the four bytes of an IPv4 address in either representation, \<open>None\<close> for nil.\<close>

definition To4 :: "ip \<Rightarrow> ip option" where
  "To4 a =
     (if length a = 4 then Some a
      else if length a = 16 \<and> take 10 a = replicate 10 0 \<and> a ! 10 = 0xff \<and> a ! 11 = 0xff
      then Some (drop 12 a) else None)"

definition IsLoopback :: "ip \<Rightarrow> bool" where
  "IsLoopback a =
     (case To4 a of
        Some v \<Rightarrow> v ! 0 = 127
      | None \<Rightarrow> a = replicate 15 0 @ [1])"

definition IsPrivate :: "ip \<Rightarrow> bool" where
  "IsPrivate a =
     (case To4 a of
        Some v \<Rightarrow> v ! 0 = 10 \<or> (v ! 0 = 172 \<and> v ! 1 AND 0xf0 = 16) \<or> (v ! 0 = 192 \<and> v ! 1 = 168)
      | None \<Rightarrow> length a = 16 \<and> a ! 0 AND 0xfe = 0xfc)"

definition IsLinkLocalUnicast :: "ip \<Rightarrow> bool" where
  "IsLinkLocalUnicast a =
     (case To4 a of
        Some v \<Rightarrow> v ! 0 = 169 \<and> v ! 1 = 254
      | None \<Rightarrow> length a = 16 \<and> a ! 0 = 0xfe \<and> a ! 1 AND 0xc0 = 0x80)"

definition IsLinkLocalMulticast :: "ip \<Rightarrow> bool" where
  "IsLinkLocalMulticast a =
     (case To4 a of
        Some v \<Rightarrow> v ! 0 = 224 \<and> v ! 1 = 0 \<and> v ! 2 = 0
      | None \<Rightarrow> length a = 16 \<and> a ! 0 = 0xff \<and> a ! 1 AND 0x0f = 0x02)"

definition IsUnspecified :: "ip \<Rightarrow> bool" where
  "IsUnspecified a =
     (case To4 a of
        Some v \<Rightarrow> v = [0, 0, 0, 0]
      | None \<Rightarrow> a = replicate 16 0)"

subsection \<open>The policy\<close>

definition isCGNAT :: "ip \<Rightarrow> bool" where
  "isCGNAT a =
     (case To4 a of None \<Rightarrow> False | Some v4 \<Rightarrow> v4 ! 0 = 100 \<and> v4 ! 1 AND 0xc0 = 64)"

definition isDisallowed :: "ip \<Rightarrow> bool" where
  "isDisallowed a =
     (IsLoopback a \<or> IsPrivate a \<or> IsLinkLocalUnicast a \<or> IsLinkLocalMulticast a
      \<or> IsUnspecified a \<or> isCGNAT a)"

text \<open>
  \<open>parse_url\<close> gives the scheme and the host name of a URL (\<open>url.Parse\<close>), \<open>parse_ip\<close> is
  \<open>net.ParseIP\<close>, \<open>lookup_ip\<close> is the resolver.
\<close>

record net_env =
  parse_url :: "string \<Rightarrow> (string \<times> string) option"
  parse_ip :: "string \<Rightarrow> ip option"
  lookup_ip :: "string \<Rightarrow> ip list res"
  ip_text :: "ip \<Rightarrow> string"

definition ValidatePublicHTTPURL :: "net_env \<Rightarrow> bool \<Rightarrow> string \<Rightarrow> string \<Rightarrow> unit res" where
  "ValidatePublicHTTPURL env allowPrivate raw field =
     (case parse_url env raw of
        None \<Rightarrow> Inl (field @ '' must be a valid http(s) URL'')
      | Some (scheme, host) \<Rightarrow>
          if (scheme \<noteq> ''http'' \<and> scheme \<noteq> ''https'') \<or> host = []
          then Inl (field @ '' must be a valid http(s) URL'')
          else if allowPrivate then Inr ()
          else
            (case (case parse_ip env host of
                     Some a \<Rightarrow> Inr [a]
                   | None \<Rightarrow> err_wrap (field @ '': cannot resolve host '' @ go_quote host @ '': '')
                                (lookup_ip env host)) of
               Inl e \<Rightarrow> Inl e
             | Inr ips \<Rightarrow>
                 (case find isDisallowed ips of
                    Some a \<Rightarrow> Inl (field @ '' must not point to a private, loopback, or link-local address (''
                      @ ip_text env a
                      @ ''); set the allow-private-guard-urls option to permit internal targets'')
                  | None \<Rightarrow> Inr ())))"

subsection \<open>The refused IPv4 ranges as address blocks\<close>

text \<open>The number of an IPv4 address and membership in the block \<open>base/len\<close>.\<close>

definition v4_num :: "ip \<Rightarrow> nat" where
  "v4_num v = unat (v ! 0) * 2 ^ 24 + unat (v ! 1) * 2 ^ 16 + unat (v ! 2) * 2 ^ 8 + unat (v ! 3)"

definition in_block :: "nat \<Rightarrow> u8 \<times> u8 \<times> u8 \<times> u8 \<Rightarrow> nat \<Rightarrow> bool" where
  "in_block n base len =
     (case base of (b0, b1, b2, b3) \<Rightarrow>
        n div 2 ^ (32 - len) = v4_num [b0, b1, b2, b3] div 2 ^ (32 - len))"

text \<open>
  127.0.0.0/8, 10.0.0.0/8, 172.16.0.0/12, 192.168.0.0/16, 169.254.0.0/16, 224.0.0.0/24,
  0.0.0.0/32 and 100.64.0.0/10.
\<close>

definition refused_blocks :: "((u8 \<times> u8 \<times> u8 \<times> u8) \<times> nat) list" where
  "refused_blocks =
     [((127, 0, 0, 0), 8), ((10, 0, 0, 0), 8), ((172, 16, 0, 0), 12), ((192, 168, 0, 0), 16),
      ((169, 254, 0, 0), 16), ((224, 0, 0, 0), 24), ((0, 0, 0, 0), 32), ((100, 64, 0, 0), 10)]"

lemma byte_lt: "unat (b :: u8) < 256"
proof -
  have "unat b < 2 ^ LENGTH(8)" by (rule unsigned_less)
  then show ?thesis by simp
qed

lemma byte_all: "list_all P (map (of_nat :: nat \<Rightarrow> u8) [0..<256]) \<Longrightarrow> P b"
proof -
  assume "list_all P (map (of_nat :: nat \<Rightarrow> u8) [0..<256])"
  moreover have "of_nat (unat b) \<in> set (map (of_nat :: nat \<Rightarrow> u8) [0..<256])"
  proof -
    have "unat b \<in> set [0..<256]" using byte_lt [of b] by simp
    then show ?thesis unfolding set_map by (rule imageI)
  qed
  ultimately have "P (of_nat (unat b))" unfolding list_all_iff by blast
  then show ?thesis by simp
qed

lemma and_mask_div:
  "b AND 0xf0 = 16 \<longleftrightarrow> unat b div 16 = 1"
  "b AND 0xc0 = 64 \<longleftrightarrow> unat b div 64 = 1" for b :: u8
  by (rule byte_all [of _ b], code_simp)+

lemma pack_eq:
  fixes k r s a q :: nat
  assumes "r < k" and "s < k"
  shows "a * k + r = q * k + s \<longleftrightarrow> a = q \<and> r = s"
proof
  assume eq: "a * k + r = q * k + s"
  from assms have "(a * k + r) div k = a" "(q * k + s) div k = q" by simp_all
  with eq have "a = q" by simp
  with eq show "a = q \<and> r = s" by simp
qed simp

lemma v4_num_div:
  fixes n0 n1 n2 n3 :: nat
  assumes "n1 < 256" "n2 < 256" "n3 < 256"
  defines "n \<equiv> n0 * 16777216 + n1 * 65536 + n2 * 256 + n3"
  shows "n div 16777216 = n0" and "n div 4194304 = n0 * 4 + n1 div 64"
    and "n div 1048576 = n0 * 16 + n1 div 16" and "n div 65536 = n0 * 256 + n1"
    and "n div 256 = n0 * 65536 + n1 * 256 + n2"
  using assms(1-3) unfolding n_def by linarith+

text \<open>
  On IPv4, whichever of the two representations Go uses for the address, the policy refuses
  exactly the addresses of eight blocks: loopback, the three private ranges, link-local,
  link-local multicast, 0.0.0.0 and the shared address space 100.64.0.0/10. The code's tests of
  single bytes and masks are the CIDR tests on the 32-bit address.
\<close>

theorem isDisallowed_v4_blocks:
  assumes "To4 a = Some v"
  shows "isDisallowed a \<longleftrightarrow> list_ex (\<lambda>(base, len). in_block (v4_num v) base len) refused_blocks"
proof -
  from assms have "length v = 4"
    by (auto simp: To4_def split: if_splits)
  then obtain b0 b1 b2 b3 where v: "v = [b0, b1, b2, b3]"
    by (auto simp: eval_nat_numeral length_Suc_conv)
  define n0 n1 n2 n3 where n: "n0 = unat b0" "n1 = unat b1" "n2 = unat b2" "n3 = unat b3"
  have lt: "n1 < 256" "n2 < 256" "n3 < 256"
    by (simp_all add: n byte_lt)
  have eqs: "b0 = k \<longleftrightarrow> n0 = unat k" "b1 = k \<longleftrightarrow> n1 = unat k"
    "b2 = k \<longleftrightarrow> n2 = unat k" "b3 = k \<longleftrightarrow> n3 = unat k" for k
    by (simp_all add: n word_unat_eq_iff)
  have dis: "isDisallowed a \<longleftrightarrow>
      n0 = 127 \<or> n0 = 10 \<or> n0 = 172 \<and> n1 div 16 = 1 \<or> n0 = 192 \<and> n1 = 168 \<or> n0 = 169 \<and> n1 = 254
      \<or> n0 = 224 \<and> n1 = 0 \<and> n2 = 0 \<or> n0 = 0 \<and> n1 = 0 \<and> n2 = 0 \<and> n3 = 0 \<or> n0 = 100 \<and> n1 div 64 = 1"
    by (simp add: isDisallowed_def IsLoopback_def IsPrivate_def IsLinkLocalUnicast_def
        IsLinkLocalMulticast_def IsUnspecified_def isCGNAT_def assms v and_mask_div
        eqs flip: n)
  have num: "v4_num v = n0 * 16777216 + n1 * 65536 + n2 * 256 + n3"
    by (simp add: v v4_num_def n)
  have blocks: "list_ex (\<lambda>(base, len). in_block (v4_num v) base len) refused_blocks \<longleftrightarrow>
      n0 = 127 \<or> n0 = 10 \<or> n0 * 16 + n1 div 16 = 2753 \<or> n0 * 256 + n1 = 49320
      \<or> n0 * 256 + n1 = 43518 \<or> n0 * 65536 + n1 * 256 + n2 = 14680064
      \<or> n0 * 16777216 + n1 * 65536 + n2 * 256 + n3 = 0 \<or> n0 * 4 + n1 div 64 = 401"
    by (simp add: refused_blocks_def in_block_def num v4_num_div [OF lt]) (simp add: v4_num_def)
  have "n1 div 16 < 16" "n1 div 64 < 4" using lt by simp_all
  with lt have "n0 * 16 + n1 div 16 = 2753 \<longleftrightarrow> n0 = 172 \<and> n1 div 16 = 1"
    and "n0 * 256 + n1 = 49320 \<longleftrightarrow> n0 = 192 \<and> n1 = 168"
    and "n0 * 256 + n1 = 43518 \<longleftrightarrow> n0 = 169 \<and> n1 = 254"
    and "n0 * 256 + n1 = 57344 \<longleftrightarrow> n0 = 224 \<and> n1 = 0"
    and "(n0 * 256 + n1) * 256 + n2 = 14680064 \<longleftrightarrow> n0 * 256 + n1 = 57344 \<and> n2 = 0"
    and "n0 * 4 + n1 div 64 = 401 \<longleftrightarrow> n0 = 100 \<and> n1 div 64 = 1"
    using pack_eq [of "n1 div 16" 16 1 n0 172] pack_eq [of n1 256 168 n0 192]
      pack_eq [of n1 256 254 n0 169] pack_eq [of n1 256 0 n0 224]
      pack_eq [of n2 256 0 "n0 * 256 + n1" 57344] pack_eq [of "n1 div 64" 4 1 n0 100]
    by simp_all
  then have arith: "n0 * 16 + n1 div 16 = 2753 \<longleftrightarrow> n0 = 172 \<and> n1 div 16 = 1"
    "n0 * 256 + n1 = 49320 \<longleftrightarrow> n0 = 192 \<and> n1 = 168"
    "n0 * 256 + n1 = 43518 \<longleftrightarrow> n0 = 169 \<and> n1 = 254"
    "n0 * 65536 + n1 * 256 + n2 = 14680064 \<longleftrightarrow> n0 = 224 \<and> n1 = 0 \<and> n2 = 0"
    "n0 * 4 + n1 div 64 = 401 \<longleftrightarrow> n0 = 100 \<and> n1 div 64 = 1"
    by (simp_all add: algebra_simps)
  have zero: "n0 * 16777216 + n1 * 65536 + n2 * 256 + n3 = 0 \<longleftrightarrow> n0 = 0 \<and> n1 = 0 \<and> n2 = 0 \<and> n3 = 0"
    by simp
  show ?thesis by (simp only: dis blocks arith zero)
qed

theorem isDisallowed_v4_blocks_witness:
  "isDisallowed (replicate 10 0 @ [0xff, 0xff, 100, 127, 0, 1])"
proof -
  have t: "To4 (replicate 10 0 @ [0xff, 0xff, 100, 127, 0, 1]) = Some [100, 127, 0, 1]"
    by (simp add: To4_def numeral_eq_Suc)
  have "list_ex (\<lambda>(base, len). in_block (v4_num [100, 127, 0, 1]) base len) refused_blocks"
    by (simp add: refused_blocks_def in_block_def v4_num_def)
  then show ?thesis
    using isDisallowed_v4_blocks [OF t] by blast
qed

text \<open>A host is public when it is a public address or resolves to public addresses only.\<close>

definition public_host :: "net_env \<Rightarrow> string \<Rightarrow> bool" where
  "public_host env host =
     (case parse_ip env host of
        Some a \<Rightarrow> \<not> isDisallowed a
      | None \<Rightarrow> (case lookup_ip env host of
          Inl _ \<Rightarrow> False | Inr ips \<Rightarrow> list_all (\<lambda>a. \<not> isDisallowed a) ips))"


end
