(* ===== verification/Guard_Registry.thy ===== *)
theory Guard_Registry
  imports Guard_Engine Url_Policy
begin

text \<open>
  \<open>internal/shared/guard/registry.go\<close>: the registry that maps guard types to factories, the seven
  built-in factories with their configuration decoding, required fields and URL policy, and the
  contract of a registry as a locale (the transformer registry has the same one).
\<close>

subsection \<open>The contract of a registry\<close>

locale type_registry =
  fixes empty_reg :: 'r
    and register :: "string \<Rightarrow> 'f \<Rightarrow> 'r \<Rightarrow> 'r"
    and factory_of :: "'r \<Rightarrow> string \<Rightarrow> 'f option"
  assumes empty_law: "factory_of empty_reg t = None"
    and register_law: "factory_of (register t f r) t' = (if t' = t then Some f else factory_of r t')"
begin

definition register_all :: "(string \<times> 'f) list \<Rightarrow> 'r \<Rightarrow> 'r" where
  "register_all tfs r = fold (\<lambda>(t, f). register t f) tfs r"

lemma register_all_other: "t \<notin> fst ` set tfs \<Longrightarrow> factory_of (register_all tfs r) t = factory_of r t"
  unfolding register_all_def by (induction tfs arbitrary: r) (auto simp: register_law)

lemma register_all_lookup:
  "factory_of (register_all tfs r) t = (case map_of (rev tfs) t of Some f \<Rightarrow> Some f | None \<Rightarrow> factory_of r t)"
  unfolding register_all_def
  by (induction tfs rule: rev_induct) (auto simp: register_law split: option.split)

lemma register_all_new:
  "factory_of (register_all tfs empty_reg) t = map_of (rev tfs) t"
  by (simp add: register_all_lookup empty_law split: option.split)

lemma register_last: "factory_of (register t f (register_all tfs r)) t = Some f"
  by (simp add: register_law)

end

subsection \<open>Registry\<close>

type_synonym guard_factory = "string \<Rightarrow> json option \<Rightarrow> guard res"

record guard_registry =
  factories :: "(string, guard_factory) gomap"

definition Registry_Register :: "string \<Rightarrow> guard_factory \<Rightarrow> guard_registry \<Rightarrow> guard_registry" where
  "Registry_Register guardType factory r = r\<lparr>factories := m_set guardType factory (factories r)\<rparr>"

definition Registry_factory :: "guard_registry \<Rightarrow> string \<Rightarrow> guard_factory option" where
  "Registry_factory r guardType = m_get (factories r) guardType"

definition Registry_Create :: "guard_registry \<Rightarrow> string \<Rightarrow> string \<Rightarrow> json option \<Rightarrow> guard res" where
  "Registry_Create r guardType name config =
     (case Registry_factory r guardType of
        None \<Rightarrow> Inl (''unknown guard type: '' @ go_quote guardType)
      | Some factory \<Rightarrow> factory name config)"

definition Registry_Types :: "guard_registry \<Rightarrow> string list" where
  "Registry_Types r = map fst (factories r)"

interpretation greg: type_registry "\<lparr>factories = []\<rparr>" Registry_Register Registry_factory
  by unfold_locales (auto simp: Registry_factory_def Registry_Register_def m_get_set)

subsection \<open>The built-in factories\<close>

text \<open>\<open>json.Unmarshal(config, ...)\<close>; no bytes at all are not a JSON text.\<close>

definition config_value :: "json option \<Rightarrow> json res" where
  "config_value config =
     (case config of None \<Rightarrow> Inl ''unexpected end of JSON input'' | Some j \<Rightarrow> Inr j)"

definition config_members :: "string \<Rightarrow> json option \<Rightarrow> (string \<times> json) list res" where
  "config_members what config =
     err_wrap (''invalid '' @ what @ '' config: '')
       (res_bind (config_value config) (\<lambda>j.
          case struct_members j of None \<Rightarrow> Inl json_type_error | Some kvs \<Rightarrow> Inr kvs))"

definition config_field :: "string \<Rightarrow> 'a option \<Rightarrow> 'a res" where
  "config_field what x =
     (case x of None \<Rightarrow> Inl (''invalid '' @ what @ '' config: '' @ json_type_error) | Some v \<Rightarrow> Inr v)"

definition cfg_str :: "string \<Rightarrow> string \<Rightarrow> (string \<times> json) list \<Rightarrow> string res" where
  "cfg_str what key kvs = config_field what (dec_str (field_vals key kvs) [])"

definition cfg_int :: "string \<Rightarrow> string \<Rightarrow> (string \<times> json) list \<Rightarrow> int res" where
  "cfg_int what key kvs = config_field what (dec_int (field_vals key kvs) 0)"

definition cfg_float :: "string \<Rightarrow> string \<Rightarrow> (string \<times> json) list \<Rightarrow> rat res" where
  "cfg_float what key kvs = config_field what (dec_float (field_vals key kvs) 0)"

definition cfg_strs :: "string \<Rightarrow> string \<Rightarrow> (string \<times> json) list \<Rightarrow> string list res" where
  "cfg_strs what key kvs = config_field what (dec_str_slice (field_vals key kvs) [])"

definition cfg_map :: "string \<Rightarrow> string \<Rightarrow> (string \<times> json) list \<Rightarrow> (string, string) gomap res" where
  "cfg_map what key kvs = config_field what (dec_str_map (field_vals key kvs) [])"

definition blocklistFactory :: "go_lib \<Rightarrow> guard_factory" where
  "blocklistFactory lib name config =
     res_bind (config_members ''blocklist'' config) (\<lambda>kvs.
     res_bind (cfg_strs ''blocklist'' ''words'' kvs) (\<lambda>words.
       Inr (GBlocklist (NewBlocklistGuard lib name \<lparr>Words = words\<rparr>))))"

definition regexFactory :: "go_lib \<Rightarrow> guard_factory" where
  "regexFactory lib name config =
     res_bind (config_members ''regex'' config) (\<lambda>kvs.
     res_bind (cfg_strs ''regex'' ''patterns'' kvs) (\<lambda>pats.
     res_bind (cfg_str ''regex'' ''mode'' kvs) (\<lambda>md.
     res_bind (NewRegexGuard lib name \<lparr>Patterns = pats, rx_Mode = md\<rparr>) (\<lambda>g. Inr (GRegex g)))))"

definition openAIModerationFactory :: guard_factory where
  "openAIModerationFactory name config =
     (let t = ''openai_moderation'' in
     res_bind (config_members t config) (\<lambda>kvs.
     res_bind (cfg_str t ''api_key'' kvs) (\<lambda>key.
     res_bind (cfg_strs t ''categories'' kvs) (\<lambda>cats.
     res_bind (cfg_float t ''threshold'' kvs) (\<lambda>thr.
     res_bind (cfg_int t ''timeout_seconds'' kvs) (\<lambda>tmo.
     res_bind (cfg_str t ''base_url'' kvs) (\<lambda>url.
       if key = [] then Inl ''openai_moderation: api_key is required''
       else Inr (GOpenAIModeration (NewOpenAIModerationGuard name
              \<lparr>om_APIKey = key, om_Categories = cats, om_Threshold = thr,
               om_TimeoutSeconds = tmo, om_BaseURL = url\<rparr>)))))))))"

definition guardrailsAIFactory :: guard_factory where
  "guardrailsAIFactory name config =
     (let t = ''guardrails_ai'' in
     res_bind (config_members t config) (\<lambda>kvs.
     res_bind (cfg_str t ''server_url'' kvs) (\<lambda>url.
     res_bind (cfg_str t ''guard_name'' kvs) (\<lambda>gname.
     res_bind (cfg_int t ''timeout_seconds'' kvs) (\<lambda>tmo.
       if url = [] then Inl ''guardrails_ai: server_url is required''
       else if gname = [] then Inl ''guardrails_ai: guard_name is required''
       else Inr (GGuardrailsAI (NewGuardrailsAIGuard name
              \<lparr>ga_ServerURL = url, ga_GuardName = gname, ga_TimeoutSeconds = tmo\<rparr>)))))))"

definition presidioFactory :: "net_env \<Rightarrow> bool \<Rightarrow> guard_factory" where
  "presidioFactory env allowPrivate name config =
     (let t = ''presidio'' in
     res_bind (config_members t config) (\<lambda>kvs.
     res_bind (cfg_str t ''analyzer_url'' kvs) (\<lambda>url.
     res_bind (cfg_str t ''language'' kvs) (\<lambda>lang.
     res_bind (cfg_strs t ''entities'' kvs) (\<lambda>ents.
     res_bind (cfg_float t ''score_threshold'' kvs) (\<lambda>thr.
     res_bind (cfg_int t ''timeout_seconds'' kvs) (\<lambda>tmo.
       if url = [] then Inl ''presidio: analyzer_url is required''
       else res_bind (ValidatePublicHTTPURL env allowPrivate url ''presidio: analyzer_url'') (\<lambda>_.
         Inr (GPresidio (NewPresidioGuard name
              \<lparr>pr_AnalyzerURL = url, pr_Language = lang, pr_Entities = ents,
               pr_ScoreThreshold = thr, pr_TimeoutSeconds = tmo\<rparr>))))))))))"

definition llmClassifierFactory :: "net_env \<Rightarrow> bool \<Rightarrow> guard_factory" where
  "llmClassifierFactory env allowPrivate name config =
     (let t = ''llm_classifier'' in
     res_bind (config_members t config) (\<lambda>kvs.
     res_bind (cfg_str t ''base_url'' kvs) (\<lambda>url.
     res_bind (cfg_str t ''api_key'' kvs) (\<lambda>key.
     res_bind (cfg_str t ''model'' kvs) (\<lambda>model.
     res_bind (cfg_str t ''instructions'' kvs) (\<lambda>instr.
     res_bind (cfg_int t ''timeout_seconds'' kvs) (\<lambda>tmo.
       if url = [] then Inl ''llm_classifier: base_url is required''
       else res_bind (ValidatePublicHTTPURL env allowPrivate url ''llm_classifier: base_url'') (\<lambda>_.
         if model = [] then Inl ''llm_classifier: model is required''
         else if instr = [] then Inl ''llm_classifier: instructions is required''
         else Inr (GLLMClassifier (NewLLMClassifierGuard name
              \<lparr>lc_BaseURL = url, lc_APIKey = key, lc_Model = model, lc_Instructions = instr,
               lc_TimeoutSeconds = tmo\<rparr>))))))))))"

definition webhookFactory :: "net_env \<Rightarrow> bool \<Rightarrow> guard_factory" where
  "webhookFactory env allowPrivate name config =
     (let t = ''webhook'' in
     res_bind (config_members t config) (\<lambda>kvs.
     res_bind (cfg_str t ''url'' kvs) (\<lambda>url.
     res_bind (cfg_map t ''headers'' kvs) (\<lambda>hdrs.
     res_bind (cfg_int t ''timeout_seconds'' kvs) (\<lambda>tmo.
       if url = [] then Inl ''webhook: url is required''
       else res_bind (ValidatePublicHTTPURL env allowPrivate url ''webhook: url'') (\<lambda>_.
         Inr (GWebhook (NewWebhookGuard name
              \<lparr>wh_URL = url, wh_Headers = hdrs, wh_TimeoutSeconds = tmo\<rparr>))))))))"

definition NewRegistry :: "go_lib \<Rightarrow> net_env \<Rightarrow> bool \<Rightarrow> guard_registry" where
  "NewRegistry lib env allowPrivate =
     (let r = \<lparr>factories = []\<rparr>;
          r = Registry_Register ''blocklist'' (blocklistFactory lib) r;
          r = Registry_Register ''regex'' (regexFactory lib) r;
          r = Registry_Register ''openai_moderation'' openAIModerationFactory r;
          r = Registry_Register ''guardrails_ai'' guardrailsAIFactory r;
          r = Registry_Register ''webhook'' (webhookFactory env allowPrivate) r;
          r = Registry_Register ''llm_classifier'' (llmClassifierFactory env allowPrivate) r
      in Registry_Register ''presidio'' (presidioFactory env allowPrivate) r)"

subsection \<open>What the registry builds\<close>

definition built_in_types :: "string list" where
  "built_in_types = [''blocklist'', ''regex'', ''openai_moderation'', ''guardrails_ai'', ''webhook'',
     ''llm_classifier'', ''presidio'']"

lemma Registry_factory_simps [simp]:
  "Registry_factory (Registry_Register t f r) t' = (if t' = t then Some f else Registry_factory r t')"
  "Registry_factory \<lparr>factories = []\<rparr> t = None"
  by (rule greg.register_law, rule greg.empty_law)

lemma NewRegistry_factory:
  "Registry_factory (NewRegistry lib env allow) t =
     map_of [(''presidio'', presidioFactory env allow), (''llm_classifier'', llmClassifierFactory env allow),
             (''webhook'', webhookFactory env allow), (''guardrails_ai'', guardrailsAIFactory),
             (''openai_moderation'', openAIModerationFactory), (''regex'', regexFactory lib),
             (''blocklist'', blocklistFactory lib)] t"
  by (simp add: NewRegistry_def Let_def)

text \<open>The URL a guard of the three types with a URL check talks to, with the policy's name for it.\<close>

fun checked_url :: "guard \<Rightarrow> (string \<times> string) option" where
  "checked_url (GWebhook g) = Some (wh_URL (whg_cfg g), ''webhook: url'')"
| "checked_url (GPresidio g) = Some (pr_AnalyzerURL (prg_cfg g), ''presidio: analyzer_url'')"
| "checked_url (GLLMClassifier g) = Some (lc_BaseURL (lcg_cfg g), ''llm_classifier: base_url'')"
| "checked_url _ = None"

definition built :: "net_env \<Rightarrow> bool \<Rightarrow> string \<Rightarrow> string \<Rightarrow> guard \<Rightarrow> bool" where
  "built env allow t name g \<longleftrightarrow> Type g = t \<and> Name g = name \<and> Unwrap g = None
     \<and> (case checked_url g of None \<Rightarrow> True
        | Some (url, field) \<Rightarrow> url \<noteq> [] \<and> ValidatePublicHTTPURL env allow url field = Inr ())"

lemma factories_built:
  "blocklistFactory lib name config = Inr g \<Longrightarrow> built env allow ''blocklist'' name g"
  "regexFactory lib name config = Inr g \<Longrightarrow> built env allow ''regex'' name g"
  "openAIModerationFactory name config = Inr g \<Longrightarrow> built env allow ''openai_moderation'' name g"
  "guardrailsAIFactory name config = Inr g \<Longrightarrow> built env allow ''guardrails_ai'' name g"
  "webhookFactory env allow name config = Inr g \<Longrightarrow> built env allow ''webhook'' name g"
  "llmClassifierFactory env allow name config = Inr g \<Longrightarrow> built env allow ''llm_classifier'' name g"
  "presidioFactory env allow name config = Inr g \<Longrightarrow> built env allow ''presidio'' name g"
  by (auto simp: blocklistFactory_def regexFactory_def openAIModerationFactory_def
      guardrailsAIFactory_def webhookFactory_def llmClassifierFactory_def presidioFactory_def
      NewBlocklistGuard_def NewRegexGuard_def NewOpenAIModerationGuard_def NewGuardrailsAIGuard_def
      NewWebhookGuard_def NewLLMClassifierGuard_def NewPresidioGuard_def
      built_def Let_def res_bind_Inr_iff split: if_splits)

text \<open>
  What the guard registry builds is what the configuration asks for. A successful
  \<open>Create\<close> names one of the seven built-in types, the guard has exactly that type and name and no
  decorator, and the URL of a webhook, presidio or llm_classifier guard is non-empty and has passed
  the URL policy under the process's setting; any other type is an error whatever the configuration.
\<close>

theorem Registry_Create_sound:
  "if t \<in> set built_in_types
   then (case Registry_Create (NewRegistry lib env allow) t name config of
           Inr g \<Rightarrow> built env allow t name g
         | Inl e \<Rightarrow> True)
   else Registry_Create (NewRegistry lib env allow) t name config
          = Inl (''unknown guard type: '' @ go_quote t)"
proof (cases "t \<in> set built_in_types")
  case False
  then show ?thesis
    by (simp add: Registry_Create_def NewRegistry_factory built_in_types_def)
next
  case True
  have "built env allow t name g" if "Registry_Create (NewRegistry lib env allow) t name config = Inr g" for g
    using True that unfolding built_in_types_def Registry_Create_def NewRegistry_factory
    by (auto intro: factories_built)
  with True show ?thesis by (simp split: sum.split)
qed

text \<open>A fresh registry finds every built-in type, and a later registration replaces the earlier one.\<close>

lemma Registry_replaced:
  "Registry_Create (Registry_Register t f (Registry_Register t f' r)) t name config = f name config"
  by (simp add: Registry_Create_def)

end
