(* ===== verification/Llm_Types.thy ===== *)
theory Llm_Types
  imports Json_Values
begin

text \<open>
  \<open>internal/shared/llm/types.go\<close>: the chat-completion request and response, their decoding
  from and encoding to JSON with every field the proxy does not know kept in \<open>extra\<close>, and the
  texts the guards are given. A nil slice and an empty slice of messages or choices are not
  told apart; Go prints the first as \<open>null\<close>, the model as an empty array.
\<close>

subsection \<open>Messages\<close>

record message =
  Role :: string
  Content :: string
  contentRaw :: "json option"
  contentText :: string
  msg_extra :: "(string, json) gomap"

definition zero_message :: message where
  "zero_message = \<lparr>Role = [], Content = [], contentRaw = None, contentText = [], msg_extra = []\<rparr>"

text \<open>Decoding the parts of a multimodal content array into their \<open>type\<close> and \<open>text\<close>.\<close>

fun content_parts :: "json list \<Rightarrow> (string \<times> string) list option" where
  "content_parts [] = Some []"
| "content_parts (j # js) =
     (case struct_members j of
        None \<Rightarrow> None
      | Some kvs \<Rightarrow>
          (case (dec_str (field_vals ''type'' kvs) [], dec_str (field_vals ''text'' kvs) [],
                 content_parts js) of
             (Some ty, Some tx, Some ps) \<Rightarrow> Some ((ty, tx) # ps)
           | _ \<Rightarrow> None))"

fun write_parts :: "string \<Rightarrow> (string \<times> string) list \<Rightarrow> string" where
  "write_parts b [] = b"
| "write_parts b ((ty, tx) # ps) =
     (if ty = ''text'' \<and> tx \<noteq> []
      then write_parts (b @ (if b \<noteq> [] then [CHR 0x0A] else []) @ tx) ps
      else write_parts b ps)"

definition extractContentText :: "json \<Rightarrow> string" where
  "extractContentText raw =
     (case raw of
        JArr xs \<Rightarrow> (case content_parts xs of None \<Rightarrow> [] | Some ps \<Rightarrow> write_parts [] ps)
      | _ \<Rightarrow> [])"

definition unmarshal_message :: "json \<Rightarrow> message res" where
  "unmarshal_message j =
     (case raw_members j of
        None \<Rightarrow> Inl json_type_error
      | Some raw \<Rightarrow>
          (case (case m_get raw ''role'' of None \<Rightarrow> Some [] | Some v \<Rightarrow> dec_str [v] []) of
             None \<Rightarrow> Inl json_type_error
           | Some role \<Rightarrow>
               (let m = zero_message\<lparr>Role := role, msg_extra := m_del ''content'' (m_del ''role'' raw)\<rparr>
                in Inr (case m_get raw ''content'' of
                     None \<Rightarrow> m
                   | Some (JStr s) \<Rightarrow> m\<lparr>Content := s\<rparr>
                   | Some JNull \<Rightarrow> m\<lparr>contentRaw := Some JNull, contentText := []\<rparr>
                   | Some v \<Rightarrow> m\<lparr>contentRaw := Some v, Content := extractContentText v,
                                  contentText := extractContentText v\<rparr>))))"

definition message_fields :: "message \<Rightarrow> (string, json) gomap" where
  "message_fields m =
     m_set ''content''
       (if contentRaw m \<noteq> None \<and> Content m = contentText m
        then the (contentRaw m) else JStr (Content m))
       (m_set ''role'' (JStr (Role m)) (msg_extra m))"

definition marshal_message :: "message \<Rightarrow> json" where
  "marshal_message m = JObj (message_fields m)"

text \<open>\<open>[]Message\<close>: decoding stops at the first element that fails.\<close>

fun unmarshal_message_list :: "json list \<Rightarrow> message list res" where
  "unmarshal_message_list [] = Inr []"
| "unmarshal_message_list (j # js) =
     res_bind (unmarshal_message j) (\<lambda>m. res_bind (unmarshal_message_list js) (\<lambda>ms. Inr (m # ms)))"

definition unmarshal_messages :: "json \<Rightarrow> message list res" where
  "unmarshal_messages j =
     (case j of
        JNull \<Rightarrow> Inr [] | JArr xs \<Rightarrow> unmarshal_message_list xs | _ \<Rightarrow> Inl json_type_error)"

subsection \<open>Requests\<close>

record chat_request =
  req_Model :: string
  Messages :: "message list"
  Stream :: bool
  req_extra :: "(string, json) gomap"

definition opt_res :: "'a option \<Rightarrow> 'a res" where
  "opt_res x = (case x of None \<Rightarrow> Inl json_type_error | Some a \<Rightarrow> Inr a)"

definition unmarshal_request :: "json \<Rightarrow> chat_request res" where
  "unmarshal_request j =
     (case raw_members j of
        None \<Rightarrow> Inl json_type_error
      | Some raw \<Rightarrow>
          res_bind (case m_get raw ''model'' of None \<Rightarrow> Inr [] | Some v \<Rightarrow> opt_res (dec_str [v] []))
            (\<lambda>model.
          res_bind (case m_get raw ''messages'' of None \<Rightarrow> Inr [] | Some v \<Rightarrow> unmarshal_messages v)
            (\<lambda>messages.
          res_bind (case m_get raw ''stream'' of None \<Rightarrow> Inr False
                    | Some v \<Rightarrow> opt_res (dec_bool [v] False))
            (\<lambda>stream.
          Inr \<lparr>req_Model = model, Messages = messages, Stream = stream,
               req_extra = m_del ''stream'' (m_del ''messages'' (m_del ''model'' raw))\<rparr>))))"

definition request_fields :: "chat_request \<Rightarrow> (string, json) gomap" where
  "request_fields r =
     m_set ''stream'' (JBool (Stream r))
       (m_set ''messages'' (JArr (map marshal_message (Messages r)))
         (m_set ''model'' (JStr (req_Model r)) (req_extra r)))"

definition marshal_request :: "chat_request \<Rightarrow> json" where
  "marshal_request r = JObj (request_fields r)"

subsection \<open>Responses\<close>

record usage =
  PromptTokens :: int
  CompletionTokens :: int
  TotalTokens :: int

record choice =
  Index :: int
  Message :: message
  FinishReason :: string
  choice_extra :: "(string, json) gomap"

record chat_response =
  ID :: string
  Object :: string
  Created :: int
  resp_Model :: string
  Choices :: "choice list"
  Usage :: usage
  resp_extra :: "(string, json) gomap"

definition zero_usage :: usage where
  "zero_usage = \<lparr>PromptTokens = 0, CompletionTokens = 0, TotalTokens = 0\<rparr>"

definition zero_choice :: choice where
  "zero_choice = \<lparr>Index = 0, Message = zero_message, FinishReason = [], choice_extra = []\<rparr>"

text \<open>
  \<open>unmarshalField\<close>: the error of a field is ignored, and what was decoded before it stays. For
  a string or an integer nothing is; a struct keeps its good fields; a slice keeps the elements up
  to the one that failed.
\<close>

definition str_field :: "(string, json) gomap \<Rightarrow> string \<Rightarrow> string" where
  "str_field raw key = (case m_get raw key of Some (JStr s) \<Rightarrow> s | _ \<Rightarrow> [])"

definition int_field :: "(string, json) gomap \<Rightarrow> string \<Rightarrow> int" where
  "int_field raw key =
     (case m_get raw key of Some (JInt n) \<Rightarrow> if int64_ok n then n else 0 | _ \<Rightarrow> 0)"

fun keep_int :: "json list \<Rightarrow> int \<Rightarrow> int" where
  "keep_int [] cur = cur"
| "keep_int (JInt n # vs) cur = keep_int vs (if int64_ok n then n else cur)"
| "keep_int (_ # vs) cur = keep_int vs cur"

definition usage_field :: "(string, json) gomap \<Rightarrow> usage" where
  "usage_field raw =
     (case m_get raw ''usage'' of
        Some (JObj kvs) \<Rightarrow>
          \<lparr>PromptTokens = keep_int (field_vals ''prompt_tokens'' kvs) 0,
           CompletionTokens = keep_int (field_vals ''completion_tokens'' kvs) 0,
           TotalTokens = keep_int (field_vals ''total_tokens'' kvs) 0\<rparr>
      | _ \<Rightarrow> zero_usage)"

definition message_field :: "(string, json) gomap \<Rightarrow> message" where
  "message_field raw =
     (case m_get raw ''message'' of
        None \<Rightarrow> zero_message
      | Some v \<Rightarrow> (case unmarshal_message v of Inl _ \<Rightarrow> zero_message | Inr m \<Rightarrow> m))"

definition unmarshal_choice :: "json \<Rightarrow> choice res" where
  "unmarshal_choice j =
     (case raw_members j of
        None \<Rightarrow> Inl json_type_error
      | Some raw \<Rightarrow> Inr
          \<lparr>Index = int_field raw ''index'', Message = message_field raw,
           FinishReason = str_field raw ''finish_reason'',
           choice_extra = m_del ''finish_reason'' (m_del ''message'' (m_del ''index'' raw))\<rparr>)"

fun unmarshal_choices :: "json list \<Rightarrow> choice list" where
  "unmarshal_choices [] = []"
| "unmarshal_choices (j # js) =
     (case unmarshal_choice j of
        Inl _ \<Rightarrow> [zero_choice] | Inr c \<Rightarrow> c # unmarshal_choices js)"

definition choices_field :: "(string, json) gomap \<Rightarrow> choice list" where
  "choices_field raw =
     (case m_get raw ''choices'' of Some (JArr xs) \<Rightarrow> unmarshal_choices xs | _ \<Rightarrow> [])"

definition response_keys :: "string list" where
  "response_keys = [''id'', ''object'', ''created'', ''model'', ''choices'', ''usage'']"

definition unmarshal_response :: "json \<Rightarrow> chat_response res" where
  "unmarshal_response j =
     (case raw_members j of
        None \<Rightarrow> Inl json_type_error
      | Some raw \<Rightarrow> Inr
          \<lparr>ID = str_field raw ''id'', Object = str_field raw ''object'',
           Created = int_field raw ''created'', resp_Model = str_field raw ''model'',
           Choices = choices_field raw, Usage = usage_field raw,
           resp_extra = fold m_del response_keys raw\<rparr>)"

definition marshal_choice :: "choice \<Rightarrow> json" where
  "marshal_choice c = JObj
     (m_set ''finish_reason'' (JStr (FinishReason c))
       (m_set ''message'' (marshal_message (Message c))
         (m_set ''index'' (JInt (Index c)) (choice_extra c))))"

definition marshal_usage :: "usage \<Rightarrow> json" where
  "marshal_usage u = JObj
     [(''prompt_tokens'', JInt (PromptTokens u)), (''completion_tokens'', JInt (CompletionTokens u)),
      (''total_tokens'', JInt (TotalTokens u))]"

definition marshal_response :: "chat_response \<Rightarrow> json" where
  "marshal_response r = JObj
     (m_set ''usage'' (marshal_usage (Usage r))
       (m_set ''choices'' (JArr (map marshal_choice (Choices r)))
         (m_set ''model'' (JStr (resp_Model r))
           (m_set ''created'' (JInt (Created r))
             (m_set ''object'' (JStr (Object r))
               (m_set ''id'' (JStr (ID r)) (resp_extra r)))))))"

text \<open>
  \<open>ErrorResponse\<close>: the message of a provider's error body, \<open>None\<close> when the body does not
  decode (a field with a value that is not a string included).
\<close>

definition error_message :: "json \<Rightarrow> string option" where
  "error_message j =
     (case struct_members j of
        None \<Rightarrow> None
      | Some kvs \<Rightarrow>
          (let errs = field_vals ''error'' kvs;
               inner = concat (map (\<lambda>v. case struct_members v of Some l \<Rightarrow> l | None \<Rightarrow> []) errs)
           in if list_ex (\<lambda>v. struct_members v = None) errs
                 \<or> dec_str (field_vals ''type'' inner) [] = None
                 \<or> dec_str (field_vals ''code'' inner) [] = None
              then None else dec_str (field_vals ''message'' inner) []))"

subsection \<open>The texts that guards see\<close>

definition ExtractInputText :: "chat_request \<Rightarrow> string" where
  "ExtractInputText r =
     (case find (\<lambda>m. Role m = ''user'') (rev (Messages r)) of None \<Rightarrow> [] | Some m \<Rightarrow> Content m)"

fun serialize_from :: "bool \<Rightarrow> message list \<Rightarrow> string" where
  "serialize_from first [] = []"
| "serialize_from first (m # ms) =
     (if first then [] else [CHR 0x0A]) @ Role m @ '': '' @ Content m @ serialize_from False ms"

definition SerializeMessages :: "message list \<Rightarrow> string" where
  "SerializeMessages ms = serialize_from True ms"

definition ExtractOutputText :: "chat_response \<Rightarrow> string" where
  "ExtractOutputText r = (case Choices r of [] \<Rightarrow> [] | c # _ \<Rightarrow> Content (Message c))"

subsection \<open>What passes through unchanged\<close>

lemma distinct_m_set [simp]: "distinct (map fst m) \<Longrightarrow> distinct (map fst (m_set k v m))"
  by (rule distinct_update)

lemma distinct_m_del [simp]: "distinct (map fst m) \<Longrightarrow> distinct (map fst (m_del k m))"
  by (rule distinct_delete)

lemma distinct_fold_m_del [simp]:
  "distinct (map fst m) \<Longrightarrow> distinct (map fst (fold m_del ks m))"
  by (induction ks arbitrary: m) auto

lemma m_get_fold_m_del [simp]:
  "m_get (fold m_del ks m) k = (if k \<in> set ks then None else m_get m k)"
  by (induction ks arbitrary: m) auto

lemma unmarshal_request_extra:
  assumes "unmarshal_request j = Inr r"
  shows "distinct (map fst (req_extra r))"
    and "k \<notin> {''model'', ''messages'', ''stream''} \<Longrightarrow> m_get (req_extra r) k = obj_get j k"
proof -
  from assms obtain raw where raw: "raw_members j = Some raw"
    and extra: "req_extra r = m_del ''stream'' (m_del ''messages'' (m_del ''model'' raw))"
    by (auto simp: unmarshal_request_def res_bind_Inr_iff split: option.splits)
  from raw have "distinct (map fst raw)" by (rule raw_members_SomeD)
  then show "distinct (map fst (req_extra r))" by (simp add: extra)
  show "k \<notin> {''model'', ''messages'', ''stream''} \<Longrightarrow> m_get (req_extra r) k = obj_get j k"
    using raw_members_SomeD(2) [OF raw] by (simp add: extra)
qed

lemma unmarshal_message_cases:
  assumes "unmarshal_message j = Inr m"
  obtains raw role where "raw_members j = Some raw"
    and "Role m = role" and "msg_extra m = m_del ''content'' (m_del ''role'' raw)"
    and "case m_get raw ''content'' of
           None \<Rightarrow> contentRaw m = None \<and> Content m = []
         | Some (JStr s) \<Rightarrow> contentRaw m = None \<and> Content m = s
         | Some v \<Rightarrow> contentRaw m = Some v \<and> Content m = extractContentText v
                     \<and> contentText m = Content m"
  using assms
  by (auto simp: unmarshal_message_def Let_def zero_message_def extractContentText_def
      split: option.splits json.splits)

text \<open>
  C19: the proxy is transparent for the request fields it does not model. Whatever the pipeline
  does to the messages, the model and the stream flag, every other top-level field of the
  client's request (tools, temperature, response_format, ...) reaches the provider with the value
  it had; a field the client did not send is not added.
\<close>

theorem request_passthrough:
  assumes "unmarshal_request j = Inr r"
    and "k \<notin> {''model'', ''messages'', ''stream''}"
  shows "obj_get (marshal_request (r\<lparr>req_Model := m, Messages := ms, Stream := b\<rparr>)) k = obj_get j k"
proof -
  let ?r = "r\<lparr>req_Model := m, Messages := ms, Stream := b\<rparr>"
  from unmarshal_request_extra(1) [OF assms(1)] have "distinct (map fst (request_fields ?r))"
    by (simp add: request_fields_def)
  then have "obj_get (marshal_request ?r) k = m_get (request_fields ?r) k"
    by (simp add: marshal_request_def obj_get_JObj)
  also have "\<dots> = m_get (req_extra r) k"
    using assms(2) by (simp add: request_fields_def)
  also have "\<dots> = obj_get j k"
    by (rule unmarshal_request_extra(2) [OF assms])
  finally show ?thesis .
qed

theorem request_passthrough_witness:
  "obj_get (marshal_request
      (\<lparr>req_Model = ''m'', Messages = [], Stream = True,
        req_extra = [(''seed'', JInt 7)]\<rparr>\<lparr>req_Model := ''g'', Messages := [], Stream := False\<rparr>)) ''seed''
    = Some (JInt 7)"
proof -
  let ?j = "JObj [(''model'', JStr ''m''), (''seed'', JInt 7), (''stream'', JBool True)]"
  let ?r = "\<lparr>req_Model = ''m'', Messages = [], Stream = True, req_extra = [(''seed'', JInt 7)]\<rparr>"
  have j: "unmarshal_request ?j = Inr ?r"
    by (simp add: unmarshal_request_def raw_members_def m_of_entries_def opt_res_def)
  have "obj_get ?j ''seed'' = Some (JInt 7)"
    by (simp add: obj_get_def)
  then show ?thesis
    using request_passthrough [OF j, where k = "''seed''" and m = "''g''" and ms = "[]" and b = False]
    by simp
qed

text \<open>
  A message is forwarded verbatim unless a transformer rewrote its text. If the text is
  unchanged, the provider receives the very content value the client sent (a plain string, null,
  or a multimodal array with its images); if the text was rewritten, it receives the new text as a
  plain string; in both cases every other field (tool_calls, name, ...) is the client's.
\<close>

theorem message_verbatim_or_rewritten:
  assumes "unmarshal_message j = Inr m" and "obj_get j ''content'' = Some v"
  shows "obj_get (marshal_message (m\<lparr>Content := s\<rparr>)) ''content'' =
             (if s = Content m then Some v else Some (JStr s)) \<and>
         (\<forall>k. k \<notin> {''content'', ''role''} \<longrightarrow>
             obj_get (marshal_message (m\<lparr>Content := s\<rparr>)) k = obj_get j k)"
proof -
  from assms(1) obtain raw where raw: "raw_members j = Some raw"
    and extra: "msg_extra m = m_del ''content'' (m_del ''role'' raw)"
    and cont: "case m_get raw ''content'' of
           None \<Rightarrow> contentRaw m = None \<and> Content m = []
         | Some (JStr s) \<Rightarrow> contentRaw m = None \<and> Content m = s
         | Some v \<Rightarrow> contentRaw m = Some v \<and> Content m = extractContentText v
                     \<and> contentText m = Content m"
    by (rule unmarshal_message_cases)
  have d: "distinct (map fst (message_fields (m\<lparr>Content := s\<rparr>)))"
    using raw_members_SomeD(1) [OF raw] by (simp add: message_fields_def extra)
  have get: "obj_get (marshal_message (m\<lparr>Content := s\<rparr>)) k = m_get (message_fields (m\<lparr>Content := s\<rparr>)) k" for k
    using d by (simp add: marshal_message_def obj_get_JObj)
  have "obj_get (marshal_message (m\<lparr>Content := s\<rparr>)) ''content'' =
             (if s = Content m then Some v else Some (JStr s))"
    using cont raw_members_SomeD(2) [OF raw, of "''content''"] assms(2)
    by (auto simp: get message_fields_def split: json.splits)
  moreover have "obj_get (marshal_message (m\<lparr>Content := s\<rparr>)) k = obj_get j k"
    if "k \<notin> {''content'', ''role''}" for k
    using raw_members_SomeD(2) [OF raw, of k] that by (simp add: get message_fields_def extra)
  ultimately show ?thesis by blast
qed

text \<open>A multimodal message with a tool-call field, rewritten by a transformer.\<close>

theorem message_verbatim_or_rewritten_witness:
  "\<exists>m. unmarshal_message (JObj [(''role'', JStr ''user''),
          (''content'', JArr [JObj [(''type'', JStr ''text''), (''text'', JStr ''hi'')]]),
          (''name'', JStr ''bob'')]) = Inr m
     \<and> Content m = ''hi''
     \<and> obj_get (marshal_message (m\<lparr>Content := ''ho''\<rparr>)) ''content'' = Some (JStr ''ho'')
     \<and> obj_get (marshal_message (m\<lparr>Content := ''ho''\<rparr>)) ''name'' = Some (JStr ''bob'')"
proof -
  let ?c = "JArr [JObj [(''type'', JStr ''text''), (''text'', JStr ''hi'')]]"
  let ?j = "JObj [(''role'', JStr ''user''), (''content'', ?c), (''name'', JStr ''bob'')]"
  let ?m = "\<lparr>Role = ''user'', Content = ''hi'', contentRaw = Some ?c, contentText = ''hi'',
             msg_extra = [(''name'', JStr ''bob'')]\<rparr>"
  have j: "unmarshal_message ?j = Inr ?m"
    by code_simp
  have c: "obj_get ?j ''content'' = Some ?c" and n: "obj_get ?j ''name'' = Some (JStr ''bob'')"
    by (simp_all add: obj_get_def)
  show ?thesis
    using message_verbatim_or_rewritten [OF j c, of "''ho''"] j n by simp
qed

text \<open>
  What the guards read and what the provider receives can differ. A part of a multimodal
  content array whose \<open>type\<close> is not a string makes the extraction give up, so the guarded text
  is empty; a second member \<open>Text\<close> next to \<open>text\<close> replaces the guarded text, because Go matches
  member names without case. In both cases the message is forwarded with the original content,
  text \<open>t\<close> included.
\<close>

theorem guarded_text_differs_from_forwarded:
  fixes t u :: string
  assumes "u \<noteq> []"
  defines "hidden \<equiv> JArr [JObj [(''type'', JStr ''text''), (''text'', JStr t)], JObj [(''type'', JInt 0)]]"
    and "masked \<equiv> JArr [JObj [(''type'', JStr ''text''), (''text'', JStr t), (''Text'', JStr u)]]"
  shows "(\<exists>m. unmarshal_message (JObj [(''role'', JStr ''user''), (''content'', hidden)]) = Inr m
            \<and> Content m = [] \<and> obj_get (marshal_message m) ''content'' = Some hidden)
       \<and> (\<exists>m. unmarshal_message (JObj [(''role'', JStr ''user''), (''content'', masked)]) = Inr m
            \<and> Content m = u \<and> obj_get (marshal_message m) ''content'' = Some masked)"
proof -
  have forward: "\<exists>m. unmarshal_message (JObj [(''role'', JStr ''user''), (''content'', JArr xs)]) = Inr m
      \<and> Content m = extractContentText (JArr xs)
      \<and> obj_get (marshal_message m) ''content'' = Some (JArr xs)" for xs
    by (simp add: unmarshal_message_def raw_members_def m_of_entries_def Let_def zero_message_def
        marshal_message_def message_fields_def obj_get_def)
  have keys: "fold_key ''type'' = ''type''" "fold_key ''text'' = ''text''" "fold_key ''Text'' = ''text''"
    by code_simp+
  have "extractContentText hidden = []"
    by (simp add: hidden_def extractContentText_def struct_members_def field_vals_def keys)
  moreover have "extractContentText masked = u"
    using assms(1)
    by (simp add: masked_def extractContentText_def struct_members_def field_vals_def keys)
  ultimately show ?thesis
    using forward unfolding hidden_def masked_def by metis
qed

theorem guarded_text_differs_from_forwarded_witness:
  "\<exists>m. unmarshal_message (JObj [(''role'', JStr ''user''), (''content'',
        JArr [JObj [(''type'', JStr ''text''), (''text'', JStr ''leak''), (''Text'', JStr ''ok'')]])]) = Inr m
      \<and> Content m = ''ok''"
  using guarded_text_differs_from_forwarded [of "''ok''" "''leak''"] by blast

text \<open>Every message of the conversation is part of the serialized text.\<close>

lemma serialize_from_contains:
  "m \<in> set ms \<Longrightarrow> \<exists>a b. serialize_from first ms = a @ Role m @ '': '' @ Content m @ b"
proof (induction ms arbitrary: first)
  case Nil
  then show ?case by simp
next
  case (Cons x ms)
  show ?case
  proof (cases "m = x")
    case True
    then show ?thesis by (metis append.assoc serialize_from.simps(2))
  next
    case False
    with Cons.prems have "m \<in> set ms" by simp
    from Cons.IH [OF this, of False] obtain a b
      where "serialize_from False ms = a @ Role m @ '': '' @ Content m @ b" by blast
    then have "serialize_from first (x # ms) =
        ((if first then [] else [CHR 0x0A]) @ Role x @ '': '' @ Content x @ a)
          @ Role m @ '': '' @ Content m @ b"
      by simp
    then show ?thesis by blast
  qed
qed

text \<open>The guarded input text is the text of the last user message.\<close>

lemma ExtractInputText_last_user:
  assumes "Messages r = ms @ m # ns" and "Role m = ''user''"
    and "\<forall>n \<in> set ns. Role n \<noteq> ''user''"
  shows "ExtractInputText r = Content m"
proof -
  have "find (\<lambda>m. Role m = ''user'') (xs @ m # rev ms) = Some m"
    if "\<forall>n \<in> set xs. Role n \<noteq> ''user''" for xs
    using that assms(2) by (induction xs) auto
  from this [of "rev ns"] show ?thesis
    using assms(3) by (simp add: ExtractInputText_def assms(1))
qed

lemma ExtractInputText_no_user:
  "\<forall>m \<in> set (Messages r). Role m \<noteq> ''user'' \<Longrightarrow> ExtractInputText r = []"
  by (simp add: ExtractInputText_def find_None_iff [THEN iffD2])

end
