(* ===== verification/Llm_Client.thy ===== *)
theory Llm_Client
  imports Llm_Types
begin

text \<open>
  \<open>internal/shared/llm/client.go\<close>: the client of the model provider with its retries and
  exponential backoff.
\<close>

record client =
  c_baseURL :: string
  c_timeout :: int
  maxRetries :: int
  baseBackoff :: int  \<comment> \<open>nanoseconds\<close>

definition NewClient :: "string \<Rightarrow> int \<Rightarrow> client" where
  "NewClient baseURL timeout =
     \<lparr>c_baseURL = baseURL, c_timeout = timeout, maxRetries = 2, baseBackoff = 200 * 10 ^ 6\<rparr>"

definition WithRetry :: "int \<Rightarrow> int \<Rightarrow> client \<Rightarrow> client" where
  "WithRetry retries backoff c =
     (let retries = (if retries < 0 then 0 else retries);
          c = c\<lparr>maxRetries := retries\<rparr>
      in if backoff > 0 then c\<lparr>baseBackoff := backoff\<rparr> else c)"

subsection \<open>One attempt\<close>

text \<open>
  What attempt number \<open>n\<close> meets: the network, whether a transport error is a cancellation or a
  deadline (\<open>errors.Is\<close>), an error while the body is read, \<open>ctx.Err()\<close> right after the
  attempt, and \<open>ctx.Err()\<close> when the context ends during the wait before it.
\<close>

record attempt_env =
  ae_net :: network
  ae_cancelled :: "go_error \<Rightarrow> bool"
  ae_read_err :: "go_error option"
  ae_ctx_err :: "go_error option"
  ae_wait_err :: "go_error option"

datatype attempt_result =
    Answer chat_response
  | Failure (retryable: bool) (failure: go_error)

definition chat_http_request :: "string \<Rightarrow> string \<Rightarrow> chat_request \<Rightarrow> http_request" where
  "chat_http_request baseURL apiKey req =
     post_request (baseURL @ ''/chat/completions'') [(''Authorization'', ''Bearer '' @ apiKey)]
       (marshal_request req)"

definition doOnce :: "attempt_env \<Rightarrow> string \<Rightarrow> string \<Rightarrow> chat_request \<Rightarrow> attempt_result" where
  "doOnce env baseURL apiKey req =
     (case ae_net env (chat_http_request baseURL apiKey req) of
        Build_error e \<Rightarrow> Failure False (''creating request: '' @ e)
      | Do_error e \<Rightarrow>
          Failure (ae_ctx_err env = None \<and> \<not> ae_cancelled env e)
            (''sending request to LLM gateway: '' @ e)
      | Response status body \<Rightarrow>
          (case ae_read_err env of
             Some e \<Rightarrow> Failure True (''reading response: '' @ e)
           | None \<Rightarrow>
               if status \<noteq> 200
               then (let retry = (status = 429 \<or> status \<ge> 500);
                         text = (case unmarshal_body body of
                             Inl _ \<Rightarrow> b_text body
                           | Inr j \<Rightarrow> (case error_message j of
                               Some msg \<Rightarrow> if msg \<noteq> [] then msg else b_text body
                             | None \<Rightarrow> b_text body))
                     in Failure retry (''LLM gateway error (HTTP '' @ int_text status @ ''): '' @ text))
               else (case res_bind (unmarshal_body body) unmarshal_response of
                   Inl e \<Rightarrow> Failure False (''decoding response: '' @ e)
                 | Inr resp \<Rightarrow> Answer resp)))"

subsection \<open>The retry loop\<close>

text \<open>\<open>time.Duration\<close> is an int64; doubling wraps around.\<close>

definition wrap64 :: "int \<Rightarrow> int" where
  "wrap64 x = (x + 2 ^ 63) mod 2 ^ 64 - 2 ^ 63"

record llm_outcome =
  lo_result :: "chat_response res"
  lo_attempts :: nat  \<comment> \<open>requests sent\<close>
  lo_waits :: "int list"  \<comment> \<open>the waits that were begun\<close>
  lo_retries :: nat  \<comment> \<open>the counter of retries\<close>

text \<open>
  The loop from attempt \<open>attempt\<close> on with \<open>left\<close> attempts left; \<open>waits\<close> are those begun so
  far.
\<close>

fun attempts_from ::
    "client \<Rightarrow> (nat \<Rightarrow> attempt_env) \<Rightarrow> (attempt_env \<Rightarrow> attempt_result) \<Rightarrow> nat \<Rightarrow> nat \<Rightarrow> int \<Rightarrow> go_error
     \<Rightarrow> int list \<Rightarrow> llm_outcome" where
  "attempts_from c envs once 0 attempt backoff lastErr waits =
     \<lparr>lo_result = Inl (''LLM gateway request failed after '' @ int_text (maxRetries c + 1) @ '' attempts: '' @ lastErr),
      lo_attempts = attempt, lo_waits = waits, lo_retries = attempt - 1\<rparr>"
| "attempts_from c envs once (Suc left) attempt backoff lastErr waits =
     (let env = envs attempt;
          waits' = (if attempt > 0 then waits @ [backoff] else waits)
      in if attempt > 0 \<and> ae_wait_err env \<noteq> None
         then \<lparr>lo_result = Inl (the (ae_wait_err env)), lo_attempts = attempt, lo_waits = waits',
               lo_retries = attempt - 1\<rparr>
         else (let backoff' = (if attempt > 0 then wrap64 (backoff * 2) else backoff) in
           case once env of
             Answer resp \<Rightarrow> \<lparr>lo_result = Inr resp, lo_attempts = Suc attempt, lo_waits = waits', lo_retries = attempt\<rparr>
           | Failure retry err \<Rightarrow>
               if \<not> retry \<or> ae_ctx_err env \<noteq> None
               then \<lparr>lo_result = Inl err, lo_attempts = Suc attempt, lo_waits = waits', lo_retries = attempt\<rparr>
               else attempts_from c envs once left (Suc attempt) backoff' err waits'))"

definition ChatCompletionAt ::
    "client \<Rightarrow> (nat \<Rightarrow> attempt_env) \<Rightarrow> string \<Rightarrow> string \<Rightarrow> chat_request \<Rightarrow> llm_outcome" where
  "ChatCompletionAt c envs baseURL apiKey req =
     (let url = (if baseURL = [] then c_baseURL c else baseURL)
      in attempts_from c envs (\<lambda>env. doOnce env url apiKey req) (nat (maxRetries c + 1)) 0 (baseBackoff c) [] [])"

definition ChatCompletion :: "client \<Rightarrow> (nat \<Rightarrow> attempt_env) \<Rightarrow> string \<Rightarrow> chat_request \<Rightarrow> llm_outcome" where
  "ChatCompletion c envs apiKey req = ChatCompletionAt c envs [] apiKey req"

text \<open>The metrics of one call: requests by outcome, prompt and completion tokens.\<close>

definition llm_metrics :: "llm_outcome \<Rightarrow> string \<times> int \<times> int" where
  "llm_metrics r =
     (case lo_result r of
        Inl _ \<Rightarrow> (''error'', 0, 0)
      | Inr resp \<Rightarrow> (''success'', PromptTokens (Usage resp), CompletionTokens (Usage resp)))"

subsection \<open>How often and when it retries\<close>

text \<open>Attempt \<open>i\<close> failed and is worth another one.\<close>

definition goes_on :: "(nat \<Rightarrow> attempt_env) \<Rightarrow> (attempt_env \<Rightarrow> attempt_result) \<Rightarrow> nat \<Rightarrow> bool" where
  "goes_on envs once i \<longleftrightarrow>
     (case once (envs i) of Answer _ \<Rightarrow> False | Failure retry _ \<Rightarrow> retry \<and> ae_ctx_err (envs i) = None)"

text \<open>How a run of the loop ended: at attempt \<open>n\<close>, with the result it gave.\<close>

definition ends_at :: "client \<Rightarrow> (nat \<Rightarrow> attempt_env) \<Rightarrow> (attempt_env \<Rightarrow> attempt_result) \<Rightarrow> nat \<Rightarrow> nat
    \<Rightarrow> chat_response res \<Rightarrow> bool" where
  "ends_at c envs once n bound r \<longleftrightarrow>
     (0 < n \<and> \<not> goes_on envs once (n - 1)
        \<and> r = (case once (envs (n - 1)) of Answer resp \<Rightarrow> Inr resp | Failure _ e \<Rightarrow> Inl e))
     \<or> (0 < n \<and> n < bound \<and> goes_on envs once (n - 1) \<and> ae_wait_err (envs n) \<noteq> None
        \<and> r = Inl (the (ae_wait_err (envs n))))
     \<or> (0 < n \<and> n = bound \<and> goes_on envs once (n - 1)
        \<and> (\<exists>e retry. once (envs (n - 1)) = Failure retry e
             \<and> r = Inl (''LLM gateway request failed after '' @ int_text (maxRetries c + 1) @ '' attempts: '' @ e)))"

lemma attempts_from_again:
  assumes "attempt = 0 \<or> ae_wait_err (envs attempt) = None"
    and "once (envs attempt) = Failure True err" and "ae_ctx_err (envs attempt) = None"
  shows "attempts_from c envs once (Suc left) attempt backoff lastErr waits =
    attempts_from c envs once left (Suc attempt) (if attempt > 0 then wrap64 (backoff * 2) else backoff) err
      (if attempt > 0 then waits @ [backoff] else waits)"
  using assms by (cases attempt) (simp_all add: Let_def)

lemma attempts_from_ends:
  assumes "r = attempts_from c envs once left attempt backoff lastErr waits"
    and "\<forall>i < attempt. goes_on envs once i"
    and "0 < attempt \<longrightarrow> (\<exists>retry. once (envs (attempt - 1)) = Failure retry lastErr)"
    and "0 < attempt + left"
  shows "attempt \<le> lo_attempts r \<and> lo_attempts r \<le> attempt + left
       \<and> (\<forall>i < lo_attempts r - 1. goes_on envs once i)
       \<and> ends_at c envs once (lo_attempts r) (attempt + left) (lo_result r)
       \<and> lo_retries r = lo_attempts r - 1"
  using assms
proof (induction left arbitrary: attempt backoff lastErr waits)
  case 0
  then have "0 < attempt" and "goes_on envs once (attempt - 1)" by simp_all
  with 0 show ?case by (auto simp: ends_at_def)
next
  case (Suc left)
  let ?env = "envs attempt"
  show ?case
  proof (cases "attempt > 0 \<and> ae_wait_err ?env \<noteq> None")
    case True
    then have "goes_on envs once (attempt - 1)" using Suc.prems(2) by simp
    with True Suc.prems show ?thesis by (simp add: Let_def ends_at_def)
  next
    case no_wait_err: False
    show ?thesis
    proof (cases "goes_on envs once attempt")
      case False
      then have "lo_attempts r = Suc attempt \<and> lo_retries r = attempt
          \<and> lo_result r = (case once ?env of Answer resp \<Rightarrow> Inr resp | Failure _ e \<Rightarrow> Inl e)"
        using Suc.prems(1) no_wait_err
        by (cases "once ?env") (auto simp: Let_def goes_on_def)
      with False Suc.prems(2) show ?thesis by (simp add: ends_at_def)
    next
      case True
      then obtain retry err where once: "once ?env = Failure retry err" "retry" "ae_ctx_err ?env = None"
        by (auto simp: goes_on_def split: attempt_result.splits)
      let ?waits = "if attempt > 0 then waits @ [backoff] else waits"
      have r: "r = attempts_from c envs once left (Suc attempt)
          (if attempt > 0 then wrap64 (backoff * 2) else backoff) err ?waits"
        unfolding Suc.prems(1) by (rule attempts_from_again) (use no_wait_err once in auto)
      have "\<forall>i < Suc attempt. goes_on envs once i" using Suc.prems(2) True by (auto simp: less_Suc_eq)
      moreover have "0 < Suc attempt \<longrightarrow> (\<exists>retry. once (envs (Suc attempt - 1)) = Failure retry err)"
        using once(1) by auto
      ultimately have "Suc attempt \<le> lo_attempts r \<and> lo_attempts r \<le> Suc attempt + left
         \<and> (\<forall>i < lo_attempts r - 1. goes_on envs once i)
         \<and> ends_at c envs once (lo_attempts r) (Suc attempt + left) (lo_result r)
         \<and> lo_retries r = lo_attempts r - 1"
        by (rule Suc.IH [OF r]) simp
      then show ?thesis by simp
    qed
  qed
qed

text \<open>
  C26: the retry policy. A call makes at least one attempt and at most \<open>maxRetries + 1\<close> (for a
  client whose retry count is not negative, which \<open>WithRetry\<close> ensures); it goes on after an attempt
  exactly when that attempt failed transiently (connection error outside cancellation, body read
  error, HTTP 429 or 5xx) with the context alive; and its result is that of the last attempt, the
  context's error when it ended during a wait, or the last error once the attempts are used up.
\<close>

theorem retry_policy:
  fixes c :: client and baseURL apiKey :: string and req :: chat_request
  assumes "0 \<le> maxRetries c"
  defines "once \<equiv> (\<lambda>env. doOnce env (if baseURL = [] then c_baseURL c else baseURL) apiKey req)"
  shows "let r = ChatCompletionAt c envs baseURL apiKey req
         in 1 \<le> lo_attempts r \<and> int (lo_attempts r) \<le> maxRetries c + 1
          \<and> (\<forall>i < lo_attempts r - 1. goes_on envs once i)
          \<and> ends_at c envs once (lo_attempts r) (nat (maxRetries c + 1)) (lo_result r)
          \<and> lo_retries r = lo_attempts r - 1"
proof -
  let ?r = "ChatCompletionAt c envs baseURL apiKey req"
  have "?r = attempts_from c envs once (nat (maxRetries c + 1)) 0 (baseBackoff c) [] []"
    by (simp add: ChatCompletionAt_def once_def Let_def)
  from attempts_from_ends [OF this] assms(1)
  have *: "lo_attempts ?r \<le> nat (maxRetries c + 1) \<and> (\<forall>i < lo_attempts ?r - 1. goes_on envs once i)
       \<and> ends_at c envs once (lo_attempts ?r) (nat (maxRetries c + 1)) (lo_result ?r)
       \<and> lo_retries ?r = lo_attempts ?r - 1"
    by simp
  moreover from this have "1 \<le> lo_attempts ?r" by (auto simp: ends_at_def)
  moreover from * assms(1) have "int (lo_attempts ?r) \<le> maxRetries c + 1" by linarith
  ultimately show ?thesis using assms(1) by (simp add: Let_def)
qed

text \<open>The provider is overloaded once and answers the second time.\<close>

theorem retry_policy_witness:
  "let r = ChatCompletionAt (NewClient ''http://gw'' 30)
         (\<lambda>n. \<lparr>ae_net = (\<lambda>_. if n = 0 then Response 503 \<lparr>b_value = None, b_end = 0, b_trailing = False, b_text = ''busy''\<rparr>
                            else Response 200 \<lparr>b_value = Some (JObj []), b_end = 2, b_trailing = False, b_text = []\<rparr>),
               ae_cancelled = (\<lambda>_. False), ae_read_err = None, ae_ctx_err = None, ae_wait_err = None\<rparr>)
         [] ''key'' \<lparr>req_Model = ''m'', Messages = [], Stream = False, req_extra = []\<rparr>
   in lo_attempts r = 2 \<and> \<not> is_err (lo_result r) \<and> lo_retries r = 1"
proof -
  let ?envs = "\<lambda>n :: nat. \<lparr>ae_net = (\<lambda>_. if n = 0 then Response 503 \<lparr>b_value = None, b_end = 0, b_trailing = False, b_text = ''busy''\<rparr>
                            else Response 200 \<lparr>b_value = Some (JObj []), b_end = 2, b_trailing = False, b_text = []\<rparr>),
               ae_cancelled = (\<lambda>_. False), ae_read_err = None, ae_ctx_err = None, ae_wait_err = None\<rparr>"
  let ?req = "\<lparr>req_Model = ''m'', Messages = [], Stream = False, req_extra = []\<rparr>"
  let ?c = "NewClient ''http://gw'' 30"
  let ?r = "ChatCompletionAt ?c ?envs [] ''key'' ?req"
  have "0 \<le> maxRetries ?c" by (simp add: NewClient_def)
  from retry_policy [OF this, where baseURL = "[]" and apiKey = "''key''" and req = ?req and envs = ?envs]
  have "lo_retries ?r = lo_attempts ?r - 1" by (simp add: Let_def)
  moreover have "lo_attempts ?r = 2 \<and> \<not> is_err (lo_result ?r)"
  proof -
    have n: "nat (maxRetries ?c + 1) = Suc (Suc (Suc 0))" by (simp add: NewClient_def)
    obtain e where "doOnce (?envs 0) (c_baseURL ?c) ''key'' ?req = Failure True e"
      by (simp add: doOnce_def Let_def)
    moreover obtain resp where "doOnce (?envs (Suc 0)) (c_baseURL ?c) ''key'' ?req = Answer resp"
      by (simp add: doOnce_def unmarshal_body_def unmarshal_response_def raw_members_def)
    ultimately show ?thesis
      unfolding ChatCompletionAt_def n by (simp add: Let_def)
  qed
  ultimately show ?thesis by (simp add: Let_def)
qed

subsection \<open>The waits\<close>

lemma wrap64_id: "- (2 ^ 63) \<le> x \<Longrightarrow> x < 2 ^ 63 \<Longrightarrow> wrap64 x = x"
  by (simp add: wrap64_def)

lemma attempts_from_waits:
  assumes "0 < base" and "base * 2 ^ (attempt + left) < 2 ^ 63"
    and "waits = map (\<lambda>k. base * 2 ^ k) [0..<attempt - 1]"
    and "backoff = base * 2 ^ (attempt - 1)"
  shows "\<exists>k. lo_waits (attempts_from c envs once left attempt backoff lastErr waits) = map (\<lambda>k. base * 2 ^ k) [0..<k]
           \<and> k \<le> attempt + left - 1
           \<and> lo_attempts (attempts_from c envs once left attempt backoff lastErr waits) \<le> Suc k
           \<and> k \<le> lo_attempts (attempts_from c envs once left attempt backoff lastErr waits)"
  using assms(2-4)
proof (induction left arbitrary: attempt backoff lastErr waits)
  case 0
  then show ?case by (intro exI [of _ "attempt - 1"]) auto
next
  case (Suc left)
  let ?waits = "if attempt > 0 then waits @ [backoff] else waits"
  let ?backoff = "if attempt > 0 then wrap64 (backoff * 2) else backoff"
  have w: "?waits = map (\<lambda>k. base * 2 ^ k) [0..<attempt]"
    using Suc.prems(2,3) by (cases attempt) simp_all
  have "base * 2 ^ attempt \<le> base * 2 ^ (attempt + Suc left)"
    using assms(1) by (intro mult_left_mono power_increasing) simp_all
  with Suc.prems(1) have lt: "base * 2 ^ attempt < 2 ^ 63" by linarith
  have b: "?backoff = base * 2 ^ attempt"
  proof (cases attempt)
    case 0
    then show ?thesis using Suc.prems(3) by simp
  next
    case (Suc a)
    have "0 \<le> base * 2 ^ attempt" using assms(1) by simp
    with lt have "wrap64 (base * 2 ^ attempt) = base * 2 ^ attempt" by (intro wrap64_id) linarith+
    then show ?thesis using Suc Suc.prems(3) by (simp add: ac_simps)
  qed
  have IH: "\<exists>k. lo_waits (attempts_from c envs once left (Suc attempt) ?backoff e ?waits) = map (\<lambda>k. base * 2 ^ k) [0..<k]
           \<and> k \<le> attempt + Suc left - 1
           \<and> lo_attempts (attempts_from c envs once left (Suc attempt) ?backoff e ?waits) \<le> Suc k
           \<and> k \<le> lo_attempts (attempts_from c envs once left (Suc attempt) ?backoff e ?waits)" for e
    using Suc.IH [of "Suc attempt" ?waits ?backoff e] Suc.prems(1) w b by simp
  show ?case
  proof (cases "(attempt > 0 \<and> ae_wait_err (envs attempt) \<noteq> None) \<or> \<not> goes_on envs once attempt")
    case True
    then have "lo_waits (attempts_from c envs once (Suc left) attempt backoff lastErr waits) = ?waits
        \<and> lo_attempts (attempts_from c envs once (Suc left) attempt backoff lastErr waits) \<in> {attempt, Suc attempt}"
      by (cases "once (envs attempt)") (auto simp: Let_def goes_on_def)
    with w show ?thesis by (intro exI [of _ attempt]) (auto simp del: attempts_from.simps)
  next
    case False
    then obtain retry err where "once (envs attempt) = Failure retry err" "retry" "ae_ctx_err (envs attempt) = None"
      by (auto simp: goes_on_def split: attempt_result.splits)
    with False have "attempts_from c envs once (Suc left) attempt backoff lastErr waits
        = attempts_from c envs once left (Suc attempt) ?backoff err ?waits"
      by (intro attempts_from_again) auto
    with IH [of err] show ?thesis by simp
  qed
qed

text \<open>
  The waits double. As long as the last wait the configuration allows fits an int64, the waits
  before the retries are the base backoff, twice it, four times it and so on, there are at most
  \<open>maxRetries\<close> of them, and there is one per attempt after the first (the last one may end early).
  A call therefore waits for less than \<open>2 ^ maxRetries\<close> times the base backoff.
\<close>

theorem backoff_doubles:
  assumes "0 \<le> maxRetries c" and "0 < baseBackoff c"
    and "baseBackoff c * 2 ^ nat (maxRetries c + 1) < 2 ^ 63"
  shows "\<exists>k. lo_waits (ChatCompletionAt c envs baseURL apiKey req) = map (\<lambda>i. baseBackoff c * 2 ^ i) [0..<k]
           \<and> int k \<le> maxRetries c
           \<and> lo_attempts (ChatCompletionAt c envs baseURL apiKey req) - 1 \<le> k
           \<and> sum_list (lo_waits (ChatCompletionAt c envs baseURL apiKey req))
               < baseBackoff c * 2 ^ nat (maxRetries c)"
proof -
  let ?r = "ChatCompletionAt c envs baseURL apiKey req"
  obtain k where k: "lo_waits ?r = map (\<lambda>i. baseBackoff c * 2 ^ i) [0..<k]" "k \<le> nat (maxRetries c + 1) - 1"
    "lo_attempts ?r \<le> Suc k"
    using attempts_from_waits [OF assms(2), of 0 "nat (maxRetries c + 1)" "[]" "baseBackoff c"] assms(3)
    unfolding ChatCompletionAt_def Let_def by fastforce
  have "sum_list (map (\<lambda>i. b * 2 ^ i) [0..<k]) = b * (2 ^ k - 1)" for b :: int and k
    by (induction k) (simp_all add: algebra_simps)
  then have "sum_list (lo_waits ?r) = baseBackoff c * (2 ^ k - 1)" using k(1) by simp
  also have "\<dots> < baseBackoff c * 2 ^ k" using assms(2) by simp
  also have "\<dots> \<le> baseBackoff c * 2 ^ nat (maxRetries c)"
    using assms(1,2) k(2) by (intro mult_left_mono power_increasing) auto
  finally have "sum_list (lo_waits ?r) < baseBackoff c * 2 ^ nat (maxRetries c)" .
  with k assms(1) show ?thesis by (intro exI [of _ k]) auto
qed

text \<open>The default client waits for less than 0.8 seconds in total.\<close>

theorem backoff_doubles_witness:
  "sum_list (lo_waits (ChatCompletionAt (NewClient ''http://gw'' 30)
      (\<lambda>n. \<lparr>ae_net = (\<lambda>_. Do_error ''refused''), ae_cancelled = (\<lambda>_. False), ae_read_err = None,
             ae_ctx_err = None, ae_wait_err = None\<rparr>)
      [] ''key'' \<lparr>req_Model = ''m'', Messages = [], Stream = False, req_extra = []\<rparr>)) < 800000000"
proof -
  let ?c = "NewClient ''http://gw'' 30"
  have c: "0 \<le> maxRetries ?c" "0 < baseBackoff ?c" "baseBackoff ?c * 2 ^ nat (maxRetries ?c + 1) < 2 ^ 63"
    by (simp_all add: NewClient_def)
  have m: "baseBackoff ?c * 2 ^ nat (maxRetries ?c) = 800000000" by (simp add: NewClient_def)
  show ?thesis
    using backoff_doubles [OF c, where baseURL = "[]" and apiKey = "''key''"] unfolding m by blast
qed

end
