(* ===== verification/Transform_State.thy ===== *)
theory Transform_State
  imports Guards_Remote
begin

text \<open>
  \<open>internal/shared/transform/state.go\<close>: the per-request store of placeholders and original
  values, and Go's \<open>strings.Replacer\<close> which restores the originals. Operations of one request run
  one after the other (the mutex only orders them), so the store is a value that is passed on.
\<close>

subsection \<open>The store\<close>

record transform_state =
  mappings :: "(string, string) gomap"  \<comment> \<open>placeholder to original\<close>
  counters :: "(string, int) gomap"

definition fresh_state :: transform_state where
  "fresh_state = \<lparr>mappings = [], counters = []\<rparr>"

text \<open>\<open>fmt.Sprintf("<%s_%d>", entityType, n)\<close>.\<close>

definition placeholder :: "string \<Rightarrow> int \<Rightarrow> string" where
  "placeholder entityType n = ''<'' @ entityType @ ''_'' @ int_text n @ ''>''"

definition counter :: "transform_state \<Rightarrow> string \<Rightarrow> int" where
  "counter s t = (case m_get (counters s) t of None \<Rightarrow> 0 | Some n \<Rightarrow> n)"

definition AllocatePlaceholder :: "string \<Rightarrow> string \<Rightarrow> transform_state \<Rightarrow> string \<times> transform_state" where
  "AllocatePlaceholder entityType original s =
     (case find (\<lambda>(p, v). v = original) (mappings s) of
        Some (p, _) \<Rightarrow> (p, s)
      | None \<Rightarrow>
          (let n = counter s entityType + 1;
               p = placeholder entityType n
           in (p, \<lparr>mappings = m_set p original (mappings s),
                   counters = m_set entityType n (counters s)\<rparr>)))"

definition Mappings :: "transform_state \<Rightarrow> (string, string) gomap" where
  "Mappings s = mappings s"

definition Len :: "transform_state \<Rightarrow> nat" where
  "Len s = length (mappings s)"

subsection \<open>The contract of a placeholder store\<close>

locale placeholder_store =
  fixes inv :: "'s \<Rightarrow> bool"
    and alloc :: "string \<Rightarrow> string \<Rightarrow> 's \<Rightarrow> string \<times> 's"
    and original_of :: "'s \<Rightarrow> string \<Rightarrow> string option"
  assumes alloc_inv: "inv s \<Longrightarrow> inv (snd (alloc t v s))"
    and alloc_lookup: "inv s \<Longrightarrow> original_of (snd (alloc t v s)) (fst (alloc t v s)) = Some v"
    and alloc_keeps: "inv s \<Longrightarrow> original_of s p = Some w \<Longrightarrow> original_of (snd (alloc t v s)) p = Some w"
    and one_placeholder: "inv s \<Longrightarrow> original_of s p = Some v \<Longrightarrow> original_of s q = Some v \<Longrightarrow> p = q"
begin

fun alloc_all :: "(string \<times> string) list \<Rightarrow> 's \<Rightarrow> string list \<times> 's" where
  "alloc_all [] s = ([], s)"
| "alloc_all ((t, v) # tvs) s =
     (case alloc t v s of (p, s1) \<Rightarrow> case alloc_all tvs s1 of (ps, s2) \<Rightarrow> (p # ps, s2))"

lemma alloc_all_inv: "inv s \<Longrightarrow> inv (snd (alloc_all tvs s))"
proof (induction tvs arbitrary: s)
  case (Cons tv tvs)
  obtain t v where tv: "tv = (t, v)" by (cases tv)
  from Cons.IH [of "snd (alloc t v s)"] alloc_inv [OF Cons.prems] show ?case
    by (simp add: tv split: prod.split) (metis snd_conv)
qed simp

lemma alloc_all_keeps:
  "inv s \<Longrightarrow> original_of s p = Some w \<Longrightarrow> original_of (snd (alloc_all tvs s)) p = Some w"
proof (induction tvs arbitrary: s)
  case (Cons tv tvs)
  obtain t v where tv: "tv = (t, v)" by (cases tv)
  from Cons.IH [of "snd (alloc t v s)"] Cons.prems alloc_inv [of s t v] alloc_keeps [of s p w t v]
  show ?case by (simp add: tv split: prod.split) (metis snd_conv)
qed simp

text \<open>In the final store every value is found under the placeholder it was given.\<close>

lemma alloc_all_lookup:
  "inv s \<Longrightarrow> map (original_of (snd (alloc_all tvs s))) (fst (alloc_all tvs s)) = map (Some \<circ> snd) tvs"
proof (induction tvs arbitrary: s)
  case (Cons tv tvs)
  obtain t v where tv: "tv = (t, v)" by (cases tv)
  obtain p s1 where a: "alloc t v s = (p, s1)" by fastforce
  have s1: "inv s1" "original_of s1 p = Some v"
    using alloc_inv [OF Cons.prems, of t v] alloc_lookup [OF Cons.prems, of t v] a by simp_all
  from Cons.IH [OF s1(1)] alloc_all_keeps [OF s1] show ?case
    by (simp add: tv a split: prod.split) (metis fst_conv snd_conv)
qed simp

text \<open>Two values get the same placeholder exactly when they are equal.\<close>

lemma alloc_all_coherent:
  assumes "inv s" and "i < length tvs" and "j < length tvs"
  shows "fst (alloc_all tvs s) ! i = fst (alloc_all tvs s) ! j \<longleftrightarrow> snd (tvs ! i) = snd (tvs ! j)"
proof -
  let ?ps = "fst (alloc_all tvs s)" and ?f = "original_of (snd (alloc_all tvs s))"
  have m: "map ?f ?ps = map (Some \<circ> snd) tvs" by (rule alloc_all_lookup [OF assms(1)])
  have l: "length ?ps = length tvs" using m by (metis length_map)
  have n: "?f (?ps ! k) = Some (snd (tvs ! k))" if "k < length tvs" for k
    using arg_cong [OF m, of "\<lambda>xs. xs ! k"] that l by simp
  show ?thesis
    using n [OF assms(2)] n [OF assms(3)] one_placeholder [OF alloc_all_inv [OF assms(1)]]
    by (metis option.inject)
qed

end

subsection \<open>The code's store fulfils it\<close>

lemma underscore_not_digit: "c \<in> set (itoa n) \<Longrightarrow> c \<noteq> CHR ''_'' \<and> c \<noteq> CHR ''<'' \<and> c \<noteq> CHR ''>''"
  by (drule itoa_of_char) auto

lemma last_split_unique:
  assumes "xs @ c # ys = xs' @ c # ys'" and "c \<notin> set ys" and "c \<notin> set ys'"
  shows "xs = xs' \<and> ys = ys'"
proof -
  have "takeWhile (\<lambda>x. x \<noteq> c) (rev (xs @ c # ys)) = rev ys"
    and "takeWhile (\<lambda>x. x \<noteq> c) (rev (xs' @ c # ys')) = rev ys'"
    using assms(2,3) by (auto simp: takeWhile_tail)
  with assms(1) have "ys = ys'" by simp
  with assms(1) show ?thesis by simp
qed

lemma placeholder_inject:
  assumes "0 \<le> m" and "0 \<le> n"
  shows "placeholder t m = placeholder u n \<longleftrightarrow> t = u \<and> m = n"
proof
  assume "placeholder t m = placeholder u n"
  with assms have "t @ CHR ''_'' # itoa (nat m) = u @ CHR ''_'' # itoa (nat n)"
    by (simp add: placeholder_def int_text_def)
  then have "t = u \<and> itoa (nat m) = itoa (nat n)"
    by (rule last_split_unique) (auto dest: underscore_not_digit)
  with assms show "t = u \<and> m = n" by (simp add: eq_nat_nat_iff)
qed simp

definition placeholder_inv :: "transform_state \<Rightarrow> bool" where
  "placeholder_inv s \<longleftrightarrow>
     distinct (map fst (mappings s)) \<and> distinct (map snd (mappings s))
     \<and> (\<forall>p \<in> fst ` set (mappings s). \<exists>t n. p = placeholder t n \<and> 1 \<le> n \<and> n \<le> counter s t)
     \<and> (\<forall>t. 0 \<le> counter s t)"

lemma placeholder_inv_fresh [simp]: "placeholder_inv fresh_state"
  by (simp add: placeholder_inv_def fresh_state_def counter_def)

lemma find_pair_None_iff: "find (\<lambda>(p, v). v = w) m = None \<longleftrightarrow> w \<notin> snd ` set m"
  by (induction m) auto

lemma find_pair_SomeD: "find (\<lambda>(p, v). v = w) m = Some (p, v) \<Longrightarrow> (p, w) \<in> set m \<and> v = w"
  by (induction m) (auto split: if_splits)

lemma fresh_placeholder:
  assumes "placeholder_inv s"
  shows "placeholder t (counter s t + 1) \<notin> fst ` set (mappings s)"
proof
  assume "placeholder t (counter s t + 1) \<in> fst ` set (mappings s)"
  with assms obtain u n where p: "placeholder t (counter s t + 1) = placeholder u n"
    and n: "1 \<le> n" "n \<le> counter s u"
    unfolding placeholder_inv_def by blast
  moreover have "0 \<le> counter s t" using assms by (simp add: placeholder_inv_def)
  ultimately show False by (auto simp: placeholder_inject)
qed

lemma AllocatePlaceholder_cases:
  assumes "placeholder_inv s"
  obtains (old) p where "AllocatePlaceholder t v s = (p, s)" and "(p, v) \<in> set (mappings s)"
  | (new) "v \<notin> snd ` set (mappings s)"
      and "AllocatePlaceholder t v s =
        (placeholder t (counter s t + 1),
         \<lparr>mappings = mappings s @ [(placeholder t (counter s t + 1), v)],
          counters = m_set t (counter s t + 1) (counters s)\<rparr>)"
proof (cases "find (\<lambda>(p, w). w = v) (mappings s)")
  case None
  then have "v \<notin> snd ` set (mappings s)" by (simp add: find_pair_None_iff)
  then show ?thesis
    by (rule new) (simp add: AllocatePlaceholder_def Let_def None m_set_new fresh_placeholder [OF assms])
next
  case (Some pv)
  obtain p w where pv: "pv = (p, w)" by (cases pv)
  show ?thesis
    by (rule old [of p]) (use Some find_pair_SomeD [of v "mappings s" p w] in
      \<open>auto simp: AllocatePlaceholder_def pv\<close>)
qed

lemma AllocatePlaceholder_inv:
  assumes "placeholder_inv s"
  shows "placeholder_inv (snd (AllocatePlaceholder t v s))"
  using assms
proof (cases rule: AllocatePlaceholder_cases [where t = t and v = v])
  case old
  with assms show ?thesis by simp
next
  case new
  let ?s = "snd (AllocatePlaceholder t v s)"
  have c: "counter ?s u = (if u = t then counter s t + 1 else counter s u)" for u
    unfolding new(2) by (simp add: counter_def m_get_set)
  have "\<exists>u n. p = placeholder u n \<and> 1 \<le> n \<and> n \<le> counter ?s u" if "p \<in> fst ` set (mappings s)" for p
    using that assms unfolding placeholder_inv_def c by (metis add_increasing2 zero_le_one)
  moreover have "\<exists>u n. placeholder t (counter s t + 1) = placeholder u n \<and> 1 \<le> n \<and> n \<le> counter ?s u"
    using assms unfolding placeholder_inv_def c
    by (metis add.commute le_add_same_cancel1 order_refl)
  ultimately have "\<forall>p \<in> fst ` set (mappings ?s). \<exists>u n. p = placeholder u n \<and> 1 \<le> n \<and> n \<le> counter ?s u"
    unfolding new(2) by auto
  moreover have "\<forall>u. 0 \<le> counter ?s u" using assms unfolding placeholder_inv_def c by simp
  moreover have "distinct (map fst (mappings ?s))" "distinct (map snd (mappings ?s))"
    using assms fresh_placeholder [OF assms, of t] new(1) unfolding new(2) placeholder_inv_def by auto
  ultimately show ?thesis unfolding placeholder_inv_def by blast
qed

definition original_of :: "transform_state \<Rightarrow> string \<Rightarrow> string option" where
  "original_of s p = m_get (mappings s) p"

interpretation store: placeholder_store placeholder_inv AllocatePlaceholder original_of
proof
  fix s t v p w q
  assume inv: "placeholder_inv s"
  then have d: "distinct (map fst (mappings s))" "distinct (map snd (mappings s))"
    by (simp_all add: placeholder_inv_def)
  have fr: "(placeholder t (counter s t + 1), x) \<notin> set (mappings s)" for x
    using fresh_placeholder [OF inv, of t] by force
  show "placeholder_inv (snd (AllocatePlaceholder t v s))" by (rule AllocatePlaceholder_inv [OF inv])
  from inv show "original_of (snd (AllocatePlaceholder t v s)) (fst (AllocatePlaceholder t v s)) = Some v"
    by (cases rule: AllocatePlaceholder_cases [where t = t and v = v])
      (use d fr in \<open>auto simp: original_of_def map_add_def
         map_of_eq_None_iff split: option.split\<close>)
  show "original_of (snd (AllocatePlaceholder t v s)) p = Some w" if "original_of s p = Some w"
    using inv by (cases rule: AllocatePlaceholder_cases [where t = t and v = v])
      (use that in \<open>auto simp: original_of_def map_add_def split: option.split\<close>)
  show "p = q" if "original_of s p = Some v" "original_of s q = Some v"
    using that d(2) by (auto simp: original_of_def dest!: map_of_SomeD)
      (metis distinct_map inj_onD prod.inject snd_conv)
qed

subsection \<open>strings.Replacer\<close>

text \<open>
  \<open>strings.NewReplacer(pairs...).Replace\<close> for old strings that are not empty: at each position of
  the text the first pair, in argument order, whose old string starts there is applied, and the
  scan goes on after it. \<open>strings.ReplaceAll\<close> is the case of one pair.
\<close>

function replacer :: "(string \<times> string) list \<Rightarrow> string \<Rightarrow> string" where
  "replacer prs [] = []"
| "replacer prs (c # s) =
     (case find (\<lambda>(old, new). old \<noteq> [] \<and> has_prefix (c # s) old) prs of
        Some (old, new) \<Rightarrow> new @ replacer prs (drop (length old - 1) s)
      | None \<Rightarrow> c # replacer prs s)"
  by pat_completeness auto
termination
  by (relation "measure (\<lambda>(prs, s). length s)") auto

lemma replacer_skip:
  assumes "\<forall>(old, new) \<in> set prs. old = [] \<or> hd old \<notin> set s"
  shows "replacer prs (s @ t) = s @ replacer prs t"
  using assms
proof (induction s)
  case (Cons c s)
  have "find (\<lambda>(old, new). old \<noteq> [] \<and> has_prefix (c # s @ t) old) prs = None"
    using Cons.prems by (auto simp: find_None_iff has_prefix_iff Cons_eq_append_conv)
  with Cons show ?case by auto
qed simp

lemma replacer_hit:
  assumes "(old, new) \<in> set prs" and "old \<noteq> []"
    and "\<And>old' new'. (old', new') \<in> set prs \<Longrightarrow> old' \<noteq> [] \<Longrightarrow> has_prefix (old @ t) old' \<Longrightarrow> (old', new') = (old, new)"
  shows "replacer prs (old @ t) = new @ replacer prs t"
proof -
  obtain c s where old: "old = c # s" using assms(2) by (cases old) auto
  let ?P = "\<lambda>(old', new' :: string). old' \<noteq> [] \<and> has_prefix (old @ t) old'"
  have "find ?P prs \<noteq> None"
    using assms(1,2) by (auto simp: find_None_iff intro!: bexI [of _ "(old, new)"])
  then obtain o' n' where f: "find ?P prs = Some (o', n')" by fastforce
  then have "(o', n') \<in> set prs" "o' \<noteq> []" "has_prefix (old @ t) o'"
    by (auto simp: find_Some_iff in_set_conv_nth)
  from assms(3) [OF this] f have "find ?P prs = Some (old, new)" by simp
  then show ?thesis unfolding old by simp
qed

subsection \<open>Coherent placeholders\<close>

text \<open>
  C23: a conversation stays coherent under reversible anonymization. From any well-formed store,
  after any sequence of allocations (entity type and value), the store is well formed, two of the
  values were given the same placeholder exactly when they are equal, whatever entity types they
  were reported under, and the final store gives every value back for its placeholder.
\<close>

theorem placeholders_coherent:
  assumes "placeholder_inv s"
  shows "let (ps, s') = store.alloc_all tvs s
         in placeholder_inv s' \<and> length ps = length tvs
          \<and> (\<forall>i j. max i j < length tvs \<longrightarrow> (ps ! i = ps ! j \<longleftrightarrow> snd (tvs ! i) = snd (tvs ! j)))
          \<and> map (m_get (mappings s')) ps = map (Some \<circ> snd) tvs"
proof -
  obtain ps s' where a: "store.alloc_all tvs s = (ps, s')" by fastforce
  have "placeholder_inv s'" using store.alloc_all_inv [OF assms, of tvs] a by simp
  moreover have m: "map (original_of s') ps = map (Some \<circ> snd) tvs"
    using store.alloc_all_lookup [OF assms, of tvs] a by simp
  moreover have "length ps = length tvs" using m by (metis length_map)
  moreover have "ps ! i = ps ! j \<longleftrightarrow> snd (tvs ! i) = snd (tvs ! j)" if "max i j < length tvs" for i j
    using store.alloc_all_coherent [OF assms, of i tvs j] that a by simp
  moreover have "map (original_of s') ps = map (m_get (mappings s')) ps"
    by (simp add: original_of_def)
  ultimately show ?thesis using a by simp
qed

text \<open>The value reported first as an e-mail address and later as a URL keeps its first placeholder.\<close>

theorem placeholders_coherent_witness:
  "fst (store.alloc_all [(''EMAIL'', ''a@b''), (''EMAIL'', ''c@d''), (''URL'', ''a@b'')] fresh_state)
     = [''<EMAIL_1>'', ''<EMAIL_2>'', ''<EMAIL_1>'']
   \<and> placeholder_inv (snd (store.alloc_all [(''EMAIL'', ''a@b''), (''EMAIL'', ''c@d''), (''URL'', ''a@b'')] fresh_state))"
proof
  show "fst (store.alloc_all [(''EMAIL'', ''a@b''), (''EMAIL'', ''c@d''), (''URL'', ''a@b'')] fresh_state)
     = [''<EMAIL_1>'', ''<EMAIL_2>'', ''<EMAIL_1>'']"
  proof -
    let ?s1 = "\<lparr>mappings = [(''<EMAIL_1>'', ''a@b'')], counters = [(''EMAIL'', 1)]\<rparr>"
    let ?s2 = "\<lparr>mappings = [(''<EMAIL_1>'', ''a@b''), (''<EMAIL_2>'', ''c@d'')], counters = [(''EMAIL'', 2)]\<rparr>"
    have "AllocatePlaceholder ''EMAIL'' ''a@b'' fresh_state = (''<EMAIL_1>'', ?s1)" by code_simp
    moreover have "AllocatePlaceholder ''EMAIL'' ''c@d'' ?s1 = (''<EMAIL_2>'', ?s2)" by code_simp
    moreover have "AllocatePlaceholder ''URL'' ''a@b'' ?s2 = (''<EMAIL_1>'', ?s2)" by code_simp
    ultimately show ?thesis by simp
  qed
  show "placeholder_inv (snd (store.alloc_all [(''EMAIL'', ''a@b''), (''EMAIL'', ''c@d''), (''URL'', ''a@b'')] fresh_state))"
    using placeholders_coherent [of fresh_state "[(''EMAIL'', ''a@b''), (''EMAIL'', ''c@d''), (''URL'', ''a@b'')]"]
    by (simp add: Let_def split: prod.splits del: store.alloc_all.simps)
qed

end
