(* ===== verification/Anonymization.thy ===== *)
theory Anonymization
  imports Transform_State "HOL-Library.Multiset"
begin

text \<open>
  The reversible mode of \<open>internal/shared/transform/presidio.go\<close> (the substitution loop of
  \<open>anonymizeReversibly\<close>) together with the restoring replacer of \<open>deanonymize.go\<close>: the round
  trip, and what overlapping detections do to it.
\<close>

subsection \<open>The substitution loop\<close>

text \<open>\<open>s[i:j]\<close> on bytes, for \<open>0 \<le> i \<le> j \<le> len(s)\<close>.\<close>

definition slice :: "int \<Rightarrow> int \<Rightarrow> string \<Rightarrow> string" where
  "slice i j s = take (nat j - nat i) (drop (nat i) s)"

fun substitute :: "detection list \<Rightarrow> string \<Rightarrow> transform_state \<Rightarrow> string \<times> transform_state" where
  "substitute [] out s = (out, s)"
| "substitute (r # rs) out s =
     (if Start r < 0 \<or> End r > int (length out) \<or> Start r \<ge> End r then substitute rs out s
      else case AllocatePlaceholder (EntityType r) (slice (Start r) (End r) out) s of
        (p, s') \<Rightarrow> substitute rs (take (nat (Start r)) out @ p @ drop (nat (End r)) out) s')"

text \<open>
  \<open>sort.Slice\<close> by descending start. Go leaves the order of equal starts open; the model keeps
  their order of arrival, which is what Go does on up to twelve elements.
\<close>

definition back_to_front :: "detection list \<Rightarrow> detection list" where
  "back_to_front ds = sort_key (\<lambda>r. - Start r) ds"

definition substitute_all :: "detection list \<Rightarrow> string \<Rightarrow> transform_state \<Rightarrow> string \<times> transform_state" where
  "substitute_all ds text s = substitute (back_to_front ds) text s"

subsection \<open>Placeholders that cannot be confused\<close>

definition plain :: "string \<Rightarrow> bool" where
  "plain t \<longleftrightarrow> CHR ''<'' \<notin> set t \<and> CHR ''>'' \<notin> set t"

definition bracketed :: "string \<Rightarrow> bool" where
  "bracketed p \<longleftrightarrow> (\<exists>w. plain w \<and> p = CHR ''<'' # w @ ''>'')"

lemma bracketed_placeholder: "plain t \<Longrightarrow> 0 \<le> n \<Longrightarrow> bracketed (placeholder t n)"
  unfolding bracketed_def placeholder_def
  by (rule exI [of _ "t @ ''_'' @ int_text n"]) (auto simp: plain_def int_text_def dest: underscore_not_digit)

lemma bracketed_unique:
  assumes "bracketed p" and "bracketed q" and "p @ t = q @ u"
  shows "p = q"
proof -
  obtain v w where "plain v" "p = CHR ''<'' # v @ ''>''" "plain w" "q = CHR ''<'' # w @ ''>''"
    using assms(1,2) unfolding bracketed_def by blast
  moreover from this have "takeWhile (\<lambda>c. c \<noteq> CHR ''>'') (v @ CHR ''>'' # t) = v"
    and "takeWhile (\<lambda>c. c \<noteq> CHR ''>'') (w @ CHR ''>'' # u) = w"
    by (auto simp: plain_def takeWhile_tail)
  ultimately show ?thesis using assms(3) by simp
qed

text \<open>A table from which the texts of a state can be restored, in any order of its entries.\<close>

definition restoring :: "(string \<times> string) list \<Rightarrow> transform_state \<Rightarrow> bool" where
  "restoring prs s \<longleftrightarrow> distinct (map fst prs) \<and> (\<forall>p \<in> fst ` set prs. bracketed p) \<and> set (mappings s) \<subseteq> set prs"

lemma restoring_hit:
  assumes "restoring prs s" and "(p, v) \<in> set (mappings s)"
  shows "replacer prs (p @ t) = v @ replacer prs t"
proof (rule replacer_hit)
  from assms show pv: "(p, v) \<in> set prs" by (auto simp: restoring_def)
  with assms(1) have p: "bracketed p" by (force simp: restoring_def)
  then show "p \<noteq> []" by (auto simp: bracketed_def)
  fix q w
  assume qw: "(q, w) \<in> set prs" and "has_prefix (p @ t) q"
  with assms(1) have "bracketed q" by (force simp: restoring_def)
  with p \<open>has_prefix (p @ t) q\<close> have "q = p"
    unfolding has_prefix_iff by (metis bracketed_unique)
  with qw pv assms(1) show "(q, w) = (p, v)"
    unfolding restoring_def by (metis eq_key_imp_eq_value)
qed

lemma restoring_skip:
  assumes "restoring prs s" and "CHR ''<'' \<notin> set t"
  shows "replacer prs (t @ u) = t @ replacer prs u"
  by (rule replacer_skip) (use assms in \<open>force simp: restoring_def bracketed_def\<close>)

text \<open>Text made of recorded placeholders and of pieces without \<open><\<close>, and what it stands for.\<close>

datatype piece = Literal string | Recorded string

fun piece_text :: "piece \<Rightarrow> string" where
  "piece_text (Literal t) = t"
| "piece_text (Recorded p) = p"

fun piece_ok :: "transform_state \<Rightarrow> piece \<Rightarrow> bool" where
  "piece_ok s (Literal t) = (CHR ''<'' \<notin> set t)"
| "piece_ok s (Recorded p) = (p \<in> fst ` set (mappings s))"

fun piece_meaning :: "transform_state \<Rightarrow> piece \<Rightarrow> string" where
  "piece_meaning s (Literal t) = t"
| "piece_meaning s (Recorded p) = the (original_of s p)"

lemma restoring_lookup:
  "restoring prs s \<Longrightarrow> distinct (map fst (mappings s)) \<Longrightarrow> p \<in> fst ` set (mappings s) \<Longrightarrow>
   (p, the (original_of s p)) \<in> set (mappings s)"
  by (auto simp: original_of_def)

lemma replacer_pieces:
  assumes "restoring prs s" and "placeholder_inv s" and "list_all (piece_ok s) ps"
  shows "replacer prs (concat (map piece_text ps)) = concat (map (piece_meaning s) ps)"
  using assms(3)
proof (induction ps)
  case (Cons p ps)
  then show ?case
  proof (cases p)
    case (Recorded q)
    with Cons.prems assms(2) have "(q, the (original_of s q)) \<in> set (mappings s)"
      by (intro restoring_lookup [OF assms(1)]) (auto simp: placeholder_inv_def)
    from restoring_hit [OF assms(1) this] Recorded Cons show ?thesis by simp
  qed (auto simp: restoring_skip [OF assms(1)])
qed simp

subsection \<open>The round trip\<close>

definition spans_ok :: "int \<Rightarrow> detection list \<Rightarrow> bool" where
  "spans_ok b ds \<longleftrightarrow> sorted_wrt (\<lambda>d e. End e \<le> Start d) ds
     \<and> (\<forall>d \<in> set ds. 0 \<le> Start d \<and> Start d < End d \<and> End d \<le> b \<and> plain (EntityType d))"

definition clean :: "transform_state \<Rightarrow> bool" where
  "clean s \<longleftrightarrow> placeholder_inv s \<and> (\<forall>p \<in> fst ` set (mappings s). bracketed p)"

lemma AllocatePlaceholder_clean:
  assumes "clean s" and "plain t" and "AllocatePlaceholder t v s = (p, s')"
  shows "clean s'" and "(p, v) \<in> set (mappings s')" and "set (mappings s) \<subseteq> set (mappings s')"
proof -
  from assms(1) have inv: "placeholder_inv s" and br: "\<forall>p \<in> fst ` set (mappings s). bracketed p"
    by (simp_all add: clean_def)
  have inv': "placeholder_inv s'" using AllocatePlaceholder_inv [OF inv, of t v] assms(3) by simp
  have n: "0 \<le> counter s t + 1" using inv by (simp add: placeholder_inv_def)
  from inv have "clean s' \<and> (p, v) \<in> set (mappings s') \<and> set (mappings s) \<subseteq> set (mappings s')"
    by (cases rule: AllocatePlaceholder_cases [where t = t and v = v])
      (use assms(3) inv' br bracketed_placeholder [OF assms(2) n] in \<open>auto simp: clean_def\<close>)
  then show "clean s'" "(p, v) \<in> set (mappings s')" "set (mappings s) \<subseteq> set (mappings s')" by simp_all
qed

lemma restoring_mono: "restoring prs s' \<Longrightarrow> set (mappings s) \<subseteq> set (mappings s') \<Longrightarrow> restoring prs s"
  by (auto simp: restoring_def)

lemma take_split:
  assumes "i \<le> j" and "j \<le> k"
  shows "drop i (take k xs) = take (j - i) (drop i xs) @ drop j (take k xs)"
proof -
  have "take (j - i) (drop i (take k xs)) = take (j - i) (drop i xs)"
    using diff_le_mono [OF assms(2), of i] by (simp add: drop_take min_def)
  moreover have "drop (j - i) (drop i (take k xs)) = drop j (take k xs)"
    using assms(1) by simp
  ultimately show ?thesis
    using append_take_drop_id [of "j - i" "drop i (take k xs)"] by simp
qed

text \<open>One detection inside the untouched part of the text.\<close>

lemma substitute_step:
  assumes "0 \<le> Start d" and "Start d < End d" and "End d \<le> int b" and "b \<le> length text"
  shows "substitute (d # ds) (take b text @ rest) s =
     (case AllocatePlaceholder (EntityType d) (slice (Start d) (End d) text) s of
        (p, s') \<Rightarrow> substitute ds (take (nat (Start d)) text
           @ p @ drop (nat (End d)) (take b text) @ rest) s')"
proof -
  have e: "nat (End d) \<le> b" "nat (Start d) \<le> b" using assms by linarith+
  have "\<not> (Start d < 0 \<or> End d > int (length (take b text @ rest)) \<or> Start d \<ge> End d)"
    using assms by simp
  moreover have "slice (Start d) (End d) (take b text @ rest) = slice (Start d) (End d) text"
    using e assms(4) diff_le_mono [OF e(1), of "nat (Start d)"] by (simp add: slice_def drop_take min_def)
  moreover have "take (nat (Start d)) (take b text @ rest) = take (nat (Start d)) text"
    and "drop (nat (End d)) (take b text @ rest) = drop (nat (End d)) (take b text) @ rest"
    using e assms(4) by (simp_all add: min_def)
  ultimately show ?thesis by simp
qed

lemma substitute_restores:
  assumes "spans_ok (int b) ds" and "b \<le> length text" and "CHR ''<'' \<notin> set text" and "clean s"
    and "\<And>prs. restoring prs s \<Longrightarrow> replacer prs rest = drop b text"
    and "substitute ds (take b text @ rest) s = (out, s')"
  shows "clean s' \<and> set (mappings s) \<subseteq> set (mappings s')
         \<and> (\<forall>prs. restoring prs s' \<longrightarrow> replacer prs out = text)"
  using assms
proof (induction ds arbitrary: b rest s)
  case Nil
  have "replacer prs (take b text @ rest) = text" if "restoring prs s" for prs
  proof -
    have "CHR ''<'' \<notin> set (take b text)" using Nil.prems(3) by (metis in_set_takeD)
    from restoring_skip [OF that this] Nil.prems(5) [OF that] show ?thesis by simp
  qed
  with Nil show ?case by auto
next
  case (Cons d ds)
  from Cons.prems(1) have d: "0 \<le> Start d" "Start d < End d" "End d \<le> int b" "plain (EntityType d)"
    and ds: "spans_ok (int (nat (Start d))) ds"
    by (auto simp: spans_ok_def)
  let ?v = "slice (Start d) (End d) text" and ?mid = "drop (nat (End d)) (take b text)"
  obtain p s1 where a: "AllocatePlaceholder (EntityType d) ?v s = (p, s1)" by fastforce
  note c = AllocatePlaceholder_clean [OF Cons.prems(4) d(4) a]
  have st: "nat (Start d) \<le> length text" using d Cons.prems(2) by linarith
  have lt: "CHR ''<'' \<notin> set ?mid" using Cons.prems(3) by (metis in_set_dropD in_set_takeD)
  have "replacer prs (p @ ?mid @ rest) = drop (nat (Start d)) text" if r: "restoring prs s1" for prs
  proof -
    have "replacer prs (p @ ?mid @ rest) = ?v @ ?mid @ drop b text"
      using restoring_hit [OF r c(2)] restoring_skip [OF r lt] Cons.prems(5) [OF restoring_mono [OF r c(3)]]
      by simp
    moreover have "?v @ ?mid = drop (nat (Start d)) (take b text)"
      using d take_split [of "nat (Start d)" "nat (End d)" b "text"] by (simp add: slice_def)
    moreover have "drop (nat (Start d)) (take b text @ drop b text) = drop (nat (Start d)) (take b text) @ drop b text"
      unfolding drop_append using d Cons.prems(2) by simp
    ultimately show ?thesis by simp
  qed
  moreover have "substitute ds (take (nat (Start d)) text @ (p @ ?mid @ rest)) s1 = (out, s')"
    using Cons.prems(6) substitute_step [OF d(1,2,3) Cons.prems(2)] a by simp
  ultimately show ?case
    using Cons.IH [OF ds st Cons.prems(3) c(1)] c(3) by blast
qed

definition separated :: "detection list \<Rightarrow> bool" where
  "separated ds \<longleftrightarrow> distinct ds
     \<and> (\<forall>a \<in> set ds. \<forall>b \<in> set ds. a \<noteq> b \<longrightarrow> End a \<le> Start b \<or> End b \<le> Start a)"

lemma spans_ok_sorted:
  assumes "separated ds"
    and "\<forall>d \<in> set ds. 0 \<le> Start d \<and> Start d < End d \<and> End d \<le> b \<and> plain (EntityType d)"
  shows "spans_ok b (back_to_front ds)"
proof -
  let ?ds = "back_to_front ds"
  have st: "sorted (map (\<lambda>r. - Start r) ?ds)" and se: "set ?ds = set ds" and di: "distinct ?ds"
    using assms(1) by (simp_all add: back_to_front_def separated_def)
  have "End (?ds ! j) \<le> Start (?ds ! i)" if "i < j" "j < length ?ds" for i j
  proof -
    have "Start (?ds ! j) \<le> Start (?ds ! i)"
      using sorted_nth_mono [OF st, of i j] that by simp
    moreover have "?ds ! i \<noteq> ?ds ! j" using that di by (simp add: nth_eq_iff_index_eq)
    moreover have "?ds ! i \<in> set ds" "?ds ! j \<in> set ds" using that se by (metis nth_mem order.strict_trans)+
    moreover from this have "Start (?ds ! i) < End (?ds ! i)" using assms(2) by simp
    ultimately show ?thesis using assms(1) unfolding separated_def by fastforce
  qed
  then show ?thesis
    using assms(2) se by (simp add: spans_ok_def sorted_wrt_iff_nth_less)
qed

lemma clean_fresh [simp]: "clean fresh_state"
  by (simp add: clean_def) (simp add: fresh_state_def)



text \<open>
  The deanonymizer restores every recorded placeholder the model's answer mentions, as often
  and in whatever order it does, and changes nothing else: an answer put together from recorded
  placeholders and pieces without \<open><\<close> becomes the same pieces with the originals in place of the
  placeholders, whatever order the map of recorded placeholders is iterated in.
\<close>

theorem answer_restored:
  assumes "clean s" and "list_all (piece_ok s) ps" and "mset prs = mset (Mappings s)"
  shows "replacer prs (concat (map piece_text ps)) = concat (map (piece_meaning s) ps)"
proof -
  have inv: "placeholder_inv s" and "\<forall>p \<in> fst ` set (mappings s). bracketed p"
    using assms(1) by (simp_all add: clean_def)
  moreover have "set prs = set (mappings s)" "mset (map fst prs) = mset (map fst (mappings s))"
    using assms(3) by (simp_all add: Mappings_def mset_map flip: set_mset_mset)
  ultimately have "restoring prs s"
    unfolding restoring_def placeholder_inv_def by (metis mset_eq_imp_distinct_iff order_refl)
  then show ?thesis by (rule replacer_pieces [OF _ inv assms(2)])
qed

theorem answer_restored_witness:
  "replacer [(''<PERSON_1>'', ''Ann'')] ''Dear <PERSON_1>, bye <PERSON_1>.'' = ''Dear Ann, bye Ann.''"
proof -
  let ?s = "\<lparr>mappings = [(''<PERSON_1>'', ''Ann'')], counters = [(''PERSON'', 1)]\<rparr>"
  let ?ps = "[Literal ''Dear '', Recorded ''<PERSON_1>'', Literal '', bye '', Recorded ''<PERSON_1>'', Literal ''.'']"
  have "AllocatePlaceholder ''PERSON'' ''Ann'' fresh_state = (''<PERSON_1>'', ?s)" by code_simp
  then have "clean ?s" by (rule AllocatePlaceholder_clean [OF clean_fresh, rotated]) (simp add: plain_def)
  moreover have "list_all (piece_ok ?s) ?ps" by simp
  ultimately show ?thesis
    using answer_restored [of ?s ?ps "[(''<PERSON_1>'', ''Ann'')]"] by (simp add: Mappings_def original_of_def)
qed

subsection \<open>Overlapping detections\<close>

lemma AllocatePlaceholder_fresh: "fst (AllocatePlaceholder t v fresh_state) = placeholder t 1"
  by (simp add: AllocatePlaceholder_def fresh_state_def counter_def Let_def)

text \<open>
  Overlapping detections leave detected data in the text. When the analyzer reports an entity
  and, inside it, a second one that ends where the text ends (an e-mail address and the URL of its
  domain), the inner one is replaced first; if its placeholder is shorter than what it replaces, the
  span of the outer one no longer fits the text, is skipped, and the beginning of the outer entity
  is sent to the provider verbatim.
\<close>

theorem overlap_leaks_prefix:
  assumes "0 \<le> Start a" and "Start a < Start b" and "Start b < End b"
    and "End a = int (length text)" and "End b = int (length text)"
    and "length (placeholder (EntityType b) 1) < nat (End b - Start b)"
  shows "fst (substitute_all [a, b] text fresh_state) = take (nat (Start b)) text @ placeholder (EntityType b) 1"
proof -
  obtain s' where al: "AllocatePlaceholder (EntityType b) (slice (Start b) (End b) text) fresh_state
      = (placeholder (EntityType b) 1, s')"
    using AllocatePlaceholder_fresh by (metis prod.collapse)
  have "back_to_front [a, b] = [b, a]" using assms(2) by (simp add: back_to_front_def)
  moreover have "substitute [a] (take (nat (Start b)) text @ placeholder (EntityType b) 1) s' =
      (take (nat (Start b)) text @ placeholder (EntityType b) 1, s')"
  proof -
    have "length (take (nat (Start b)) text) \<le> nat (Start b)" by simp
    with assms have "End a > int (length (take (nat (Start b)) text @ placeholder (EntityType b) 1))"
      unfolding length_append by linarith
    then show ?thesis by simp
  qed
  ultimately show ?thesis
    unfolding substitute_all_def using assms al by simp
qed

text \<open>The e-mail address and the domain in it: \<open>john@\<close> stays.\<close>

theorem overlap_leaks_prefix_witness:
  "fst (substitute_all
     [\<lparr>EntityType = ''EMAIL_ADDRESS'', Start = 0, End = 16, Score = 1\<rparr>,
      \<lparr>EntityType = ''URL'', Start = 5, End = 16, Score = 1 / 2\<rparr>] ''john@example.com'' fresh_state)
   = ''john@<URL_1>''"
proof -
  have "placeholder ''URL'' 1 = ''<URL_1>''" by code_simp
  then show ?thesis
    using overlap_leaks_prefix [of "\<lparr>EntityType = ''EMAIL_ADDRESS'', Start = 0, End = 16, Score = 1\<rparr>"
        "\<lparr>EntityType = ''URL'', Start = 5, End = 16, Score = 1 / 2\<rparr>" "''john@example.com''"]
    by simp
qed

end
