(* ===== verification/Transformers.thy ===== *)
theory Transformers
  imports Anonymization Llm_Types Guard_Registry
begin

text \<open>
  \<open>internal/shared/transform\<close>: the transformers (\<open>regexreplace.go\<close>, \<open>webhook.go\<close>,
  \<open>presidio.go\<close>, \<open>deanonymize.go\<close>, \<open>testreplace.go\<close>), the chain that runs them in
  sequence (\<open>transform.go\<close>) and their registry (\<open>registry.go\<close>).
\<close>

subsection \<open>Request context\<close>

text \<open>
  What the Go context carries, and the number of HTTP calls made so far: the \<open>n\<close>-th call of the
  chain meets the network \<open>world n\<close>.
\<close>

record tctx =
  tc_meta :: "call_meta option"
  tc_state :: "transform_state option"
  tc_calls :: nat

type_synonym world = "nat \<Rightarrow> network"

definition WithState :: "tctx \<Rightarrow> tctx" where
  "WithState ctx = ctx\<lparr>tc_state := Some fresh_state\<rparr>"

definition StateFrom :: "tctx \<Rightarrow> transform_state option" where
  "StateFrom ctx = tc_state ctx"

definition do_call :: "world \<Rightarrow> http_request \<Rightarrow> tctx \<Rightarrow> http_outcome \<times> tctx" where
  "do_call w rq ctx = (w (tc_calls ctx) rq, ctx\<lparr>tc_calls := Suc (tc_calls ctx)\<rparr>)"

subsection \<open>regex_replace\<close>

record regex_replace_rule =
  rr_Pattern :: string
  rr_Replace :: string

record regex_replace =
  rrt_name :: string
  rrt_rules :: "regex_replace_rule list"

fun compile_rules :: "go_lib \<Rightarrow> regex_replace_rule list \<Rightarrow> unit res" where
  "compile_rules lib [] = Inr ()"
| "compile_rules lib (r # rs) =
     (case rx_compile lib (rr_Pattern r) of Some e \<Rightarrow> Inl e | None \<Rightarrow> compile_rules lib rs)"

definition NewRegexReplaceTransformer :: "go_lib \<Rightarrow> string \<Rightarrow> regex_replace_rule list \<Rightarrow> regex_replace res" where
  "NewRegexReplaceTransformer lib name rules =
     res_bind (compile_rules lib rules) (\<lambda>_. Inr \<lparr>rrt_name = name, rrt_rules = rules\<rparr>)"

definition RegexReplace_Transform :: "go_lib \<Rightarrow> regex_replace \<Rightarrow> message list \<Rightarrow> message list" where
  "RegexReplace_Transform lib t msgs =
     map (\<lambda>m. m\<lparr>Content := fold (\<lambda>r text. rx_replace_all lib (rr_Pattern r) text (rr_Replace r))
                          (rrt_rules t) (Content m)\<rparr>) msgs"

subsection \<open>test_replace\<close>

record test_replace =
  trt_name :: string
  trt_find :: string
  trt_replace :: string
  trt_err :: "go_error option"

definition TestReplace_Transform :: "test_replace \<Rightarrow> message list \<Rightarrow> message list res" where
  "TestReplace_Transform t msgs =
     (case trt_err t of
        Some e \<Rightarrow> Inl e
      | None \<Rightarrow> Inr (map (\<lambda>m. m\<lparr>Content := replacer [(trt_find t, trt_replace t)] (Content m)\<rparr>) msgs))"

subsection \<open>webhook\<close>

record webhook_transformer =
  wht_name :: string
  wht_cfg :: webhook_config
  wht_timeout :: int

definition NewWebhookTransformer :: "string \<Rightarrow> webhook_config \<Rightarrow> webhook_transformer" where
  "NewWebhookTransformer name cfg =
     \<lparr>wht_name = name, wht_cfg = cfg, wht_timeout = timeout_or (wh_TimeoutSeconds cfg) 10\<rparr>"

definition webhook_messages_request :: "call_meta option \<Rightarrow> message list \<Rightarrow> json" where
  "webhook_messages_request meta msgs =
     JObj [(''messages'', JArr (map marshal_message msgs)),
           (''phase'', JStr (case meta of None \<Rightarrow> [] | Some m \<Rightarrow> Phase m)),
           (''source_route'', JStr (case meta of None \<Rightarrow> [] | Some m \<Rightarrow> SourceRoute m))]"

text \<open>
  \<open>webhookResponse\<close>: \<open>None\<close> is the nil slice that a missing or null member leaves. Of several
  members the last one counts.
\<close>

fun dec_messages :: "json list \<Rightarrow> message list option \<Rightarrow> message list option res" where
  "dec_messages [] cur = Inr cur"
| "dec_messages (JNull # vs) cur = dec_messages vs None"
| "dec_messages (JArr xs # vs) cur =
     res_bind (unmarshal_message_list xs) (\<lambda>ms. dec_messages vs (Some ms))"
| "dec_messages (_ # vs) cur = Inl json_type_error"

definition webhook_messages_response :: "json \<Rightarrow> message list option res" where
  "webhook_messages_response j =
     (case struct_members j of
        None \<Rightarrow> Inl json_type_error
      | Some kvs \<Rightarrow> dec_messages (field_vals ''messages'' kvs) None)"

definition Webhook_Transform ::
    "world \<Rightarrow> webhook_transformer \<Rightarrow> tctx \<Rightarrow> message list \<Rightarrow> tctx \<times> message list res" where
  "Webhook_Transform w t ctx msgs =
     (let url = wh_URL (wht_cfg t) in
      case do_call w (post_request url (wh_Headers (wht_cfg t)) (webhook_messages_request (tc_meta ctx) msgs)) ctx of
        (outcome, ctx') \<Rightarrow>
          (ctx', case outcome of
             Build_error e \<Rightarrow> Inl (''webhook: build request: '' @ e)
           | Do_error e \<Rightarrow> Inl (''webhook: calling '' @ url @ '': '' @ e)
           | Response status body \<Rightarrow>
               if status < 200 \<or> status \<ge> 300
               then Inl (''webhook: '' @ url @ '' returned status '' @ int_text status)
               else case res_bind (decode_limited webhookMaxResponseBytes body) webhook_messages_response of
                 Inl e \<Rightarrow> Inl (''webhook: decoding response: '' @ e)
               | Inr None \<Rightarrow> Inl (''webhook: response missing required '' @ go_quote ''messages'' @ '' field'')
               | Inr (Some ms) \<Rightarrow> Inr ms))"

subsection \<open>presidio\<close>

record presidio_tconfig =
  pt_AnalyzerURL :: string
  pt_AnonymizerURL :: string
  pt_Mode :: string
  pt_Language :: string
  pt_Entities :: "string list"
  pt_ScoreThreshold :: rat
  pt_TimeoutSeconds :: int

record presidio_transformer =
  ptr_name :: string
  ptr_cfg :: presidio_tconfig
  ptr_timeout :: int

definition NewPresidioTransformer :: "string \<Rightarrow> presidio_tconfig \<Rightarrow> presidio_transformer" where
  "NewPresidioTransformer name cfg =
     \<lparr>ptr_name = name,
      ptr_cfg = (if pt_Language cfg = [] then cfg\<lparr>pt_Language := ''en''\<rparr> else cfg),
      ptr_timeout = timeout_or (pt_TimeoutSeconds cfg) 10\<rparr>"

text \<open>\<open>post\<close>: the outcome of the call and the decoded answer.\<close>

definition presidio_answer :: "string \<Rightarrow> (json \<Rightarrow> 'a res) \<Rightarrow> http_outcome \<Rightarrow> 'a res" where
  "presidio_answer url decode outcome =
     (case outcome of
        Build_error e \<Rightarrow> Inl (''build request: '' @ e)
      | Do_error e \<Rightarrow> Inl (''calling '' @ url @ '': '' @ e)
      | Response status body \<Rightarrow>
          if status < 200 \<or> status \<ge> 300 then Inl (url @ '' returned status '' @ int_text status)
          else err_wrap (''decoding response from '' @ url @ '': '')
                 (res_bind (decode_limited webhookMaxResponseBytes body) decode))"

definition presidio_post ::
    "world \<Rightarrow> string \<Rightarrow> json \<Rightarrow> (json \<Rightarrow> 'a res) \<Rightarrow> tctx \<Rightarrow> tctx \<times> 'a res" where
  "presidio_post w url body decode ctx =
     (case do_call w (post_request url [] body) ctx of
        (outcome, ctx') \<Rightarrow> (ctx', presidio_answer url decode outcome))"

definition analyze_request :: "presidio_tconfig \<Rightarrow> string \<Rightarrow> json" where
  "analyze_request cfg text =
     JObj ([(''text'', JStr text), (''language'', JStr (pt_Language cfg))]
       @ (if length (pt_Entities cfg) > 0 then [(''entities'', JArr (map JStr (pt_Entities cfg)))] else [])
       @ (if pt_ScoreThreshold cfg > 0 then [(''score_threshold'', JFloat (pt_ScoreThreshold cfg))] else []))"

definition presidio_analyze ::
    "world \<Rightarrow> presidio_transformer \<Rightarrow> string \<Rightarrow> tctx \<Rightarrow> tctx \<times> detection list res" where
  "presidio_analyze w t text ctx =
     (case presidio_post w (pt_AnalyzerURL (ptr_cfg t) @ ''/analyze'') (analyze_request (ptr_cfg t) text)
             detections_response ctx of
        (ctx', r) \<Rightarrow> (ctx', err_wrap ''presidio analyze: '' r))"

definition anonymized_text :: "json \<Rightarrow> string res" where
  "anonymized_text j =
     (case struct_members j of
        None \<Rightarrow> Inl json_type_error
      | Some kvs \<Rightarrow> opt_res (dec_str (field_vals ''text'' kvs) []))"

definition presidio_redact ::
    "world \<Rightarrow> presidio_transformer \<Rightarrow> string \<Rightarrow> tctx \<Rightarrow> tctx \<times> string res" where
  "presidio_redact w t text ctx =
     (case presidio_analyze w t text ctx of
        (ctx1, Inl e) \<Rightarrow> (ctx1, Inl e)
      | (ctx1, Inr results) \<Rightarrow>
          if length results = 0 then (ctx1, Inr text)
          else case presidio_post w (pt_AnonymizerURL (ptr_cfg t) @ ''/anonymize'')
                 (JObj [(''text'', JStr text), (''analyzer_results'', JArr (map detection_json results))])
                 anonymized_text ctx1 of
            (ctx2, r) \<Rightarrow> (ctx2, err_wrap ''presidio anonymize: '' r))"

definition anonymizeReversibly ::
    "world \<Rightarrow> presidio_transformer \<Rightarrow> string \<Rightarrow> tctx \<Rightarrow> tctx \<times> string res" where
  "anonymizeReversibly w t text ctx =
     (case presidio_analyze w t text ctx of
        (ctx1, Inl e) \<Rightarrow> (ctx1, Inl e)
      | (ctx1, Inr results) \<Rightarrow>
          if length results = 0 then (ctx1, Inr text)
          else case StateFrom ctx1 of
            None \<Rightarrow> (ctx1, Inl ''presidio: reversible mode requires request state (are you running outside the proxy pipeline?)'')
          | Some st \<Rightarrow>
              (case substitute_all results text st of
                 (out, st') \<Rightarrow> (ctx1\<lparr>tc_state := Some st'\<rparr>, Inr out)))"

definition presidio_text ::
    "world \<Rightarrow> presidio_transformer \<Rightarrow> string \<Rightarrow> tctx \<Rightarrow> tctx \<times> string res" where
  "presidio_text w t text ctx =
     (if pt_Mode (ptr_cfg t) = ''reversible'' then anonymizeReversibly w t text ctx
      else presidio_redact w t text ctx)"

fun Presidio_Transform ::
    "world \<Rightarrow> presidio_transformer \<Rightarrow> tctx \<Rightarrow> message list \<Rightarrow> tctx \<times> message list res" where
  "Presidio_Transform w t ctx [] = (ctx, Inr [])"
| "Presidio_Transform w t ctx (m # ms) =
     (if Content m = []
      then (case Presidio_Transform w t ctx ms of (ctx', r) \<Rightarrow> (ctx', res_bind r (\<lambda>out. Inr (m # out))))
      else case presidio_text w t (Content m) ctx of
        (ctx1, Inl e) \<Rightarrow> (ctx1, Inl e)
      | (ctx1, Inr redacted) \<Rightarrow>
          (case Presidio_Transform w t ctx1 ms of
             (ctx', r) \<Rightarrow> (ctx', res_bind r (\<lambda>out. Inr (m\<lparr>Content := redacted\<rparr> # out)))))"

subsection \<open>deanonymize\<close>

definition Deanonymize_Transform :: "tctx \<Rightarrow> message list \<Rightarrow> message list" where
  "Deanonymize_Transform ctx msgs =
     (case StateFrom ctx of
        None \<Rightarrow> msgs
      | Some st \<Rightarrow>
          if Len st = 0 then msgs
          else map (\<lambda>m. m\<lparr>Content := replacer (Mappings st) (Content m)\<rparr>) msgs)"

end
