(* ===== verification/Transform_Chain.thy ===== *)
theory Transform_Chain
  imports Transformers
begin

text \<open>
  \<open>internal/shared/transform/transform.go\<close> and \<open>registry.go\<close>: the transformer interface, the
  chain \<open>ApplyAll\<close> with its fail-open treatment and audit record, and the registry of transformers.
\<close>

subsection \<open>Transformers\<close>

text \<open>
  The built-in transformers, one of an externally registered type (name, type, behaviour), and the
  fail-open marker.
\<close>

datatype transformer =
    TRegexReplace regex_replace
  | TWebhook webhook_transformer
  | TPresidio presidio_transformer
  | TDeanonymize string
  | TTestReplace test_replace
  | TExternal string string "world \<Rightarrow> tctx \<Rightarrow> message list \<Rightarrow> tctx \<times> message list res"
  | TFailOpen transformer

definition tWithFailOpen :: "transformer \<Rightarrow> transformer" where "tWithFailOpen t = TFailOpen t"

fun t_Name :: "transformer \<Rightarrow> string" where
  "t_Name (TRegexReplace t) = rrt_name t"
| "t_Name (TWebhook t) = wht_name t"
| "t_Name (TPresidio t) = ptr_name t"
| "t_Name (TDeanonymize n) = n"
| "t_Name (TTestReplace t) = trt_name t"
| "t_Name (TExternal n ty f) = n"
| "t_Name (TFailOpen t) = t_Name t"

fun t_Type :: "transformer \<Rightarrow> string" where
  "t_Type (TRegexReplace t) = ''regex_replace''"
| "t_Type (TWebhook t) = ''webhook''"
| "t_Type (TPresidio t) = ''presidio''"
| "t_Type (TDeanonymize n) = ''deanonymize''"
| "t_Type (TTestReplace t) = ''test_replace''"
| "t_Type (TExternal n ty f) = ty"
| "t_Type (TFailOpen t) = t_Type t"

fun Transform :: "go_lib \<Rightarrow> world \<Rightarrow> transformer \<Rightarrow> tctx \<Rightarrow> message list \<Rightarrow> tctx \<times> message list res" where
  "Transform lib w (TRegexReplace t) ctx msgs = (ctx, Inr (RegexReplace_Transform lib t msgs))"
| "Transform lib w (TWebhook t) ctx msgs = Webhook_Transform w t ctx msgs"
| "Transform lib w (TPresidio t) ctx msgs = Presidio_Transform w t ctx msgs"
| "Transform lib w (TDeanonymize n) ctx msgs = (ctx, Inr (Deanonymize_Transform ctx msgs))"
| "Transform lib w (TTestReplace t) ctx msgs = (ctx, TestReplace_Transform t msgs)"
| "Transform lib w (TExternal n ty f) ctx msgs = f w ctx msgs"
| "Transform lib w (TFailOpen t) ctx msgs = Transform lib w t ctx msgs"

fun is_fail_open :: "transformer \<Rightarrow> bool" where
  "is_fail_open (TFailOpen t) = True"
| "is_fail_open _ = False"

subsection \<open>The chain\<close>

record step_result =
  st_Name :: string
  st_Type :: string
  st_Changed :: bool
  st_Errored :: bool
  st_Skipped :: bool
  st_Message :: string
  st_DurationMs :: int

record chain_result =
  Steps :: "step_result list"
  ch_Changed :: bool
  ch_TotalDurationMs :: int

fun messagesEqual :: "message list \<Rightarrow> message list \<Rightarrow> bool" where
  "messagesEqual [] [] = True"
| "messagesEqual (a # as) (b # bs) = (Role a = Role b \<and> Content a = Content b \<and> messagesEqual as bs)"
| "messagesEqual _ _ = False"

text \<open>The loop; \<open>dur i\<close> is what the clock measures for step \<open>i\<close>.\<close>

fun apply_from ::
    "go_lib \<Rightarrow> world \<Rightarrow> (nat \<Rightarrow> int) \<Rightarrow> int \<Rightarrow> transformer list \<Rightarrow> tctx \<Rightarrow> message list \<Rightarrow> chain_result
     \<Rightarrow> tctx \<times> message list res \<times> chain_result" where
  "apply_from lib w dur elapsed [] ctx current chain =
     (ctx, Inr current, chain\<lparr>ch_TotalDurationMs := elapsed\<rparr>)"
| "apply_from lib w dur elapsed (t # ts) ctx current chain =
     (let step = \<lparr>st_Name = t_Name t, st_Type = t_Type t, st_Changed = False, st_Errored = False,
                  st_Skipped = False, st_Message = [], st_DurationMs = dur (length (Steps chain))\<rparr>
      in case Transform lib w t ctx current of
        (ctx', Inl err) \<Rightarrow>
          (let step1 = step\<lparr>st_Errored := True, st_Message := err\<rparr> in
           if is_fail_open t
           then apply_from lib w dur elapsed ts ctx' current
                  (chain\<lparr>Steps := Steps chain @ [step1\<lparr>st_Skipped := True\<rparr>]\<rparr>)
           else (ctx', Inl (''transformer '' @ go_quote (t_Name t) @ '' ('' @ t_Type t @ '') failed: '' @ err),
                 chain\<lparr>Steps := Steps chain @ [step1], ch_TotalDurationMs := elapsed\<rparr>))
      | (ctx', Inr next) \<Rightarrow>
          (let changed = (\<not> messagesEqual current next) in
           apply_from lib w dur elapsed ts ctx' next
             (chain\<lparr>Steps := Steps chain @ [step\<lparr>st_Changed := changed\<rparr>],
                    ch_Changed := ch_Changed chain \<or> changed\<rparr>)))"

definition ApplyAll ::
    "go_lib \<Rightarrow> world \<Rightarrow> (nat \<Rightarrow> int) \<Rightarrow> int \<Rightarrow> transformer list \<Rightarrow> tctx \<Rightarrow> message list
     \<Rightarrow> tctx \<times> message list res \<times> chain_result" where
  "ApplyAll lib w dur elapsed ts ctx msgs =
     apply_from lib w dur elapsed ts ctx msgs
       \<lparr>Steps = [], ch_Changed = False, ch_TotalDurationMs = 0\<rparr>"

subsection \<open>The registry\<close>

type_synonym transform_factory = "string \<Rightarrow> json option \<Rightarrow> transformer res"

record transform_registry =
  t_factories :: "(string, transform_factory) gomap"

definition TRegistry_Register :: "string \<Rightarrow> transform_factory \<Rightarrow> transform_registry \<Rightarrow> transform_registry" where
  "TRegistry_Register ty factory r = r\<lparr>t_factories := m_set ty factory (t_factories r)\<rparr>"

definition TRegistry_factory :: "transform_registry \<Rightarrow> string \<Rightarrow> transform_factory option" where
  "TRegistry_factory r ty = m_get (t_factories r) ty"

definition TRegistry_Has :: "transform_registry \<Rightarrow> string \<Rightarrow> bool" where
  "TRegistry_Has r ty = (TRegistry_factory r ty \<noteq> None)"

definition TRegistry_Create :: "transform_registry \<Rightarrow> string \<Rightarrow> string \<Rightarrow> json option \<Rightarrow> transformer res" where
  "TRegistry_Create r ty name config =
     (case TRegistry_factory r ty of
        None \<Rightarrow> Inl (''unknown transformer type: '' @ go_quote ty)
      | Some factory \<Rightarrow> factory name config)"

definition TRegistry_Types :: "transform_registry \<Rightarrow> string list" where
  "TRegistry_Types r = map fst (t_factories r)"

interpretation treg: type_registry "\<lparr>t_factories = []\<rparr>" TRegistry_Register TRegistry_factory
  by unfold_locales (auto simp: TRegistry_factory_def TRegistry_Register_def m_get_set)

text \<open>The rules of a regex_replace configuration; a null element is the zero rule.\<close>

fun dec_rules :: "json list \<Rightarrow> regex_replace_rule list option" where
  "dec_rules [] = Some []"
| "dec_rules (j # js) =
     (case struct_members j of
        None \<Rightarrow> None
      | Some kvs \<Rightarrow>
          (case (dec_str (field_vals ''pattern'' kvs) [], dec_str (field_vals ''replace'' kvs) [], dec_rules js) of
             (Some p, Some r, Some rs) \<Rightarrow> Some (\<lparr>rr_Pattern = p, rr_Replace = r\<rparr> # rs)
           | _ \<Rightarrow> None))"

fun dec_rule_slice :: "json list \<Rightarrow> regex_replace_rule list \<Rightarrow> regex_replace_rule list option" where
  "dec_rule_slice [] cur = Some cur"
| "dec_rule_slice (JNull # vs) cur = dec_rule_slice vs []"
| "dec_rule_slice (JArr xs # vs) cur =
     (case dec_rules xs of None \<Rightarrow> None | Some rs \<Rightarrow> dec_rule_slice vs rs)"
| "dec_rule_slice (_ # vs) cur = None"

definition regexReplaceFactory :: "go_lib \<Rightarrow> transform_factory" where
  "regexReplaceFactory lib name config =
     res_bind (config_members ''regex_replace'' config) (\<lambda>kvs.
     res_bind (config_field ''regex_replace'' (dec_rule_slice (field_vals ''rules'' kvs) [])) (\<lambda>rules.
       if length rules = 0 then Inl ''regex_replace: at least one rule is required''
       else if list_ex (\<lambda>r. rr_Pattern r = []) rules then Inl ''regex_replace: rule pattern is required''
       else res_bind (NewRegexReplaceTransformer lib name rules) (\<lambda>t. Inr (TRegexReplace t))))"

definition validateHTTPURL :: "net_env \<Rightarrow> bool \<Rightarrow> string \<Rightarrow> string \<Rightarrow> unit res" where
  "validateHTTPURL env allowPrivate raw field =
     (if raw = [] then Inl (field @ '' is required'') else ValidatePublicHTTPURL env allowPrivate raw field)"

definition webhookTFactory :: "net_env \<Rightarrow> bool \<Rightarrow> transform_factory" where
  "webhookTFactory env allowPrivate name config =
     (let t = ''webhook'' in
     res_bind (config_members t config) (\<lambda>kvs.
     res_bind (cfg_str t ''url'' kvs) (\<lambda>url.
     res_bind (cfg_map t ''headers'' kvs) (\<lambda>hdrs.
     res_bind (cfg_int t ''timeout_seconds'' kvs) (\<lambda>tmo.
     res_bind (validateHTTPURL env allowPrivate url ''webhook: url'') (\<lambda>_.
       Inr (TWebhook (NewWebhookTransformer name
              \<lparr>wh_URL = url, wh_Headers = hdrs, wh_TimeoutSeconds = tmo\<rparr>))))))))"

definition presidioTFactory :: "net_env \<Rightarrow> bool \<Rightarrow> transform_factory" where
  "presidioTFactory env allowPrivate name config =
     (let t = ''presidio'' in
     res_bind (config_members t config) (\<lambda>kvs.
     res_bind (cfg_str t ''analyzer_url'' kvs) (\<lambda>ana.
     res_bind (cfg_str t ''anonymizer_url'' kvs) (\<lambda>ano.
     res_bind (cfg_str t ''mode'' kvs) (\<lambda>md.
     res_bind (cfg_str t ''language'' kvs) (\<lambda>lang.
     res_bind (cfg_strs t ''entities'' kvs) (\<lambda>ents.
     res_bind (cfg_float t ''score_threshold'' kvs) (\<lambda>thr.
     res_bind (cfg_int t ''timeout_seconds'' kvs) (\<lambda>tmo.
     res_bind (validateHTTPURL env allowPrivate ana ''presidio: analyzer_url'') (\<lambda>_.
     res_bind (if md = [] \<or> md = ''redact'' then validateHTTPURL env allowPrivate ano ''presidio: anonymizer_url''
               else if md = ''reversible'' then Inr ()
               else Inl (''presidio: mode must be '' @ go_quote ''redact'' @ '' or '' @ go_quote ''reversible''
                         @ '', got '' @ go_quote md)) (\<lambda>_.
       Inr (TPresidio (NewPresidioTransformer name
              \<lparr>pt_AnalyzerURL = ana, pt_AnonymizerURL = ano, pt_Mode = md, pt_Language = lang,
               pt_Entities = ents, pt_ScoreThreshold = thr, pt_TimeoutSeconds = tmo\<rparr>)))))))))))))"

definition deanonymizeFactory :: transform_factory where
  "deanonymizeFactory name config = Inr (TDeanonymize name)"

definition TestReplaceFactory :: transform_factory where
  "TestReplaceFactory name config =
     res_bind (config_value config) (\<lambda>j.
     res_bind (opt_res (struct_members j)) (\<lambda>kvs.
     res_bind (opt_res (dec_str (field_vals ''find'' kvs) [])) (\<lambda>f.
     res_bind (opt_res (dec_str (field_vals ''replace'' kvs) [])) (\<lambda>r.
       if f = [] then Inl ''test_replace: find is required''
       else Inr (TTestReplace \<lparr>trt_name = name, trt_find = f, trt_replace = r, trt_err = None\<rparr>)))))"

definition NewTransformRegistry :: "go_lib \<Rightarrow> net_env \<Rightarrow> bool \<Rightarrow> transform_registry" where
  "NewTransformRegistry lib env allowPrivate =
     (let r = \<lparr>t_factories = []\<rparr>;
          r = TRegistry_Register ''regex_replace'' (regexReplaceFactory lib) r;
          r = TRegistry_Register ''webhook'' (webhookTFactory env allowPrivate) r;
          r = TRegistry_Register ''presidio'' (presidioTFactory env allowPrivate) r
      in TRegistry_Register ''deanonymize'' deanonymizeFactory r)"

subsection \<open>The audit record of a chain\<close>

definition steps_follow :: "transformer list \<Rightarrow> step_result list \<Rightarrow> bool" where
  "steps_follow ts steps \<longleftrightarrow>
     list_all2 (\<lambda>t st. st_Name st = t_Name t \<and> st_Type st = t_Type t
       \<and> (st_Skipped st \<longleftrightarrow> st_Errored st \<and> is_fail_open t) \<and> \<not> (st_Errored st \<and> st_Changed st)) ts steps"

definition aborted :: "step_result \<Rightarrow> bool" where
  "aborted st \<longleftrightarrow> st_Errored st \<and> \<not> st_Skipped st"

definition chain_ok :: "transformer list \<Rightarrow> message list res \<Rightarrow> step_result list \<Rightarrow> bool" where
  "chain_ok ts r steps \<longleftrightarrow>
     (case r of
        Inr out \<Rightarrow> steps_follow ts steps \<and> \<not> list_ex aborted steps
      | Inl e \<Rightarrow> (\<exists>us t vs pre st. ts = us @ t # vs \<and> steps = pre @ [st] \<and> steps_follow us pre
                  \<and> \<not> list_ex aborted pre \<and> \<not> is_fail_open t \<and> aborted st
                  \<and> e = ''transformer '' @ go_quote (t_Name t) @ '' ('' @ t_Type t @ '') failed: '' @ st_Message st))"

lemma chain_ok_Cons:
  assumes "chain_ok ts r steps" and "steps_follow [t] [st]" and "\<not> aborted st"
  shows "chain_ok (t # ts) r (st # steps)"
proof (cases r)
  case (Inl e)
  with assms(1) obtain us t' vs pre st' where *: "ts = us @ t' # vs" "steps = pre @ [st']"
    "steps_follow us pre" "\<not> list_ex aborted pre" "\<not> is_fail_open t'" "aborted st'"
    "e = ''transformer '' @ go_quote (t_Name t') @ '' ('' @ t_Type t' @ '') failed: '' @ st_Message st'"
    unfolding chain_ok_def by auto
  then have "t # ts = (t # us) @ t' # vs" "st # steps = (st # pre) @ [st']"
    "steps_follow (t # us) (st # pre)" "\<not> list_ex aborted (st # pre)"
    using assms(2,3) by (simp_all add: steps_follow_def)
  with * show ?thesis unfolding chain_ok_def Inl by (simp only: sum.case) blast
next
  case (Inr out)
  then show ?thesis using assms by (simp add: chain_ok_def steps_follow_def)
qed

lemma apply_from_steps:
  "\<exists>steps. case apply_from lib w dur el ts ctx msgs chain of (ctx', r, chain') \<Rightarrow>
     Steps chain' = Steps chain @ steps \<and> chain_ok ts r steps
     \<and> (ch_Changed chain' \<longleftrightarrow> ch_Changed chain \<or> list_ex st_Changed steps)
     \<and> ch_TotalDurationMs chain' = el"
proof (induction ts arbitrary: ctx msgs chain)
  case Nil
  show ?case by (simp add: chain_ok_def steps_follow_def)
next
  case (Cons t ts)
  let ?step = "\<lparr>st_Name = t_Name t, st_Type = t_Type t, st_Changed = False, st_Errored = False,
                  st_Skipped = False, st_Message = [], st_DurationMs = dur (length (Steps chain))\<rparr>"
  obtain ctx' r where tr: "Transform lib w t ctx msgs = (ctx', r)" by fastforce
  show ?case
  proof (cases r)
    case (Inl err)
    let ?st = "?step\<lparr>st_Errored := True, st_Message := err\<rparr>"
    show ?thesis
    proof (cases "is_fail_open t")
      case True
      have "\<exists>steps. case apply_from lib w dur el ts ctx' msgs
            (chain\<lparr>Steps := Steps chain @ [?st\<lparr>st_Skipped := True\<rparr>]\<rparr>) of (ctx'', r, chain') \<Rightarrow>
          Steps chain' = (Steps chain @ [?st\<lparr>st_Skipped := True\<rparr>]) @ steps \<and> chain_ok ts r steps
          \<and> (ch_Changed chain' \<longleftrightarrow> ch_Changed chain \<or> list_ex st_Changed steps) \<and> ch_TotalDurationMs chain' = el" (is "\<exists>steps. ?Q steps")
        using Cons.IH [where ctx = ctx' and msgs = msgs and chain = "chain\<lparr>Steps := Steps chain @ [?st\<lparr>st_Skipped := True\<rparr>]\<rparr>"] by simp
      then obtain steps where s: "?Q steps" ..
      have f: "steps_follow [t] [?st\<lparr>st_Skipped := True\<rparr>]" "\<not> aborted (?st\<lparr>st_Skipped := True\<rparr>)"
        using True by (simp_all add: steps_follow_def aborted_def)
      show ?thesis
        by (rule exI [of _ "(?st\<lparr>st_Skipped := True\<rparr>) # steps"])
          (use s chain_ok_Cons [OF _ f, of ts _ steps] in \<open>auto simp: tr Inl True split: prod.splits\<close>)
    next
      case False
      have "\<exists>us t' vs pre st. t # ts = us @ t' # vs \<and> [?st] = pre @ [st] \<and> steps_follow us pre
          \<and> \<not> list_ex aborted pre \<and> \<not> is_fail_open t' \<and> aborted st
          \<and> ''transformer '' @ go_quote (t_Name t) @ '' ('' @ t_Type t @ '') failed: '' @ err
            = ''transformer '' @ go_quote (t_Name t') @ '' ('' @ t_Type t' @ '') failed: '' @ st_Message st"
        by (rule exI [of _ "[]"], rule exI [of _ t], rule exI [of _ ts], rule exI [of _ "[]"],
            rule exI [of _ ?st]) (simp add: False aborted_def steps_follow_def)
      then show ?thesis
        by (intro exI [of _ "[?st]"]) (simp add: tr Inl False chain_ok_def)
    qed
  next
    case (Inr out)
    let ?ch = "\<not> messagesEqual msgs out"
    let ?c = "chain\<lparr>Steps := Steps chain @ [?step\<lparr>st_Changed := ?ch\<rparr>], ch_Changed := ch_Changed chain \<or> ?ch\<rparr>"
    have "\<exists>steps. case apply_from lib w dur el ts ctx' out ?c of (ctx'', r, chain') \<Rightarrow>
          Steps chain' = (Steps chain @ [?step\<lparr>st_Changed := ?ch\<rparr>]) @ steps \<and> chain_ok ts r steps
          \<and> (ch_Changed chain' \<longleftrightarrow> (ch_Changed chain \<or> ?ch) \<or> list_ex st_Changed steps) \<and> ch_TotalDurationMs chain' = el" (is "\<exists>steps. ?Q steps")
      using Cons.IH [where ctx = ctx' and msgs = out and chain = ?c] by simp
    then obtain steps where s: "?Q steps" ..
    have f: "steps_follow [t] [?step\<lparr>st_Changed := ?ch\<rparr>]" "\<not> aborted (?step\<lparr>st_Changed := ?ch\<rparr>)"
      by (simp_all add: steps_follow_def aborted_def)
    show ?thesis
      by (rule exI [of _ "(?step\<lparr>st_Changed := ?ch\<rparr>) # steps"])
        (use s chain_ok_Cons [OF _ f, of ts _ steps] in \<open>auto simp: tr Inr Let_def split: prod.splits\<close>)
  qed
qed

text \<open>
  A transformer chain never rejects by itself and leaves a truthful record. The chain succeeds
  exactly when no transformer outside fail-open errored; then there is one step per transformer, in
  order, and the steps that errored are those skipped. Otherwise it stops at the first erroring
  transformer that is not fail-open: the steps are those of the transformers up to it, only the last
  one is errored without being skipped, and the error names that transformer and its message. The
  chain is recorded as changed exactly when one of its steps is.
\<close>

theorem ApplyAll_record:
  "case ApplyAll lib w dur el ts ctx msgs of (ctx', r, chain) \<Rightarrow>
     chain_ok ts r (Steps chain) \<and> (ch_Changed chain \<longleftrightarrow> list_ex st_Changed (Steps chain))
     \<and> ch_TotalDurationMs chain = el"
  using apply_from_steps [where chain = "\<lparr>Steps = [], ch_Changed = False, ch_TotalDurationMs = 0\<rparr>" and
      lib = lib and w = w and dur = dur and el = el and ts = ts and ctx = ctx and msgs = msgs]
  unfolding ApplyAll_def by (auto split: prod.splits)

subsection \<open>Transformers that rewrite contents only\<close>

definition content_only :: "message \<Rightarrow> message \<Rightarrow> bool" where
  "content_only m m' \<longleftrightarrow> m' = m\<lparr>Content := Content m'\<rparr>"

lemma content_only_simps [simp]: "content_only m m" "content_only m (m\<lparr>Content := c\<rparr>)"
  by (simp_all add: content_only_def)

lemma content_only_trans: "content_only a b \<Longrightarrow> content_only b c \<Longrightarrow> content_only a c"
  unfolding content_only_def by (metis message.surjective message.update_convs(2))

lemma content_only_erased: "content_only m m' \<Longrightarrow> m'\<lparr>Content := []\<rparr> = m\<lparr>Content := []\<rparr>"
  by (cases m; cases m') (simp add: content_only_def)

locale content_rewriter =
  fixes run :: "tctx \<Rightarrow> message list \<Rightarrow> tctx \<times> message list res"
  assumes content_kept: "run ctx ms = (ctx', Inr ms') \<Longrightarrow> list_all2 content_only ms ms'"
begin

lemma keeps_length: "run ctx ms = (ctx', Inr ms') \<Longrightarrow> length ms' = length ms"
  by (drule content_kept) (simp add: list_all2_lengthD)

lemma keeps_others:
  "run ctx ms = (ctx', Inr ms') \<Longrightarrow> map (\<lambda>m. m\<lparr>Content := []\<rparr>) ms' = map (\<lambda>m. m\<lparr>Content := []\<rparr>) ms"
  by (drule content_kept, induction rule: list_all2_induct) (simp_all add: content_only_erased)

text \<open>Running it before something else that rewrites contents only does that, too.\<close>

lemma then_rewrites:
  "run ctx ms = (ctx', Inr ms') \<Longrightarrow> list_all2 content_only ms' ms'' \<Longrightarrow> list_all2 content_only ms ms''"
  by (drule content_kept) (erule (1) list_all2_trans [rotated], blast intro: content_only_trans)

end

lemma list_all2_content_map: "list_all2 content_only ms (map (\<lambda>m. m\<lparr>Content := f m\<rparr>) ms)"
  by (induction ms) simp_all

lemma Presidio_Transform_rewrites:
  "Presidio_Transform w t ctx ms = (ctx', Inr ms') \<Longrightarrow> list_all2 content_only ms ms'"
  by (induction ms arbitrary: ctx ctx' ms')
    (auto simp: res_bind_Inr_iff split: if_splits prod.splits sum.splits)

interpretation regex_rw: content_rewriter "\<lambda>ctx ms. (ctx, Inr (RegexReplace_Transform lib t ms))" for lib t
  by unfold_locales (auto simp: RegexReplace_Transform_def list_all2_content_map)

interpretation presidio_rw: content_rewriter "Presidio_Transform w t" for w t
  by unfold_locales (rule Presidio_Transform_rewrites)

interpretation deanonymize_rw: content_rewriter "\<lambda>ctx ms. (ctx, Inr (Deanonymize_Transform ctx ms))"
  by unfold_locales (auto simp: Deanonymize_Transform_def list_all2_content_map list.rel_refl split: option.splits)

interpretation test_rw: content_rewriter "\<lambda>ctx ms. (ctx, TestReplace_Transform t ms)" for t
  by unfold_locales (auto simp: TestReplace_Transform_def list_all2_content_map split: option.splits)

fun rewrites_only :: "transformer \<Rightarrow> bool" where
  "rewrites_only (TRegexReplace t) = True"
| "rewrites_only (TPresidio t) = True"
| "rewrites_only (TDeanonymize n) = True"
| "rewrites_only (TTestReplace t) = True"
| "rewrites_only (TFailOpen t) = rewrites_only t"
| "rewrites_only _ = False"

lemma Transform_rewrites:
  "rewrites_only t \<Longrightarrow> Transform lib w t ctx ms = (ctx', Inr ms') \<Longrightarrow> list_all2 content_only ms ms'"
proof (induction t)
  case (TTestReplace t)
  then show ?case using test_rw.content_kept [of ctx t ms] by simp
qed (auto intro: regex_rw.content_kept [OF refl] presidio_rw.content_kept deanonymize_rw.content_kept [OF refl])

lemma apply_from_rewrites:
  "list_all rewrites_only ts \<Longrightarrow> apply_from lib w dur el ts ctx ms chain = (ctx', Inr ms', chain')
   \<Longrightarrow> list_all2 content_only ms ms'"
proof (induction ts arbitrary: ctx ms chain)
  case (Cons t ts)
  obtain c r where tr: "Transform lib w t ctx ms = (c, r)" by fastforce
  show ?case
  proof (cases r)
    case Inl
    with Cons tr show ?thesis by (auto simp: Let_def split: if_splits)
  next
    case (Inr out)
    with Cons.prems tr have "list_all2 content_only ms out" by (auto intro: Transform_rewrites)
    moreover have "list_all2 content_only out ms'"
      using Cons.prems tr Inr by (auto simp: Let_def intro: Cons.IH)
    ultimately show ?thesis by (rule list_all2_trans [rotated]) (blast intro: content_only_trans)
  qed
qed (simp add: list.rel_refl)

interpretation chain_rw: content_rewriter
  "\<lambda>ctx ms. case apply_from lib w dur el (filter rewrites_only ts) ctx ms chain of (ctx', r, _) \<Rightarrow> (ctx', r)"
  for lib w dur el ts chain
proof
  fix ctx ms ctx' ms'
  assume r: "(case apply_from lib w dur el (filter rewrites_only ts) ctx ms chain of (c, r, _) \<Rightarrow> (c, r))
    = (ctx', Inr ms')"
  obtain c where "apply_from lib w dur el (filter rewrites_only ts) ctx ms chain = (ctx', Inr ms', c)"
    using r by (auto split: prod.splits)
  then show "list_all2 content_only ms ms'" by (rule apply_from_rewrites [rotated]) (simp add: list_all_iff)
qed

text \<open>
  A chain without webhook or external transformers rewrites texts and nothing else. When it
  succeeds there are as many messages as before, and apart from \<open>Content\<close> every message is the
  same: role, multimodal content parts, tool calls and all other fields.
\<close>

theorem chain_rewrites_content_only:
  assumes "list_all rewrites_only ts"
    and "ApplyAll lib w dur el ts ctx msgs = (ctx', Inr out, chain)"
  shows "length out = length msgs
       \<and> map (\<lambda>m. m\<lparr>Content := []\<rparr>) out = map (\<lambda>m. m\<lparr>Content := []\<rparr>) msgs"
proof -
  let ?chain = "\<lparr>Steps = [], ch_Changed = False, ch_TotalDurationMs = 0\<rparr>"
  have "filter rewrites_only ts = ts" using assms(1) by (simp add: list_all_iff)
  then have "(case apply_from lib w dur el (filter rewrites_only ts) ctx msgs ?chain of (ctx', r, _) \<Rightarrow> (ctx', r))
      = (ctx', Inr out)"
    using assms(2) by (simp add: ApplyAll_def)
  from chain_rw.keeps_length [OF this] chain_rw.keeps_others [OF this] show ?thesis by simp
qed

text \<open>A literal replacement in a message with a tool call: the tool call stays.\<close>

abbreviation ctx0 :: tctx where
  "ctx0 \<equiv> \<lparr>tc_meta = None, tc_state = Some fresh_state, tc_calls = 0\<rparr>"

theorem chain_rewrites_content_only_witness:
  "let m = \<lparr>Role = ''user'', Content = ''abcab'', contentRaw = None, contentText = [],
            msg_extra = [(''tool_calls'', JArr [])]\<rparr>;
       t = TTestReplace \<lparr>trt_name = ''r'', trt_find = ''ab'', trt_replace = ''X'', trt_err = None\<rparr>
   in \<exists>out. fst (snd (ApplyAll eq_lib (\<lambda>_ _. Do_error ''down'') (\<lambda>_. 0) 0 [t] ctx0 [m])) = Inr out
        \<and> map Content out = [''XcX''] \<and> map msg_extra out = [[(''tool_calls'', JArr [])]]"
proof -
  let ?m = "\<lparr>Role = ''user'', Content = ''abcab'', contentRaw = None, contentText = [],
            msg_extra = [(''tool_calls'', JArr [])]\<rparr>"
  let ?t = "TTestReplace \<lparr>trt_name = ''r'', trt_find = ''ab'', trt_replace = ''X'', trt_err = None\<rparr>"
  have rep: "replacer [(''ab'', ''X'')] ''abcab'' = ''XcX''" by code_simp
  obtain chain where a: "ApplyAll eq_lib (\<lambda>_ _. Do_error ''down'') (\<lambda>_. 0) 0 [?t] ctx0 [?m]
      = (ctx0, Inr [?m\<lparr>Content := ''XcX''\<rparr>], chain)"
    by (simp add: ApplyAll_def TestReplace_Transform_def rep Let_def del: replacer.simps)
  from chain_rewrites_content_only [OF _ this]
  have "map (\<lambda>m. m\<lparr>Content := []\<rparr>) [?m\<lparr>Content := ''XcX''\<rparr>] = map (\<lambda>m. m\<lparr>Content := []\<rparr>) [?m]" by simp
  with a show ?thesis by (simp add: Let_def)
qed

subsection \<open>Reversible anonymization end to end\<close>

text \<open>
  The analyzer's answers for the messages of a request: whatever call it is, the text of a message
  is answered with detections that are separated, inside the text and of plain types.
\<close>

definition analyzes :: "world \<Rightarrow> presidio_transformer \<Rightarrow> (string \<Rightarrow> detection list) \<Rightarrow> string \<Rightarrow> bool" where
  "analyzes w t dets text \<longleftrightarrow>
     (\<forall>n. presidio_answer (pt_AnalyzerURL (ptr_cfg t) @ ''/analyze'') detections_response
            (w n (post_request (pt_AnalyzerURL (ptr_cfg t) @ ''/analyze'') [] (analyze_request (ptr_cfg t) text)))
          = Inr (dets text))
     \<and> separated (dets text)
     \<and> (\<forall>d \<in> set (dets text). 0 \<le> Start d \<and> Start d < End d \<and> End d \<le> int (length text) \<and> plain (EntityType d))"

lemma substitute_all_restores:
  assumes "clean s" and "CHR ''<'' \<notin> set text" and "separated ds"
    and "\<forall>d \<in> set ds. 0 \<le> Start d \<and> Start d < End d \<and> End d \<le> int (length text) \<and> plain (EntityType d)"
    and "substitute_all ds text s = (out, s')"
  shows "clean s' \<and> set (mappings s) \<subseteq> set (mappings s') \<and> (\<forall>prs. restoring prs s' \<longrightarrow> replacer prs out = text)"
  using substitute_restores [OF _ order_refl assms(2,1), of "back_to_front ds" "[]" out s']
    spans_ok_sorted [OF assms(3,4)] assms(5)
  by (simp add: substitute_all_def)

lemma presidio_text_reversible:
  assumes "pt_Mode (ptr_cfg t) = ''reversible''" and "tc_state ctx = Some st" and "clean st"
    and "CHR ''<'' \<notin> set text" and "analyzes w t dets text"
  obtains ctx' st' out where "presidio_text w t text ctx = (ctx', Inr out)"
    and "tc_state ctx' = Some st'" and "clean st'" and "set (mappings st) \<subseteq> set (mappings st')"
    and "\<And>prs. restoring prs st' \<Longrightarrow> replacer prs out = text"
proof -
  obtain out st' where sub: "substitute_all (dets text) text st = (out, st')" by fastforce
  from assms(5) have sep: "separated (dets text)" and sp: "\<forall>d \<in> set (dets text). 0 \<le> Start d
      \<and> Start d < End d \<and> End d \<le> int (length text) \<and> plain (EntityType d)"
    by (simp_all add: analyzes_def)
  note r = substitute_all_restores [OF assms(3,4) sep sp sub]
  have "dets text = [] \<Longrightarrow> out = text \<and> st' = st"
    using sub by (simp add: substitute_all_def back_to_front_def)
  moreover have "presidio_analyze w t text ctx = (ctx\<lparr>tc_calls := Suc (tc_calls ctx)\<rparr>, Inr (dets text))"
    using assms(5) by (simp add: presidio_analyze_def presidio_post_def do_call_def analyzes_def)
  ultimately have "presidio_text w t text ctx =
      ((ctx\<lparr>tc_calls := Suc (tc_calls ctx), tc_state := Some st'\<rparr>), Inr out)"
    using assms(1,2) sub by (simp add: presidio_text_def anonymizeReversibly_def StateFrom_def)
  with r show thesis by (intro that) auto
qed

lemma Presidio_Transform_reversible:
  assumes "pt_Mode (ptr_cfg t) = ''reversible''" and "tc_state ctx = Some st" and "clean st"
    and "\<forall>m \<in> set msgs. CHR ''<'' \<notin> set (Content m) \<and> analyzes w t dets (Content m)"
  shows "\<exists>ctx' st' out. Presidio_Transform w t ctx msgs = (ctx', Inr out)
     \<and> tc_state ctx' = Some st' \<and> clean st' \<and> set (mappings st) \<subseteq> set (mappings st')
     \<and> (\<forall>prs. restoring prs st' \<longrightarrow> map (\<lambda>m. m\<lparr>Content := replacer prs (Content m)\<rparr>) out = msgs)"
  using assms(2-4)
proof (induction msgs arbitrary: ctx st)
  case Nil
  then show ?case by simp
next
  case (Cons m ms)
  show ?case
  proof (cases "Content m = []")
    case True
    obtain ctx' st' out where "Presidio_Transform w t ctx ms = (ctx', Inr out)"
      and "tc_state ctx' = Some st' \<and> clean st' \<and> set (mappings st) \<subseteq> set (mappings st')
     \<and> (\<forall>prs. restoring prs st' \<longrightarrow> map (\<lambda>m. m\<lparr>Content := replacer prs (Content m)\<rparr>) out = ms)"
      using Cons.IH [OF Cons.prems(1,2)] Cons.prems(3) by auto
    with True show ?thesis
      by (intro exI [of _ ctx'] exI [of _ st'] exI [of _ "m # out"]) (cases m, simp)
  next
    case False
    have "CHR ''<'' \<notin> set (Content m)" "analyzes w t dets (Content m)" using Cons.prems(3) by simp_all
    note m = this
    obtain ctx1 st1 o1 where one: "presidio_text w t (Content m) ctx = (ctx1, Inr o1)"
      "tc_state ctx1 = Some st1" "clean st1" "set (mappings st) \<subseteq> set (mappings st1)"
      and r1: "\<And>prs. restoring prs st1 \<Longrightarrow> replacer prs o1 = Content m"
      by (rule presidio_text_reversible [OF assms(1) Cons.prems(1,2) m]) (rule that)
    obtain ctx' st' out where two: "Presidio_Transform w t ctx1 ms = (ctx', Inr out)"
      "tc_state ctx' = Some st'" "clean st'" "set (mappings st1) \<subseteq> set (mappings st')"
      and r2: "\<And>prs. restoring prs st' \<Longrightarrow> map (\<lambda>m. m\<lparr>Content := replacer prs (Content m)\<rparr>) out = ms"
      using Cons.IH [OF one(2,3)] Cons.prems(3) by auto
    have all: "map (\<lambda>m. m\<lparr>Content := replacer prs (Content m)\<rparr>) (m\<lparr>Content := o1\<rparr> # out) = m # ms"
      if "restoring prs st'" for prs
    proof -
      have "replacer prs o1 = Content m" by (rule r1, rule restoring_mono [OF that two(4)])
      with r2 [OF that] show ?thesis by (cases m) simp
    qed
    have "Presidio_Transform w t ctx (m # ms) = (ctx', Inr (m\<lparr>Content := o1\<rparr> # out))"
      by (simp add: False one(1) two(1))
    moreover have "set (mappings st) \<subseteq> set (mappings st')" using one(4) two(4) by (rule subset_trans)
    ultimately show ?thesis using two(2,3) all by blast
  qed
qed



text \<open>
  A webhook transformer can remove message fields without any trace in the audit record. An
  endpoint that answers with the role and the content of a message, as its documented contract
  shows them, deletes the message's other fields (tool calls, names) and its multimodal parts, and
  the chain is recorded as unchanged.
\<close>

theorem webhook_drops_fields_unrecorded:
  assumes "w (tc_calls ctx) (post_request (wh_URL (wht_cfg t)) (wh_Headers (wht_cfg t))
              (webhook_messages_request (tc_meta ctx) [m])) = Response 200 body"
    and "decode_limited webhookMaxResponseBytes body
           = Inr (JObj [(''messages'', JArr [JObj [(''role'', JStr (Role m)), (''content'', JStr (Content m))]])])"
  shows "\<exists>ctx' chain m'. ApplyAll lib w dur el [TWebhook t] ctx [m] = (ctx', Inr [m'], chain)
           \<and> \<not> ch_Changed chain \<and> msg_extra m' = [] \<and> contentRaw m' = None"
proof -
  let ?m' = "zero_message\<lparr>Role := Role m, Content := Content m\<rparr>"
  have k: "fold_key ''messages'' = ''messages''" by code_simp
  have "unmarshal_message (JObj [(''role'', JStr (Role m)), (''content'', JStr (Content m))]) = Inr ?m'"
    by (simp add: unmarshal_message_def raw_members_def m_of_entries_def zero_message_def Let_def)
  then have "webhook_messages_response
      (JObj [(''messages'', JArr [JObj [(''role'', JStr (Role m)), (''content'', JStr (Content m))]])]) = Inr (Some [?m'])"
    by (simp add: webhook_messages_response_def struct_members_def field_vals_def k)
  then have "snd (Webhook_Transform w t ctx [m]) = Inr [?m']"
    using assms by (simp add: Webhook_Transform_def do_call_def Let_def)
  then obtain ctx' where "Webhook_Transform w t ctx [m] = (ctx', Inr [?m'])" by (metis prod.collapse)
  then show ?thesis by (simp add: ApplyAll_def Let_def zero_message_def)
qed

theorem webhook_drops_fields_unrecorded_witness:
  "let t = NewWebhookTransformer ''w'' \<lparr>wh_URL = ''http://h'', wh_Headers = [], wh_TimeoutSeconds = 0\<rparr>;
       m = zero_message\<lparr>Role := ''user'', Content := ''x'', msg_extra := [(''name'', JStr ''bob'')]\<rparr>
   in \<exists>ctx' chain m'. ApplyAll eq_lib (\<lambda>_ _. Response 200 \<lparr>b_value = Some (JObj [(''messages'',
          JArr [JObj [(''role'', JStr ''user''), (''content'', JStr ''x'')]])]), b_end = 50, b_trailing = False,
          b_text = []\<rparr>) (\<lambda>_. 0) 0 [TWebhook t] ctx0 [m] = (ctx', Inr [m'], chain)
        \<and> \<not> ch_Changed chain \<and> msg_extra m' = []"
proof -
  let ?t = "NewWebhookTransformer ''w'' \<lparr>wh_URL = ''http://h'', wh_Headers = [], wh_TimeoutSeconds = 0\<rparr>"
  let ?m = "zero_message\<lparr>Role := ''user'', Content := ''x'', msg_extra := [(''name'', JStr ''bob'')]\<rparr>"
  let ?b = "\<lparr>b_value = Some (JObj [(''messages'',
          JArr [JObj [(''role'', JStr ''user''), (''content'', JStr ''x'')]])]), b_end = 50, b_trailing = False,
          b_text = []\<rparr>"
  have "decode_limited webhookMaxResponseBytes ?b = Inr (JObj [(''messages'',
          JArr [JObj [(''role'', JStr (Role ?m)), (''content'', JStr (Content ?m))]])])"
    by (simp add: decode_limited_def webhookMaxResponseBytes_def)
  from webhook_drops_fields_unrecorded [of "\<lambda>_ _. Response 200 ?b" ctx0 ?t ?m ?b, OF refl this]
  show ?thesis unfolding Let_def by blast
qed

end
