(* ===== verification/Backend_Config.thy ===== *)
theory Backend_Config
  imports Transform_Chain
begin

text \<open>
  \<open>internal/shared/domain/workspaceconfig.go\<close> and \<open>internal/dataplane/backendconfig/store.go\<close>:
  the configuration the control plane serves, its resolution into a snapshot with the guards and
  transformers built, and the lookups the request path makes.
\<close>

subsection \<open>The served configuration\<close>

text \<open>UUIDs are only compared; they stand for their text. Criteria, phases and types are strings.\<close>

type_synonym uuid = string

record alert_webhook_config =
  aw_ID :: uuid
  aw_URL :: string
  aw_PayloadFormat :: string

record api_key_config =
  ak_KeyHash :: string
  ak_RateLimitRPS :: "rat option"
  ak_RateLimitBurst :: "int option"

record source_config =
  sc_ID :: uuid
  sc_Route :: string
  sc_Enabled :: bool
  sc_LLMModel :: string
  sc_LLMAPIKey :: string
  sc_LLMBaseURL :: string
  sc_InputPassCriteria :: string
  sc_InputPassThreshold :: "int option"
  sc_OutputPassCriteria :: string
  sc_OutputPassThreshold :: "int option"
  sc_GuardrailIDs :: "uuid list"
  sc_TransformerIDs :: "uuid list"

record transformer_config =
  tc_ID :: uuid
  tc_Name :: string
  tc_TransformerType :: string
  tc_Phase :: string
  tc_Config :: "json option"

record guardrail_config =
  gc_ID :: uuid
  gc_Name :: string
  gc_GuardType :: string
  gc_Phase :: string
  gc_Config :: "json option"

record org_config =
  org_ID :: uuid
  org_APIKeys :: "api_key_config list"
  org_Sources :: "source_config list"
  org_Guardrails :: "guardrail_config list"
  org_Transformers :: "transformer_config list"
  org_AlertWebhooks :: "alert_webhook_config list"

record workspace_config =
  ws_Version :: string
  ws_GeneratedAt :: string
  ws_Organizations :: "org_config list"

subsection \<open>The resolved snapshot\<close>

record resolved_source =
  rs_ID :: uuid
  rs_OrgID :: uuid
  rs_Route :: string
  rs_Enabled :: bool
  rs_LLMModel :: string
  rs_LLMAPIKey :: string
  rs_LLMBaseURL :: string
  rs_InputPassCriteria :: string
  rs_InputPassThreshold :: "int option"
  rs_OutputPassCriteria :: string
  rs_OutputPassThreshold :: "int option"
  rs_InputGuards :: "guard list"
  rs_OutputGuards :: "guard list"
  rs_InputTransformers :: "transformer list"
  rs_OutputTransformers :: "transformer list"

record auth_info =
  ai_OrgID :: uuid
  ai_KeyHash :: string
  ai_RateLimitRPS :: rat
  ai_RateLimitBurst :: int

record snapshot =
  sn_Version :: string
  sn_apiKeys :: "(string, auth_info) gomap"
  sn_sources :: "(uuid \<times> string, resolved_source) gomap"
  sn_alerts :: "(uuid, alert_webhook_config list) gomap"

text \<open>\<open>Store.current\<close>: nil before the first apply.\<close>

type_synonym store = "snapshot option"

definition NewStore :: store where "NewStore = None"

definition Loaded :: "store \<Rightarrow> bool" where "Loaded s = (s \<noteq> None)"

definition Version :: "store \<Rightarrow> string" where
  "Version s = (case s of Some snap \<Rightarrow> sn_Version snap | None \<Rightarrow> [])"

text \<open>\<open>sha_hex\<close> is the hexadecimal SHA-256 digest.\<close>

definition LookupAPIKey :: "(string \<Rightarrow> string) \<Rightarrow> store \<Rightarrow> string \<Rightarrow> auth_info option" where
  "LookupAPIKey sha_hex s rawKey =
     (case s of None \<Rightarrow> None | Some snap \<Rightarrow> m_get (sn_apiKeys snap) (sha_hex rawKey))"

definition LookupSource :: "store \<Rightarrow> uuid \<Rightarrow> string \<Rightarrow> resolved_source option" where
  "LookupSource s orgID route =
     (case s of None \<Rightarrow> None | Some snap \<Rightarrow> m_get (sn_sources snap) (orgID, route))"

definition AlertWebhooks :: "store \<Rightarrow> uuid \<Rightarrow> alert_webhook_config list" where
  "AlertWebhooks s orgID =
     (case s of None \<Rightarrow> []
      | Some snap \<Rightarrow> (case m_get (sn_alerts snap) orgID of None \<Rightarrow> [] | Some ws \<Rightarrow> ws))"

subsection \<open>Optional fields of a configuration\<close>

definition config_str :: "string \<Rightarrow> json option \<Rightarrow> string" where
  "config_str key config =
     (case config of
        None \<Rightarrow> []
      | Some j \<Rightarrow> (case struct_members j of
          None \<Rightarrow> []
        | Some kvs \<Rightarrow> (case dec_str (field_vals key kvs) [] of None \<Rightarrow> [] | Some s \<Rightarrow> s)))"

definition readScope :: "json option \<Rightarrow> string" where
  "readScope config = config_str ''scope'' config"

definition isFailOpen :: "json option \<Rightarrow> bool" where
  "isFailOpen config = (config_str ''on_error'' config = ''fail_open'')"

definition isShadow :: "json option \<Rightarrow> bool" where
  "isShadow config = (config_str ''mode'' config = ''shadow'')"

subsection \<open>Apply\<close>

text \<open>The decorators a configuration asks for.\<close>

definition decorate_guard :: "json option \<Rightarrow> guard \<Rightarrow> guard" where
  "decorate_guard config g =
     (let g = (if readScope config = ''all_messages'' then WithScopeAllMessages g else g);
          g = (if isFailOpen config then WithFailOpen g else g)
      in if isShadow config then WithShadow g else g)"

fun resolve_guards ::
    "guard_registry \<Rightarrow> string \<Rightarrow> (uuid, guardrail_config) gomap \<Rightarrow> uuid list \<Rightarrow> resolved_source
     \<Rightarrow> resolved_source res" where
  "resolve_guards reg route byID [] r = Inr r"
| "resolve_guards reg route byID (gid # gids) r =
     (case m_get byID gid of
        None \<Rightarrow> resolve_guards reg route byID gids r
      | Some gc \<Rightarrow>
          (case Registry_Create reg (gc_GuardType gc) (gc_Name gc) (gc_Config gc) of
             Inl e \<Rightarrow> Inl (''building guard '' @ go_quote (gc_Name gc) @ '' for source '' @ go_quote route @ '': '' @ e)
           | Inr g0 \<Rightarrow>
               (let g = decorate_guard (gc_Config gc) g0;
                    r = (if gc_Phase gc = ''input'' \<or> gc_Phase gc = ''both''
                         then r\<lparr>rs_InputGuards := rs_InputGuards r @ [g]\<rparr> else r);
                    r = (if gc_Phase gc = ''output'' \<or> gc_Phase gc = ''both''
                         then r\<lparr>rs_OutputGuards := rs_OutputGuards r @ [g]\<rparr> else r)
                in resolve_guards reg route byID gids r)))"

fun resolve_transformers ::
    "transform_registry \<Rightarrow> string \<Rightarrow> (uuid, transformer_config) gomap \<Rightarrow> uuid list \<Rightarrow> resolved_source
     \<Rightarrow> resolved_source res" where
  "resolve_transformers treg route byID [] r = Inr r"
| "resolve_transformers treg route byID (tid # tids) r =
     (case m_get byID tid of
        None \<Rightarrow> resolve_transformers treg route byID tids r
      | Some tc \<Rightarrow>
          (case TRegistry_Create treg (tc_TransformerType tc) (tc_Name tc) (tc_Config tc) of
             Inl e \<Rightarrow> Inl (''building transformer '' @ go_quote (tc_Name tc) @ '' for source '' @ go_quote route @ '': '' @ e)
           | Inr t0 \<Rightarrow>
               (let t = (if isFailOpen (tc_Config tc) then tWithFailOpen t0 else t0);
                    r = (if tc_Phase tc = ''input''
                         then r\<lparr>rs_InputTransformers := rs_InputTransformers r @ [t]\<rparr>
                         else if tc_Phase tc = ''output''
                         then r\<lparr>rs_OutputTransformers := rs_OutputTransformers r @ [t]\<rparr>
                         else r)
                in resolve_transformers treg route byID tids r)))"

definition empty_resolved :: "uuid \<Rightarrow> source_config \<Rightarrow> resolved_source" where
  "empty_resolved orgID src =
     \<lparr>rs_ID = sc_ID src, rs_OrgID = orgID, rs_Route = sc_Route src, rs_Enabled = sc_Enabled src,
      rs_LLMModel = sc_LLMModel src, rs_LLMAPIKey = sc_LLMAPIKey src, rs_LLMBaseURL = sc_LLMBaseURL src,
      rs_InputPassCriteria = sc_InputPassCriteria src, rs_InputPassThreshold = sc_InputPassThreshold src,
      rs_OutputPassCriteria = sc_OutputPassCriteria src, rs_OutputPassThreshold = sc_OutputPassThreshold src,
      rs_InputGuards = [], rs_OutputGuards = [], rs_InputTransformers = [], rs_OutputTransformers = []\<rparr>"

definition guardrailsByID :: "org_config \<Rightarrow> (uuid, guardrail_config) gomap" where
  "guardrailsByID org = m_of_entries (map (\<lambda>g. (gc_ID g, g)) (org_Guardrails org))"

definition transformersByID :: "org_config \<Rightarrow> (uuid, transformer_config) gomap" where
  "transformersByID org = m_of_entries (map (\<lambda>t. (tc_ID t, t)) (org_Transformers org))"

definition resolve_source ::
    "guard_registry \<Rightarrow> transform_registry \<Rightarrow> org_config \<Rightarrow> source_config \<Rightarrow> resolved_source res" where
  "resolve_source reg treg org src =
     res_bind (resolve_guards reg (sc_Route src) (guardrailsByID org) (sc_GuardrailIDs src)
                 (empty_resolved (org_ID org) src)) (\<lambda>r.
       resolve_transformers treg (sc_Route src) (transformersByID org) (sc_TransformerIDs src) r)"

fun apply_sources ::
    "guard_registry \<Rightarrow> transform_registry \<Rightarrow> org_config \<Rightarrow> source_config list \<Rightarrow> snapshot \<Rightarrow> snapshot res" where
  "apply_sources reg treg org [] snap = Inr snap"
| "apply_sources reg treg org (src # srcs) snap =
     (case resolve_source reg treg org src of
        Inl e \<Rightarrow> Inl e
      | Inr r \<Rightarrow> apply_sources reg treg org srcs
          (snap\<lparr>sn_sources := m_set (org_ID org, sc_Route src) r (sn_sources snap)\<rparr>))"

definition auth_of :: "uuid \<Rightarrow> api_key_config \<Rightarrow> auth_info" where
  "auth_of orgID k =
     \<lparr>ai_OrgID = orgID, ai_KeyHash = ak_KeyHash k,
      ai_RateLimitRPS = (case ak_RateLimitRPS k of None \<Rightarrow> 0 | Some q \<Rightarrow> q),
      ai_RateLimitBurst = (case ak_RateLimitBurst k of None \<Rightarrow> 0 | Some b \<Rightarrow> b)\<rparr>"

definition apply_org_tables :: "org_config \<Rightarrow> snapshot \<Rightarrow> snapshot" where
  "apply_org_tables org snap =
     (let snap = (if length (org_AlertWebhooks org) > 0
                  then snap\<lparr>sn_alerts := m_set (org_ID org) (org_AlertWebhooks org) (sn_alerts snap)\<rparr>
                  else snap)
      in snap\<lparr>sn_apiKeys := fold (\<lambda>k m. m_set (ak_KeyHash k) (auth_of (org_ID org) k) m)
                             (org_APIKeys org) (sn_apiKeys snap)\<rparr>)"

fun apply_orgs ::
    "guard_registry \<Rightarrow> transform_registry \<Rightarrow> org_config list \<Rightarrow> snapshot \<Rightarrow> snapshot res" where
  "apply_orgs reg treg [] snap = Inr snap"
| "apply_orgs reg treg (org # orgs) snap =
     (case apply_sources reg treg org (org_Sources org) (apply_org_tables org snap) of
        Inl e \<Rightarrow> Inl e
      | Inr snap' \<Rightarrow> apply_orgs reg treg orgs snap')"

definition Apply ::
    "guard_registry \<Rightarrow> transform_registry \<Rightarrow> workspace_config \<Rightarrow> store \<Rightarrow> store \<times> unit res" where
  "Apply reg treg cfg s =
     (case apply_orgs reg treg (ws_Organizations cfg)
             \<lparr>sn_Version = ws_Version cfg, sn_apiKeys = [], sn_sources = [], sn_alerts = []\<rparr> of
        Inl e \<Rightarrow> (s, Inl e)
      | Inr snap \<Rightarrow> (Some snap, Inr ()))"

subsection \<open>What a source resolves to\<close>

text \<open>The attached guardrails and transformers that the organization has, in attachment order.\<close>

definition attached_guards :: "org_config \<Rightarrow> source_config \<Rightarrow> guardrail_config list" where
  "attached_guards org src = List.map_filter (m_get (guardrailsByID org)) (sc_GuardrailIDs src)"

definition attached_transformers :: "org_config \<Rightarrow> source_config \<Rightarrow> transformer_config list" where
  "attached_transformers org src = List.map_filter (m_get (transformersByID org)) (sc_TransformerIDs src)"

definition create_guard :: "guard_registry \<Rightarrow> guardrail_config \<Rightarrow> guard res" where
  "create_guard reg gc = Registry_Create reg (gc_GuardType gc) (gc_Name gc) (gc_Config gc)"

definition create_transformer :: "transform_registry \<Rightarrow> transformer_config \<Rightarrow> transformer res" where
  "create_transformer treg tc = TRegistry_Create treg (tc_TransformerType tc) (tc_Name tc) (tc_Config tc)"

definition mk_guard :: "guard_registry \<Rightarrow> guardrail_config \<Rightarrow> guard" where
  "mk_guard reg gc = decorate_guard (gc_Config gc) (projr (create_guard reg gc))"

definition mk_transformer :: "transform_registry \<Rightarrow> transformer_config \<Rightarrow> transformer" where
  "mk_transformer treg tc =
     (if isFailOpen (tc_Config tc) then tWithFailOpen (projr (create_transformer treg tc))
      else projr (create_transformer treg tc))"

definition in_phase :: "string \<Rightarrow> guardrail_config \<Rightarrow> bool" where
  "in_phase ph gc \<longleftrightarrow> gc_Phase gc = ph \<or> gc_Phase gc = ''both''"

text \<open>The source an organization and a source configuration stand for.\<close>

definition resolved :: "guard_registry \<Rightarrow> transform_registry \<Rightarrow> org_config \<Rightarrow> source_config \<Rightarrow> resolved_source" where
  "resolved reg treg org src =
     (empty_resolved (org_ID org) src)
       \<lparr>rs_InputGuards := map (mk_guard reg) (filter (in_phase ''input'') (attached_guards org src)),
        rs_OutputGuards := map (mk_guard reg) (filter (in_phase ''output'') (attached_guards org src)),
        rs_InputTransformers := map (mk_transformer treg)
          (filter (\<lambda>tc. tc_Phase tc = ''input'') (attached_transformers org src)),
        rs_OutputTransformers := map (mk_transformer treg)
          (filter (\<lambda>tc. tc_Phase tc = ''output'') (attached_transformers org src))\<rparr>"

lemma resolve_guards_iff:
  "resolve_guards reg route byID gids r = Inr r' \<longleftrightarrow>
     (\<forall>gc \<in> set (List.map_filter (m_get byID) gids). \<not> is_err (create_guard reg gc))
     \<and> r' = r\<lparr>rs_InputGuards := rs_InputGuards r
                 @ map (mk_guard reg) (filter (in_phase ''input'') (List.map_filter (m_get byID) gids)),
             rs_OutputGuards := rs_OutputGuards r
                 @ map (mk_guard reg) (filter (in_phase ''output'') (List.map_filter (m_get byID) gids))\<rparr>"
proof (induction gids arbitrary: r)
  case Nil
  show ?case by (auto simp: map_filter_simps)
next
  case (Cons gid gids)
  show ?case
  proof (cases "m_get byID gid")
    case None
    with Cons show ?thesis by (simp add: map_filter_simps)
  next
    case (Some gc)
    show ?thesis
    proof (cases "create_guard reg gc")
      case (Inl e)
      with Some show ?thesis by (simp add: map_filter_simps create_guard_def)
    next
      case (Inr g0)
      then have mk: "mk_guard reg gc = decorate_guard (gc_Config gc) g0" by (simp add: mk_guard_def)
      from Some Inr Cons show ?thesis
        by (simp add: map_filter_simps create_guard_def [symmetric] Let_def mk in_phase_def)
    qed
  qed
qed

lemma resolve_transformers_iff:
  "resolve_transformers treg route byID tids r = Inr r' \<longleftrightarrow>
     (\<forall>tc \<in> set (List.map_filter (m_get byID) tids). \<not> is_err (create_transformer treg tc))
     \<and> r' = r\<lparr>rs_InputTransformers := rs_InputTransformers r @ map (mk_transformer treg)
                 (filter (\<lambda>tc. tc_Phase tc = ''input'') (List.map_filter (m_get byID) tids)),
             rs_OutputTransformers := rs_OutputTransformers r @ map (mk_transformer treg)
                 (filter (\<lambda>tc. tc_Phase tc = ''output'') (List.map_filter (m_get byID) tids))\<rparr>"
proof (induction tids arbitrary: r)
  case Nil
  show ?case by (auto simp: map_filter_simps)
next
  case (Cons tid tids)
  show ?case
  proof (cases "m_get byID tid")
    case None
    with Cons show ?thesis by (simp add: map_filter_simps)
  next
    case (Some tc)
    show ?thesis
    proof (cases "create_transformer treg tc")
      case (Inl e)
      with Some show ?thesis by (simp add: map_filter_simps create_transformer_def)
    next
      case (Inr t0)
      then have mk: "mk_transformer treg tc = (if isFailOpen (tc_Config tc) then tWithFailOpen t0 else t0)"
        by (simp add: mk_transformer_def)
      from Some Inr Cons show ?thesis
        by (simp add: map_filter_simps create_transformer_def [symmetric] Let_def mk)
    qed
  qed
qed

definition source_builds :: "guard_registry \<Rightarrow> transform_registry \<Rightarrow> org_config \<Rightarrow> source_config \<Rightarrow> bool" where
  "source_builds reg treg org src \<longleftrightarrow>
     (\<forall>gc \<in> set (attached_guards org src). \<not> is_err (create_guard reg gc))
     \<and> (\<forall>tc \<in> set (attached_transformers org src). \<not> is_err (create_transformer treg tc))"

lemma resolve_source_iff:
  "resolve_source reg treg org src = Inr r \<longleftrightarrow> source_builds reg treg org src \<and> r = resolved reg treg org src"
  unfolding resolve_source_def res_bind_Inr_iff resolve_guards_iff resolve_transformers_iff
    source_builds_def resolved_def attached_guards_def [symmetric] attached_transformers_def [symmetric]
  by (auto simp: empty_resolved_def)

lemma resolve_source_builds: "\<not> is_err (resolve_source reg treg org src) \<longleftrightarrow> source_builds reg treg org src"
  by (auto simp: not_is_err_iff resolve_source_iff)

subsection \<open>What a successful apply installs\<close>

lemma apply_sources_frame:
  "apply_sources reg treg org srcs snap = Inr snap' \<Longrightarrow>
   sn_Version snap' = sn_Version snap \<and> sn_apiKeys snap' = sn_apiKeys snap \<and> sn_alerts snap' = sn_alerts snap"
  by (induction srcs arbitrary: snap) (auto split: sum.splits)

lemma apply_sources_ok:
  "\<not> is_err (apply_sources reg treg org srcs snap) \<longleftrightarrow> list_all (source_builds reg treg org) srcs"
  by (induction srcs arbitrary: snap)
    (auto split: sum.splits simp: resolve_source_builds [symmetric])

lemma apply_sources_lookup:
  assumes "apply_sources reg treg org srcs snap = Inr snap'"
  shows "m_get (sn_sources snap') k =
    (case find (\<lambda>src. (org_ID org, sc_Route src) = k) (rev srcs) of
       Some src \<Rightarrow> Some (resolved reg treg org src) | None \<Rightarrow> m_get (sn_sources snap) k)"
  using assms
proof (induction srcs arbitrary: snap)
  case (Cons src srcs)
  have f: "find P (xs @ [x]) = (case find P xs of Some y \<Rightarrow> Some y | None \<Rightarrow> if P x then Some x else None)" for P xs x
    by (induction xs) auto
  from Cons.prems obtain r where r: "resolve_source reg treg org src = Inr r"
    and a: "apply_sources reg treg org srcs
      (snap\<lparr>sn_sources := m_set (org_ID org, sc_Route src) r (sn_sources snap)\<rparr>) = Inr snap'"
    by (auto split: sum.splits)
  have "r = resolved reg treg org src" using r by (simp add: resolve_source_iff)
  with Cons.IH [OF a] show ?case by (auto simp: f m_get_set split: option.splits)
qed simp

lemma apply_org_tables_sel [simp]:
  "sn_Version (apply_org_tables org snap) = sn_Version snap"
  "sn_sources (apply_org_tables org snap) = sn_sources snap"
  "sn_apiKeys (apply_org_tables org snap) =
     fold (\<lambda>k m. m_set (ak_KeyHash k) (auth_of (org_ID org) k) m) (org_APIKeys org) (sn_apiKeys snap)"
  "sn_alerts (apply_org_tables org snap) =
     (if org_AlertWebhooks org = [] then sn_alerts snap
      else m_set (org_ID org) (org_AlertWebhooks org) (sn_alerts snap))"
  by (simp_all add: apply_org_tables_def Let_def)

text \<open>Every source of the configuration, with its organization.\<close>

definition config_sources :: "org_config list \<Rightarrow> (org_config \<times> source_config) list" where
  "config_sources orgs = concat (map (\<lambda>org. map (Pair org) (org_Sources org)) orgs)"

lemma find_append: "find P (xs @ ys) = (case find P xs of Some y \<Rightarrow> Some y | None \<Rightarrow> find P ys)"
  by (induction xs) auto

lemma find_SomeD: "find P xs = Some x \<Longrightarrow> x \<in> set xs \<and> P x"
  by (induction xs) (auto split: if_splits)

lemma find_map: "find P (map f xs) = map_option f (find (P \<circ> f) xs)"
  by (induction xs) auto

lemma apply_orgs_lookup:
  assumes "apply_orgs reg treg orgs snap = Inr snap'"
  shows "m_get (sn_sources snap') k =
    (case find (\<lambda>(org, src). (org_ID org, sc_Route src) = k) (rev (config_sources orgs)) of
       Some (org, src) \<Rightarrow> Some (resolved reg treg org src) | None \<Rightarrow> m_get (sn_sources snap) k)"
    and "sn_Version snap' = sn_Version snap"
  using assms
proof (induction orgs arbitrary: snap)
  case Nil
  {
    case 1
    then show ?case by (simp add: config_sources_def)
  next
    case 2
    then show ?case by simp
  }
next
  case (Cons org orgs)
  {
    case 1
    then obtain snap1 where a: "apply_sources reg treg org (org_Sources org) (apply_org_tables org snap) = Inr snap1"
      and b: "apply_orgs reg treg orgs snap1 = Inr snap'"
      by (auto split: sum.splits)
    have "find (\<lambda>(org, src). (org_ID org, sc_Route src) = k) (rev (map (Pair org) (org_Sources org)))
        = map_option (Pair org) (find (\<lambda>src. (org_ID org, sc_Route src) = k) (rev (org_Sources org)))"
      by (simp add: rev_map find_map comp_def)
    then show ?case
      using Cons.IH(1) [OF b] apply_sources_lookup [OF a, of k]
      by (simp add: config_sources_def find_append split: option.split)
  next
    case 2
    then obtain snap1 where a: "apply_sources reg treg org (org_Sources org) (apply_org_tables org snap) = Inr snap1"
      and b: "apply_orgs reg treg orgs snap1 = Inr snap'"
      by (auto split: sum.splits)
    with Cons.IH(2) [OF b] apply_sources_frame [OF a] show ?case by simp
  }
qed

lemma set_config_sources:
  "(org, src) \<in> set (config_sources orgs) \<longleftrightarrow> org \<in> set orgs \<and> src \<in> set (org_Sources org)"
  by (auto simp: config_sources_def)

lemma apply_orgs_ok:
  "\<not> is_err (apply_orgs reg treg orgs snap) \<longleftrightarrow>
     (\<forall>org \<in> set orgs. list_all (source_builds reg treg org) (org_Sources org))"
proof (induction orgs arbitrary: snap)
  case (Cons org orgs)
  show ?case
    using Cons apply_sources_ok [of reg treg org "org_Sources org" "apply_org_tables org snap"]
    by (auto split: sum.split)
qed simp

lemma apply_orgs_tables:
  assumes "apply_orgs reg treg orgs snap = Inr snap'"
  shows "sn_apiKeys snap' = fold (\<lambda>(o', k) m. m_set (ak_KeyHash k) (auth_of (org_ID o') k) m)
           (concat (map (\<lambda>org. map (Pair org) (org_APIKeys org)) orgs)) (sn_apiKeys snap)
       \<and> sn_alerts snap' = fold (\<lambda>org m. m_set (org_ID org) (org_AlertWebhooks org) m)
           (filter (\<lambda>org. org_AlertWebhooks org \<noteq> []) orgs) (sn_alerts snap)"
  using assms
proof (induction orgs arbitrary: snap)
  case (Cons org orgs)
  then obtain snap1 where a: "apply_sources reg treg org (org_Sources org) (apply_org_tables org snap) = Inr snap1"
    and b: "apply_orgs reg treg orgs snap1 = Inr snap'"
    by (auto split: sum.splits)
  from Cons.IH [OF b] apply_sources_frame [OF a] show ?case
    by (simp add: fold_map comp_def)
qed simp

subsection \<open>Properties of the store\<close>


text \<open>
  What a request is served with comes from its own organization's configuration. A source found
  for an organization and a route after a successful apply is the last source with that route of an
  organization with that id; its settings are those configured, its guards are the attached
  guardrails of the same organization that exist and run in the phase, built, decorated and kept in
  attachment order, and its transformers likewise; nothing of another organization appears.
\<close>

theorem LookupSource_resolves:
  assumes "Apply reg treg cfg s = (s', Inr ())" and "LookupSource s' o' route = Some rs"
  shows "\<exists>org \<in> set (ws_Organizations cfg). \<exists>src \<in> set (org_Sources org).
           org_ID org = o' \<and> sc_Route src = route \<and> rs_OrgID rs = o' \<and> rs_Route rs = route
           \<and> rs = resolved reg treg org src"
proof -
  let ?e = "\<lparr>sn_Version = ws_Version cfg, sn_apiKeys = [], sn_sources = [], sn_alerts = []\<rparr>"
  obtain snap where a: "apply_orgs reg treg (ws_Organizations cfg) ?e = Inr snap" and s': "s' = Some snap"
    using assms(1) by (auto simp: Apply_def split: sum.splits)
  have "m_get (sn_sources snap) (o', route) = Some rs" using assms(2) by (simp add: LookupSource_def s')
  with apply_orgs_lookup(1) [OF a, of "(o', route)"]
  obtain org src where f: "find (\<lambda>(org, src). (org_ID org, sc_Route src) = (o', route))
      (rev (config_sources (ws_Organizations cfg))) = Some (org, src)" and rs: "rs = resolved reg treg org src"
    by (auto split: option.splits)
  then have "(org, src) \<in> set (config_sources (ws_Organizations cfg))" "org_ID org = o'" "sc_Route src = route"
    using find_SomeD [OF f] by simp_all
  then show ?thesis
    using rs by (auto simp: set_config_sources resolved_def empty_resolved_def)
qed

text \<open>
  A configuration of one organization, whose source has a deanonymizer on its output chain and
  still lists a guardrail that was deleted.
\<close>

definition example_source :: source_config where
  "example_source =
     \<lparr>sc_ID = ''s1'', sc_Route = ''chat'', sc_Enabled = True, sc_LLMModel = ''m'', sc_LLMAPIKey = ''k'',
      sc_LLMBaseURL = [], sc_InputPassCriteria = ''all'', sc_InputPassThreshold = None,
      sc_OutputPassCriteria = ''all'', sc_OutputPassThreshold = None, sc_GuardrailIDs = [''gone''],
      sc_TransformerIDs = [''t1'']\<rparr>"

definition example_org :: org_config where
  "example_org =
     \<lparr>org_ID = ''o1'', org_APIKeys = [\<lparr>ak_KeyHash = ''h'', ak_RateLimitRPS = None, ak_RateLimitBurst = Some 3\<rparr>],
      org_Sources = [example_source], org_Guardrails = [],
      org_Transformers = [\<lparr>tc_ID = ''t1'', tc_Name = ''d'', tc_TransformerType = ''deanonymize'',
                           tc_Phase = ''output'', tc_Config = None\<rparr>],
      org_AlertWebhooks = []\<rparr>"

definition example_config :: workspace_config where
  "example_config = \<lparr>ws_Version = ''v1'', ws_GeneratedAt = [], ws_Organizations = [example_org]\<rparr>"

lemma TRegistry_factory_simps [simp]:
  "TRegistry_factory (TRegistry_Register t f r) t' = (if t' = t then Some f else TRegistry_factory r t')"
  "TRegistry_factory \<lparr>t_factories = []\<rparr> t = None"
  by (rule treg.register_law, rule treg.empty_law)

abbreviation example_registry :: guard_registry where
  "example_registry \<equiv> \<lparr>factories = []\<rparr>"

abbreviation example_tregistry :: transform_registry where
  "example_tregistry \<equiv> TRegistry_Register ''deanonymize'' deanonymizeFactory \<lparr>t_factories = []\<rparr>"

lemma example_builds: "source_builds example_registry example_tregistry example_org example_source"
  by (simp add: source_builds_def attached_guards_def attached_transformers_def example_org_def
      example_source_def guardrailsByID_def transformersByID_def m_of_entries_def map_filter_simps
      create_transformer_def TRegistry_Create_def deanonymizeFactory_def)

lemma example_applies:
  "\<exists>snap. Apply example_registry example_tregistry example_config NewStore = (Some snap, Inr ())"
proof -
  have "\<not> is_err (apply_orgs example_registry example_tregistry (ws_Organizations example_config)
      \<lparr>sn_Version = ws_Version example_config, sn_apiKeys = [], sn_sources = [], sn_alerts = []\<rparr>)"
    unfolding apply_orgs_ok using example_builds by (simp add: example_config_def example_org_def)
  then show ?thesis by (auto simp: Apply_def split: sum.split)
qed


theorem LookupSource_resolves_witness:
  "\<exists>s' rs. LookupSource s' ''o1'' ''chat'' = Some rs \<and> rs_InputGuards rs = []
     \<and> rs_OutputTransformers rs = [TDeanonymize ''d''] \<and> rs_OrgID rs = ''o1''"
proof -
  let ?e = "\<lparr>sn_Version = ws_Version example_config, sn_apiKeys = [], sn_sources = [], sn_alerts = []\<rparr>"
  obtain snap where ap: "Apply example_registry example_tregistry example_config NewStore = (Some snap, Inr ())"
    using example_applies by blast
  then have "apply_orgs example_registry example_tregistry (ws_Organizations example_config) ?e = Inr snap"
    by (simp add: Apply_def split: sum.splits)
  from apply_orgs_lookup(1) [OF this, of "(''o1'', ''chat'')"]
  obtain rs where rs: "LookupSource (Some snap) ''o1'' ''chat'' = Some rs"
    by (simp add: LookupSource_def config_sources_def example_config_def example_org_def example_source_def)
  from LookupSource_resolves [OF ap rs] have "rs = resolved example_registry example_tregistry example_org example_source"
    by (simp add: example_config_def example_org_def)
  with rs show ?thesis
    by (intro exI [of _ "Some snap"] exI [of _ rs])
      (simp add: resolved_def empty_resolved_def attached_guards_def attached_transformers_def example_org_def
      example_source_def guardrailsByID_def transformersByID_def m_of_entries_def map_filter_simps mk_transformer_def
      create_transformer_def TRegistry_Create_def deanonymizeFactory_def isFailOpen_def config_str_def)
qed

subsection \<open>Keys, alerts and a shared configuration field\<close>

lemma m_get_fold_keys:
  "m_get (fold (\<lambda>x m. m_set (f x) (g x) m) xs m) k =
     (case find (\<lambda>x. f x = k) (rev xs) of Some x \<Rightarrow> Some (g x) | None \<Rightarrow> m_get m k)"
  by (induction xs arbitrary: m) (auto simp: find_append m_get_set split: option.split)

text \<open>
  Authentication and alerts stay within the configuration. After a successful apply a raw key
  is accepted exactly when its hash is the hash of a configured key; the organization and the limits
  it gets are those of one such key (0, the default, when none is configured); and the alert
  webhooks of an organization id are those configured for an organization with that id, none for an
  id that has none.
\<close>

theorem keys_and_alerts_configured:
  assumes "Apply reg treg cfg s = (s', Inr ())"
  shows "(LookupAPIKey sha_hex s' raw = None \<longleftrightarrow>
            (\<forall>org \<in> set (ws_Organizations cfg). \<forall>k \<in> set (org_APIKeys org). ak_KeyHash k \<noteq> sha_hex raw))
       \<and> (\<forall>info. LookupAPIKey sha_hex s' raw = Some info \<longrightarrow>
            (\<exists>org \<in> set (ws_Organizations cfg). \<exists>k \<in> set (org_APIKeys org).
               ak_KeyHash k = sha_hex raw \<and> info = auth_of (org_ID org) k))
       \<and> (AlertWebhooks s' o' \<noteq> [] \<longrightarrow>
            (\<exists>org \<in> set (ws_Organizations cfg). org_ID org = o' \<and> AlertWebhooks s' o' = org_AlertWebhooks org))
       \<and> (AlertWebhooks s' o' = [] \<longrightarrow>
            (\<forall>org \<in> set (ws_Organizations cfg). org_ID org = o' \<longrightarrow> org_AlertWebhooks org = []))"
proof -
  let ?orgs = "ws_Organizations cfg"
  let ?e = "\<lparr>sn_Version = ws_Version cfg, sn_apiKeys = [], sn_sources = [], sn_alerts = []\<rparr>"
  let ?keys = "concat (map (\<lambda>org. map (Pair org) (org_APIKeys org)) ?orgs)"
  let ?al = "filter (\<lambda>org. org_AlertWebhooks org \<noteq> []) ?orgs"
  obtain snap where a: "apply_orgs reg treg ?orgs ?e = Inr snap" and s': "s' = Some snap"
    using assms by (auto simp: Apply_def split: sum.splits)
  have keys: "sn_apiKeys snap = fold (\<lambda>x m. m_set (ak_KeyHash (snd x)) (auth_of (org_ID (fst x)) (snd x)) m) ?keys []"
    and al: "sn_alerts snap = fold (\<lambda>org m. m_set (org_ID org) (org_AlertWebhooks org) m) ?al []"
    using apply_orgs_tables [OF a] by (simp_all add: case_prod_beta')
  have k: "LookupAPIKey sha_hex s' raw =
      map_option (\<lambda>x. auth_of (org_ID (fst x)) (snd x)) (find (\<lambda>x. ak_KeyHash (snd x) = sha_hex raw) (rev ?keys))"
    unfolding LookupAPIKey_def s' option.case keys
    by (subst m_get_fold_keys) (simp split: option.split)
  have w: "AlertWebhooks s' o' = (case find (\<lambda>org. org_ID org = o') (rev ?al) of None \<Rightarrow> [] | Some org \<Rightarrow> org_AlertWebhooks org)"
    unfolding AlertWebhooks_def s' option.case al
    by (subst m_get_fold_keys) (simp split: option.split)
  show ?thesis
  proof (intro conjI)
    show "LookupAPIKey sha_hex s' raw = None \<longleftrightarrow>
            (\<forall>org \<in> set ?orgs. \<forall>k \<in> set (org_APIKeys org). ak_KeyHash k \<noteq> sha_hex raw)"
      unfolding k by (auto simp: find_None_iff)
    show "\<forall>info. LookupAPIKey sha_hex s' raw = Some info \<longrightarrow>
            (\<exists>org \<in> set ?orgs. \<exists>k \<in> set (org_APIKeys org).
               ak_KeyHash k = sha_hex raw \<and> info = auth_of (org_ID org) k)"
      unfolding k by (auto dest!: find_SomeD) blast
    show "AlertWebhooks s' o' \<noteq> [] \<longrightarrow>
            (\<exists>org \<in> set ?orgs. org_ID org = o' \<and> AlertWebhooks s' o' = org_AlertWebhooks org)"
      unfolding w by (auto split: option.splits dest!: find_SomeD)
    show "AlertWebhooks s' o' = [] \<longrightarrow> (\<forall>org \<in> set ?orgs. org_ID org = o' \<longrightarrow> org_AlertWebhooks org = [])"
      unfolding w by (auto split: option.splits dest!: find_SomeD simp: find_None_iff)
  qed
qed

theorem keys_and_alerts_configured_witness:
  "\<exists>s'. LookupAPIKey (\<lambda>_. ''h'') s' ''secret'' = Some
           \<lparr>ai_OrgID = ''o1'', ai_KeyHash = ''h'', ai_RateLimitRPS = 0, ai_RateLimitBurst = 3\<rparr>
     \<and> LookupAPIKey (\<lambda>_. ''other'') s' ''guess'' = None \<and> AlertWebhooks s' ''o1'' = []"
proof -
  obtain snap where ap: "Apply example_registry example_tregistry example_config NewStore = (Some snap, Inr ())"
    using example_applies by blast
  note r = keys_and_alerts_configured [OF ap]
  have "LookupAPIKey (\<lambda>_. ''h'') (Some snap) ''secret'' \<noteq> None"
    using r [of "\<lambda>_. ''h''" "''secret''"] by (simp add: example_config_def example_org_def)
  then obtain info where i: "LookupAPIKey (\<lambda>_. ''h'') (Some snap) ''secret'' = Some info" by blast
  with r [of "\<lambda>_. ''h''" "''secret''"] have
    "info = \<lparr>ai_OrgID = ''o1'', ai_KeyHash = ''h'', ai_RateLimitRPS = 0, ai_RateLimitBurst = 3\<rparr>"
    by (simp add: example_config_def example_org_def auth_of_def)
  with i r [of "\<lambda>_. ''other''" "''guess''" "''o1''"] show ?thesis
    by (intro exI [of _ "Some snap"]) (auto simp: example_config_def example_org_def)
qed

text \<open>
  A regex guard cannot be a blocking guard in shadow mode, nor in the mode the shadow field calls
  its default. The configuration field \<open>mode\<close> is read both as the regex guard's own mode and as the
  shadow marker: whatever regex guard is built from a configuration whose \<open>mode\<close> is \<open>shadow\<close> or
  \<open>enforce\<close> passes exactly when every pattern matches, so a blocklist of patterns put into shadow
  mode records a pass for the text it should flag.
\<close>

theorem regex_mode_clash:
  assumes "regexFactory lib name config = Inr (GRegex g)"
    and "config_str ''mode'' config = ''shadow'' \<or> config_str ''mode'' config = ''enforce''"
  shows "\<exists>r. Regex_Validate lib ms g input = Inr r
           \<and> (Passed r \<longleftrightarrow> (\<forall>p \<in> set (rxg_patterns g). rx_match lib p input))
           \<and> (isShadow config \<longleftrightarrow> config_str ''mode'' config = ''shadow'')"
proof -
  obtain md where "rxg_mode g = (if md = [] then ''block'' else md)" and "config_str ''mode'' config = md"
    using assms(1)
    by (auto simp: regexFactory_def config_members_def config_value_def cfg_str_def config_field_def
        NewRegexGuard_def config_str_def res_bind_Inr_iff err_wrap_Inr_iff split: option.splits)
  then have "rxg_mode g \<noteq> ''block''" using assms(2) by auto
  then show ?thesis
    by (auto simp: Regex_Validate_def Let_def isShadow_def filter_empty_conv)
qed

text \<open>The shadow guard for the pattern \<open>secret\<close> passes a text that contains it and fails any other.\<close>

theorem regex_mode_clash_witness:
  "\<exists>g r. regexFactory eq_lib ''rx'' (Some (JObj [(''patterns'', JArr [JStr ''secret'']), (''mode'', JStr ''shadow'')]))
           = Inr (GRegex g)
     \<and> Regex_Validate eq_lib 0 g ''hello'' = Inr r \<and> \<not> Passed r"
proof -
  let ?cfg = "Some (JObj [(''patterns'', JArr [JStr ''secret'']), (''mode'', JStr ''shadow'')])"
  have f: "field_vals ''patterns'' [(''patterns'', JArr [JStr ''secret'']), (''mode'', JStr ''shadow'')] = [JArr [JStr ''secret'']]"
    "field_vals ''mode'' [(''patterns'', JArr [JStr ''secret'']), (''mode'', JStr ''shadow'')] = [JStr ''shadow'']"
    by code_simp+
  have b: "regexFactory eq_lib ''rx'' ?cfg = Inr (GRegex \<lparr>rxg_name = ''rx'', rxg_patterns = [''secret''], rxg_mode = ''shadow''\<rparr>)"
    by (simp add: regexFactory_def config_members_def config_value_def struct_members_def cfg_strs_def
        cfg_str_def config_field_def f NewRegexGuard_def eq_lib_def)
  have "config_str ''mode'' ?cfg = ''shadow''"
    by (simp add: config_str_def struct_members_def f)
  with regex_mode_clash [OF b, of 0 "''hello''"] b show ?thesis
    by (auto simp: eq_lib_def)
qed

end
