(* ===== verification/Crypto_Aes.thy ===== *)
theory Crypto_Aes
  imports Sheeld_Prelude
begin

text \<open>
  \<open>internal/shared/crypto/aes.go\<close>: encryption of secrets at rest. The hexadecimal coding is
  modelled; the cipher (AES-256 in GCM mode of Go's library) is a parameter, used with its
  documented law as a named hypothesis. A string is its bytes.
\<close>

subsection \<open>Hexadecimal text\<close>

definition hex_digit :: "nat \<Rightarrow> char" where
  "hex_digit d = char_of (if d < 10 then 48 + d else 87 + d)"

definition hex_value :: "char \<Rightarrow> nat option" where
  "hex_value c =
     (let n = (of_char c :: nat) in
      if 48 \<le> n \<and> n \<le> 57 then Some (n - 48)
      else if 97 \<le> n \<and> n \<le> 102 then Some (n - 87)
      else if 65 \<le> n \<and> n \<le> 70 then Some (n - 55)
      else None)"

definition EncodeToString :: "string \<Rightarrow> string" where
  "EncodeToString s = concat (map (\<lambda>c. [hex_digit (of_char c div 16), hex_digit (of_char c mod 16)]) s)"

text \<open>For evaluation: the digits read off the bits of a byte.\<close>

definition hex_nibble :: "bool \<Rightarrow> bool \<Rightarrow> bool \<Rightarrow> bool \<Rightarrow> char" where
  "hex_nibble b3 b2 b1 b0 =
     (if b3 then (if b2 then (if b1 then (if b0 then CHR ''f'' else CHR ''e'') else (if b0 then CHR
      ''d'' else CHR ''c'')) else (if b1 then (if b0 then CHR ''b'' else CHR ''a'') else (if b0 then
      CHR ''9'' else CHR ''8''))) else (if b2 then (if b1 then (if b0 then CHR ''7'' else CHR ''6'')
      else (if b0 then CHR ''5'' else CHR ''4'')) else (if b1 then (if b0 then CHR ''3'' else CHR
      ''2'') else (if b0 then CHR ''1'' else CHR ''0''))))"

lemma hex_digit_nibble:
  "hex_digit (of_char c div 16) = hex_nibble (digit7 c) (digit6 c) (digit5 c) (digit4 c)"
  "hex_digit (of_char c mod 16) = hex_nibble (digit3 c) (digit2 c) (digit1 c) (digit0 c)"
proof (atomize (full), cases c)
  case (Char b0 b1 b2 b3 b4 b5 b6 b7)
  have "(of_char c :: nat) = (of_bool b7 * 8 + of_bool b6 * 4 + of_bool b5 * 2 + of_bool b4) * 16
      + (of_bool b3 * 8 + of_bool b2 * 4 + of_bool b1 * 2 + of_bool b0)"
    by (simp add: Char)
  moreover have "of_bool b3 * 8 + of_bool b2 * 4 + of_bool b1 * 2 + of_bool b0 < (16::nat)"
    by (cases b0; cases b1; cases b2; cases b3) simp_all
  ultimately have
    h: "(of_char c :: nat) div 16 = of_bool b7 * 8 + of_bool b6 * 4 + of_bool b5 * 2 + of_bool b4"
       "(of_char c :: nat) mod 16 = of_bool b3 * 8 + of_bool b2 * 4 + of_bool b1 * 2 + of_bool b0"
    by simp_all
  have n: "hex_digit (of_bool x * 8 + of_bool y * 4 + of_bool z * 2 + of_bool w) = hex_nibble x y z w" for x y z w
    by (cases x; cases y; cases z; cases w) (simp_all add: hex_digit_def hex_nibble_def char_of_def bit_Suc_0_iff)
  show "hex_digit (of_char c div 16) = hex_nibble (digit7 c) (digit6 c) (digit5 c) (digit4 c)
    \<and> hex_digit (of_char c mod 16) = hex_nibble (digit3 c) (digit2 c) (digit1 c) (digit0 c)"
    unfolding h n by (simp add: Char)
qed

lemma EncodeToString_code [code]:
  "EncodeToString s = concat (map (\<lambda>c. [hex_nibble (digit7 c) (digit6 c) (digit5 c) (digit4 c),
     hex_nibble (digit3 c) (digit2 c) (digit1 c) (digit0 c)]) s)"
  by (simp add: EncodeToString_def hex_digit_nibble)

text \<open>\<open>hex.DecodeString\<close>; the offending byte is left out of the message.\<close>

fun DecodeString :: "string \<Rightarrow> string res" where
  "DecodeString [] = Inr []"
| "DecodeString [c] =
     (case hex_value c of
        None \<Rightarrow> Inl ''encoding/hex: invalid byte'' | Some _ \<Rightarrow> Inl ''encoding/hex: odd length hex string'')"
| "DecodeString (a # b # s) =
     (case (hex_value a, hex_value b) of
        (Some x, Some y) \<Rightarrow> res_bind (DecodeString s) (\<lambda>t. Inr (char_of (16 * x + y) # t))
      | _ \<Rightarrow> Inl ''encoding/hex: invalid byte'')"

lemma hex_value_digit: "d < 16 \<Longrightarrow> hex_value (hex_digit d) = Some d"
  by (auto simp: hex_value_def hex_digit_def Let_def of_char_of)

lemma decode_encode [simp]: "DecodeString (EncodeToString s) = Inr s"
proof (induction s)
  case (Cons c s)
  have "(of_char c :: nat) < 256" using nat_of_char_less_256 [of c] by simp
  then have "hex_value (hex_digit (of_char c div 16)) = Some (of_char c div 16)"
    and "hex_value (hex_digit (of_char c mod 16)) = Some (of_char c mod 16)"
    by (simp_all add: hex_value_digit less_mult_imp_div_less)
  moreover have "char_of (16 * (of_char c div 16) + of_char c mod 16 :: nat) = c"
    by (simp only: mult_div_mod_eq char_of_char)
  ultimately show ?case using Cons by (simp add: EncodeToString_def)
qed (simp add: EncodeToString_def)

subsection \<open>Encrypt and Decrypt\<close>

text \<open>
  The cipher: \<open>gcm_seal key nonce plaintext\<close> is ciphertext and tag, \<open>gcm_open\<close> gives the
  plaintext back when the tag fits. Both take no additional data. The nonce has 12 bytes.
\<close>

record cipher =
  gcm_seal :: "string \<Rightarrow> string \<Rightarrow> string \<Rightarrow> string"
  gcm_open :: "string \<Rightarrow> string \<Rightarrow> string \<Rightarrow> string res"

definition NonceSize :: nat where "NonceSize = 12"

definition ValidateKey :: "string \<Rightarrow> unit res" where
  "ValidateKey hexKey =
     res_bind (err_wrap ''encryption key must be hex-encoded: '' (DecodeString hexKey)) (\<lambda>key.
       if length key \<noteq> 32
       then Inl (''encryption key must be 32 bytes (64 hex chars), got '' @ itoa (length key))
       else Inr ())"

definition cipher_key :: "string \<Rightarrow> string res" where
  "cipher_key hexKey =
     res_bind (err_wrap ''decoding encryption key: '' (DecodeString hexKey)) (\<lambda>key.
       if length key \<noteq> 32 then Inl (''encryption key must be 32 bytes, got '' @ itoa (length key))
       else Inr key)"

text \<open>\<open>nonce\<close> is what \<open>rand.Read\<close> delivers.\<close>

definition Encrypt :: "cipher \<Rightarrow> string res \<Rightarrow> string \<Rightarrow> string \<Rightarrow> string res" where
  "Encrypt gcm nonce plaintext hexKey =
     res_bind (cipher_key hexKey) (\<lambda>key.
     res_bind (err_wrap ''generating nonce: '' nonce) (\<lambda>n.
       Inr (EncodeToString (n @ gcm_seal gcm key n plaintext))))"

definition Decrypt :: "cipher \<Rightarrow> string \<Rightarrow> string \<Rightarrow> string res" where
  "Decrypt gcm hexCiphertext hexKey =
     res_bind (cipher_key hexKey) (\<lambda>key.
     res_bind (err_wrap ''decoding ciphertext: '' (DecodeString hexCiphertext)) (\<lambda>data.
       if length data < NonceSize then Inl ''ciphertext too short''
       else err_wrap ''decrypting: '' (gcm_open gcm key (take NonceSize data) (drop NonceSize data))))"

text \<open>The documented law of the cipher: what was sealed opens under the same key and nonce.\<close>

definition aead_law :: "cipher \<Rightarrow> bool" where
  "aead_law gcm \<longleftrightarrow> (\<forall>key n p. gcm_open gcm key n (gcm_seal gcm key n p) = Inr p)"

lemma cipher_key_valid: "(\<exists>key. cipher_key k = Inr key) \<longleftrightarrow> ValidateKey k = Inr ()"
  by (cases "DecodeString k") (auto simp: cipher_key_def ValidateKey_def)

lemma Encrypt_then_Decrypt:
  assumes "aead_law gcm" and "Encrypt gcm nonce p k = Inr c" and "\<And>n. nonce = Inr n \<Longrightarrow> length n = NonceSize"
  shows "Decrypt gcm c k = Inr p"
proof -
  from assms(2) obtain key n where "cipher_key k = Inr key" "nonce = Inr n"
      "c = EncodeToString (n @ gcm_seal gcm key n p)"
    by (auto simp: Encrypt_def res_bind_Inr_iff err_wrap_Inr_iff)
  with assms(1,3) show ?thesis by (simp add: Decrypt_def aead_law_def)
qed

text \<open>
  Secrets survive storage. For every key the startup check accepts and every plaintext,
  encryption with a proper nonce succeeds and decryption of its result under the same key gives the
  plaintext back; a key the check refuses makes both operations fail, so a misconfigured key is
  never used.
\<close>

theorem encrypt_decrypt:
  assumes "aead_law gcm" and "length n = NonceSize"
  shows "if ValidateKey k = Inr ()
         then \<exists>c. Encrypt gcm (Inr n) p k = Inr c \<and> Decrypt gcm c k = Inr p
         else is_err (Encrypt gcm (Inr n) p k) \<and> is_err (Decrypt gcm c' k)"
proof (cases "ValidateKey k = Inr ()")
  case True
  then obtain key where "cipher_key k = Inr key" using cipher_key_valid by blast
  with True assms show ?thesis
    by (simp add: Encrypt_def Decrypt_def aead_law_def)
next
  case False
  then obtain e where "cipher_key k = Inl e" using cipher_key_valid [of k] by (cases "cipher_key k") auto
  with False show ?thesis by (simp add: Encrypt_def Decrypt_def)
qed

text \<open>A cipher that adds a fixed tag fulfils the law; a key of 64 zeros is accepted.\<close>

theorem encrypt_decrypt_witness:
  "let gcm = \<lparr>gcm_seal = (\<lambda>_ _ p. p @ ''tag''),
              gcm_open = (\<lambda>_ _ c. if has_suffix c ''tag'' then Inr (take (length c - 3) c) else Inl ''cipher: message authentication failed'')\<rparr>
   in \<exists>c. Encrypt gcm (Inr (replicate 12 CHR ''n'')) ''secret'' (replicate 64 CHR ''0'') = Inr c
        \<and> Decrypt gcm c (replicate 64 CHR ''0'') = Inr ''secret''"
proof -
  let ?gcm = "\<lparr>gcm_seal = (\<lambda>_ _ p. p @ ''tag''),
              gcm_open = (\<lambda>_ _ c. if has_suffix c ''tag'' then Inr (take (length c - 3) c) else Inl ''cipher: message authentication failed'')\<rparr>"
  have "aead_law ?gcm" by (simp add: aead_law_def has_suffix_def has_prefix_def)
  moreover have "length (replicate 12 CHR ''n'') = NonceSize" by (simp add: NonceSize_def)
  moreover have "ValidateKey (replicate 64 CHR ''0'') = Inr ()" by code_simp
  ultimately show ?thesis
    using encrypt_decrypt [of ?gcm "replicate 12 CHR ''n''" "replicate 64 CHR ''0''" "''secret''"]
    by (simp add: Let_def)
qed

end
