(* ===== verification/Config_Poller.thy ===== *)
theory Config_Poller
  imports Backend_Config Crypto_Aes
begin

text \<open>
  \<open>internal/dataplane/backendconfig/poller.go\<close> and \<open>snapshot.go\<close>: fetching the configuration,
  the waits between fetches, and the encrypted copy on disk. The JSON coding of a configuration and
  the file system's failures are arguments.
\<close>

subsection \<open>The snapshot file\<close>

record snapshotter =
  ss_path :: string
  ss_hexKey :: string

text \<open>What the library and the file system do during one \<open>Save\<close>, and how a configuration is coded.\<close>

record disk_env =
  de_marshal :: "workspace_config \<Rightarrow> string"
  de_unmarshal :: "string \<Rightarrow> workspace_config res"
  de_cipher :: cipher
  de_nonce :: "string res"
  de_tmp :: "string res"  \<comment> \<open>name of the new temporary file\<close>
  de_chmod :: "go_error option"
  de_write :: "(string \<times> go_error) option"  \<comment> \<open>what was written before the error\<close>
  de_close :: "go_error option"
  de_rename :: "go_error option"

type_synonym files = "(string, string) gomap"

definition Snapshot_Save :: "disk_env \<Rightarrow> snapshotter \<Rightarrow> workspace_config \<Rightarrow> files \<Rightarrow> files \<times> unit res" where
  "Snapshot_Save env ss cfg fs =
     (case err_wrap ''encrypting config snapshot: '' (Encrypt (de_cipher env) (de_nonce env) (de_marshal env cfg) (ss_hexKey ss)) of
        Inl e \<Rightarrow> (fs, Inl e)
      | Inr sealed \<Rightarrow>
          (case de_tmp env of
             Inl e \<Rightarrow> (fs, Inl (''creating snapshot temp file: '' @ e))
           | Inr tmp \<Rightarrow>
               (let fs1 = m_set tmp [] fs in
                case de_chmod env of
                  Some e \<Rightarrow> (m_del tmp fs1, Inl (''restricting snapshot permissions: '' @ e))
                | None \<Rightarrow>
                    (case de_write env of
                       Some (part, e) \<Rightarrow> (m_del tmp (m_set tmp part fs1), Inl (''writing snapshot: '' @ e))
                     | None \<Rightarrow>
                         (let fs2 = m_set tmp sealed fs1 in
                          case de_close env of
                            Some e \<Rightarrow> (m_del tmp fs2, Inl (''closing snapshot: '' @ e))
                          | None \<Rightarrow>
                              (case de_rename env of
                                 Some e \<Rightarrow> (m_del tmp fs2, Inl (''replacing snapshot: '' @ e))
                               | None \<Rightarrow> (m_del tmp (m_set (ss_path ss) sealed fs2), Inr ())))))))"

definition Snapshot_Load :: "disk_env \<Rightarrow> snapshotter \<Rightarrow> files \<Rightarrow> workspace_config res" where
  "Snapshot_Load env ss fs =
     (case m_get fs (ss_path ss) of
        None \<Rightarrow> Inl ''reading config snapshot: file does not exist''
      | Some sealed \<Rightarrow>
          res_bind (err_wrap ''decrypting config snapshot: '' (Decrypt (de_cipher env) sealed (ss_hexKey ss))) (\<lambda>plain.
            err_wrap ''decoding config snapshot: '' (de_unmarshal env plain)))"

subsection \<open>The poller\<close>

record poller =
  po_url :: string
  po_token :: string
  po_interval :: int
  po_snap :: "snapshotter option"

definition NewPoller :: "string \<Rightarrow> string \<Rightarrow> int \<Rightarrow> poller" where
  "NewPoller controlPlaneURL token interval =
     \<lparr>po_url = controlPlaneURL @ ''/v1/internal/workspace-config'', po_token = token,
      po_interval = interval, po_snap = None\<rparr>"

definition WithSnapshotter :: "snapshotter \<Rightarrow> poller \<Rightarrow> poller" where
  "WithSnapshotter ss p = p\<lparr>po_snap := Some ss\<rparr>"

text \<open>The outcome of a fetch; an answer has its status, its ETag header and its decoded body.\<close>

datatype fetch_outcome =
    Fetch_build_error go_error
  | Fetch_error go_error
  | Fetched int string "workspace_config res"

record poll_state =
  ps_store :: store
  ps_lastETag :: string
  ps_files :: files
  ps_applied :: nat  \<comment> \<open>the metric of applied configurations\<close>

record poll_env =
  pe_fetch :: "http_request \<Rightarrow> fetch_outcome"
  pe_disk :: disk_env

definition fetch_request :: "poller \<Rightarrow> poll_state \<Rightarrow> http_request" where
  "fetch_request p st =
     \<lparr>rq_method = ''GET'', rq_url = po_url p,
      rq_headers = (''Authorization'', ''Bearer '' @ po_token p)
        # (if ps_lastETag st \<noteq> [] then [(''If-None-Match'', ps_lastETag st)] else []),
      rq_body = None\<rparr>"

definition FetchOnce ::
    "guard_registry \<Rightarrow> transform_registry \<Rightarrow> poller \<Rightarrow> poll_env \<Rightarrow> poll_state \<Rightarrow> poll_state \<times> unit res" where
  "FetchOnce reg treg p env st =
     (case pe_fetch env (fetch_request p st) of
        Fetch_build_error e \<Rightarrow> (st, Inl e)
      | Fetch_error e \<Rightarrow> (st, Inl (''fetching workspace config: '' @ e))
      | Fetched status etag body \<Rightarrow>
          if status = 304 then (st, Inr ())
          else if status = 200
          then (case body of
                  Inl e \<Rightarrow> (st, Inl (''decoding workspace config: '' @ e))
                | Inr cfg \<Rightarrow>
                    (case Apply reg treg cfg (ps_store st) of
                       (s', Inl e) \<Rightarrow> (st\<lparr>ps_store := s'\<rparr>, Inl (''applying workspace config: '' @ e))
                     | (s', Inr _) \<Rightarrow>
                         (let st1 = st\<lparr>ps_store := s', ps_lastETag := etag, ps_applied := ps_applied st + 1\<rparr>
                          in (case po_snap p of
                                None \<Rightarrow> st1
                              | Some ss \<Rightarrow> st1\<lparr>ps_files := fst (Snapshot_Save (pe_disk env) ss cfg (ps_files st1))\<rparr>,
                              Inr ()))))
          else (st, Inl (''workspace config fetch: unexpected status '' @ int_text status)))"

text \<open>
  The first fetch: one event per round, with whether the deadline has passed after the fetch and
  the context's error when it ends during the wait. The result is \<open>None\<close> while the events given do
  not decide it; the waits that were begun are in seconds.
\<close>

record wait_event =
  we_env :: poll_env
  we_late :: bool
  we_ctx :: "go_error option"

fun WaitForInitial_from ::
    "guard_registry \<Rightarrow> transform_registry \<Rightarrow> poller \<Rightarrow> string \<Rightarrow> int \<Rightarrow> wait_event list \<Rightarrow> poll_state
     \<Rightarrow> int list \<times> (poll_state \<times> unit res) option" where
  "WaitForInitial_from reg treg p timeout backoff [] st = ([], None)"
| "WaitForInitial_from reg treg p timeout backoff (ev # evs) st =
     (case FetchOnce reg treg p (we_env ev) st of
        (st1, Inr _) \<Rightarrow> ([], Some (st1, Inr ()))
      | (st1, Inl _) \<Rightarrow>
          if we_late ev
          then ([], Some
            (let failed = (st1, Inl (''no workspace config after '' @ timeout)) in
             case po_snap p of
               None \<Rightarrow> failed
             | Some ss \<Rightarrow>
                 (case Snapshot_Load (pe_disk (we_env ev)) ss (ps_files st1) of
                    Inl _ \<Rightarrow> failed
                  | Inr cfg \<Rightarrow>
                      (case Apply reg treg cfg (ps_store st1) of
                         (s', Inl _) \<Rightarrow> (st1\<lparr>ps_store := s'\<rparr>, Inl (''no workspace config after '' @ timeout))
                       | (s', Inr _) \<Rightarrow> (st1\<lparr>ps_store := s', ps_applied := ps_applied st1 + 1\<rparr>, Inr ())))))
          else case we_ctx ev of
            Some e \<Rightarrow> ([backoff], Some (st1, Inl e))
          | None \<Rightarrow>
              (case WaitForInitial_from reg treg p timeout
                      (if backoff < 8 then backoff * 2 else backoff) evs st1 of
                 (waits, r) \<Rightarrow> (backoff # waits, r)))"

definition WaitForInitial ::
    "guard_registry \<Rightarrow> transform_registry \<Rightarrow> poller \<Rightarrow> string \<Rightarrow> wait_event list \<Rightarrow> poll_state
     \<Rightarrow> int list \<times> (poll_state \<times> unit res) option" where
  "WaitForInitial reg treg p timeout evs st = WaitForInitial_from reg treg p timeout 1 evs st"

text \<open>One round of \<open>Run\<close> after its wait, and rounds until the context ends.\<close>

definition Run_round ::
    "guard_registry \<Rightarrow> transform_registry \<Rightarrow> poller \<Rightarrow> poll_env \<Rightarrow> poll_state \<times> int \<Rightarrow> poll_state \<times> int" where
  "Run_round reg treg p env sw =
     (case FetchOnce reg treg p env (fst sw) of
        (st', Inl _) \<Rightarrow> (st', min (snd sw * 2) (6 * po_interval p))
      | (st', Inr _) \<Rightarrow> (st', po_interval p))"

definition Run ::
    "guard_registry \<Rightarrow> transform_registry \<Rightarrow> poller \<Rightarrow> poll_env list \<Rightarrow> poll_state \<Rightarrow> poll_state \<times> int" where
  "Run reg treg p envs st = fold (Run_round reg treg p) envs (st, po_interval p)"

subsection \<open>The contract of the store and its client\<close>

locale config_store =
  fixes apply_to :: "'c \<Rightarrow> 's \<Rightarrow> 's \<times> unit res"
    and current_version :: "'s \<Rightarrow> string option"
    and version_of :: "'c \<Rightarrow> string"
  assumes failed_apply: "apply_to c s = (s', Inl e) \<Longrightarrow> s' = s"
    and done_apply: "apply_to c s = (s', Inr ()) \<Longrightarrow> current_version s' = Some (version_of c)"
begin

lemma apply_version:
  "current_version (fst (apply_to c s)) =
     (if is_err (snd (apply_to c s)) then current_version s else Some (version_of c))"
proof (cases "apply_to c s")
  case (Pair s' r)
  show ?thesis
  proof (cases r)
    case (Inl e)
    with Pair failed_apply have "s' = s" by simp
    with Pair Inl show ?thesis by simp
  next
    case (Inr u)
    with Pair done_apply show ?thesis by simp
  qed
qed

lemma never_unloads: "current_version s \<noteq> None \<Longrightarrow> current_version (fst (apply_to c s)) \<noteq> None"
  by (simp add: apply_version)

end

definition store_version :: "store \<Rightarrow> string option" where
  "store_version s = (if Loaded s then Some (Version s) else None)"

interpretation cstore: config_store "Apply reg treg" store_version ws_Version for reg treg
proof
  fix c s s' e
  show "Apply reg treg c s = (s', Inl e) \<Longrightarrow> s' = s"
    by (auto simp: Apply_def split: sum.splits)
  assume "Apply reg treg c s = (s', Inr ())"
  then obtain snap where "apply_orgs reg treg (ws_Organizations c)
      \<lparr>sn_Version = ws_Version c, sn_apiKeys = [], sn_sources = [], sn_alerts = []\<rparr> = Inr snap" "s' = Some snap"
    by (auto simp: Apply_def split: sum.splits)
  with apply_orgs_lookup(2) [OF this(1)] show "store_version s' = Some (ws_Version c)"
    by (simp add: store_version_def Loaded_def Version_def)
qed

subsection \<open>The snapshot is replaced atomically\<close>

lemma m_get_frame [simp]:
  "m_get fs t = None \<Longrightarrow> m_get (m_del t (m_set t x fs)) f = m_get fs f"
  "m_get fs t = None \<Longrightarrow> m_get (m_del t (m_set t y (m_set t x fs))) f = m_get fs f"
  by (simp_all add: m_get_del m_get_set)

text \<open>
  C32: the configuration copy on disk is never damaged. When a save fails, at whatever step, every
  file is as before, the temporary one is gone; when it succeeds only the snapshot file changed, and
  loading it gives back the very configuration that was saved (for a temporary name that is new, the
  cipher's law, a proper nonce, and a JSON coding that reads back what it wrote).
\<close>

theorem snapshot_atomic:
  assumes "aead_law (de_cipher env)" and "\<And>n. de_nonce env = Inr n \<Longrightarrow> length n = NonceSize"
    and "de_unmarshal env (de_marshal env cfg) = Inr cfg"
    and "\<And>t. de_tmp env = Inr t \<Longrightarrow> t \<noteq> ss_path ss \<and> m_get fs t = None"
  shows "case Snapshot_Save env ss cfg fs of
      (fs', Inl e) \<Rightarrow> m_get fs' = m_get fs
    | (fs', Inr u) \<Rightarrow> Snapshot_Load env ss fs' = Inr cfg \<and> (\<forall>f. f \<noteq> ss_path ss \<longrightarrow> m_get fs' f = m_get fs f)"
proof (cases "Encrypt (de_cipher env) (de_nonce env) (de_marshal env cfg) (ss_hexKey ss)")
  case (Inl e)
  then show ?thesis by (simp add: Snapshot_Save_def)
next
  case sealed: (Inr sealed)
  show ?thesis
  proof (cases "de_tmp env")
    case (Inl e)
    with sealed show ?thesis by (simp add: Snapshot_Save_def)
  next
    case (Inr t)
    with assms(4) have t: "t \<noteq> ss_path ss" "m_get fs t = None" by simp_all
    have dec: "Decrypt (de_cipher env) sealed (ss_hexKey ss) = Inr (de_marshal env cfg)"
    proof -
      from sealed obtain key n where k: "cipher_key (ss_hexKey ss) = Inr key" "de_nonce env = Inr n"
        "sealed = EncodeToString (n @ gcm_seal (de_cipher env) key n (de_marshal env cfg))"
        by (auto simp: Encrypt_def res_bind_Inr_iff err_wrap_Inr_iff)
      with assms(1,2) show ?thesis by (simp add: Decrypt_def aead_law_def)
    qed
    show ?thesis
    proof (cases "de_chmod env = None \<and> de_write env = None \<and> de_close env = None \<and> de_rename env = None")
      case True
      with sealed Inr t dec assms(3) show ?thesis
        by (simp add: Snapshot_Save_def Snapshot_Load_def Let_def m_get_del m_get_set)
    next
      case False
      with sealed Inr t show ?thesis
        by (auto simp: Snapshot_Save_def Let_def fun_eq_iff split: option.split prod.split)
    qed
  qed
qed

definition example_disk :: disk_env where
  "example_disk =
     \<lparr>de_marshal = (\<lambda>_. ''{}''), de_unmarshal = (\<lambda>_. Inr example_config),
      de_cipher = \<lparr>gcm_seal = (\<lambda>_ _ p. p), gcm_open = (\<lambda>_ _ c. Inr c)\<rparr>, de_nonce = Inr (replicate 12 CHR ''n''),
      de_tmp = Inr ''tmp1'', de_chmod = None, de_write = None, de_close = None, de_rename = None\<rparr>"

theorem snapshot_atomic_witness:
  "\<exists>fs'. Snapshot_Save example_disk \<lparr>ss_path = ''snap'', ss_hexKey = replicate 64 CHR ''0''\<rparr> example_config
            [(''other'', ''data'')] = (fs', Inr ())
     \<and> Snapshot_Load example_disk \<lparr>ss_path = ''snap'', ss_hexKey = replicate 64 CHR ''0''\<rparr> fs' = Inr example_config"
proof -
  let ?ss = "\<lparr>ss_path = ''snap'', ss_hexKey = replicate 64 CHR ''0''\<rparr>"
  let ?fs = "[(''other'', ''data'')]"
  have "ValidateKey (replicate 64 CHR ''0'') = Inr ()" by code_simp
  then obtain key where key: "cipher_key (replicate 64 CHR ''0'') = Inr key"
    using cipher_key_valid by blast
  obtain fs' where s: "Snapshot_Save example_disk ?ss example_config ?fs = (fs', Inr ())"
    by (simp add: Snapshot_Save_def example_disk_def Encrypt_def key Let_def)
  have "aead_law (de_cipher example_disk)" by (simp add: aead_law_def example_disk_def)
  from snapshot_atomic [OF this, of example_config ?ss ?fs] s show ?thesis
    by (auto simp: example_disk_def NonceSize_def)
qed

subsection \<open>Polling\<close>

text \<open>The store and the ETag a poll leaves: those before, or those of a configuration it was given.\<close>

definition installed ::
    "guard_registry \<Rightarrow> transform_registry \<Rightarrow> poll_env \<Rightarrow> poll_state \<Rightarrow> bool" where
  "installed reg treg env st \<longleftrightarrow>
     (\<exists>rq cfg s0. pe_fetch env rq = Fetched 200 (ps_lastETag st) (Inr cfg)
        \<and> Apply reg treg cfg s0 = (ps_store st, Inr ()))"

lemma FetchOnce_cases:
  assumes "FetchOnce reg treg p env st = (st', r)"
  shows "(ps_store st' = ps_store st \<and> ps_lastETag st' = ps_lastETag st) \<or> (r = Inr () \<and> installed reg treg env st')"
proof (cases "pe_fetch env (fetch_request p st)")
  case (Fetched status etag body)
  show ?thesis
  proof (cases "status = 200 \<and> \<not> is_err body")
    case False
    with Fetched assms show ?thesis by (cases body) (auto simp: FetchOnce_def split: if_splits)
  next
    case True
    then obtain cfg where body: "body = Inr cfg" by (auto simp: not_is_err_iff)
    obtain s' q where ap: "Apply reg treg cfg (ps_store st) = (s', q)" by fastforce
    show ?thesis
    proof (cases q)
      case (Inl e)
      with ap cstore.failed_apply have "s' = ps_store st" by simp
      with True body ap Inl Fetched assms show ?thesis by (auto simp: FetchOnce_def)
    next
      case (Inr u)
      with True body ap Fetched assms have "ps_store st' = s'" "ps_lastETag st' = etag" "r = Inr ()"
        by (auto simp: FetchOnce_def Let_def split: option.splits)
      with Inr ap body True Fetched show ?thesis by (auto simp: installed_def)
    qed
  qed
qed (use assms in \<open>auto simp: FetchOnce_def\<close>)

lemma FetchOnce_never_unloads:
  "store_version (ps_store st) \<noteq> None \<Longrightarrow> store_version (ps_store (fst (FetchOnce reg treg p env st))) \<noteq> None"
proof -
  assume l: "store_version (ps_store st) \<noteq> None"
  obtain st' r where f: "FetchOnce reg treg p env st = (st', r)" by fastforce
  from FetchOnce_cases [OF f] show ?thesis
  proof
    assume "ps_store st' = ps_store st \<and> ps_lastETag st' = ps_lastETag st"
    with l f show ?thesis by simp
  next
    assume "r = Inr () \<and> installed reg treg env st'"
    then obtain cfg s0 where "Apply reg treg cfg s0 = (ps_store st', Inr ())" by (auto simp: installed_def)
    from cstore.done_apply [OF this] f show ?thesis by simp
  qed
qed



subsection \<open>The first fetch\<close>

text \<open>The waits of the first fetch double from one second and stay at eight.\<close>

lemma initial_waits:
  assumes "b \<in> {1, 2, 4, 8}"
  shows "list_all (\<lambda>w. w \<in> {1, 2, 4, 8}) (fst (WaitForInitial_from reg treg p timeout b evs st))"
  using assms
proof (induction evs arbitrary: b st)
  case (Cons ev evs)
  have "(if b < 8 then b * 2 else b) \<in> {1, 2, 4, 8}" using Cons.prems by auto
  from Cons.IH [OF this] Cons.prems show ?case
    by (auto simp: Let_def case_prod_beta split: sum.splits option.splits)
qed simp

text \<open>Once a round is late, or its fetch succeeds, the first fetch returns.\<close>

lemma initial_returns:
  "\<exists>ev \<in> set evs. we_late ev \<Longrightarrow> snd (WaitForInitial_from reg treg p timeout b evs st) \<noteq> None"
proof (induction evs arbitrary: b st)
  case (Cons ev evs)
  have "snd (WaitForInitial_from reg treg p timeout (if b < 8 then b * 2 else b) evs st1) \<noteq> None"
    if "\<not> we_late ev" for st1
    by (rule Cons.IH) (use Cons.prems that in auto)
  then show ?case
    by (auto simp: Let_def case_prod_beta split: sum.splits option.splits)
qed simp

end
