(* ===== verification/Control_Db.thy ===== *)
theory Control_Db
  imports Backend_Config "HOL-Library.List_Lexorder" "HOL-Library.Char_ord" "HOL-Library.Product_Lexorder"
    "HOL-Library.Word"
begin

text \<open>
  The control plane's database: the tables of \<open>internal/controlplane/db/generated/models.go\<close> and the
  queries of the other files of that package. A table is the list of its rows in insertion order; an
  \<open>ORDER BY\<close> is a stable sort, so rows it does not order keep that order (SQL leaves it open).
  Identifiers are compared as texts. What the database itself contributes is an argument: which
  statements fail, the identifiers it generates and its clock.
\<close>

subsection \<open>Rows\<close>

text \<open>Timestamps are microseconds.\<close>

record organization_row =
  og_ID :: uuid
  og_Name :: string
  og_CreatedAt :: int
  og_UpdatedAt :: int

record user_row =
  us_ID :: uuid
  us_OrganizationID :: uuid
  us_Email :: string
  us_PasswordHash :: string
  us_CreatedAt :: int
  us_UpdatedAt :: int

record api_key_row =
  ky_ID :: uuid
  ky_OrganizationID :: uuid
  ky_Name :: string
  ky_KeyHash :: string
  ky_KeyPrefix :: string
  ky_CreatedAt :: int
  ky_RevokedAt :: "int option"
  ky_RateLimitRps :: "rat option"
  ky_RateLimitBurst :: "int option"

record source_row =
  so_ID :: uuid
  so_OrganizationID :: uuid
  so_Name :: string
  so_Route :: string
  so_Description :: "string option"
  so_LlmProvider :: string
  so_LlmModel :: string
  so_LlmApiKeyEnc :: string
  so_LlmBaseUrl :: string
  so_InputPassCriteria :: string
  so_InputPassThreshold :: "int option"
  so_OutputPassCriteria :: string
  so_OutputPassThreshold :: "int option"
  so_Enabled :: bool
  so_CreatedAt :: int
  so_UpdatedAt :: int

record guardrail_row =
  gr_ID :: uuid
  gr_OrganizationID :: uuid
  gr_Name :: string
  gr_GuardType :: string
  gr_Phase :: string
  gr_Config :: json
  gr_Enabled :: bool
  gr_CreatedAt :: int
  gr_UpdatedAt :: int

record transformer_row =
  tf_ID :: uuid
  tf_OrganizationID :: uuid
  tf_Name :: string
  tf_TransformerType :: string
  tf_Phase :: string
  tf_Config :: json
  tf_Enabled :: bool
  tf_CreatedAt :: int
  tf_UpdatedAt :: int

record source_transformer_row =
  sx_SourceID :: uuid
  sx_TransformerID :: uuid
  sx_Position :: int

record alert_row =
  al_ID :: uuid
  al_OrganizationID :: uuid
  al_Name :: string
  al_Url :: string
  al_PayloadFormat :: string
  al_Enabled :: bool
  al_CreatedAt :: int
  al_UpdatedAt :: int

record db =
  organizations :: "organization_row list"
  users :: "user_row list"
  api_keys :: "api_key_row list"
  sources :: "source_row list"
  guardrails :: "guardrail_row list"
  transformers :: "transformer_row list"
  source_guardrails :: "(uuid \<times> uuid) list"  \<comment> \<open>source, guardrail\<close>
  source_transformers :: "source_transformer_row list"
  alert_webhooks :: "alert_row list"
  statements :: nat  \<comment> \<open>statements executed so far\<close>

definition empty_db :: db where
  "empty_db = \<lparr>organizations = [], users = [], api_keys = [], sources = [], guardrails = [], transformers = [],
     source_guardrails = [], source_transformers = [], alert_webhooks = [], statements = 0\<rparr>"

text \<open>Per statement: its failure (lost connection, cancelled context), a generated id, \<open>now()\<close>.\<close>

record db_env =
  db_fails :: "nat \<Rightarrow> go_error option"
  db_uuid :: "nat \<Rightarrow> uuid"
  db_now :: "nat \<Rightarrow> int"

text \<open>The conversion \<open>int32(x)\<close>.\<close>

definition to_int32 :: "int \<Rightarrow> int" where
  "to_int32 i = sint (word_of_int i :: 32 word)"

subsection \<open>Statements\<close>

type_synonym 'a query = "db \<Rightarrow> db \<times> 'a res"

definition q_return :: "'a \<Rightarrow> 'a query" where "q_return x d = (d, Inr x)"

definition q_fail :: "go_error \<Rightarrow> 'a query" where "q_fail e d = (d, Inl e)"

definition q_bind :: "'a query \<Rightarrow> ('a \<Rightarrow> 'b query) \<Rightarrow> 'b query" where
  "q_bind m f d = (case m d of (d', Inl e) \<Rightarrow> (d', Inl e) | (d', Inr x) \<Rightarrow> f x d')"

text \<open>\<open>fmt.Errorf("prefix: %w", err)\<close> around a query, and a query whose error is replaced.\<close>

definition q_wrap :: "string \<Rightarrow> 'a query \<Rightarrow> 'a query" where
  "q_wrap pre m d = (case m d of (d', r) \<Rightarrow> (d', err_wrap pre r))"

definition q_lift :: "'a res \<Rightarrow> 'a query" where "q_lift r d = (d, r)"

definition run_stmt :: "db_env \<Rightarrow> (uuid \<Rightarrow> int \<Rightarrow> db \<Rightarrow> db \<times> 'a res) \<Rightarrow> 'a query" where
  "run_stmt env body d =
     (let n = statements d; d' = d\<lparr>statements := n + 1\<rparr> in
      case db_fails env n of
        Some e \<Rightarrow> (d', Inl e)
      | None \<Rightarrow> (case body (db_uuid env n) (db_now env n) d' of
                   (d'', Inl e) \<Rightarrow> (d', Inl e) | (d'', Inr x) \<Rightarrow> (d'', Inr x)))"

text \<open>A \<open>SELECT\<close>, with all rows (\<open>:many\<close>) or the first (\<open>:one\<close>).\<close>

definition select_many :: "db_env \<Rightarrow> (db \<Rightarrow> 'a list) \<Rightarrow> 'a list query" where
  "select_many env rows = run_stmt env (\<lambda>_ _ d. (d, Inr (rows d)))"

abbreviation no_rows :: go_error where "no_rows \<equiv> ''no rows in result set''"

definition select_one :: "db_env \<Rightarrow> (db \<Rightarrow> 'a list) \<Rightarrow> 'a query" where
  "select_one env rows = run_stmt env (\<lambda>_ _ d. (d, case rows d of [] \<Rightarrow> Inl no_rows | r # _ \<Rightarrow> Inr r))"

abbreviation unique_violation :: go_error where
  "unique_violation \<equiv> ''duplicate key value violates unique constraint''"
abbreviation fk_violation :: go_error where
  "fk_violation \<equiv> ''insert or update violates foreign key constraint''"
abbreviation check_violation :: go_error where
  "check_violation \<equiv> ''new row violates check constraint''"

definition org_exists :: "uuid \<Rightarrow> db \<Rightarrow> bool" where
  "org_exists o' d = (o' \<in> og_ID ` set (organizations d))"

lemma q_simps [simp]:
  "q_return x d = (d, Inr x)" "q_fail e d = (d, Inl e)" "q_lift r d = (d, r)"
  by (simp_all add: q_return_def q_fail_def q_lift_def)

subsection \<open>organizations.sql.go and users.sql.go\<close>

definition CreateOrganization :: "db_env \<Rightarrow> string \<Rightarrow> organization_row query" where
  "CreateOrganization env name = run_stmt env (\<lambda>new now d.
     if org_exists new d then (d, Inl unique_violation)
     else (let r = \<lparr>og_ID = new, og_Name = name, og_CreatedAt = now, og_UpdatedAt = now\<rparr>
           in (d\<lparr>organizations := organizations d @ [r]\<rparr>, Inr r)))"

definition GetOrganization :: "db_env \<Rightarrow> uuid \<Rightarrow> organization_row query" where
  "GetOrganization env oid = select_one env (\<lambda>d. filter (\<lambda>r. og_ID r = oid) (organizations d))"

definition CreateUser :: "db_env \<Rightarrow> uuid \<Rightarrow> string \<Rightarrow> string \<Rightarrow> user_row query" where
  "CreateUser env orgID email passwordHash = run_stmt env (\<lambda>new now d.
     if new \<in> us_ID ` set (users d) \<or> email \<in> us_Email ` set (users d) then (d, Inl unique_violation)
     else if \<not> org_exists orgID d then (d, Inl fk_violation)
     else (let r = \<lparr>us_ID = new, us_OrganizationID = orgID, us_Email = email, us_PasswordHash = passwordHash,
                    us_CreatedAt = now, us_UpdatedAt = now\<rparr>
           in (d\<lparr>users := users d @ [r]\<rparr>, Inr r)))"

definition GetUserByEmail :: "db_env \<Rightarrow> string \<Rightarrow> user_row query" where
  "GetUserByEmail env email = select_one env (\<lambda>d. filter (\<lambda>r. us_Email r = email) (users d))"

definition GetUserByID :: "db_env \<Rightarrow> uuid \<Rightarrow> user_row query" where
  "GetUserByID env uid = select_one env (\<lambda>d. filter (\<lambda>r. us_ID r = uid) (users d))"

subsection \<open>api_keys.sql.go\<close>

definition db_CreateAPIKey ::
    "db_env \<Rightarrow> uuid \<Rightarrow> string \<Rightarrow> string \<Rightarrow> string \<Rightarrow> rat option \<Rightarrow> int option \<Rightarrow> api_key_row query" where
  "db_CreateAPIKey env orgID name keyHash keyPrefix rps burst = run_stmt env (\<lambda>new now d.
     if new \<in> ky_ID ` set (api_keys d) \<or> keyHash \<in> ky_KeyHash ` set (api_keys d) then (d, Inl unique_violation)
     else if \<not> org_exists orgID d then (d, Inl fk_violation)
     else (let r = \<lparr>ky_ID = new, ky_OrganizationID = orgID, ky_Name = name, ky_KeyHash = keyHash,
                    ky_KeyPrefix = keyPrefix, ky_CreatedAt = now, ky_RevokedAt = None,
                    ky_RateLimitRps = rps, ky_RateLimitBurst = burst\<rparr>
           in (d\<lparr>api_keys := api_keys d @ [r]\<rparr>, Inr r)))"

definition GetAPIKeyByHash :: "db_env \<Rightarrow> string \<Rightarrow> api_key_row query" where
  "GetAPIKeyByHash env keyHash =
     select_one env (\<lambda>d. filter (\<lambda>r. ky_KeyHash r = keyHash \<and> ky_RevokedAt r = None) (api_keys d))"

definition ListAPIKeysByOrganization :: "db_env \<Rightarrow> uuid \<Rightarrow> api_key_row list query" where
  "ListAPIKeysByOrganization env orgID =
     select_many env (\<lambda>d. sort_key (\<lambda>r. - ky_CreatedAt r) (filter (\<lambda>r. ky_OrganizationID r = orgID) (api_keys d)))"

definition db_RevokeAPIKey :: "db_env \<Rightarrow> uuid \<Rightarrow> uuid \<Rightarrow> unit query" where
  "db_RevokeAPIKey env kid orgID = run_stmt env (\<lambda>_ now d.
     (d\<lparr>api_keys := map (\<lambda>r. if ky_ID r = kid \<and> ky_OrganizationID r = orgID
                             then r\<lparr>ky_RevokedAt := Some now\<rparr> else r) (api_keys d)\<rparr>, Inr ()))"

subsection \<open>sources.sql.go\<close>

text \<open>The columns a caller sets; the same for \<open>CreateSourceParams\<close> and \<open>UpdateSourceParams\<close>.\<close>

record source_cols =
  sp_Name :: string
  sp_Route :: string
  sp_Description :: "string option"
  sp_LlmProvider :: string
  sp_LlmModel :: string
  sp_LlmApiKeyEnc :: string
  sp_LlmBaseUrl :: string
  sp_InputPassCriteria :: string
  sp_InputPassThreshold :: "int option"
  sp_OutputPassCriteria :: string
  sp_OutputPassThreshold :: "int option"
  sp_Enabled :: bool

definition source_of :: "uuid \<Rightarrow> uuid \<Rightarrow> source_cols \<Rightarrow> int \<Rightarrow> int \<Rightarrow> source_row" where
  "source_of sid orgID c created now =
     \<lparr>so_ID = sid, so_OrganizationID = orgID, so_Name = sp_Name c, so_Route = sp_Route c,
      so_Description = sp_Description c, so_LlmProvider = sp_LlmProvider c, so_LlmModel = sp_LlmModel c,
      so_LlmApiKeyEnc = sp_LlmApiKeyEnc c, so_LlmBaseUrl = sp_LlmBaseUrl c,
      so_InputPassCriteria = sp_InputPassCriteria c, so_InputPassThreshold = sp_InputPassThreshold c,
      so_OutputPassCriteria = sp_OutputPassCriteria c, so_OutputPassThreshold = sp_OutputPassThreshold c,
      so_Enabled = sp_Enabled c, so_CreatedAt = created, so_UpdatedAt = now\<rparr>"

definition CreateSource :: "db_env \<Rightarrow> uuid \<Rightarrow> source_cols \<Rightarrow> source_row query" where
  "CreateSource env orgID c = run_stmt env (\<lambda>new now d.
     if new \<in> so_ID ` set (sources d)
        \<or> (orgID, sp_Route c) \<in> (\<lambda>r. (so_OrganizationID r, so_Route r)) ` set (sources d)
     then (d, Inl unique_violation)
     else if \<not> org_exists orgID d then (d, Inl fk_violation)
     else (let r = source_of new orgID c now now in (d\<lparr>sources := sources d @ [r]\<rparr>, Inr r)))"

definition owns_source :: "uuid \<Rightarrow> uuid \<Rightarrow> source_row \<Rightarrow> bool" where
  "owns_source sid orgID r = (so_ID r = sid \<and> so_OrganizationID r = orgID)"

text \<open>Deleting a source cascades to its attachments.\<close>

definition db_DeleteSource :: "db_env \<Rightarrow> uuid \<Rightarrow> uuid \<Rightarrow> unit query" where
  "db_DeleteSource env sid orgID = run_stmt env (\<lambda>_ _ d.
     if \<exists>r \<in> set (sources d). owns_source sid orgID r
     then (d\<lparr>sources := filter (\<lambda>r. \<not> owns_source sid orgID r) (sources d),
             source_guardrails := filter (\<lambda>(s, g). s \<noteq> sid) (source_guardrails d),
             source_transformers := filter (\<lambda>x. sx_SourceID x \<noteq> sid) (source_transformers d)\<rparr>, Inr ())
     else (d, Inr ()))"

definition GetSource :: "db_env \<Rightarrow> uuid \<Rightarrow> uuid \<Rightarrow> source_row query" where
  "GetSource env sid orgID = select_one env (\<lambda>d. filter (owns_source sid orgID) (sources d))"

definition GetSourceByRoute :: "db_env \<Rightarrow> string \<Rightarrow> uuid \<Rightarrow> source_row query" where
  "GetSourceByRoute env route orgID =
     select_one env (\<lambda>d. filter (\<lambda>r. so_Route r = route \<and> so_OrganizationID r = orgID) (sources d))"

definition ListSourcesByOrganization :: "db_env \<Rightarrow> uuid \<Rightarrow> source_row list query" where
  "ListSourcesByOrganization env orgID =
     select_many env (\<lambda>d. sort_key (\<lambda>r. - so_CreatedAt r) (filter (\<lambda>r. so_OrganizationID r = orgID) (sources d)))"

definition db_UpdateSource :: "db_env \<Rightarrow> uuid \<Rightarrow> uuid \<Rightarrow> source_cols \<Rightarrow> source_row query" where
  "db_UpdateSource env sid orgID c = run_stmt env (\<lambda>_ now d.
     case filter (owns_source sid orgID) (sources d) of
       [] \<Rightarrow> (d, Inl no_rows)
     | r # _ \<Rightarrow>
         if \<exists>r' \<in> set (sources d). so_ID r' \<noteq> sid \<and> so_OrganizationID r' = orgID \<and> so_Route r' = sp_Route c
         then (d, Inl unique_violation)
         else (d\<lparr>sources := map (\<lambda>r. if owns_source sid orgID r then source_of sid orgID c (so_CreatedAt r) now else r)
                                (sources d)\<rparr>,
               Inr (source_of sid orgID c (so_CreatedAt r) now)))"

end
