(* ===== verification/Control_Queries.thy ===== *)
theory Control_Queries
  imports Control_Db
begin

text \<open>
  The queries on guardrails, transformers, their attachments to sources, alert webhooks and the whole
  workspace: \<open>guardrails.sql.go\<close>, \<open>source_guardrails.sql.go\<close>, \<open>connections.sql.go\<close>,
  \<open>transformers.sql.go\<close>, \<open>alert_webhooks.sql.go\<close> and \<open>workspace_config.sql.go\<close> in
  \<open>internal/controlplane/db/generated\<close>, under the constraints of the migrations. A query that
  selects some columns returns the whole row here; its callers read the selected ones.
\<close>

subsection \<open>guardrails.sql.go\<close>

record guardrail_cols =
  gp_Name :: string
  gp_GuardType :: string
  gp_Phase :: string
  gp_Config :: json
  gp_Enabled :: bool

definition guardrail_of :: "uuid \<Rightarrow> uuid \<Rightarrow> guardrail_cols \<Rightarrow> int \<Rightarrow> int \<Rightarrow> guardrail_row" where
  "guardrail_of gid orgID c created now =
     \<lparr>gr_ID = gid, gr_OrganizationID = orgID, gr_Name = gp_Name c, gr_GuardType = gp_GuardType c,
      gr_Phase = gp_Phase c, gr_Config = gp_Config c, gr_Enabled = gp_Enabled c,
      gr_CreatedAt = created, gr_UpdatedAt = now\<rparr>"

definition owns_guardrail :: "uuid \<Rightarrow> uuid \<Rightarrow> guardrail_row \<Rightarrow> bool" where
  "owns_guardrail gid orgID r = (gr_ID r = gid \<and> gr_OrganizationID r = orgID)"

definition CreateGuardrail :: "db_env \<Rightarrow> uuid \<Rightarrow> guardrail_cols \<Rightarrow> guardrail_row query" where
  "CreateGuardrail env orgID c = run_stmt env (\<lambda>new now d.
     if new \<in> gr_ID ` set (guardrails d) then (d, Inl unique_violation)
     else if \<not> org_exists orgID d then (d, Inl fk_violation)
     else (let r = guardrail_of new orgID c now now in (d\<lparr>guardrails := guardrails d @ [r]\<rparr>, Inr r)))"

text \<open>Deleting a guardrail cascades to its attachments.\<close>

definition db_DeleteGuardrail :: "db_env \<Rightarrow> uuid \<Rightarrow> uuid \<Rightarrow> unit query" where
  "db_DeleteGuardrail env gid orgID = run_stmt env (\<lambda>_ _ d.
     if \<exists>r \<in> set (guardrails d). owns_guardrail gid orgID r
     then (d\<lparr>guardrails := filter (\<lambda>r. \<not> owns_guardrail gid orgID r) (guardrails d),
             source_guardrails := filter (\<lambda>(s, g). g \<noteq> gid) (source_guardrails d)\<rparr>, Inr ())
     else (d, Inr ()))"

definition GetGuardrail :: "db_env \<Rightarrow> uuid \<Rightarrow> uuid \<Rightarrow> guardrail_row query" where
  "GetGuardrail env gid orgID = select_one env (\<lambda>d. filter (owns_guardrail gid orgID) (guardrails d))"

definition guardrails_of_source :: "uuid \<Rightarrow> db \<Rightarrow> guardrail_row list" where
  "guardrails_of_source sid d =
     [g. g \<leftarrow> guardrails d, (s, gid) \<leftarrow> source_guardrails d, gid = gr_ID g \<and> s = sid]"

definition ListEnabledGuardrailsBySource :: "db_env \<Rightarrow> uuid \<Rightarrow> guardrail_row list query" where
  "ListEnabledGuardrailsBySource env sid =
     select_many env (\<lambda>d. sort_key gr_CreatedAt (filter gr_Enabled (guardrails_of_source sid d)))"

definition ListGuardrailsByOrg :: "db_env \<Rightarrow> uuid \<Rightarrow> guardrail_row list query" where
  "ListGuardrailsByOrg env orgID =
     select_many env (\<lambda>d. sort_key gr_CreatedAt (filter (\<lambda>r. gr_OrganizationID r = orgID) (guardrails d)))"

definition ListGuardrailsBySource :: "db_env \<Rightarrow> uuid \<Rightarrow> guardrail_row list query" where
  "ListGuardrailsBySource env sid = select_many env (\<lambda>d. sort_key gr_CreatedAt (guardrails_of_source sid d))"

definition db_UpdateGuardrail :: "db_env \<Rightarrow> uuid \<Rightarrow> uuid \<Rightarrow> guardrail_cols \<Rightarrow> guardrail_row query" where
  "db_UpdateGuardrail env gid orgID c = run_stmt env (\<lambda>_ now d.
     case filter (owns_guardrail gid orgID) (guardrails d) of
       [] \<Rightarrow> (d, Inl no_rows)
     | r # _ \<Rightarrow>
         (d\<lparr>guardrails := map (\<lambda>r. if owns_guardrail gid orgID r
                                   then guardrail_of gid orgID c (gr_CreatedAt r) now else r) (guardrails d)\<rparr>,
          Inr (guardrail_of gid orgID c (gr_CreatedAt r) now)))"

subsection \<open>source_guardrails.sql.go and connections.sql.go\<close>

text \<open>The attachment table has only foreign keys to its two sides, not to their organizations.\<close>

definition AttachGuardrailToSource :: "db_env \<Rightarrow> uuid \<Rightarrow> uuid \<Rightarrow> unit query" where
  "AttachGuardrailToSource env sid gid = run_stmt env (\<lambda>_ _ d.
     if (sid, gid) \<in> set (source_guardrails d) then (d, Inr ())
     else if sid \<notin> so_ID ` set (sources d) \<or> gid \<notin> gr_ID ` set (guardrails d) then (d, Inl fk_violation)
     else (d\<lparr>source_guardrails := source_guardrails d @ [(sid, gid)]\<rparr>, Inr ()))"

definition DetachGuardrailFromSource :: "db_env \<Rightarrow> uuid \<Rightarrow> uuid \<Rightarrow> unit query" where
  "DetachGuardrailFromSource env sid gid = run_stmt env (\<lambda>_ _ d.
     (d\<lparr>source_guardrails := filter (\<lambda>p. p \<noteq> (sid, gid)) (source_guardrails d)\<rparr>, Inr ()))"

definition ListSourcesByGuardrail :: "db_env \<Rightarrow> uuid \<Rightarrow> source_row list query" where
  "ListSourcesByGuardrail env gid = select_many env (\<lambda>d. sort_key so_CreatedAt
     [s. s \<leftarrow> sources d, (sid, g) \<leftarrow> source_guardrails d, sid = so_ID s \<and> g = gid])"

definition ListSourceGuardrailsByOrg :: "db_env \<Rightarrow> uuid \<Rightarrow> (uuid \<times> uuid) list query" where
  "ListSourceGuardrailsByOrg env orgID = select_many env (\<lambda>d. sort_key fst
     [(sid, g). (sid, g) \<leftarrow> source_guardrails d, s \<leftarrow> sources d, so_ID s = sid \<and> so_OrganizationID s = orgID])"

subsection \<open>transformers.sql.go\<close>

definition max_int32 :: int where "max_int32 = 2147483647"

definition next_position :: "uuid \<Rightarrow> db \<Rightarrow> int" where
  "next_position sid d =
     (case map sx_Position (filter (\<lambda>x. sx_SourceID x = sid) (source_transformers d)) of
        [] \<Rightarrow> 0 | p # ps \<Rightarrow> fold max ps p + 1)"

definition insert_attachment :: "uuid \<Rightarrow> uuid \<Rightarrow> int \<Rightarrow> db \<Rightarrow> db \<times> unit res" where
  "insert_attachment sid tid pos d =
     (if sid \<notin> so_ID ` set (sources d) \<or> tid \<notin> tf_ID ` set (transformers d) then (d, Inl fk_violation)
      else (d\<lparr>source_transformers := source_transformers d
                @ [\<lparr>sx_SourceID = sid, sx_TransformerID = tid, sx_Position = pos\<rparr>]\<rparr>, Inr ()))"

definition attached_pair :: "uuid \<Rightarrow> uuid \<Rightarrow> source_transformer_row \<Rightarrow> bool" where
  "attached_pair sid tid x = (sx_SourceID x = sid \<and> sx_TransformerID x = tid)"

definition AttachTransformerToSource :: "db_env \<Rightarrow> uuid \<Rightarrow> uuid \<Rightarrow> unit query" where
  "AttachTransformerToSource env sid tid = run_stmt env (\<lambda>_ _ d.
     if next_position sid d > max_int32 then (d, Inl ''integer out of range'')
     else if \<exists>x \<in> set (source_transformers d). attached_pair sid tid x then (d, Inr ())
     else insert_attachment sid tid (next_position sid d) d)"

definition CountTransformersByOrgAndIDs :: "db_env \<Rightarrow> uuid \<Rightarrow> uuid list \<Rightarrow> nat query" where
  "CountTransformersByOrgAndIDs env orgID ids = run_stmt env (\<lambda>_ _ d.
     (d, Inr (length (filter (\<lambda>r. tf_OrganizationID r = orgID \<and> tf_ID r \<in> set ids) (transformers d)))))"

record transformer_cols =
  tp_Name :: string
  tp_TransformerType :: string
  tp_Phase :: string
  tp_Config :: json
  tp_Enabled :: bool

definition transformer_of :: "uuid \<Rightarrow> uuid \<Rightarrow> transformer_cols \<Rightarrow> int \<Rightarrow> int \<Rightarrow> transformer_row" where
  "transformer_of tid orgID c created now =
     \<lparr>tf_ID = tid, tf_OrganizationID = orgID, tf_Name = tp_Name c, tf_TransformerType = tp_TransformerType c,
      tf_Phase = tp_Phase c, tf_Config = tp_Config c, tf_Enabled = tp_Enabled c,
      tf_CreatedAt = created, tf_UpdatedAt = now\<rparr>"

definition owns_transformer :: "uuid \<Rightarrow> uuid \<Rightarrow> transformer_row \<Rightarrow> bool" where
  "owns_transformer tid orgID r = (tf_ID r = tid \<and> tf_OrganizationID r = orgID)"

definition phase_check :: "string \<Rightarrow> bool" where
  "phase_check ph = (ph = ''input'' \<or> ph = ''output'')"

definition db_CreateTransformer :: "db_env \<Rightarrow> uuid \<Rightarrow> transformer_cols \<Rightarrow> transformer_row query" where
  "db_CreateTransformer env orgID c = run_stmt env (\<lambda>new now d.
     if \<not> phase_check (tp_Phase c) then (d, Inl check_violation)
     else if new \<in> tf_ID ` set (transformers d) then (d, Inl unique_violation)
     else if \<not> org_exists orgID d then (d, Inl fk_violation)
     else (let r = transformer_of new orgID c now now in (d\<lparr>transformers := transformers d @ [r]\<rparr>, Inr r)))"

definition DeleteSourceTransformers :: "db_env \<Rightarrow> uuid \<Rightarrow> unit query" where
  "DeleteSourceTransformers env sid = run_stmt env (\<lambda>_ _ d.
     (d\<lparr>source_transformers := filter (\<lambda>x. sx_SourceID x \<noteq> sid) (source_transformers d)\<rparr>, Inr ()))"

definition db_DeleteTransformer :: "db_env \<Rightarrow> uuid \<Rightarrow> uuid \<Rightarrow> unit query" where
  "db_DeleteTransformer env tid orgID = run_stmt env (\<lambda>_ _ d.
     if \<exists>r \<in> set (transformers d). owns_transformer tid orgID r
     then (d\<lparr>transformers := filter (\<lambda>r. \<not> owns_transformer tid orgID r) (transformers d),
             source_transformers := filter (\<lambda>x. sx_TransformerID x \<noteq> tid) (source_transformers d)\<rparr>, Inr ())
     else (d, Inr ()))"

definition DetachTransformerFromSource :: "db_env \<Rightarrow> uuid \<Rightarrow> uuid \<Rightarrow> unit query" where
  "DetachTransformerFromSource env sid tid = run_stmt env (\<lambda>_ _ d.
     (d\<lparr>source_transformers := filter (\<lambda>x. \<not> attached_pair sid tid x) (source_transformers d)\<rparr>, Inr ()))"

definition GetTransformer :: "db_env \<Rightarrow> uuid \<Rightarrow> uuid \<Rightarrow> transformer_row query" where
  "GetTransformer env tid orgID = select_one env (\<lambda>d. filter (owns_transformer tid orgID) (transformers d))"

definition InsertSourceTransformer :: "db_env \<Rightarrow> uuid \<Rightarrow> uuid \<Rightarrow> int \<Rightarrow> unit query" where
  "InsertSourceTransformer env sid tid pos = run_stmt env (\<lambda>_ _ d.
     if \<exists>x \<in> set (source_transformers d). attached_pair sid tid x then (d, Inl unique_violation)
     else insert_attachment sid tid pos d)"

definition ListAllEnabledTransformers :: "db_env \<Rightarrow> transformer_row list query" where
  "ListAllEnabledTransformers env = select_many env (\<lambda>d.
     sort_key (\<lambda>r. (tf_OrganizationID r, tf_ID r)) (filter tf_Enabled (transformers d)))"

definition ListAllSourceTransformers :: "db_env \<Rightarrow> source_transformer_row list query" where
  "ListAllSourceTransformers env = select_many env (\<lambda>d.
     sort_key (\<lambda>x. (sx_SourceID x, sx_Position x, sx_TransformerID x)) (source_transformers d))"

definition ListSourcesByTransformer :: "db_env \<Rightarrow> uuid \<Rightarrow> source_row list query" where
  "ListSourcesByTransformer env tid = select_many env (\<lambda>d. sort_key so_CreatedAt
     [s. s \<leftarrow> sources d, x \<leftarrow> source_transformers d, sx_SourceID x = so_ID s \<and> sx_TransformerID x = tid])"

definition ListTransformersByOrg :: "db_env \<Rightarrow> uuid \<Rightarrow> transformer_row list query" where
  "ListTransformersByOrg env orgID =
     select_many env (\<lambda>d. sort_key tf_CreatedAt (filter (\<lambda>r. tf_OrganizationID r = orgID) (transformers d)))"

definition ListTransformersBySource :: "db_env \<Rightarrow> uuid \<Rightarrow> (transformer_row \<times> int) list query" where
  "ListTransformersBySource env sid = select_many env (\<lambda>d. sort_key (\<lambda>(t, p). (p, tf_ID t))
     [(t, sx_Position x). t \<leftarrow> transformers d, x \<leftarrow> source_transformers d,
        sx_TransformerID x = tf_ID t \<and> sx_SourceID x = sid])"

definition db_UpdateTransformer :: "db_env \<Rightarrow> uuid \<Rightarrow> uuid \<Rightarrow> transformer_cols \<Rightarrow> transformer_row query" where
  "db_UpdateTransformer env tid orgID c = run_stmt env (\<lambda>_ now d.
     case filter (owns_transformer tid orgID) (transformers d) of
       [] \<Rightarrow> (d, Inl no_rows)
     | r # _ \<Rightarrow>
         if \<not> phase_check (tp_Phase c) then (d, Inl check_violation)
         else (d\<lparr>transformers := map (\<lambda>r. if owns_transformer tid orgID r
                                     then transformer_of tid orgID c (tf_CreatedAt r) now else r) (transformers d)\<rparr>,
               Inr (transformer_of tid orgID c (tf_CreatedAt r) now)))"

subsection \<open>alert_webhooks.sql.go\<close>

record alert_cols =
  lp_Name :: string
  lp_Url :: string
  lp_PayloadFormat :: string
  lp_Enabled :: bool

definition alert_of :: "uuid \<Rightarrow> uuid \<Rightarrow> alert_cols \<Rightarrow> int \<Rightarrow> int \<Rightarrow> alert_row" where
  "alert_of aid orgID c created now =
     \<lparr>al_ID = aid, al_OrganizationID = orgID, al_Name = lp_Name c, al_Url = lp_Url c,
      al_PayloadFormat = lp_PayloadFormat c, al_Enabled = lp_Enabled c,
      al_CreatedAt = created, al_UpdatedAt = now\<rparr>"

definition owns_alert :: "uuid \<Rightarrow> uuid \<Rightarrow> alert_row \<Rightarrow> bool" where
  "owns_alert aid orgID r = (al_ID r = aid \<and> al_OrganizationID r = orgID)"

definition CreateAlertWebhook :: "db_env \<Rightarrow> uuid \<Rightarrow> alert_cols \<Rightarrow> alert_row query" where
  "CreateAlertWebhook env orgID c = run_stmt env (\<lambda>new now d.
     if new \<in> al_ID ` set (alert_webhooks d) then (d, Inl unique_violation)
     else if \<not> org_exists orgID d then (d, Inl fk_violation)
     else (let r = alert_of new orgID c now now in (d\<lparr>alert_webhooks := alert_webhooks d @ [r]\<rparr>, Inr r)))"

definition db_DeleteAlertWebhook :: "db_env \<Rightarrow> uuid \<Rightarrow> uuid \<Rightarrow> unit query" where
  "db_DeleteAlertWebhook env aid orgID = run_stmt env (\<lambda>_ _ d.
     (d\<lparr>alert_webhooks := filter (\<lambda>r. \<not> owns_alert aid orgID r) (alert_webhooks d)\<rparr>, Inr ()))"

definition GetAlertWebhook :: "db_env \<Rightarrow> uuid \<Rightarrow> uuid \<Rightarrow> alert_row query" where
  "GetAlertWebhook env aid orgID = select_one env (\<lambda>d. filter (owns_alert aid orgID) (alert_webhooks d))"

definition ListAlertWebhooksByOrganization :: "db_env \<Rightarrow> uuid \<Rightarrow> alert_row list query" where
  "ListAlertWebhooksByOrganization env orgID = select_many env (\<lambda>d.
     sort_key (\<lambda>r. - al_CreatedAt r) (filter (\<lambda>r. al_OrganizationID r = orgID) (alert_webhooks d)))"

definition ListAllEnabledAlertWebhooks :: "db_env \<Rightarrow> alert_row list query" where
  "ListAllEnabledAlertWebhooks env =
     select_many env (\<lambda>d. sort_key al_OrganizationID (filter al_Enabled (alert_webhooks d)))"

definition db_UpdateAlertWebhook :: "db_env \<Rightarrow> uuid \<Rightarrow> uuid \<Rightarrow> alert_cols \<Rightarrow> alert_row query" where
  "db_UpdateAlertWebhook env aid orgID c = run_stmt env (\<lambda>_ now d.
     case filter (owns_alert aid orgID) (alert_webhooks d) of
       [] \<Rightarrow> (d, Inl no_rows)
     | r # _ \<Rightarrow>
         (d\<lparr>alert_webhooks := map (\<lambda>r. if owns_alert aid orgID r
                                      then alert_of aid orgID c (al_CreatedAt r) now else r) (alert_webhooks d)\<rparr>,
          Inr (alert_of aid orgID c (al_CreatedAt r) now)))"

subsection \<open>workspace_config.sql.go\<close>

definition ListAllActiveAPIKeys :: "db_env \<Rightarrow> api_key_row list query" where
  "ListAllActiveAPIKeys env =
     select_many env (\<lambda>d. sort_key ky_OrganizationID (filter (\<lambda>r. ky_RevokedAt r = None) (api_keys d)))"

definition ListAllEnabledGuardrails :: "db_env \<Rightarrow> guardrail_row list query" where
  "ListAllEnabledGuardrails env = select_many env (\<lambda>d.
     sort_key (\<lambda>r. (gr_OrganizationID r, gr_ID r)) (filter gr_Enabled (guardrails d)))"

definition ListAllOrganizationIDs :: "db_env \<Rightarrow> uuid list query" where
  "ListAllOrganizationIDs env = select_many env (\<lambda>d. sort (map og_ID (organizations d)))"

definition ListAllSourceGuardrails :: "db_env \<Rightarrow> (uuid \<times> uuid) list query" where
  "ListAllSourceGuardrails env = select_many env (\<lambda>d. sort_key fst (source_guardrails d))"

definition ListAllSources :: "db_env \<Rightarrow> source_row list query" where
  "ListAllSources env =
     select_many env (\<lambda>d. sort_key (\<lambda>r. (so_OrganizationID r, so_Route r)) (sources d))"

end
