(* ===== verification/Config_Redaction.thy ===== *)
theory Config_Redaction
  imports Json_Values "HOL-Library.List_Lexorder" "HOL-Library.Char_ord" "HOL-Library.Multiset"
begin

text \<open>
  \<open>internal/controlplane/service/sanitize.go\<close>: hiding the secrets of guard and transformer
  configurations in API responses, and keeping the stored ones when a client sends such a response
  back; and the decoding of JSON into \<open>map[string]interface{}\<close> and back on which it works.
\<close>

subsection \<open>Decoding into interface values\<close>

text \<open>
  Numbers become \<open>float64\<close> and objects maps. The result is the value that \<open>json.Marshal\<close>
  prints for the decoded one: a float with an integral value below \<open>10^21\<close> prints as an integer
  literal, a map prints its keys sorted. Integers up to \<open>2^53\<close> are exact; what the float nearest to
  a larger one prints is the argument \<open>big\<close>, \<open>None\<close> when it is out of range.
\<close>

definition exact_int :: "int \<Rightarrow> bool" where "exact_int n = (\<bar>n\<bar> \<le> 2 ^ 53)"

definition sorted_members :: "(string, json) gomap \<Rightarrow> (string \<times> json) list" where
  "sorted_members m = sort_key fst m"

fun iface_values :: "(int \<Rightarrow> json option) \<Rightarrow> json \<Rightarrow> json option" where
  "iface_values big JNull = Some JNull"
| "iface_values big (JBool b) = Some (JBool b)"
| "iface_values big (JStr s) = Some (JStr s)"
| "iface_values big (JInt n) = (if exact_int n then Some (JInt n) else big n)"
| "iface_values big (JFloat q) =
     (if of_int \<lfloor>q\<rfloor> = q \<and> \<bar>q\<bar> < 10 ^ 21
      then if exact_int \<lfloor>q\<rfloor> then Some (JInt \<lfloor>q\<rfloor>) else big \<lfloor>q\<rfloor>
      else Some (JFloat q))"
| "iface_values big (JArr xs) =
     (let vs = map (iface_values big) xs in if None \<in> set vs then None else Some (JArr (map the vs)))"
| "iface_values big (JObj kvs) =
     (let vs = map (\<lambda>(k, v). (k, iface_values big v)) kvs in
      if None \<in> snd ` set vs then None
      else Some (JObj (sorted_members (m_of_entries (map (\<lambda>(k, v). (k, the v)) vs)))))"

text \<open>\<open>map[string]interface{}\<close>; the outer \<open>None\<close> is an error, the inner one the nil map.\<close>

type_synonym config_map = "(string, json) gomap option"

fun dec_iface_members :: "(int \<Rightarrow> json option) \<Rightarrow> (string \<times> json) list \<Rightarrow> (string, json) gomap
    \<Rightarrow> (string, json) gomap option" where
  "dec_iface_members big [] m = Some m"
| "dec_iface_members big ((k, v) # kvs) m =
     (case iface_values big v of None \<Rightarrow> None | Some v' \<Rightarrow> dec_iface_members big kvs (m_set k v' m))"

fun dec_iface_map :: "(int \<Rightarrow> json option) \<Rightarrow> json list \<Rightarrow> config_map \<Rightarrow> config_map option" where
  "dec_iface_map big [] cur = Some cur"
| "dec_iface_map big (JNull # vs) cur = dec_iface_map big vs None"
| "dec_iface_map big (JObj kvs # vs) cur =
     (case dec_iface_members big kvs (case cur of None \<Rightarrow> [] | Some m \<Rightarrow> m) of
        None \<Rightarrow> None | Some m \<Rightarrow> dec_iface_map big vs (Some m))"
| "dec_iface_map big (_ # vs) cur = None"

text \<open>\<open>json.Marshal\<close> of such a map.\<close>

definition marshal_config :: "config_map \<Rightarrow> json" where
  "marshal_config c = (case c of None \<Rightarrow> JNull | Some m \<Rightarrow> JObj (sorted_members m))"

text \<open>
  \<open>json.Unmarshal(stored, &config)\<close> with the error ignored: a stored value that does not decode
  (which no write of the control plane produces) reads as the nil map.
\<close>

definition stored_config :: "(int \<Rightarrow> json option) \<Rightarrow> json \<Rightarrow> config_map" where
  "stored_config big j = (case dec_iface_map big [j] None of None \<Rightarrow> None | Some c \<Rightarrow> c)"

subsection \<open>sanitize.go\<close>

definition redactedValue :: string where "redactedValue = ''***''"

definition isSecretKey :: "go_lib \<Rightarrow> string \<Rightarrow> bool" where
  "isSecretKey lib key =
     (let k = to_lower (uni_lower lib) key in
      k = ''api_key'' \<or> k = ''headers'' \<or> has_suffix k ''_key'')"

definition SanitizeConfig :: "go_lib \<Rightarrow> config_map \<Rightarrow> config_map" where
  "SanitizeConfig lib config =
     map_option (map (\<lambda>(k, v). (k, if isSecretKey lib k then JStr redactedValue else v))) config"

definition PreserveRedactedSecrets :: "config_map \<Rightarrow> config_map \<Rightarrow> config_map" where
  "PreserveRedactedSecrets incoming stored =
     map_option (map (\<lambda>(k, v).
       (k, if v = JStr redactedValue
           then (case stored of
                   None \<Rightarrow> v
                 | Some s \<Rightarrow> (case m_get s k of Some prev \<Rightarrow> prev | None \<Rightarrow> v))
           else v))) incoming"

subsection \<open>Marshalled configurations decode to themselves\<close>

lemma dec_iface_members_distinct:
  "dec_iface_members big kvs m = Some m' \<Longrightarrow> distinct (map fst m) \<Longrightarrow> distinct (map fst m')"
  by (induction kvs arbitrary: m) (auto split: option.splits simp: distinct_update)

lemma dec_iface_map_distinct:
  assumes "dec_iface_map big js cur = Some (Some m)" and "\<And>m0. cur = Some m0 \<Longrightarrow> distinct (map fst m0)"
  shows "distinct (map fst m)"
  using assms
proof (induction big js cur rule: dec_iface_map.induct)
  case (3 big kvs vs cur)
  from 3(2) obtain m1 where m1: "dec_iface_members big kvs (case cur of None \<Rightarrow> [] | Some m \<Rightarrow> m) = Some m1"
    and rest: "dec_iface_map big vs (Some m1) = Some (Some m)" by (auto split: option.splits)
  have "distinct (map fst (case cur of None \<Rightarrow> [] | Some m \<Rightarrow> m))"
    using 3(3) by (auto split: option.splits)
  with dec_iface_members_distinct [OF m1] have "distinct (map fst m1)" by blast
  with 3(1) [OF m1 rest] show ?case by blast
qed auto

lemma stored_config_distinct: "stored_config big j = Some m \<Longrightarrow> distinct (map fst m)"
  using dec_iface_map_distinct [of big "[j]" None m]
  by (auto simp: stored_config_def split: option.splits)

text \<open>The values that come out of such a decoding; with a sound \<open>big\<close> they decode to themselves.\<close>

definition big_law :: "(int \<Rightarrow> json option) \<Rightarrow> bool" where
  "big_law big \<longleftrightarrow> (\<forall>n j. big n = Some j \<longrightarrow> iface_values big j = Some j)"

lemma m_of_entries_distinct: "distinct (map fst kvs) \<Longrightarrow> m_of_entries kvs = kvs"
proof -
  have "distinct (map fst (m @ kvs)) \<Longrightarrow> fold (\<lambda>(k, v) m. m_set k v m) kvs m = m @ kvs" for m
  proof (induction kvs arbitrary: m)
    case (Cons kv kvs)
    obtain k v where kv: "kv = (k, v)" by (cases kv)
    with Cons.prems have "k \<notin> fst ` set m" by auto
    with Cons.IH [of "m @ [kv]"] Cons.prems kv show ?case by (simp add: m_set_new)
  qed simp
  from this [of "[]"] show "distinct (map fst kvs) \<Longrightarrow> m_of_entries kvs = kvs"
    by (simp add: m_of_entries_def)
qed

lemma sorted_members_idem [simp]: "sorted_members (sorted_members m) = sorted_members m"
  by (simp add: sorted_members_def sort_key_id_if_sorted)

lemma distinct_sorted_members [simp]:
  "distinct (map fst (sorted_members m)) \<longleftrightarrow> distinct (map fst m)"
proof -
  have "mset (map fst (sort_key fst m)) = mset (map fst m)" by simp
  then show ?thesis unfolding sorted_members_def by (rule mset_eq_imp_distinct_iff)
qed

lemma set_sorted_members [simp]: "set (sorted_members m) = set m"
  by (simp add: sorted_members_def)

lemma sorted_members_map:
  assumes "\<And>kv. fst (f kv) = fst kv"
  shows "sorted_members (map f m) = map f (sorted_members m)"
proof -
  have "insort_key fst (f x) (map f xs) = map f (insort_key fst x xs)" for x xs
    by (induction xs) (simp_all add: assms)
  then show ?thesis unfolding sorted_members_def by (induction m) simp_all
qed

lemma set_fold_set: "set (fold (\<lambda>(k, v) m. m_set k v m) kvs m) \<subseteq> set m \<union> set kvs"
proof (induction kvs arbitrary: m)
  case (Cons kv kvs)
  obtain k v where [simp]: "kv = (k, v)" by (cases kv)
  have "set (m_set k v m) \<subseteq> insert (k, v) (set m)" for m :: "('a \<times> 'b) list"
    by (induction m) auto
  with Cons [of "m_set k v m"] show ?case by fastforce
qed simp

lemma set_m_of_entries: "set (m_of_entries kvs) \<subseteq> set kvs"
  using set_fold_set [of kvs "[]"] by (simp add: m_of_entries_def)

lemma map_fixed: "\<forall>x \<in> set xs. f x = Some x \<Longrightarrow> map (\<lambda>x. f x) xs = map Some xs"
  by simp

lemma iface_members_fixed:
  assumes "\<forall>v \<in> snd ` set m. iface_values big v = Some v" and "distinct (map fst m)"
  shows "iface_values big (JObj (sorted_members m)) = Some (JObj (sorted_members m))"
proof -
  have eq: "map (\<lambda>(k, v). (k, iface_values big v)) (sorted_members m) = map (\<lambda>(k, v). (k, Some v)) (sorted_members m)"
    using assms(1) by (intro map_cong) (auto simp: sorted_members_def)
  have un: "map (\<lambda>(k, v). (k, the v)) (map (\<lambda>(k, v). (k, Some v)) xs) = xs" for xs :: "(string \<times> json) list"
    by (induction xs) auto
  show ?thesis
    unfolding iface_values.simps Let_def eq un using assms(2) by (auto simp: m_of_entries_distinct)
qed

text \<open>Decoding and printing once is enough: the printed value is a fixed point.\<close>

lemma iface_values_idem: "big_law big \<Longrightarrow> iface_values big j = Some j' \<Longrightarrow> iface_values big j' = Some j'"
proof (induction big j arbitrary: j' rule: iface_values.induct)
  case (6 big xs)
  then have js: "None \<notin> iface_values big ` set xs" "j' = JArr (map (the \<circ> iface_values big) xs)"
    by (auto simp: Let_def split: if_splits)
  have "iface_values big (the (iface_values big x)) = Some (the (iface_values big x))" if "x \<in> set xs" for x
  proof -
    from that js(1) obtain w where "iface_values big x = Some w" by (metis image_eqI option.exhaust)
    with 6(1) [OF that 6(2)] show ?thesis by simp
  qed
  then have "map (iface_values big) (map (the \<circ> iface_values big) xs) = map Some (map (the \<circ> iface_values big) xs)"
    by simp
  then show ?case unfolding js(2) iface_values.simps Let_def by (auto simp: comp_def)
next
  case (7 big kvs)
  let ?es = "map (\<lambda>(k, v). (k, the v)) (map (\<lambda>(k, v). (k, iface_values big v)) kvs)"
  from 7(3) have n: "None \<notin> snd ` set (map (\<lambda>(k, v). (k, iface_values big v)) kvs)"
    and j': "j' = JObj (sorted_members (m_of_entries ?es))"
    unfolding iface_values.simps Let_def by (metis option.distinct(1), metis option.distinct(1) option.inject)
  have "iface_values big v = Some v" if "v \<in> snd ` set ?es" for v
  proof -
    from that obtain k v0 where kv: "(k, v0) \<in> set kvs" and v: "v = the (iface_values big v0)" by force
    from kv have "iface_values big v0 \<in> snd ` set (map (\<lambda>(k, v). (k, iface_values big v)) kvs)" by force
    with n obtain w where "iface_values big v0 = Some w" by (metis option.exhaust)
    with 7(1) [OF kv refl 7(2)] v show ?thesis by simp
  qed
  then have "\<forall>v \<in> snd ` set (m_of_entries ?es). iface_values big v = Some v"
    using set_m_of_entries [of ?es] by (meson image_mono subsetD)
  then show ?case using j' iface_members_fixed [of "m_of_entries ?es" big] by simp
qed (auto simp: big_law_def split: if_splits)

text \<open>A configuration as a handler delivers it: distinct keys, decoded values.\<close>

definition config_normal :: "(int \<Rightarrow> json option) \<Rightarrow> config_map \<Rightarrow> bool" where
  "config_normal big c =
     (case c of None \<Rightarrow> True
      | Some m \<Rightarrow> distinct (map fst m) \<and> (\<forall>v \<in> snd ` set m. iface_values big v = Some v))"

lemma set_m_set: "set (m_set k v m) \<subseteq> insert (k, v) (set m)"
  by (induction m) auto

lemma dec_iface_members_normal:
  assumes "dec_iface_members big kvs m = Some m'" and "big_law big" and "config_normal big (Some m)"
  shows "config_normal big (Some m')"
  using assms
proof (induction kvs arbitrary: m)
  case (Cons kv kvs)
  obtain k v where kv: "kv = (k, v)" by (cases kv)
  from Cons.prems(1) kv obtain v' where v': "iface_values big v = Some v'"
    and rest: "dec_iface_members big kvs (m_set k v' m) = Some m'" by (auto split: option.splits)
  have "config_normal big (Some (m_set k v' m))"
    using Cons.prems(2,3) iface_values_idem [OF Cons.prems(2) v'] set_m_set [of k v' m]
    by (auto simp: config_normal_def distinct_update)
  with Cons.IH [OF rest Cons.prems(2)] show ?case .
qed simp

lemma dec_iface_map_normal:
  "dec_iface_map big js cur = Some c \<Longrightarrow> big_law big \<Longrightarrow> config_normal big cur \<Longrightarrow> config_normal big c"
proof (induction big js cur rule: dec_iface_map.induct)
  case (2 big vs cur)
  then show ?case by (simp add: config_normal_def)
next
  case (3 big kvs vs cur)
  let ?m = "case cur of None \<Rightarrow> [] | Some m \<Rightarrow> m"
  from 3(2) obtain m1 where m1: "dec_iface_members big kvs ?m = Some m1"
    and rest: "dec_iface_map big vs (Some m1) = Some c" by (auto split: option.splits)
  have "config_normal big (Some ?m)" using 3(4) by (auto simp: config_normal_def split: option.splits)
  with dec_iface_members_normal [OF m1 3(3)] have "config_normal big (Some m1)" by blast
  with 3(1) [OF m1 rest 3(3)] show ?case by blast
qed auto

lemma dec_iface_members_fixed:
  "config_normal big (Some (m @ kvs)) \<Longrightarrow> dec_iface_members big kvs m = Some (m @ kvs)"
proof (induction kvs arbitrary: m)
  case (Cons kv kvs)
  obtain k v where kv: "kv = (k, v)" by (cases kv)
  from Cons.prems kv have "m_set k v m = m @ [kv]" and "iface_values big v = Some v"
    by (auto simp: config_normal_def m_set_new)
  with kv Cons.IH [of "m @ [kv]"] Cons.prems show ?case by simp
qed simp

text \<open>Reading a printed configuration gives its members in sorted order.\<close>

lemma dec_marshal_config:
  "config_normal big c \<Longrightarrow> dec_iface_map big [marshal_config c] None = Some (map_option sorted_members c)"
  by (cases c) (auto simp: marshal_config_def config_normal_def
      dec_iface_members_fixed [where m = "[]", simplified])

lemma stored_marshal_config:
  "config_normal big c \<Longrightarrow> stored_config big (marshal_config c) = map_option sorted_members c"
  by (simp add: stored_config_def dec_marshal_config)

lemma marshal_sorted [simp]: "marshal_config (map_option sorted_members c) = marshal_config c"
  by (cases c) (simp_all add: marshal_config_def)

lemma sanitize_sorted: "SanitizeConfig lib (map_option sorted_members c) = map_option sorted_members (SanitizeConfig lib c)"
  by (cases c) (auto simp: SanitizeConfig_def sorted_members_map case_prod_beta)

lemma sanitize_normal: "config_normal big c \<Longrightarrow> config_normal big (SanitizeConfig lib c)"
proof (cases c)
  case (Some m)
  assume n: "config_normal big c"
  have "map fst (map (\<lambda>(k, v). (k, if isSecretKey lib k then JStr redactedValue else v)) m) = map fst m"
    by (auto simp: case_prod_beta)
  with n Some show ?thesis
    by (auto simp: config_normal_def SanitizeConfig_def case_prod_beta simp del: map_map)
qed (simp add: SanitizeConfig_def config_normal_def)

lemma preserve_sanitize:
  assumes "config_normal big (Some m)"
  shows "PreserveRedactedSecrets (SanitizeConfig lib (Some m)) (Some m) = Some m"
proof -
  have "m_get m k = Some v" if "(k, v) \<in> set m" for k v
    using assms that by (simp add: config_normal_def)
  then show ?thesis
    by (auto simp: PreserveRedactedSecrets_def SanitizeConfig_def intro!: map_idI)
qed

text \<open>
  C30: redaction is safe to send back. Whatever configuration a client stores, the response shows
  every top-level secret field as the sentinel only; and when the client sends that response back
  unchanged, the update stores exactly the configuration that was stored before, secrets included.
  \<open>big_law\<close> says that a number Go prints reads back as itself.
\<close>

theorem redaction_round_trip:
  assumes "big_law big" and "dec_iface_map big js None = Some c"
  shows "let stored = marshal_config c;
             shown = marshal_config (SanitizeConfig lib (stored_config big stored))
         in (case dec_iface_map big [shown] None of
               None \<Rightarrow> False
             | Some c' \<Rightarrow> marshal_config (PreserveRedactedSecrets c' (stored_config big stored)) = stored)
          \<and> (if isSecretKey lib k then obj_get shown k \<in> {None, Some (JStr redactedValue)}
             else obj_get shown k = obj_get stored k)"
proof -
  define stored where stored_def: "stored = marshal_config c"
  define shown where shown_def: "shown = marshal_config (SanitizeConfig lib (stored_config big stored))"
  have n: "config_normal big c"
    by (rule dec_iface_map_normal [OF assms(2,1)]) (simp add: config_normal_def)
  have sc: "stored_config big stored = map_option sorted_members c"
    unfolding stored_def by (rule stored_marshal_config [OF n])
  have shown: "shown = marshal_config (SanitizeConfig lib c)"
    unfolding shown_def sc sanitize_sorted by simp
  have dec: "dec_iface_map big [shown] None = Some (SanitizeConfig lib (map_option sorted_members c))"
    unfolding shown sanitize_sorted by (rule dec_marshal_config [OF sanitize_normal [OF n]])
  have first: "marshal_config (PreserveRedactedSecrets (SanitizeConfig lib (map_option sorted_members c))
      (stored_config big stored)) = stored"
  proof (cases c)
    case None
    then show ?thesis by (simp add: sc stored_def SanitizeConfig_def PreserveRedactedSecrets_def)
  next
    case (Some m)
    with n have "config_normal big (Some (sorted_members m))" by (simp add: config_normal_def)
    from preserve_sanitize [OF this]
    have "PreserveRedactedSecrets (SanitizeConfig lib (map_option sorted_members c)) (stored_config big stored)
      = Some (sorted_members m)" by (simp only: sc Some option.map)
    with Some show ?thesis by (simp add: stored_def marshal_config_def)
  qed
  have get: "obj_get (marshal_config (Some m)) k = m_get m k" if "distinct (map fst m)" for m
    using that by (metis distinct_sorted_members marshal_config_def map_of_inject_set obj_get_JObj option.simps(5) set_sorted_members)
  have "if isSecretKey lib k then obj_get shown k \<in> {None, Some (JStr redactedValue)} else obj_get shown k = obj_get stored k"
  proof (cases c)
    case None
    then show ?thesis by (simp add: shown stored_def SanitizeConfig_def marshal_config_def obj_get_def)
  next
    case (Some m)
    let ?s = "map (\<lambda>(k, v). (k, if isSecretKey lib k then JStr redactedValue else v)) m"
    have d: "distinct (map fst m)" using n Some by (simp add: config_normal_def)
    have "map fst ?s = map fst m" by (auto simp: case_prod_beta)
    with d have d': "distinct (map fst ?s)" by (simp only:)
    have "m_get ?s k = map_option (\<lambda>v. if isSecretKey lib k then JStr redactedValue else v) (m_get m k)"
      by (induction m) auto
    with get [OF d] get [OF d'] Some show ?thesis
      by (cases "m_get m k") (auto simp: shown stored_def SanitizeConfig_def)
  qed
  with first dec show ?thesis unfolding Let_def stored_def [symmetric] shown_def [symmetric] by simp
qed

text \<open>A stored key comes back redacted and survives; the exact integers need no \<open>big\<close>.\<close>

theorem redaction_round_trip_witness:
  "let big = (\<lambda>n. None);
       lib = \<lparr>rx_compile = (\<lambda>_. None), rx_match = (\<lambda>_ _. False), rx_replace_all = (\<lambda>_ t _. t),
              uni_lower = (\<lambda>s. s), parse_json = (\<lambda>_. None)\<rparr>;
       sent = JObj [(''model'', JStr ''m''), (''Api_Key'', JStr ''s3cret'')];
       shown = JObj [(''Api_Key'', JStr ''***''), (''model'', JStr ''m'')]
   in dec_iface_map big [shown] None = Some (Some [(''Api_Key'', JStr ''***''), (''model'', JStr ''m'')])
    \<and> obj_get shown ''Api_Key'' \<in> {None, Some (JStr ''***'')}"
proof -
  let ?big = "\<lambda>n::int. None :: json option"
  let ?lib = "\<lparr>rx_compile = (\<lambda>_. None), rx_match = (\<lambda>_ _. False), rx_replace_all = (\<lambda>_ t _. t),
              uni_lower = (\<lambda>s. s), parse_json = (\<lambda>_. None)\<rparr>"
  have d: "dec_iface_map ?big [JObj [(''model'', JStr ''m''), (''Api_Key'', JStr ''s3cret'')]] None
      = Some (Some [(''model'', JStr ''m''), (''Api_Key'', JStr ''s3cret'')])" by simp
  have sh: "marshal_config (SanitizeConfig ?lib (stored_config ?big
      (marshal_config (Some [(''model'', JStr ''m''), (''Api_Key'', JStr ''s3cret'')]))))
      = JObj [(''Api_Key'', JStr ''***''), (''model'', JStr ''m'')]" by code_simp
  have k: "isSecretKey ?lib ''Api_Key''" by code_simp
  have "big_law ?big" by (simp add: big_law_def)
  from redaction_round_trip [OF this d, of ?lib "''Api_Key''"] k sh
  show ?thesis by (simp add: Let_def redactedValue_def)
qed

end
