(* ===== verification/Control_Service.thy ===== *)
theory Control_Service
  imports Control_Queries Config_Redaction Crypto_Aes "HOL-Library.Word"
begin

text \<open>
  The services of the control plane, \<open>internal/controlplane/service\<close>: \<open>source.go\<close>,
  \<open>guardrail.go\<close>, \<open>transformer.go\<close> and \<open>alert.go\<close>. An operation is a query: it reads
  and writes the database through the statements of \<open>Control_Queries\<close>, in their order.
\<close>

subsection \<open>What the services are built from\<close>

text \<open>
  The services' fields and what they call: the database, the cipher with its nonce source and
  key, the two registries, the URL policy's resolver and switch, the library tables, the printing
  of large numbers and of timestamps, and the network of a guard's test run.
\<close>

record cp_env =
  ce_db :: db_env
  ce_gcm :: cipher
  ce_nonce :: "string res"
  ce_encKey :: string
  ce_reg :: guard_registry
  ce_treg :: transform_registry
  ce_net :: net_env
  ce_allowPrivate :: bool
  ce_lib :: go_lib
  ce_big :: "int \<Rightarrow> json option"
  ce_time :: "int \<Rightarrow> string"
  ce_call :: guard_call

subsection \<open>source.go\<close>

text \<open>\<open>CreateSourceParams\<close> and \<open>UpdateSourceParams\<close> have the same fields.\<close>

record source_params =
  sv_Name :: string
  sv_Route :: string
  sv_Description :: "string option"
  sv_LLMProvider :: string
  sv_LLMModel :: string
  sv_LLMAPIKey :: string
  sv_LLMBaseURL :: string
  sv_InputPassCriteria :: string
  sv_InputPassThreshold :: "int option"
  sv_OutputPassCriteria :: string
  sv_OutputPassThreshold :: "int option"
  sv_Enabled :: "bool option"

definition validateCriteria :: "string \<Rightarrow> string \<Rightarrow> int option \<Rightarrow> string res" where
  "validateCriteria phase criteria threshold =
     (let criteria = (if criteria = [] then ''all'' else criteria) in
      if criteria = ''all'' \<or> criteria = ''any'' then Inr criteria
      else if criteria = ''n_of_m'' then
        (case threshold of
           None \<Rightarrow> Inl (phase @ ''_pass_threshold must be >= 1 when '' @ phase @ ''_pass_criteria is n_of_m'')
         | Some t \<Rightarrow>
             if t < 1 then Inl (phase @ ''_pass_threshold must be >= 1 when '' @ phase @ ''_pass_criteria is n_of_m'')
             else Inr criteria)
      else Inl (phase @ ''_pass_criteria must be one of all, any, n_of_m''))"

definition validateLLMBaseURL :: "cp_env \<Rightarrow> string \<Rightarrow> unit res" where
  "validateLLMBaseURL e raw =
     (if raw = [] then Inr ()
      else ValidatePublicHTTPURL (ce_net e) (ce_allowPrivate e) raw ''llm_base_url'')"

definition encrypt_key :: "cp_env \<Rightarrow> string \<Rightarrow> string res" where
  "encrypt_key e plaintext =
     err_wrap ''encrypting API key: '' (Encrypt (ce_gcm e) (ce_nonce e) plaintext (ce_encKey e))"

definition source_columns :: "source_params \<Rightarrow> string \<Rightarrow> string \<Rightarrow> string \<Rightarrow> source_cols" where
  "source_columns p encryptedKey inputCriteria outputCriteria =
     \<lparr>sp_Name = sv_Name p, sp_Route = sv_Route p, sp_Description = sv_Description p,
      sp_LlmProvider = sv_LLMProvider p, sp_LlmModel = sv_LLMModel p, sp_LlmApiKeyEnc = encryptedKey,
      sp_LlmBaseUrl = sv_LLMBaseURL p, sp_InputPassCriteria = inputCriteria,
      sp_InputPassThreshold = sv_InputPassThreshold p, sp_OutputPassCriteria = outputCriteria,
      sp_OutputPassThreshold = sv_OutputPassThreshold p,
      sp_Enabled = (case sv_Enabled p of Some b \<Rightarrow> b | None \<Rightarrow> True)\<rparr>"

definition SourceService_Create :: "cp_env \<Rightarrow> uuid \<Rightarrow> source_params \<Rightarrow> source_row query" where
  "SourceService_Create e orgID p =
     q_bind (q_lift (validateLLMBaseURL e (sv_LLMBaseURL p))) (\<lambda>_.
     q_bind (q_lift (encrypt_key e (sv_LLMAPIKey p))) (\<lambda>encryptedKey.
     q_bind (q_lift (validateCriteria ''input'' (sv_InputPassCriteria p) (sv_InputPassThreshold p))) (\<lambda>inputCriteria.
     q_bind (q_lift (validateCriteria ''output'' (sv_OutputPassCriteria p) (sv_OutputPassThreshold p))) (\<lambda>outputCriteria.
       CreateSource (ce_db e) orgID (source_columns p encryptedKey inputCriteria outputCriteria)))))"

definition SourceService_Get :: "cp_env \<Rightarrow> uuid \<Rightarrow> uuid \<Rightarrow> source_row query" where
  "SourceService_Get e orgID sourceID = GetSource (ce_db e) sourceID orgID"

definition SourceService_GetByRoute :: "cp_env \<Rightarrow> uuid \<Rightarrow> string \<Rightarrow> source_row query" where
  "SourceService_GetByRoute e orgID route = GetSourceByRoute (ce_db e) route orgID"

definition SourceService_List :: "cp_env \<Rightarrow> uuid \<Rightarrow> source_row list query" where
  "SourceService_List e orgID = ListSourcesByOrganization (ce_db e) orgID"

definition SourceService_Update :: "cp_env \<Rightarrow> uuid \<Rightarrow> uuid \<Rightarrow> source_params \<Rightarrow> source_row query" where
  "SourceService_Update e orgID sourceID p =
     q_bind (q_lift (validateLLMBaseURL e (sv_LLMBaseURL p))) (\<lambda>_.
     q_bind (if sv_LLMAPIKey p = []
             then q_bind (q_wrap ''loading source: '' (SourceService_Get e orgID sourceID))
                    (\<lambda>existing. q_return (so_LlmApiKeyEnc existing))
             else q_lift (encrypt_key e (sv_LLMAPIKey p))) (\<lambda>encryptedKey.
     q_bind (q_lift (validateCriteria ''input'' (sv_InputPassCriteria p) (sv_InputPassThreshold p))) (\<lambda>inputCriteria.
     q_bind (q_lift (validateCriteria ''output'' (sv_OutputPassCriteria p) (sv_OutputPassThreshold p))) (\<lambda>outputCriteria.
       db_UpdateSource (ce_db e) sourceID orgID (source_columns p encryptedKey inputCriteria outputCriteria)))))"

definition SourceService_Delete :: "cp_env \<Rightarrow> uuid \<Rightarrow> uuid \<Rightarrow> unit query" where
  "SourceService_Delete e orgID sourceID = db_DeleteSource (ce_db e) sourceID orgID"

definition opt_member :: "string \<Rightarrow> ('a \<Rightarrow> json) \<Rightarrow> 'a option \<Rightarrow> (string \<times> json) list" where
  "opt_member k f v = (case v of None \<Rightarrow> [] | Some x \<Rightarrow> [(k, f x)])"

definition ToSourceResponse :: "cp_env \<Rightarrow> source_row \<Rightarrow> json" where
  "ToSourceResponse e s = JObj
     ([(''id'', JStr (so_ID s)), (''name'', JStr (so_Name s)), (''route'', JStr (so_Route s))]
      @ opt_member ''description'' JStr (so_Description s)
      @ [(''llm_provider'', JStr (so_LlmProvider s)), (''llm_model'', JStr (so_LlmModel s))]
      @ (if so_LlmBaseUrl s = [] then [] else [(''llm_base_url'', JStr (so_LlmBaseUrl s))])
      @ [(''input_pass_criteria'', JStr (so_InputPassCriteria s))]
      @ opt_member ''input_pass_threshold'' JInt (so_InputPassThreshold s)
      @ [(''output_pass_criteria'', JStr (so_OutputPassCriteria s))]
      @ opt_member ''output_pass_threshold'' JInt (so_OutputPassThreshold s)
      @ [(''enabled'', JBool (so_Enabled s)), (''created_at'', JStr (ce_time e (so_CreatedAt s))),
         (''updated_at'', JStr (ce_time e (so_UpdatedAt s)))])"

definition ToSourceResponses :: "cp_env \<Rightarrow> source_row list \<Rightarrow> json" where
  "ToSourceResponses e srcs = JArr (map (ToSourceResponse e) srcs)"

subsection \<open>guardrail.go\<close>

record guardrail_params =
  gv_Name :: string
  gv_GuardType :: string
  gv_Phase :: string
  gv_Config :: config_map
  gv_Enabled :: "bool option"

definition guardrailDefaults :: "string \<Rightarrow> bool option \<Rightarrow> string \<times> bool" where
  "guardrailDefaults phase enabled =
     (if phase = [] then ''input'' else phase, case enabled of Some b \<Rightarrow> b | None \<Rightarrow> True)"

text \<open>Decoded values always marshal.\<close>

definition GuardrailService_validateConfig :: "cp_env \<Rightarrow> string \<Rightarrow> string \<Rightarrow> config_map \<Rightarrow> json res" where
  "GuardrailService_validateConfig e name guardType config =
     (let configJSON = marshal_config config in
      res_bind (Registry_Create (ce_reg e) guardType name (Some configJSON)) (\<lambda>_. Inr configJSON))"

definition guardrail_columns :: "guardrail_params \<Rightarrow> json \<Rightarrow> guardrail_cols" where
  "guardrail_columns p configJSON =
     (let (phase, enabled) = guardrailDefaults (gv_Phase p) (gv_Enabled p) in
      \<lparr>gp_Name = gv_Name p, gp_GuardType = gv_GuardType p, gp_Phase = phase,
       gp_Config = configJSON, gp_Enabled = enabled\<rparr>)"

definition GuardrailService_Create :: "cp_env \<Rightarrow> uuid \<Rightarrow> guardrail_params \<Rightarrow> guardrail_row query" where
  "GuardrailService_Create e orgID p =
     q_bind (q_lift (GuardrailService_validateConfig e (gv_Name p) (gv_GuardType p) (gv_Config p))) (\<lambda>configJSON.
       CreateGuardrail (ce_db e) orgID (guardrail_columns p configJSON))"

definition GuardrailService_Get :: "cp_env \<Rightarrow> uuid \<Rightarrow> uuid \<Rightarrow> guardrail_row query" where
  "GuardrailService_Get e orgID guardrailID = GetGuardrail (ce_db e) guardrailID orgID"

definition test_meta :: call_meta where
  "test_meta = \<lparr>Phase = ''test'', SourceRoute = [], AllMessagesText = []\<rparr>"

definition GuardrailService_Test :: "cp_env \<Rightarrow> uuid \<Rightarrow> uuid \<Rightarrow> string \<Rightarrow> guard_result query" where
  "GuardrailService_Test e orgID guardrailID input =
     q_bind (q_wrap ''guardrail not found: '' (GuardrailService_Get e orgID guardrailID)) (\<lambda>g.
     q_bind (q_lift (err_wrap ''building guard: ''
               (Registry_Create (ce_reg e) (gr_GuardType g) (gr_Name g) (Some (gr_Config g))))) (\<lambda>built.
       q_lift (Validate (ce_lib e) (ce_call e) (Some test_meta) built input)))"

definition GuardrailService_List :: "cp_env \<Rightarrow> uuid \<Rightarrow> guardrail_row list query" where
  "GuardrailService_List e orgID = ListGuardrailsByOrg (ce_db e) orgID"

definition GuardrailService_ListBySource :: "cp_env \<Rightarrow> uuid \<Rightarrow> uuid \<Rightarrow> guardrail_row list query" where
  "GuardrailService_ListBySource e orgID sourceID =
     q_bind (q_wrap ''source not found: '' (GetSource (ce_db e) sourceID orgID)) (\<lambda>_.
       ListGuardrailsBySource (ce_db e) sourceID)"

definition GuardrailService_ListEnabledBySource :: "cp_env \<Rightarrow> uuid \<Rightarrow> guardrail_row list query" where
  "GuardrailService_ListEnabledBySource e sourceID = ListEnabledGuardrailsBySource (ce_db e) sourceID"

text \<open>An error of the read is not an error of the update: the configuration is then taken as sent.\<close>

definition preserve_from :: "(int \<Rightarrow> json option) \<Rightarrow> json option \<Rightarrow> config_map \<Rightarrow> config_map" where
  "preserve_from big existing config =
     (case existing of None \<Rightarrow> config | Some j \<Rightarrow> PreserveRedactedSecrets config (stored_config big j))"

definition q_try :: "'a query \<Rightarrow> 'a option query" where
  "q_try m d = (case m d of (d', Inl _) \<Rightarrow> (d', Inr None) | (d', Inr x) \<Rightarrow> (d', Inr (Some x)))"

definition GuardrailService_Update :: "cp_env \<Rightarrow> uuid \<Rightarrow> uuid \<Rightarrow> guardrail_params \<Rightarrow> guardrail_row query" where
  "GuardrailService_Update e orgID guardrailID p =
     q_bind (q_try (GuardrailService_Get e orgID guardrailID)) (\<lambda>existing.
       let p = p\<lparr>gv_Config := preserve_from (ce_big e) (map_option gr_Config existing) (gv_Config p)\<rparr> in
       q_bind (q_lift (GuardrailService_validateConfig e (gv_Name p) (gv_GuardType p) (gv_Config p))) (\<lambda>configJSON.
         db_UpdateGuardrail (ce_db e) guardrailID orgID (guardrail_columns p configJSON)))"

definition GuardrailService_Delete :: "cp_env \<Rightarrow> uuid \<Rightarrow> uuid \<Rightarrow> unit query" where
  "GuardrailService_Delete e orgID guardrailID = db_DeleteGuardrail (ce_db e) guardrailID orgID"

definition GuardrailService_AttachToSource :: "cp_env \<Rightarrow> uuid \<Rightarrow> uuid \<Rightarrow> uuid \<Rightarrow> unit query" where
  "GuardrailService_AttachToSource e orgID guardrailID sourceID =
     q_bind (q_wrap ''guardrail not found: '' (GetGuardrail (ce_db e) guardrailID orgID)) (\<lambda>_.
       AttachGuardrailToSource (ce_db e) sourceID guardrailID)"

definition GuardrailService_DetachFromSource :: "cp_env \<Rightarrow> uuid \<Rightarrow> uuid \<Rightarrow> uuid \<Rightarrow> unit query" where
  "GuardrailService_DetachFromSource e orgID guardrailID sourceID =
     q_bind (q_wrap ''guardrail not found: '' (GuardrailService_Get e orgID guardrailID)) (\<lambda>_.
       DetachGuardrailFromSource (ce_db e) sourceID guardrailID)"

definition GuardrailService_ListSources :: "cp_env \<Rightarrow> uuid \<Rightarrow> uuid \<Rightarrow> source_row list query" where
  "GuardrailService_ListSources e orgID guardrailID =
     q_bind (q_wrap ''guardrail not found: '' (GuardrailService_Get e orgID guardrailID)) (\<lambda>_.
       ListSourcesByGuardrail (ce_db e) guardrailID)"

definition ToGuardrailResponse :: "cp_env \<Rightarrow> guardrail_row \<Rightarrow> json" where
  "ToGuardrailResponse e g =
     (let config = SanitizeConfig (ce_lib e) (stored_config (ce_big e) (gr_Config g)) in
      JObj [(''id'', JStr (gr_ID g)), (''organization_id'', JStr (gr_OrganizationID g)),
            (''name'', JStr (gr_Name g)), (''guard_type'', JStr (gr_GuardType g)),
            (''phase'', JStr (gr_Phase g)), (''config'', marshal_config config),
            (''enabled'', JBool (gr_Enabled g)), (''created_at'', JStr (ce_time e (gr_CreatedAt g))),
            (''updated_at'', JStr (ce_time e (gr_UpdatedAt g)))])"

definition ToGuardrailResponses :: "cp_env \<Rightarrow> guardrail_row list \<Rightarrow> json" where
  "ToGuardrailResponses e gs = JArr (map (ToGuardrailResponse e) gs)"

subsection \<open>transformer.go\<close>

record transformer_params =
  tv_Name :: string
  tv_TransformerType :: string
  tv_Phase :: string
  tv_Config :: config_map
  tv_Enabled :: "bool option"

definition TransformerService_validate :: "cp_env \<Rightarrow> transformer_params \<Rightarrow> (string \<times> bool \<times> json) res" where
  "TransformerService_validate e p =
     (if \<not> TRegistry_Has (ce_treg e) (tv_TransformerType p)
      then Inl (''unknown transformer_type: '' @ go_quote (tv_TransformerType p))
      else
        (let phase = (if tv_Phase p = [] then ''input'' else tv_Phase p) in
         if phase \<noteq> ''input'' \<and> phase \<noteq> ''output''
         then Inl ''phase must be \"input\" or \"output\"''
         else
           (let enabled = (case tv_Enabled p of Some b \<Rightarrow> b | None \<Rightarrow> True);
                config = (case tv_Config p of None \<Rightarrow> Some [] | Some m \<Rightarrow> Some m);
                configJSON = marshal_config config
            in res_bind (TRegistry_Create (ce_treg e) (tv_TransformerType p) (tv_Name p) (Some configJSON)) (\<lambda>_.
                 Inr (phase, enabled, configJSON)))))"

definition transformer_columns :: "transformer_params \<Rightarrow> string \<times> bool \<times> json \<Rightarrow> transformer_cols" where
  "transformer_columns p v =
     (let (phase, enabled, configJSON) = v in
      \<lparr>tp_Name = tv_Name p, tp_TransformerType = tv_TransformerType p, tp_Phase = phase,
       tp_Config = configJSON, tp_Enabled = enabled\<rparr>)"

definition TransformerService_Create :: "cp_env \<Rightarrow> uuid \<Rightarrow> transformer_params \<Rightarrow> transformer_row query" where
  "TransformerService_Create e orgID p =
     q_bind (q_lift (TransformerService_validate e p)) (\<lambda>v.
       db_CreateTransformer (ce_db e) orgID (transformer_columns p v))"

definition TransformerService_Get :: "cp_env \<Rightarrow> uuid \<Rightarrow> uuid \<Rightarrow> transformer_row query" where
  "TransformerService_Get e orgID tid = GetTransformer (ce_db e) tid orgID"

definition TransformerService_List :: "cp_env \<Rightarrow> uuid \<Rightarrow> transformer_row list query" where
  "TransformerService_List e orgID = ListTransformersByOrg (ce_db e) orgID"

definition TransformerService_Update :: "cp_env \<Rightarrow> uuid \<Rightarrow> uuid \<Rightarrow> transformer_params \<Rightarrow> transformer_row query" where
  "TransformerService_Update e orgID tid p =
     q_bind (q_try (TransformerService_Get e orgID tid)) (\<lambda>existing.
       let p = p\<lparr>tv_Config := preserve_from (ce_big e) (map_option tf_Config existing) (tv_Config p)\<rparr> in
       q_bind (q_lift (TransformerService_validate e p)) (\<lambda>v.
         db_UpdateTransformer (ce_db e) tid orgID (transformer_columns p v)))"

definition TransformerService_Delete :: "cp_env \<Rightarrow> uuid \<Rightarrow> uuid \<Rightarrow> unit query" where
  "TransformerService_Delete e orgID tid = db_DeleteTransformer (ce_db e) tid orgID"

definition TransformerService_AttachToSource :: "cp_env \<Rightarrow> uuid \<Rightarrow> uuid \<Rightarrow> uuid \<Rightarrow> unit query" where
  "TransformerService_AttachToSource e orgID tid sourceID =
     q_bind (q_wrap ''transformer not found: '' (TransformerService_Get e orgID tid)) (\<lambda>_.
       AttachTransformerToSource (ce_db e) sourceID tid)"

definition TransformerService_DetachFromSource :: "cp_env \<Rightarrow> uuid \<Rightarrow> uuid \<Rightarrow> uuid \<Rightarrow> unit query" where
  "TransformerService_DetachFromSource e orgID tid sourceID =
     q_bind (q_wrap ''transformer not found: '' (TransformerService_Get e orgID tid)) (\<lambda>_.
       DetachTransformerFromSource (ce_db e) sourceID tid)"

definition TransformerService_ListSources :: "cp_env \<Rightarrow> uuid \<Rightarrow> uuid \<Rightarrow> source_row list query" where
  "TransformerService_ListSources e orgID tid =
     q_bind (q_wrap ''transformer not found: '' (TransformerService_Get e orgID tid)) (\<lambda>_.
       ListSourcesByTransformer (ce_db e) tid)"

definition TransformerService_ListBySource :: "cp_env \<Rightarrow> uuid \<Rightarrow> uuid \<Rightarrow> (transformer_row \<times> int) list query" where
  "TransformerService_ListBySource e orgID sourceID =
     q_bind (q_wrap ''source not found: '' (GetSource (ce_db e) sourceID orgID)) (\<lambda>_.
       ListTransformersBySource (ce_db e) sourceID)"

fun uniqueUUIDs_from :: "uuid list \<Rightarrow> uuid list \<Rightarrow> uuid list \<Rightarrow> uuid list" where
  "uniqueUUIDs_from seen out [] = out"
| "uniqueUUIDs_from seen out (u # us) =
     (if u \<in> set seen then uniqueUUIDs_from seen out us else uniqueUUIDs_from (u # seen) (out @ [u]) us)"

definition uniqueUUIDs :: "uuid list \<Rightarrow> uuid list" where
  "uniqueUUIDs ids = uniqueUUIDs_from [] [] ids"

text \<open>
  \<open>pool.Begin\<close> and \<open>tx.Commit\<close> are round trips that can fail; the deferred \<open>Rollback\<close> undoes
  an unfinished transaction.
\<close>

definition round_trip :: "db_env \<Rightarrow> unit query" where
  "round_trip env = run_stmt env (\<lambda>_ _ d. (d, Inr ()))"

definition in_transaction :: "db_env \<Rightarrow> unit query \<Rightarrow> unit query" where
  "in_transaction env body d =
     (case q_wrap ''starting transaction: '' (round_trip env) d of
        (d1, Inl e) \<Rightarrow> (d1, Inl e)
      | (d1, Inr _) \<Rightarrow>
          (case q_bind body (\<lambda>_. round_trip env) d1 of
             (d2, Inl e) \<Rightarrow> (d1\<lparr>statements := statements d2\<rparr>, Inl e)
           | (d2, Inr x) \<Rightarrow> (d2, Inr x)))"

text \<open>The position is the index; \<open>int32(i)\<close> is exact for every list that fits in memory.\<close>

fun insert_chain :: "db_env \<Rightarrow> uuid \<Rightarrow> nat \<Rightarrow> uuid list \<Rightarrow> unit query" where
  "insert_chain env sid i [] = q_return ()"
| "insert_chain env sid i (tid # tids) =
     q_bind (q_wrap ''inserting source transformer: '' (InsertSourceTransformer env sid tid (int i))) (\<lambda>_.
       insert_chain env sid (Suc i) tids)"

definition SetSourceTransformers :: "cp_env \<Rightarrow> uuid \<Rightarrow> uuid \<Rightarrow> uuid list \<Rightarrow> unit query" where
  "SetSourceTransformers e orgID sourceID ids =
     (if length (uniqueUUIDs ids) \<noteq> length ids then q_fail ''duplicate transformer ids''
      else
        q_bind (q_wrap ''validating transformer ids: '' (CountTransformersByOrgAndIDs (ce_db e) orgID ids)) (\<lambda>n.
          if n \<noteq> length ids then q_fail ''one or more transformer ids not found in organization''
          else
            q_bind (q_wrap ''source not found: '' (GetSource (ce_db e) sourceID orgID)) (\<lambda>_.
              in_transaction (ce_db e)
                (q_bind (q_wrap ''clearing source transformers: '' (DeleteSourceTransformers (ce_db e) sourceID)) (\<lambda>_.
                   insert_chain (ce_db e) sourceID 0 ids)))))"

subsection \<open>alert.go\<close>

record alert_params =
  lv_Name :: string
  lv_URL :: string
  lv_PayloadFormat :: string
  lv_Enabled :: "bool option"

definition AlertWebhookParams_validate :: "cp_env \<Rightarrow> alert_params \<Rightarrow> alert_params res" where
  "AlertWebhookParams_validate e p =
     (if lv_Name p = [] then Inl ''name is required''
      else res_bind (ValidatePublicHTTPURL (ce_net e) (ce_allowPrivate e) (lv_URL p) ''url'') (\<lambda>_.
        if lv_PayloadFormat p = [] then Inr (p\<lparr>lv_PayloadFormat := ''json''\<rparr>)
        else if lv_PayloadFormat p = ''json'' \<or> lv_PayloadFormat p = ''slack'' then Inr p
        else Inl ''payload_format must be \"json\" or \"slack\"''))"

definition alert_columns :: "alert_params \<Rightarrow> bool \<Rightarrow> alert_cols" where
  "alert_columns p enabled =
     \<lparr>lp_Name = lv_Name p, lp_Url = lv_URL p, lp_PayloadFormat = lv_PayloadFormat p, lp_Enabled = enabled\<rparr>"

definition AlertService_Create :: "cp_env \<Rightarrow> uuid \<Rightarrow> alert_params \<Rightarrow> alert_row query" where
  "AlertService_Create e orgID p =
     q_bind (q_lift (AlertWebhookParams_validate e p)) (\<lambda>p.
       q_wrap ''creating alert webhook: '' (CreateAlertWebhook (ce_db e) orgID
         (alert_columns p (case lv_Enabled p of Some b \<Rightarrow> b | None \<Rightarrow> True))))"

definition AlertService_List :: "cp_env \<Rightarrow> uuid \<Rightarrow> alert_row list query" where
  "AlertService_List e orgID = ListAlertWebhooksByOrganization (ce_db e) orgID"

definition q_replace_err :: "go_error \<Rightarrow> 'a query \<Rightarrow> 'a query" where
  "q_replace_err msg m d = (case m d of (d', Inl _) \<Rightarrow> (d', Inl msg) | (d', Inr x) \<Rightarrow> (d', Inr x))"

definition AlertService_Update :: "cp_env \<Rightarrow> uuid \<Rightarrow> uuid \<Rightarrow> alert_params \<Rightarrow> alert_row query" where
  "AlertService_Update e orgID aid p =
     q_bind (q_lift (AlertWebhookParams_validate e p)) (\<lambda>p.
     q_bind (q_replace_err ''alert webhook not found'' (GetAlertWebhook (ce_db e) aid orgID)) (\<lambda>existing.
       q_wrap ''updating alert webhook: '' (db_UpdateAlertWebhook (ce_db e) aid orgID
         (alert_columns p (case lv_Enabled p of Some b \<Rightarrow> b | None \<Rightarrow> al_Enabled existing)))))"

definition AlertService_Delete :: "cp_env \<Rightarrow> uuid \<Rightarrow> uuid \<Rightarrow> unit query" where
  "AlertService_Delete e orgID aid = db_DeleteAlertWebhook (ce_db e) aid orgID"

end
