(* ===== verification/Control_Auth.thy ===== *)
theory Control_Auth
  imports Control_Service
begin

text \<open>
  \<open>internal/controlplane/service/auth.go\<close>: registration, login, tokens and API keys. Password
  hashing, tokens, the digest, the clock and the random source are arguments.
\<close>

subsection \<open>What the service calls\<close>

record token_claims =
  tk_UserID :: uuid
  tk_OrgID :: uuid
  tk_ExpiresAt :: int
  tk_IssuedAt :: int
  tk_Issuer :: string

text \<open>
  \<open>bcrypt_hash\<close> and \<open>bcrypt_matches\<close> are \<open>GenerateFromPassword\<close> and
  \<open>CompareHashAndPassword\<close>; \<open>jwt_sign\<close> signs with HS256; \<open>jwt_header\<close> parses a token
  without verifying it and gives whether its method is an HMAC and the method's name;
  \<open>jwt_verify\<close> checks signature and validity period; \<open>rand_bytes\<close> are the 32 bytes of
  \<open>rand.Read\<close>; times are in seconds.
\<close>

record auth_env =
  au_db :: db_env
  au_jwtSecret :: string
  au_jwtExpiration :: int
  au_now :: int
  bcrypt_hash :: "string \<Rightarrow> string res"
  bcrypt_matches :: "string \<Rightarrow> string \<Rightarrow> bool"
  jwt_sign :: "string \<Rightarrow> token_claims \<Rightarrow> string res"
  jwt_header :: "string \<Rightarrow> (bool \<times> string) res"
  jwt_verify :: "string \<Rightarrow> int \<Rightarrow> string \<Rightarrow> token_claims res"
  rand_bytes :: "string res"
  sha256_hex :: "string \<Rightarrow> string"

text \<open>The documented laws of the two libraries.\<close>

definition bcrypt_law :: "auth_env \<Rightarrow> bool" where
  "bcrypt_law a \<longleftrightarrow> (\<forall>pw h. bcrypt_hash a pw = Inr h \<longrightarrow> bcrypt_matches a h pw)"

definition jwt_law :: "auth_env \<Rightarrow> bool" where
  "jwt_law a \<longleftrightarrow> (\<forall>k c t now. jwt_sign a k c = Inr t \<longrightarrow>
     jwt_header a t = Inr (True, ''HS256'')
     \<and> (now < tk_ExpiresAt c \<longrightarrow> jwt_verify a k now t = Inr c))"

subsection \<open>auth.go\<close>

definition generateToken :: "auth_env \<Rightarrow> uuid \<Rightarrow> uuid \<Rightarrow> string res" where
  "generateToken a userID orgID =
     jwt_sign a (au_jwtSecret a)
       \<lparr>tk_UserID = userID, tk_OrgID = orgID, tk_ExpiresAt = au_now a + au_jwtExpiration a,
        tk_IssuedAt = au_now a, tk_Issuer = ''sheeld''\<rparr>"

definition Register :: "auth_env \<Rightarrow> string \<Rightarrow> string \<Rightarrow> string
    \<Rightarrow> (organization_row \<times> user_row \<times> string) query" where
  "Register a orgName email password =
     q_bind (q_wrap ''creating organization: '' (CreateOrganization (au_db a) orgName)) (\<lambda>org.
     q_bind (q_lift (err_wrap ''hashing password: '' (bcrypt_hash a password))) (\<lambda>h.
     q_bind (q_wrap ''creating user: '' (CreateUser (au_db a) (og_ID org) email h)) (\<lambda>user.
     q_bind (q_lift (err_wrap ''generating token: '' (generateToken a (us_ID user) (og_ID org)))) (\<lambda>token.
       q_return (org, user, token)))))"

definition Login :: "auth_env \<Rightarrow> string \<Rightarrow> string \<Rightarrow> (user_row \<times> string) query" where
  "Login a email password =
     q_bind (q_replace_err ''invalid credentials'' (GetUserByEmail (au_db a) email)) (\<lambda>user.
       if \<not> bcrypt_matches a (us_PasswordHash user) password then q_fail ''invalid credentials''
       else q_bind (q_lift (err_wrap ''generating token: '' (generateToken a (us_ID user) (us_OrganizationID user))))
              (\<lambda>token. q_return (user, token)))"

definition AuthService_CreateAPIKey ::
    "auth_env \<Rightarrow> uuid \<Rightarrow> string \<Rightarrow> rat option \<Rightarrow> int option \<Rightarrow> (api_key_row \<times> string) query" where
  "AuthService_CreateAPIKey a orgID name rps burst =
     q_bind (q_lift (err_wrap ''generating random key: '' (rand_bytes a))) (\<lambda>rawBytes.
       let rawKey = ''shld_'' @ EncodeToString rawBytes;
           keyHash = sha256_hex a rawKey;
           keyPrefix = take 13 rawKey
       in q_bind (q_wrap ''creating API key: ''
                   (db_CreateAPIKey (au_db a) orgID name keyHash keyPrefix rps (map_option to_int32 burst)))
            (\<lambda>k. q_return (k, rawKey)))"

definition AuthService_ListAPIKeys :: "auth_env \<Rightarrow> uuid \<Rightarrow> api_key_row list query" where
  "AuthService_ListAPIKeys a orgID = ListAPIKeysByOrganization (au_db a) orgID"

definition AuthService_RevokeAPIKey :: "auth_env \<Rightarrow> uuid \<Rightarrow> uuid \<Rightarrow> unit query" where
  "AuthService_RevokeAPIKey a orgID keyID = db_RevokeAPIKey (au_db a) keyID orgID"

definition ValidateToken :: "auth_env \<Rightarrow> string \<Rightarrow> token_claims res" where
  "ValidateToken a tokenString =
     (case jwt_header a tokenString of
        Inl e \<Rightarrow> Inl e
      | Inr (hmac, alg) \<Rightarrow>
          if \<not> hmac then Inl (''unexpected signing method: '' @ alg)
          else jwt_verify a (au_jwtSecret a) (au_now a) tokenString)"

definition ValidateAPIKey :: "auth_env \<Rightarrow> string \<Rightarrow> uuid query" where
  "ValidateAPIKey a rawKey =
     q_bind (q_replace_err ''invalid API key'' (GetAPIKeyByHash (au_db a) (sha256_hex a rawKey)))
       (\<lambda>k. q_return (ky_OrganizationID k))"

definition RefreshToken :: "auth_env \<Rightarrow> token_claims \<Rightarrow> string res" where
  "RefreshToken a claims = generateToken a (tk_UserID claims) (tk_OrgID claims)"

end
