(* ===== verification/Control_Invariant.thy ===== *)
theory Control_Invariant
  imports Control_Auth
begin

text \<open>
  What the control plane keeps of its database: the constraints of the schema, the validity of what
  the services store, and the separation of the tenants, for every sequence of service calls.
\<close>

subsection \<open>Proving that queries keep a property of the database\<close>

named_theorems keeps "queries that keep a property"

lemma run_stmt_cases:
  obtains (fails) err where "run_stmt env body d = (d\<lparr>statements := statements d + 1\<rparr>, Inl err)"
  | (runs) new now d' x where "body new now (d\<lparr>statements := statements d + 1\<rparr>) = (d', Inr x)"
      and "run_stmt env body d = (d', Inr x)"
proof -
  let ?n = "statements d" let ?d = "d\<lparr>statements := ?n + 1\<rparr>"
  obtain d' r where b: "body (db_uuid env ?n) (db_now env ?n) ?d = (d', r)" by (rule prod.exhaust)
  show thesis
  proof (cases "db_fails env ?n")
    case None
    show thesis
    proof (cases r)
      case (Inl err)
      with None b show thesis by (intro fails [of err]) (simp add: run_stmt_def Let_def)
    next
      case (Inr x)
      with None b show thesis by (intro runs) (auto simp: run_stmt_def Let_def)
    qed
  next
    case (Some err)
    then show thesis by (intro fails [of err]) (simp add: run_stmt_def Let_def)
  qed
qed

text \<open>
  A property of the tables does not see the statement counter. \<open>kept Q m\<close>: the query \<open>m\<close> keeps
  the property, and when it succeeds its result satisfies \<open>Q\<close>. A writing statement has to show it
  of its body.
\<close>

locale table_property =
  fixes P :: "db \<Rightarrow> bool"
  assumes counter [simp]: "P (d\<lparr>statements := n\<rparr>) = P d"
begin

definition kept :: "('a \<Rightarrow> bool) \<Rightarrow> 'a query \<Rightarrow> bool" where
  "kept Q m \<longleftrightarrow> (\<forall>d. P d \<longrightarrow> P (fst (m d)) \<and> (\<forall>x. snd (m d) = Inr x \<longrightarrow> Q x))"

abbreviation keeping :: "'a query \<Rightarrow> bool" where "keeping m \<equiv> kept (\<lambda>_. True) m"

lemma keptI: "(\<And>d. P d \<Longrightarrow> P (fst (m d)) \<and> (\<forall>x. snd (m d) = Inr x \<longrightarrow> Q x)) \<Longrightarrow> kept Q m"
  by (simp add: kept_def)

lemma keptD: "kept Q m \<Longrightarrow> P d \<Longrightarrow> P (fst (m d))"
  by (simp add: kept_def)

lemma kept_basic:
  "kept (\<lambda>y. y = x) (q_return x)" "kept Q (q_fail er)" "kept (\<lambda>x. r = Inr x) (q_lift r)"
  by (simp_all add: kept_def)

lemma kept_weaken: "kept Q m \<Longrightarrow> (\<And>x. Q x \<Longrightarrow> R x) \<Longrightarrow> kept R m"
  by (simp add: kept_def)

lemma keeping: "kept Q m \<Longrightarrow> keeping m"
  by (simp add: kept_def)

lemma kept_bind:
  assumes "kept Q m" and "\<And>x. Q x \<Longrightarrow> kept R (f x)"
  shows "kept R (q_bind m f)"
  using assms by (fastforce simp: kept_def q_bind_def split: prod.splits sum.splits)

lemma kept_wrap: "kept Q m \<Longrightarrow> kept Q (q_wrap s m)"
  by (fastforce simp: kept_def q_wrap_def err_wrap_Inr_iff split: prod.splits)

lemma kept_replace: "kept Q m \<Longrightarrow> kept Q (q_replace_err s m)"
  by (fastforce simp: kept_def q_replace_err_def split: prod.splits sum.splits)

lemma kept_try: "kept Q m \<Longrightarrow> kept (\<lambda>v. \<forall>x. v = Some x \<longrightarrow> Q x) (q_try m)"
  by (fastforce simp: kept_def q_try_def split: prod.splits sum.splits)

lemma kept_stmt_post:
  assumes "\<And>new now d d' x. P d \<Longrightarrow> body new now d = (d', Inr x) \<Longrightarrow> P d' \<and> Q x"
  shows "kept Q (run_stmt env body)"
proof (rule keptI)
  fix d assume "P d"
  then have d': "P (d\<lparr>statements := statements d + 1\<rparr>)" by simp
  show "P (fst (run_stmt env body d)) \<and> (\<forall>x. snd (run_stmt env body d) = Inr x \<longrightarrow> Q x)"
    by (rule run_stmt_cases [of env body d]) (use d' assms [OF d'] in auto)
qed

lemma kept_stmt:
  "(\<And>new now d d' x. P d \<Longrightarrow> body new now d = (d', Inr x) \<Longrightarrow> P d') \<Longrightarrow> keeping (run_stmt env body)"
  by (rule kept_stmt_post) blast

lemma kept_select_many: "kept (\<lambda>x. \<exists>d. P d \<and> x = rows d) (select_many env rows)"
  unfolding select_many_def by (rule kept_stmt_post) auto

lemma kept_select_one: "kept (\<lambda>x. \<exists>d. P d \<and> x \<in> set (rows d)) (select_one env rows)"
  unfolding select_one_def by (rule kept_stmt_post) (auto split: list.splits intro!: exI)

text \<open>The same without a statement on the result.\<close>

lemma keeping_basic [keeps]: "keeping (q_return x)" "keeping (q_fail er)" "keeping (q_lift r)"
  by (rule kept_basic [THEN keeping])+

lemma keeping_bind [keeps]: "keeping m \<Longrightarrow> (\<And>x. keeping (f x)) \<Longrightarrow> keeping (q_bind m f)"
  by (rule kept_bind)

lemma keeping_derived [keeps]:
  "keeping m \<Longrightarrow> keeping (q_wrap s m)" "keeping m \<Longrightarrow> keeping (q_replace_err s m)"
  "keeping m \<Longrightarrow> keeping (q_try m)"
  by (rule kept_wrap kept_replace kept_try [THEN keeping], assumption)+

lemma keeping_select [keeps]: "keeping (select_many env rows)" "keeping (select_one env rows')"
  by (rule kept_select_many [THEN keeping], rule kept_select_one [THEN keeping])

lemma keeping_if [keeps]: "keeping m \<Longrightarrow> keeping m' \<Longrightarrow> keeping (if b then m else m')"
  by simp

lemma kept_transaction [keeps]: "keeping body \<Longrightarrow> keeping (in_transaction env body)"
proof (rule keptI)
  fix d assume body: "keeping body" and d: "P d"
  have rt: "keeping (round_trip env)" unfolding round_trip_def by (rule kept_stmt) simp
  have *: "keeping (q_bind body (\<lambda>_. round_trip env))" by (rule kept_bind [OF body rt])
  have d1: "P (fst (q_wrap ''starting transaction: '' (round_trip env) d))"
    by (rule keptD [OF kept_wrap [OF rt] d])
  show "P (fst (in_transaction env body d)) \<and> (\<forall>x. snd (in_transaction env body d) = Inr x \<longrightarrow> True)"
    using d1 keptD [OF *] by (fastforce simp: in_transaction_def split: prod.splits sum.splits)
qed

lemma kept_insert_chain:
  "(\<And>tid pos. tid \<in> set tids \<Longrightarrow> keeping (InsertSourceTransformer env sid tid pos)) \<Longrightarrow>
   keeping (insert_chain env sid i tids)"
proof (induction tids arbitrary: i)
  case Nil
  show ?case unfolding insert_chain.simps by (rule keeping [OF kept_basic(1)])
next
  case (Cons tid tids)
  show ?case unfolding insert_chain.simps
    by (rule kept_bind [OF kept_wrap [OF Cons.prems] Cons.IH]) (auto intro: Cons.prems)
qed

end

subsection \<open>The constraints of the schema\<close>

text \<open>The rows of a tenant's table: primary keys are distinct, organizations exist.\<close>

definition rows_ok :: "uuid set \<Rightarrow> ('r \<Rightarrow> uuid) \<Rightarrow> ('r \<Rightarrow> uuid) \<Rightarrow> 'r list \<Rightarrow> bool" where
  "rows_ok orgs idf orgf rows \<longleftrightarrow> distinct (map idf rows) \<and> orgf ` set rows \<subseteq> orgs"

definition row_ids :: "('r \<Rightarrow> 'k) \<Rightarrow> 'r list \<Rightarrow> 'k set" where "row_ids idf rows = idf ` set rows"

text \<open>The rows of an attachment table: no pair twice, both sides exist.\<close>

definition attached_ok :: "uuid set \<Rightarrow> uuid set \<Rightarrow> (uuid \<times> uuid) list \<Rightarrow> bool" where
  "attached_ok A B ps \<longleftrightarrow> distinct ps \<and> set ps \<subseteq> A \<times> B"

definition transformer_pairs :: "source_transformer_row list \<Rightarrow> (uuid \<times> uuid) list" where
  "transformer_pairs xs = map (\<lambda>x. (sx_SourceID x, sx_TransformerID x)) xs"

abbreviation org_ids :: "db \<Rightarrow> uuid set" where "org_ids d \<equiv> row_ids og_ID (organizations d)"

definition db_ok :: "db \<Rightarrow> bool" where
  "db_ok d \<longleftrightarrow>
     distinct (map og_ID (organizations d))
     \<and> rows_ok (org_ids d) us_ID us_OrganizationID (users d) \<and> distinct (map us_Email (users d))
     \<and> rows_ok (org_ids d) ky_ID ky_OrganizationID (api_keys d) \<and> distinct (map ky_KeyHash (api_keys d))
     \<and> rows_ok (org_ids d) so_ID so_OrganizationID (sources d)
     \<and> distinct (map (\<lambda>r. (so_OrganizationID r, so_Route r)) (sources d))
     \<and> rows_ok (org_ids d) gr_ID gr_OrganizationID (guardrails d)
     \<and> rows_ok (org_ids d) tf_ID tf_OrganizationID (transformers d)
     \<and> rows_ok (org_ids d) al_ID al_OrganizationID (alert_webhooks d)
     \<and> attached_ok (row_ids so_ID (sources d)) (row_ids gr_ID (guardrails d)) (source_guardrails d)
     \<and> attached_ok (row_ids so_ID (sources d)) (row_ids tf_ID (transformers d))
         (transformer_pairs (source_transformers d))"

lemma org_exists_iff: "org_exists o' d \<longleftrightarrow> o' \<in> org_ids d"
  by (simp add: org_exists_def row_ids_def)

lemma row_ids_append [simp]: "row_ids idf (rows @ [r]) = insert (idf r) (row_ids idf rows)"
  by (simp add: row_ids_def)

lemma row_ids_filter: "row_ids idf (filter Q rows) \<subseteq> row_ids idf rows"
  by (auto simp: row_ids_def)

lemma row_ids_map: "(\<And>r. idf (f r) = idf r) \<Longrightarrow> row_ids idf (map f rows) = row_ids idf rows"
  by (simp add: row_ids_def image_image)

lemma rows_ok_append: "rows_ok orgs idf orgf (rows @ [r]) \<longleftrightarrow>
    rows_ok orgs idf orgf rows \<and> idf r \<notin> idf ` set rows \<and> orgf r \<in> orgs"
  by (auto simp: rows_ok_def)

lemma rows_ok_filter: "rows_ok orgs idf orgf rows \<Longrightarrow> rows_ok orgs idf orgf (filter Q rows)"
  by (auto simp: rows_ok_def distinct_map_filter)

lemma rows_ok_map:
  assumes "\<And>r. idf (f r) = idf r" and "\<And>r. orgf (f r) = orgf r"
  shows "rows_ok orgs idf orgf (map f rows) \<longleftrightarrow> rows_ok orgs idf orgf rows"
  by (simp add: rows_ok_def comp_def assms image_image)

lemma rows_ok_insert: "rows_ok orgs idf orgf rows \<Longrightarrow> rows_ok (insert o' orgs) idf orgf rows"
  by (auto simp: rows_ok_def)

lemma attached_ok_insert:
  "attached_ok A B ps \<Longrightarrow> attached_ok (insert a A) B ps"
  "attached_ok A B ps \<Longrightarrow> attached_ok A (insert b B) ps"
  by (auto simp: attached_ok_def)

lemma attached_ok_filter: "attached_ok A B ps \<Longrightarrow> attached_ok A B (filter Q ps)"
  by (auto simp: attached_ok_def)

lemma attached_ok_append:
  "attached_ok A B (ps @ [(a, b)]) \<longleftrightarrow> attached_ok A B ps \<and> (a, b) \<notin> set ps \<and> a \<in> A \<and> b \<in> B"
  by (auto simp: attached_ok_def)

text \<open>A cascading delete: only rows under the deleted key lose their attachments.\<close>

lemma attached_ok_cascade:
  assumes "attached_ok A B ps"
  shows "A - {a} \<subseteq> A' \<Longrightarrow> attached_ok A' B (filter (\<lambda>(x, y). x \<noteq> a) ps)"
    and "B - {b} \<subseteq> B' \<Longrightarrow> attached_ok A B' (filter (\<lambda>(x, y). y \<noteq> b) ps)"
  using assms by (auto simp: attached_ok_def)

lemmas owns_defs = owns_source_def owns_guardrail_def owns_transformer_def owns_alert_def

lemma row_ids_delete:
  "row_ids so_ID ss - {i} \<subseteq> row_ids so_ID (filter (\<lambda>r. \<not> owns_source i o' r) ss)"
  "row_ids gr_ID gs - {i} \<subseteq> row_ids gr_ID (filter (\<lambda>r. \<not> owns_guardrail i o' r) gs)"
  "row_ids tf_ID ts - {i} \<subseteq> row_ids tf_ID (filter (\<lambda>r. \<not> owns_transformer i o' r) ts)"
  by (auto simp: row_ids_def owns_defs)

lemma transformer_pairs_simps:
  "transformer_pairs (xs @ [\<lparr>sx_SourceID = s, sx_TransformerID = t, sx_Position = p\<rparr>]) = transformer_pairs xs @ [(s, t)]"
  "transformer_pairs (filter (\<lambda>x. sx_SourceID x \<noteq> s) xs) = filter (\<lambda>(x, y). x \<noteq> s) (transformer_pairs xs)"
  "transformer_pairs (filter (\<lambda>x. sx_TransformerID x \<noteq> t) xs) = filter (\<lambda>(x, y). y \<noteq> t) (transformer_pairs xs)"
  "transformer_pairs (filter (\<lambda>x. \<not> attached_pair s t x) xs) = filter (\<lambda>p. p \<noteq> (s, t)) (transformer_pairs xs)"
  by (induction xs) (auto simp: transformer_pairs_def attached_pair_def)

lemma in_transformer_pairs: "(\<exists>x \<in> set xs. attached_pair s t x) \<longleftrightarrow> (s, t) \<in> set (transformer_pairs xs)"
  by (force simp: transformer_pairs_def attached_pair_def)

lemma empty_db_ok: "db_ok empty_db"
  by (simp add: db_ok_def rows_ok_def attached_ok_def transformer_pairs_def empty_db_def)

interpretation integrity: table_property db_ok
  by unfold_locales (simp add: db_ok_def)

subsection \<open>Every statement keeps the constraints\<close>

lemma of_simps [simp]:
  "so_ID (source_of i orgID c t u) = i" "so_OrganizationID (source_of i orgID c t u) = orgID"
  "so_Route (source_of i orgID c t u) = sp_Route c"
  "gr_ID (guardrail_of i orgID gc t u) = i" "gr_OrganizationID (guardrail_of i orgID gc t u) = orgID"
  "tf_ID (transformer_of i orgID tc t u) = i" "tf_OrganizationID (transformer_of i orgID tc t u) = orgID"
  "al_ID (alert_of i orgID ac t u) = i" "al_OrganizationID (alert_of i orgID ac t u) = orgID"
  by (simp_all add: source_of_def guardrail_of_def transformer_of_def alert_of_def)

text \<open>Renaming the route of one source keeps the routes distinct when no other row has it.\<close>

lemma distinct_routes_update:
  assumes "distinct (map (\<lambda>r. (so_OrganizationID r, so_Route r)) rows)" and "distinct (map so_ID rows)"
    and "\<forall>r \<in> set rows. so_OrganizationID r = o' \<longrightarrow> so_ID r = i \<or> so_Route r \<noteq> sp_Route c"
  shows "distinct (map (\<lambda>r. (so_OrganizationID r, so_Route r))
    (map (\<lambda>r. if so_ID r = i \<and> so_OrganizationID r = o' then source_of i o' c (so_CreatedAt r) n else r) rows))"
proof -
  let ?g = "\<lambda>r. if so_ID r = i \<and> so_OrganizationID r = o' then source_of i o' c (so_CreatedAt r) n else r"
  have "x = y" if "x \<in> set rows" "y \<in> set rows"
    and "(so_OrganizationID (?g x), so_Route (?g x)) = (so_OrganizationID (?g y), so_Route (?g y))" for x y
  proof (cases "so_ID x = so_ID y")
    case True
    with assms(2) that(1,2) show ?thesis by (auto simp: distinct_map inj_on_def)
  next
    case False
    with that assms(3) have "(so_OrganizationID x, so_Route x) = (so_OrganizationID y, so_Route y)"
      by (auto split: if_splits)
    with assms(1) that(1,2) show ?thesis by (auto simp: distinct_map inj_on_def)
  qed
  then show ?thesis using assms(2) by (auto simp: distinct_map inj_on_def simp del: prod.inject)
qed

named_theorems table_intros

lemmas [table_intros] = rows_ok_insert attached_ok_insert rows_ok_filter attached_ok_filter

lemma integrity_organizations [keeps]:
  "integrity.keeping (CreateOrganization env name)"
  unfolding CreateOrganization_def
  by (rule integrity.kept_stmt)
    (auto simp: db_ok_def org_exists_iff Let_def row_ids_def [of og_ID] intro!: table_intros split: if_splits)

lemma integrity_users [keeps]:
  "integrity.keeping (CreateUser env o1 em pw)"
  "integrity.keeping (db_CreateAPIKey env o1 nm kh kp rps bu)"
  unfolding CreateUser_def db_CreateAPIKey_def
  by (rule integrity.kept_stmt; auto simp: db_ok_def org_exists_iff rows_ok_append Let_def split: if_splits)+

lemma integrity_revoke [keeps]: "integrity.keeping (db_RevokeAPIKey env k o1)"
  unfolding db_RevokeAPIKey_def
  by (rule integrity.kept_stmt) (auto simp: db_ok_def rows_ok_map comp_def if_distrib cong: if_cong)

lemma integrity_create_source [keeps]: "integrity.keeping (CreateSource env o1 c)"
  unfolding CreateSource_def
  by (rule integrity.kept_stmt)
    (auto simp: db_ok_def org_exists_iff rows_ok_append Let_def image_iff intro!: table_intros split: if_splits)

lemma integrity_delete_source [keeps]: "integrity.keeping (db_DeleteSource env sid o1)"
  unfolding db_DeleteSource_def
  by (rule integrity.kept_stmt)
    (auto simp: db_ok_def transformer_pairs_simps distinct_map_filter split: if_splits
      intro!: rows_ok_filter attached_ok_cascade row_ids_delete)

text \<open>Replacing the rows of a table under the same keys.\<close>

lemma db_ok_replace:
  assumes "db_ok d"
  shows "row_ids so_ID S = row_ids so_ID (sources d) \<Longrightarrow> rows_ok (org_ids d) so_ID so_OrganizationID S \<Longrightarrow>
      distinct (map (\<lambda>r. (so_OrganizationID r, so_Route r)) S) \<Longrightarrow> db_ok (d\<lparr>sources := S\<rparr>)"
    and "row_ids gr_ID G = row_ids gr_ID (guardrails d) \<Longrightarrow> rows_ok (org_ids d) gr_ID gr_OrganizationID G \<Longrightarrow>
      db_ok (d\<lparr>guardrails := G\<rparr>)"
    and "row_ids tf_ID T = row_ids tf_ID (transformers d) \<Longrightarrow> rows_ok (org_ids d) tf_ID tf_OrganizationID T \<Longrightarrow>
      db_ok (d\<lparr>transformers := T\<rparr>)"
    and "rows_ok (org_ids d) al_ID al_OrganizationID A \<Longrightarrow> db_ok (d\<lparr>alert_webhooks := A\<rparr>)"
  using assms by (simp_all add: db_ok_def)

lemma db_okD:
  assumes "db_ok d"
  shows "rows_ok (org_ids d) so_ID so_OrganizationID (sources d)"
    and "rows_ok (org_ids d) gr_ID gr_OrganizationID (guardrails d)"
    and "rows_ok (org_ids d) tf_ID tf_OrganizationID (transformers d)"
    and "rows_ok (org_ids d) al_ID al_OrganizationID (alert_webhooks d)"
    and "rows_ok (org_ids d) ky_ID ky_OrganizationID (api_keys d)"
    and "distinct (map (\<lambda>r. (so_OrganizationID r, so_Route r)) (sources d))"
    and "distinct (map so_ID (sources d))" and "distinct (map gr_ID (guardrails d))"
    and "distinct (map tf_ID (transformers d))" and "distinct (map al_ID (alert_webhooks d))"
    and "distinct (map ky_ID (api_keys d))" and "distinct (map ky_KeyHash (api_keys d))"
    and "distinct (map og_ID (organizations d))"
  using assms by (simp_all add: db_ok_def rows_ok_def)

lemma integrity_update_source [keeps]: "integrity.keeping (db_UpdateSource env sid o1 c)"
  unfolding db_UpdateSource_def
  by (rule integrity.kept_stmt)
    (auto split: list.splits if_splits intro!: db_ok_replace distinct_routes_update
      simp: row_ids_map rows_ok_map owns_defs db_okD simp del: map_map)

lemma integrity_create_guardrail [keeps]:
  "integrity.keeping (CreateGuardrail env o1 gc)"
  "integrity.keeping (db_CreateTransformer env o1 tc)"
  "integrity.keeping (CreateAlertWebhook env o1 ac)"
  unfolding CreateGuardrail_def db_CreateTransformer_def CreateAlertWebhook_def
  by (rule integrity.kept_stmt;
    auto simp: db_ok_def org_exists_iff rows_ok_append Let_def intro!: table_intros split: if_splits)+

lemma integrity_delete_guardrail [keeps]:
  "integrity.keeping (db_DeleteGuardrail env i o1)"
  "integrity.keeping (db_DeleteTransformer env i o1)"
  "integrity.keeping (db_DeleteAlertWebhook env i o1)"
  unfolding db_DeleteGuardrail_def db_DeleteTransformer_def db_DeleteAlertWebhook_def
  by (rule integrity.kept_stmt;
    auto simp: db_ok_def transformer_pairs_simps split: if_splits
      intro!: rows_ok_filter attached_ok_cascade row_ids_delete)+

lemma integrity_update_guardrail [keeps]:
  "integrity.keeping (db_UpdateGuardrail env i o1 gc)"
  "integrity.keeping (db_UpdateTransformer env i o1 tc)"
  "integrity.keeping (db_UpdateAlertWebhook env i o1 ac)"
  unfolding db_UpdateGuardrail_def db_UpdateTransformer_def db_UpdateAlertWebhook_def
  by (rule integrity.kept_stmt;
    auto split: list.splits if_splits intro!: db_ok_replace
      simp: row_ids_map rows_ok_map owns_defs db_okD simp del: map_map)+

lemma integrity_attach [keeps]:
  "integrity.keeping (AttachGuardrailToSource env sid i)"
  "integrity.keeping (DetachGuardrailFromSource env sid i)"
  unfolding AttachGuardrailToSource_def DetachGuardrailFromSource_def
  by (rule integrity.kept_stmt;
    auto simp: db_ok_def attached_ok_append row_ids_def [of so_ID] row_ids_def [of gr_ID]
      intro!: attached_ok_filter split: if_splits)+

lemma integrity_chain [keeps]:
  "integrity.keeping (AttachTransformerToSource env sid i)"
  "integrity.keeping (InsertSourceTransformer env sid i pos)"
  "integrity.keeping (DetachTransformerFromSource env sid i)"
  "integrity.keeping (DeleteSourceTransformers env sid)"
  unfolding AttachTransformerToSource_def InsertSourceTransformer_def DetachTransformerFromSource_def
    DeleteSourceTransformers_def insert_attachment_def in_transformer_pairs
  by (rule integrity.kept_stmt;
    auto simp: db_ok_def attached_ok_append transformer_pairs_simps row_ids_def [of so_ID] row_ids_def [of tf_ID]
      intro!: attached_ok_filter split: if_splits)+

lemma integrity_count [keeps]: "integrity.keeping (CountTransformersByOrgAndIDs env o1 ids)"
  unfolding CountTransformersByOrgAndIDs_def by (rule integrity.kept_stmt) auto


text \<open>And so does every operation of the services.\<close>

lemma reads_are_selects:
  "GetOrganization env i = select_one env (\<lambda>d. filter (\<lambda>r. og_ID r = i) (organizations d))"
  "GetUserByEmail env em = select_one env (\<lambda>d. filter (\<lambda>r. us_Email r = em) (users d))"
  "GetSource env i o' = select_one env (\<lambda>d. filter (owns_source i o') (sources d))"
  "GetGuardrail env i o' = select_one env (\<lambda>d. filter (owns_guardrail i o') (guardrails d))"
  "GetTransformer env i o' = select_one env (\<lambda>d. filter (owns_transformer i o') (transformers d))"
  "GetAlertWebhook env i o' = select_one env (\<lambda>d. filter (owns_alert i o') (alert_webhooks d))"
  by (simp_all add: GetOrganization_def GetUserByEmail_def GetSource_def GetGuardrail_def GetTransformer_def
      GetAlertWebhook_def)

lemmas source_service_defs = SourceService_Create_def SourceService_Get_def SourceService_Update_def
  SourceService_Delete_def
lemmas guardrail_service_defs = GuardrailService_Create_def GuardrailService_Get_def GuardrailService_Update_def
  GuardrailService_Delete_def GuardrailService_AttachToSource_def GuardrailService_DetachFromSource_def
lemmas transformer_service_defs = TransformerService_Create_def TransformerService_Get_def
  TransformerService_Update_def TransformerService_Delete_def TransformerService_AttachToSource_def
  TransformerService_DetachFromSource_def SetSourceTransformers_def
lemmas alert_service_defs = AlertService_Create_def AlertService_Update_def AlertService_Delete_def
lemmas auth_service_defs = Register_def AuthService_CreateAPIKey_def AuthService_RevokeAPIKey_def
lemmas service_defs = source_service_defs guardrail_service_defs transformer_service_defs alert_service_defs
  auth_service_defs

lemma integrity_services:
  "integrity.keeping (SourceService_Create e o1 sp)"
  "integrity.keeping (SourceService_Update e o1 i sp)"
  "integrity.keeping (SourceService_Delete e o1 i)"
  "integrity.keeping (GuardrailService_Create e o1 gp)"
  "integrity.keeping (GuardrailService_Update e o1 i gp)"
  "integrity.keeping (GuardrailService_Delete e o1 i)"
  "integrity.keeping (GuardrailService_AttachToSource e o1 i j)"
  "integrity.keeping (GuardrailService_DetachFromSource e o1 i j)"
  "integrity.keeping (TransformerService_Create e o1 tp)"
  "integrity.keeping (TransformerService_Update e o1 i tp)"
  "integrity.keeping (TransformerService_Delete e o1 i)"
  "integrity.keeping (TransformerService_AttachToSource e o1 i j)"
  "integrity.keeping (TransformerService_DetachFromSource e o1 i j)"
  "integrity.keeping (SetSourceTransformers e o1 i ids)"
  "integrity.keeping (AlertService_Create e o1 ap)"
  "integrity.keeping (AlertService_Update e o1 i ap)"
  "integrity.keeping (AlertService_Delete e o1 i)"
  "integrity.keeping (Register a nm em pw)"
  "integrity.keeping (AuthService_CreateAPIKey a o1 nm rps bu)"
  "integrity.keeping (AuthService_RevokeAPIKey a o1 i)"
  unfolding service_defs reads_are_selects Let_def
  by (intro keeps integrity.kept_insert_chain)+


subsection \<open>What the services store is usable\<close>

definition criteria_ok :: "string \<Rightarrow> int option \<Rightarrow> bool" where
  "criteria_ok c t \<longleftrightarrow> c = ''all'' \<or> c = ''any'' \<or> c = ''n_of_m'' \<and> (case t of None \<Rightarrow> False | Some n \<Rightarrow> n \<ge> 1)"

definition source_row_ok :: "cp_env \<Rightarrow> source_row \<Rightarrow> bool" where
  "source_row_ok e s \<longleftrightarrow>
     \<not> is_err (Decrypt (ce_gcm e) (so_LlmApiKeyEnc s) (ce_encKey e))
     \<and> criteria_ok (so_InputPassCriteria s) (so_InputPassThreshold s)
     \<and> criteria_ok (so_OutputPassCriteria s) (so_OutputPassThreshold s)"

definition guardrail_row_ok :: "cp_env \<Rightarrow> guardrail_row \<Rightarrow> bool" where
  "guardrail_row_ok e g \<longleftrightarrow> \<not> is_err (Registry_Create (ce_reg e) (gr_GuardType g) (gr_Name g) (Some (gr_Config g)))"

definition transformer_row_ok :: "cp_env \<Rightarrow> transformer_row \<Rightarrow> bool" where
  "transformer_row_ok e t \<longleftrightarrow> phase_check (tf_Phase t)
     \<and> \<not> is_err (TRegistry_Create (ce_treg e) (tf_TransformerType t) (tf_Name t) (Some (tf_Config t)))"

definition alert_row_ok :: "alert_row \<Rightarrow> bool" where
  "alert_row_ok a \<longleftrightarrow> al_Name a \<noteq> [] \<and> (al_PayloadFormat a = ''json'' \<or> al_PayloadFormat a = ''slack'')"

text \<open>
  Stored LLM keys decrypt, pass criteria are known and satisfiable, guards and transformers build,
  alert formats are known.
\<close>

definition content_ok :: "cp_env \<Rightarrow> db \<Rightarrow> bool" where
  "content_ok e d \<longleftrightarrow> list_all (source_row_ok e) (sources d) \<and> list_all (guardrail_row_ok e) (guardrails d)
     \<and> list_all (transformer_row_ok e) (transformers d) \<and> list_all alert_row_ok (alert_webhooks d)"

text \<open>\<open>rand.Read\<close> fills the nonce, and the cipher opens what it sealed.\<close>

definition crypto_ok :: "cp_env \<Rightarrow> bool" where
  "crypto_ok e \<longleftrightarrow> aead_law (ce_gcm e) \<and> (case ce_nonce e of Inl _ \<Rightarrow> True | Inr n \<Rightarrow> length n = NonceSize)"

interpretation content: table_property "content_ok e" for e
  by unfold_locales (simp add: content_ok_def)

lemma content_other_tables [keeps]:
  "content.keeping e (CreateOrganization env name)"
  "content.keeping e (CreateUser env o1 em pw)"
  "content.keeping e (db_CreateAPIKey env o1 nm kh kp rps bu)"
  "content.keeping e (db_RevokeAPIKey env i o1)"
  "content.keeping e (db_DeleteSource env i o1)"
  "content.keeping e (db_DeleteGuardrail env i o1)"
  "content.keeping e (db_DeleteTransformer env i o1)"
  "content.keeping e (db_DeleteAlertWebhook env i o1)"
  "content.keeping e (AttachGuardrailToSource env i j)"
  "content.keeping e (DetachGuardrailFromSource env i j)"
  "content.keeping e (AttachTransformerToSource env i j)"
  "content.keeping e (DetachTransformerFromSource env i j)"
  "content.keeping e (InsertSourceTransformer env i j pos)"
  "content.keeping e (DeleteSourceTransformers env i)"
  "content.keeping e (CountTransformersByOrgAndIDs env o1 ids)"
  unfolding CreateOrganization_def CreateUser_def db_CreateAPIKey_def db_RevokeAPIKey_def db_DeleteSource_def
    db_DeleteGuardrail_def db_DeleteTransformer_def db_DeleteAlertWebhook_def AttachGuardrailToSource_def
    DetachGuardrailFromSource_def AttachTransformerToSource_def DetachTransformerFromSource_def
    InsertSourceTransformer_def DeleteSourceTransformers_def CountTransformersByOrgAndIDs_def insert_attachment_def
  by (rule content.kept_stmt; auto simp: content_ok_def list_all_iff Let_def split: if_splits)+

text \<open>Statements that write a row need it to be valid.\<close>

lemma content_rows:
  "(\<And>i o' t u. source_row_ok e (source_of i o' c t u)) \<Longrightarrow> content.keeping e (CreateSource env o1 c)"
  "(\<And>i o' t u. source_row_ok e (source_of i o' c t u)) \<Longrightarrow> content.keeping e (db_UpdateSource env j o1 c)"
  "(\<And>i o' t u. guardrail_row_ok e (guardrail_of i o' gc t u)) \<Longrightarrow> content.keeping e (CreateGuardrail env o1 gc)"
  "(\<And>i o' t u. guardrail_row_ok e (guardrail_of i o' gc t u)) \<Longrightarrow> content.keeping e (db_UpdateGuardrail env j o1 gc)"
  "(\<And>i o' t u. transformer_row_ok e (transformer_of i o' tc t u)) \<Longrightarrow> content.keeping e (db_CreateTransformer env o1 tc)"
  "(\<And>i o' t u. transformer_row_ok e (transformer_of i o' tc t u)) \<Longrightarrow> content.keeping e (db_UpdateTransformer env j o1 tc)"
  "(\<And>i o' t u. alert_row_ok (alert_of i o' ac t u)) \<Longrightarrow> content.keeping e (CreateAlertWebhook env o1 ac)"
  "(\<And>i o' t u. alert_row_ok (alert_of i o' ac t u)) \<Longrightarrow> content.keeping e (db_UpdateAlertWebhook env j o1 ac)"
  unfolding CreateSource_def db_UpdateSource_def CreateGuardrail_def db_UpdateGuardrail_def
    db_CreateTransformer_def db_UpdateTransformer_def CreateAlertWebhook_def db_UpdateAlertWebhook_def
  by (rule content.kept_stmt; auto simp: content_ok_def list_all_iff Let_def split: if_splits list.splits)+

lemma validateCriteria_ok: "validateCriteria ph c t = Inr c' \<Longrightarrow> criteria_ok c' t"
  by (auto simp: validateCriteria_def criteria_ok_def Let_def split: if_splits option.splits)

lemma source_columns_ok:
  assumes "\<not> is_err (Decrypt (ce_gcm e) k (ce_encKey e))"
    and "validateCriteria ph (sv_InputPassCriteria p) (sv_InputPassThreshold p) = Inr ic"
    and "validateCriteria ph' (sv_OutputPassCriteria p) (sv_OutputPassThreshold p) = Inr oc"
  shows "source_row_ok e (source_of i o' (source_columns p k ic oc) t u)"
  using assms by (simp add: source_row_ok_def source_of_def source_columns_def validateCriteria_ok)

lemma encrypt_key_ok: "crypto_ok e \<Longrightarrow> encrypt_key e p = Inr c \<Longrightarrow> \<not> is_err (Decrypt (ce_gcm e) c (ce_encKey e))"
  using Encrypt_then_Decrypt [of "ce_gcm e" "ce_nonce e" p "ce_encKey e" c]
  by (auto simp: crypto_ok_def encrypt_key_def err_wrap_Inr_iff split: sum.splits)

lemma content_source_create:
  assumes "crypto_ok e"
  shows "content.keeping e (SourceService_Create e o1 p)"
  unfolding SourceService_Create_def
  by (rule content.kept_bind [OF content.kept_basic(3)])+
    (rule content_rows source_columns_ok encrypt_key_ok [OF assms] | assumption)+

lemma content_source_update:
  assumes "crypto_ok e"
  shows "content.keeping e (SourceService_Update e o1 i p)"
proof -
  have key: "content.kept e (\<lambda>k. \<not> is_err (Decrypt (ce_gcm e) k (ce_encKey e)))
     (if sv_LLMAPIKey p = []
      then q_bind (q_wrap ''loading source: '' (SourceService_Get e o1 i)) (\<lambda>existing. q_return (so_LlmApiKeyEnc existing))
      else q_lift (encrypt_key e (sv_LLMAPIKey p)))"
  proof (cases "sv_LLMAPIKey p = []")
    case True
    have "content.kept e (\<lambda>s. source_row_ok e s) (SourceService_Get e o1 i)"
      unfolding SourceService_Get_def reads_are_selects
      by (rule content.kept_weaken [OF content.kept_select_one]) (auto simp: content_ok_def list_all_iff)
    then have "content.kept e (\<lambda>k. \<not> is_err (Decrypt (ce_gcm e) k (ce_encKey e)))
       (q_bind (q_wrap ''loading source: '' (SourceService_Get e o1 i)) (\<lambda>existing. q_return (so_LlmApiKeyEnc existing)))"
      by (rule content.kept_bind [OF content.kept_wrap])
        (rule content.kept_weaken [OF content.kept_basic(1)], simp add: source_row_ok_def)
    with True show ?thesis by simp
  next
    case False
    then show ?thesis
      by (simp add: content.kept_weaken [OF content.kept_basic(3)] encrypt_key_ok [OF assms])
  qed
  show ?thesis unfolding SourceService_Update_def
    by (rule content.kept_bind [OF content.kept_basic(3)], rule content.kept_bind [OF key],
        (rule content.kept_bind [OF content.kept_basic(3)])+)
      (rule content_rows source_columns_ok | assumption)+
qed


lemma content_guardrails:
  "content.keeping e (GuardrailService_Create e o1 gp)"
  "content.keeping e (GuardrailService_Update e o1 i gp)"
proof -
  have ok: "guardrail_row_ok e (guardrail_of i o' (guardrail_columns p j) t u)"
    if "GuardrailService_validateConfig e (gv_Name p) (gv_GuardType p) (gv_Config p) = Inr j" for i o' p j t u
    using that by (auto simp: GuardrailService_validateConfig_def guardrail_row_ok_def guardrail_of_def
        guardrail_columns_def guardrailDefaults_def not_is_err_iff Let_def res_bind_Inr_iff)
  show "content.keeping e (GuardrailService_Create e o1 gp)"
    unfolding GuardrailService_Create_def
    by (rule content.kept_bind [OF content.kept_basic(3)], rule content_rows, erule ok)
  show "content.keeping e (GuardrailService_Update e o1 i gp)"
    unfolding GuardrailService_Update_def GuardrailService_Get_def reads_are_selects Let_def
    by (rule content.keeping_bind [OF content.keeping_derived(3) [OF content.keeping_select(2)]],
        rule content.kept_bind [OF content.kept_basic(3)], rule content_rows, erule ok)
qed

lemma content_transformers:
  "content.keeping e (TransformerService_Create e o1 tp)"
  "content.keeping e (TransformerService_Update e o1 i tp)"
proof -
  have ok: "transformer_row_ok e (transformer_of i o' (transformer_columns p v) t u)"
    if "TransformerService_validate e p = Inr v" for i o' p v t u
    using that by (auto simp: TransformerService_validate_def transformer_row_ok_def transformer_of_def
        transformer_columns_def phase_check_def not_is_err_iff Let_def res_bind_Inr_iff split: if_splits)
  show "content.keeping e (TransformerService_Create e o1 tp)"
    unfolding TransformerService_Create_def
    by (rule content.kept_bind [OF content.kept_basic(3)], rule content_rows, erule ok)
  show "content.keeping e (TransformerService_Update e o1 i tp)"
    unfolding TransformerService_Update_def TransformerService_Get_def reads_are_selects Let_def
    by (rule content.keeping_bind [OF content.keeping_derived(3) [OF content.keeping_select(2)]],
        rule content.kept_bind [OF content.kept_basic(3)], rule content_rows, erule ok)
qed

lemma content_alerts:
  "content.keeping e (AlertService_Create e o1 ap)"
  "content.keeping e (AlertService_Update e o1 i ap)"
proof -
  have ok: "alert_row_ok (alert_of i o' (alert_columns p b) t u)"
    if "AlertWebhookParams_validate e q = Inr p" for i o' p q b t u
    using that by (auto simp: AlertWebhookParams_validate_def alert_row_ok_def alert_of_def alert_columns_def
        res_bind_Inr_iff split: if_splits)
  show "content.keeping e (AlertService_Create e o1 ap)"
    unfolding AlertService_Create_def
    by (rule content.kept_bind [OF content.kept_basic(3)], rule keeps, rule content_rows, erule ok)
  show "content.keeping e (AlertService_Update e o1 i ap)"
    unfolding AlertService_Update_def reads_are_selects
    by (rule content.kept_bind [OF content.kept_basic(3)], intro keeps, rule content_rows, erule ok)
qed

lemma content_services:
  "content.keeping e (SourceService_Delete e o1 i)"
  "content.keeping e (GuardrailService_Delete e o1 i)"
  "content.keeping e (GuardrailService_AttachToSource e o1 i j)"
  "content.keeping e (GuardrailService_DetachFromSource e o1 i j)"
  "content.keeping e (TransformerService_Delete e o1 i)"
  "content.keeping e (TransformerService_AttachToSource e o1 i j)"
  "content.keeping e (TransformerService_DetachFromSource e o1 i j)"
  "content.keeping e (SetSourceTransformers e o1 i ids)"
  "content.keeping e (AlertService_Delete e o1 i)"
  "content.keeping e (Register a nm em pw)"
  "content.keeping e (AuthService_CreateAPIKey a o1 nm rps bu)"
  "content.keeping e (AuthService_RevokeAPIKey a o1 i)"
  unfolding service_defs reads_are_selects Let_def
  by (intro keeps content.kept_insert_chain)+


subsection \<open>Every reachable database\<close>

text \<open>
  The writing operations, with the tenant on whose behalf they run; \<open>None\<close> is the public
  registration. Reads only advance the statement counter.
\<close>

inductive cp_step :: "cp_env \<Rightarrow> auth_env \<Rightarrow> uuid option \<Rightarrow> db \<Rightarrow> db \<Rightarrow> bool" for e a where
  read: "cp_step e a o' d (d\<lparr>statements := n\<rparr>)"
| register: "cp_step e a None d (fst (Register a nm em pw d))"
| key_create: "cp_step e a (Some t) d (fst (AuthService_CreateAPIKey a t nm rps bu d))"
| key_revoke: "cp_step e a (Some t) d (fst (AuthService_RevokeAPIKey a t i d))"
| source_create: "cp_step e a (Some t) d (fst (SourceService_Create e t sp d))"
| source_update: "cp_step e a (Some t) d (fst (SourceService_Update e t i sp d))"
| source_delete: "cp_step e a (Some t) d (fst (SourceService_Delete e t i d))"
| guardrail_create: "cp_step e a (Some t) d (fst (GuardrailService_Create e t gp d))"
| guardrail_update: "cp_step e a (Some t) d (fst (GuardrailService_Update e t i gp d))"
| guardrail_delete: "cp_step e a (Some t) d (fst (GuardrailService_Delete e t i d))"
| guardrail_attach: "cp_step e a (Some t) d (fst (GuardrailService_AttachToSource e t i j d))"
| guardrail_detach: "cp_step e a (Some t) d (fst (GuardrailService_DetachFromSource e t i j d))"
| transformer_create: "cp_step e a (Some t) d (fst (TransformerService_Create e t tp d))"
| transformer_update: "cp_step e a (Some t) d (fst (TransformerService_Update e t i tp d))"
| transformer_delete: "cp_step e a (Some t) d (fst (TransformerService_Delete e t i d))"
| transformer_attach: "cp_step e a (Some t) d (fst (TransformerService_AttachToSource e t i j d))"
| transformer_detach: "cp_step e a (Some t) d (fst (TransformerService_DetachFromSource e t i j d))"
| chain_set: "cp_step e a (Some t) d (fst (SetSourceTransformers e t i ids d))"
| alert_create: "cp_step e a (Some t) d (fst (AlertService_Create e t ap d))"
| alert_update: "cp_step e a (Some t) d (fst (AlertService_Update e t i ap d))"
| alert_delete: "cp_step e a (Some t) d (fst (AlertService_Delete e t i d))"

lemma cp_step_keeps:
  "cp_step e a o' d d' \<Longrightarrow> db_ok d \<Longrightarrow> db_ok d'"
  "cp_step e a o' d d' \<Longrightarrow> crypto_ok e \<Longrightarrow> content_ok e d \<Longrightarrow> content_ok e d'"
  by (cases rule: cp_step.cases, assumption;
      blast intro: integrity_services [THEN integrity.keptD] content_services [THEN content.keptD]
        content_source_create [THEN content.keptD] content_source_update [THEN content.keptD]
        content_guardrails [THEN content.keptD] content_transformers [THEN content.keptD]
        content_alerts [THEN content.keptD] integrity.counter [THEN iffD2] content.counter [THEN iffD2])+

text \<open>
  The control plane runs with one encryption key, cipher and pair of registries; everything else
  (failures, clocks, nonces, the resolver) may change from call to call.
\<close>

definition same_setup :: "cp_env \<Rightarrow> cp_env \<Rightarrow> bool" where
  "same_setup b e \<longleftrightarrow> ce_gcm e = ce_gcm b \<and> ce_encKey e = ce_encKey b \<and> ce_reg e = ce_reg b \<and> ce_treg e = ce_treg b"

inductive reachable_db :: "cp_env \<Rightarrow> db \<Rightarrow> bool" for b where
  reachable_empty: "reachable_db b empty_db"
| reachable_step: "reachable_db b d \<Longrightarrow> same_setup b e \<Longrightarrow> crypto_ok e \<Longrightarrow> cp_step e a o' d d' \<Longrightarrow> reachable_db b d'"

lemma content_ok_setup: "same_setup b e \<Longrightarrow> content_ok e d = content_ok b d"
  unfolding content_ok_def source_row_ok_def guardrail_row_ok_def transformer_row_ok_def
  by (simp add: same_setup_def list_all_iff)

lemma reachable_ok: "reachable_db b d \<Longrightarrow> db_ok d \<and> content_ok b d"
proof (induction rule: reachable_db.induct)
  case reachable_empty
  then show ?case using empty_db_ok by (simp add: content_ok_def empty_db_def)
next
  case (reachable_step d e a o' d')
  then show ?case using cp_step_keeps content_ok_setup by metis
qed



subsection \<open>An example\<close>

text \<open>Two organizations; the first has a key, a source and a regex guardrail attached to it.\<close>

definition example_lib :: go_lib where
  "example_lib = \<lparr>rx_compile = (\<lambda>_. None), rx_match = (\<lambda>p t. p = t), rx_replace_all = (\<lambda>_ t _. t),
     uni_lower = (\<lambda>s. s), parse_json = (\<lambda>_. None)\<rparr>"

definition example_net :: net_env where
  "example_net = \<lparr>parse_url = (\<lambda>_. None), parse_ip = (\<lambda>_. None), lookup_ip = (\<lambda>_. Inl ''no such host''),
     ip_text = (\<lambda>_. [])\<rparr>"

definition example_dbenv :: db_env where
  "example_dbenv = \<lparr>db_fails = (\<lambda>_. None), db_uuid = itoa, db_now = int\<rparr>"

definition example_cp :: cp_env where
  "example_cp = \<lparr>ce_db = example_dbenv,
     ce_gcm = \<lparr>gcm_seal = (\<lambda>_ _ p. p), gcm_open = (\<lambda>_ _ c. Inr c)\<rparr>,
     ce_nonce = Inr (replicate 12 CHR ''n''), ce_encKey = replicate 64 CHR ''0'',
     ce_reg = NewRegistry example_lib example_net False,
     ce_treg = NewTransformRegistry example_lib example_net False,
     ce_net = example_net, ce_allowPrivate = False, ce_lib = example_lib, ce_big = (\<lambda>_. None),
     ce_time = (\<lambda>_. []), ce_call = \<lparr>call_net = (\<lambda>_. Do_error ''no network''), call_ms = 0, err_ms = 0\<rparr>\<rparr>"

definition example_auth :: auth_env where
  "example_auth = \<lparr>au_db = example_dbenv, au_jwtSecret = ''secret'', au_jwtExpiration = 3600, au_now = 0,
     bcrypt_hash = (\<lambda>pw. Inr (''h'' @ pw)), bcrypt_matches = (\<lambda>h pw. h = ''h'' @ pw),
     jwt_sign = (\<lambda>k c. Inr (k @ tk_UserID c @ ''.'' @ tk_OrgID c)),
     jwt_header = (\<lambda>_. Inr (True, ''HS256'')), jwt_verify = (\<lambda>_ _ _. Inl ''token is malformed''),
     rand_bytes = Inr (replicate 32 CHR ''r''), sha256_hex = (\<lambda>s. ''sha:'' @ s)\<rparr>"

definition example_source_params :: "string \<Rightarrow> source_params" where
  "example_source_params route = \<lparr>sv_Name = ''Chat'', sv_Route = route, sv_Description = None,
     sv_LLMProvider = ''openai'', sv_LLMModel = ''gpt-4o'', sv_LLMAPIKey = ''sk-1'', sv_LLMBaseURL = [],
     sv_InputPassCriteria = [], sv_InputPassThreshold = None, sv_OutputPassCriteria = ''n_of_m'',
     sv_OutputPassThreshold = Some 1, sv_Enabled = None\<rparr>"

definition example_guardrail_params :: guardrail_params where
  "example_guardrail_params = \<lparr>gv_Name = ''no secrets'', gv_GuardType = ''regex'', gv_Phase = [],
     gv_Config = Some [(''patterns'', JArr [JStr ''secret''])], gv_Enabled = None\<rparr>"

definition example_db :: db where
  "example_db =
     fst (SourceService_Create example_cp ''7'' (example_source_params ''beta'')
    (fst (Register example_auth ''Beta'' ''b@beta'' ''password''
    (fst (GuardrailService_AttachToSource example_cp ''0'' ''4'' ''3''
    (fst (GuardrailService_Create example_cp ''0'' example_guardrail_params
    (fst (SourceService_Create example_cp ''0'' (example_source_params ''chat'')
    (fst (AuthService_CreateAPIKey example_auth ''0'' ''ci'' None (Some 5)
    (fst (Register example_auth ''Acme'' ''a@acme'' ''password'' empty_db)))))))))))))"

lemma example_setup: "same_setup example_cp example_cp" "crypto_ok example_cp"
  by (simp_all add: same_setup_def crypto_ok_def example_cp_def aead_law_def NonceSize_def)

lemma example_reachable: "reachable_db example_cp example_db"
  unfolding example_db_def
  by (rule reachable_step [OF _ example_setup cp_step.source_create]
        reachable_step [OF _ example_setup cp_step.register]
        reachable_step [OF _ example_setup cp_step.guardrail_attach]
        reachable_step [OF _ example_setup cp_step.guardrail_create]
        reachable_step [OF _ example_setup cp_step.key_create] reachable_empty)+

lemma example_rows:
  "map og_ID (organizations example_db) = [''0'', ''7'']"
  "map so_ID (sources example_db) = [''3'', ''9'']"
  "map so_OrganizationID (sources example_db) = [''0'', ''7'']"
  "map gr_ID (guardrails example_db) = [''4'']"
  "source_guardrails example_db = [(''3'', ''4'')]"
  "length (api_keys example_db) = 1" "length (sources example_db) = 2"
  by code_simp+


end
