(* ===== verification/Tenant_Isolation.thy ===== *)
theory Tenant_Isolation
  imports Control_Invariant
begin

text \<open>
  The tenants of the control plane: what an organization's rows are, that no other tenant's call
  changes them, and what a tenant can reach of another through attachments.
\<close>

subsection \<open>The rows of a tenant\<close>

record tenant_rows =
  vw_users :: "user_row list"
  vw_keys :: "api_key_row list"
  vw_sources :: "source_row list"
  vw_guardrails :: "guardrail_row list"
  vw_transformers :: "transformer_row list"
  vw_alerts :: "alert_row list"
  vw_guards_at :: "(uuid \<times> uuid) list"
  vw_chain :: "source_transformer_row list"

text \<open>Its rows of every table, and the attachments between its own sources and its own parts.\<close>

definition own_pairs :: "source_row list \<Rightarrow> guardrail_row list \<Rightarrow> (uuid \<times> uuid) list \<Rightarrow> (uuid \<times> uuid) list" where
  "own_pairs ss gs ps = filter (\<lambda>p. fst p \<in> row_ids so_ID ss \<and> snd p \<in> row_ids gr_ID gs) ps"

definition own_chain ::
    "source_row list \<Rightarrow> transformer_row list \<Rightarrow> source_transformer_row list \<Rightarrow> source_transformer_row list" where
  "own_chain ss ts xs =
     filter (\<lambda>x. sx_SourceID x \<in> row_ids so_ID ss \<and> sx_TransformerID x \<in> row_ids tf_ID ts) xs"

definition rows_of :: "('r \<Rightarrow> uuid) \<Rightarrow> uuid \<Rightarrow> 'r list \<Rightarrow> 'r list" where
  "rows_of orgf o' rows = filter (\<lambda>r. orgf r = o') rows"

definition tenant_view :: "uuid \<Rightarrow> db \<Rightarrow> tenant_rows" where
  "tenant_view o' d =
     (let ss = rows_of so_OrganizationID o' (sources d); gs = rows_of gr_OrganizationID o' (guardrails d);
          ts = rows_of tf_OrganizationID o' (transformers d)
      in \<lparr>vw_users = rows_of us_OrganizationID o' (users d), vw_keys = rows_of ky_OrganizationID o' (api_keys d),
          vw_sources = ss, vw_guardrails = gs, vw_transformers = ts,
          vw_alerts = rows_of al_OrganizationID o' (alert_webhooks d),
          vw_guards_at = own_pairs ss gs (source_guardrails d),
          vw_chain = own_chain ss ts (source_transformers d)\<rparr>)"

definition tenant_keeps :: "uuid \<Rightarrow> tenant_rows \<Rightarrow> db \<Rightarrow> bool" where
  "tenant_keeps o' v d \<longleftrightarrow> db_ok d \<and> o' \<in> org_ids d \<and> tenant_view o' d = v"

interpretation tenant: table_property "tenant_keeps o' v" for o' v
  by unfold_locales (simp add: tenant_keeps_def tenant_view_def)

lemma rows_of_append [simp]:
  "rows_of orgf o' (rows @ [r]) = (if orgf r = o' then rows_of orgf o' rows @ [r] else rows_of orgf o' rows)"
  by (simp add: rows_of_def)

lemma rows_of_map:
  "(\<And>r. orgf r = o' \<Longrightarrow> f r = r) \<Longrightarrow> (\<And>r. orgf (f r) = orgf r) \<Longrightarrow>
   rows_of orgf o' (map f rows) = rows_of orgf o' rows"
  by (induction rows) (auto simp: rows_of_def)

lemma rows_of_delete:
  "t \<noteq> o' \<Longrightarrow> rows_of so_OrganizationID o' (filter (\<lambda>r. \<not> owns_source i t r) ss) = rows_of so_OrganizationID o' ss"
  "t \<noteq> o' \<Longrightarrow> rows_of gr_OrganizationID o' (filter (\<lambda>r. \<not> owns_guardrail i t r) gs) = rows_of gr_OrganizationID o' gs"
  "t \<noteq> o' \<Longrightarrow> rows_of tf_OrganizationID o' (filter (\<lambda>r. \<not> owns_transformer i t r) ts) = rows_of tf_OrganizationID o' ts"
  "t \<noteq> o' \<Longrightarrow> rows_of al_OrganizationID o' (filter (\<lambda>r. \<not> owns_alert i t r) as) = rows_of al_OrganizationID o' as"
  by (auto simp: rows_of_def owns_defs intro!: filter_cong)

text \<open>Attachments of a foreign source or part are not the tenant's.\<close>

lemma own_pairs_simps:
  "i \<notin> row_ids so_ID ss \<Longrightarrow> own_pairs ss gs (filter (\<lambda>(s, g). s \<noteq> i) ps) = own_pairs ss gs ps"
  "i \<notin> row_ids gr_ID gs \<Longrightarrow> own_pairs ss gs (filter (\<lambda>(s, g). g \<noteq> i) ps) = own_pairs ss gs ps"
  "i \<notin> row_ids gr_ID gs \<Longrightarrow> own_pairs ss gs (filter (\<lambda>p. p \<noteq> (s, i)) ps) = own_pairs ss gs ps"
  "i \<notin> row_ids gr_ID gs \<Longrightarrow> own_pairs ss gs (ps @ [(s, i)]) = own_pairs ss gs ps"
  by (auto simp: own_pairs_def intro!: filter_cong)

lemma own_chain_simps:
  "i \<notin> row_ids so_ID ss \<Longrightarrow> own_chain ss ts (filter (\<lambda>x. sx_SourceID x \<noteq> i) xs) = own_chain ss ts xs"
  "i \<notin> row_ids tf_ID ts \<Longrightarrow> own_chain ss ts (filter (\<lambda>x. sx_TransformerID x \<noteq> i) xs) = own_chain ss ts xs"
  "i \<notin> row_ids tf_ID ts \<Longrightarrow> own_chain ss ts (filter (\<lambda>x. \<not> attached_pair s i x) xs) = own_chain ss ts xs"
  "i \<notin> row_ids so_ID ss \<or> j \<notin> row_ids tf_ID ts \<Longrightarrow>
     own_chain ss ts (xs @ [\<lparr>sx_SourceID = i, sx_TransformerID = j, sx_Position = p\<rparr>]) = own_chain ss ts xs"
  by (auto simp: own_chain_def attached_pair_def intro!: filter_cong)

text \<open>Keys are unique over all tenants, so what one tenant owns no other does.\<close>

lemma foreign_id:
  assumes "distinct (map idf rows)" and "r \<in> set rows" and "orgf r \<noteq> o'"
  shows "idf r \<notin> row_ids idf (rows_of orgf o' rows)"
  using assms by (auto simp: row_ids_def rows_of_def distinct_map inj_on_def)

lemma foreign_rows:
  assumes "db_ok d" and "t \<noteq> o'"
  shows "r \<in> set (sources d) \<Longrightarrow> owns_source i t r \<Longrightarrow> i \<notin> row_ids so_ID (rows_of so_OrganizationID o' (sources d))"
    and "g \<in> set (guardrails d) \<Longrightarrow> owns_guardrail i t g \<Longrightarrow> i \<notin> row_ids gr_ID (rows_of gr_OrganizationID o' (guardrails d))"
    and "x \<in> set (transformers d) \<Longrightarrow> owns_transformer i t x \<Longrightarrow> i \<notin> row_ids tf_ID (rows_of tf_OrganizationID o' (transformers d))"
  using foreign_id [of so_ID "sources d" r so_OrganizationID o']
    foreign_id [of gr_ID "guardrails d" g gr_OrganizationID o']
    foreign_id [of tf_ID "transformers d" x tf_OrganizationID o'] assms
  by (auto simp: db_okD owns_defs)

subsection \<open>Statements of another tenant\<close>

lemma tenant_stmt:
  assumes "integrity.keeping (run_stmt env body)"
    and "\<And>new now d d' x. db_ok d \<Longrightarrow> o' \<in> org_ids d \<Longrightarrow> tenant_view o' d = v \<Longrightarrow> body new now d = (d', Inr x) \<Longrightarrow>
          o' \<in> org_ids d' \<and> tenant_view o' d' = tenant_view o' d"
  shows "tenant.keeping o' v (run_stmt env body)"
proof (rule tenant.keptI)
  fix d assume d: "tenant_keeps o' v d"
  let ?d = "d\<lparr>statements := statements d + 1\<rparr>"
  have d': "tenant_keeps o' v ?d" using d by (simp only: tenant.counter)
  have "o' \<in> org_ids (fst (run_stmt env body d)) \<and> tenant_view o' (fst (run_stmt env body d)) = v"
    by (rule run_stmt_cases [of env body d])
      (use d' assms(2) [of ?d] in \<open>auto simp: tenant_keeps_def\<close>)
  then show "tenant_keeps o' v (fst (run_stmt env body d)) \<and> (\<forall>x. snd (run_stmt env body d) = Inr x \<longrightarrow> True)"
    using integrity.keptD [OF assms(1)] d by (simp add: tenant_keeps_def)
qed

lemmas view_simps = tenant_view_def Let_def tenant_rows.simps

lemma tenant_creates:
  assumes "t \<noteq> o'"
  shows "tenant.keeping o' v (CreateUser env t em pw)"
    and "tenant.keeping o' v (db_CreateAPIKey env t nm kh kp rps bu)"
    and "tenant.keeping o' v (CreateSource env t sc)"
    and "tenant.keeping o' v (CreateGuardrail env t gc)"
    and "tenant.keeping o' v (db_CreateTransformer env t tc)"
    and "tenant.keeping o' v (CreateAlertWebhook env t ac)"
  using integrity_users integrity_create_source integrity_create_guardrail assms
  unfolding CreateUser_def db_CreateAPIKey_def CreateSource_def CreateGuardrail_def db_CreateTransformer_def
    CreateAlertWebhook_def
  by (intro tenant_stmt; auto simp: view_simps split: if_splits)+

lemma tenant_deletes:
  assumes "t \<noteq> o'"
  shows "tenant.keeping o' v (db_DeleteSource env i t)"
    and "tenant.keeping o' v (db_DeleteGuardrail env i t)"
    and "tenant.keeping o' v (db_DeleteTransformer env i t)"
    and "tenant.keeping o' v (db_DeleteAlertWebhook env i t)"
  using integrity_delete_source integrity_delete_guardrail assms
  unfolding db_DeleteSource_def db_DeleteGuardrail_def db_DeleteTransformer_def db_DeleteAlertWebhook_def
  by (intro tenant_stmt; auto simp: view_simps rows_of_delete own_pairs_simps own_chain_simps
      dest: foreign_rows split: if_splits)+

lemma tenant_updates:
  assumes "t \<noteq> o'"
  shows "tenant.keeping o' v (db_RevokeAPIKey env i t)"
    and "tenant.keeping o' v (db_UpdateSource env i t sc)"
    and "tenant.keeping o' v (db_UpdateGuardrail env i t gc)"
    and "tenant.keeping o' v (db_UpdateTransformer env i t tc)"
    and "tenant.keeping o' v (db_UpdateAlertWebhook env i t ac)"
  using integrity_revoke integrity_update_source integrity_update_guardrail assms
  unfolding db_RevokeAPIKey_def db_UpdateSource_def db_UpdateGuardrail_def db_UpdateTransformer_def
    db_UpdateAlertWebhook_def
  by (intro tenant_stmt; auto simp: view_simps rows_of_map owns_defs split: if_splits list.splits)+


lemma tenant_register:
  "tenant.kept o' v (\<lambda>r. og_ID r \<noteq> o') (CreateOrganization env nm)"
proof -
  have "tenant.keeping o' v (CreateOrganization env nm)"
    using integrity_organizations unfolding CreateOrganization_def
    by (intro tenant_stmt; auto simp: view_simps split: if_splits)
  moreover have "og_ID r \<noteq> o'" if "o' \<in> org_ids d" and "snd (CreateOrganization env nm d) = Inr r" for d r
    using that
    by (auto simp: CreateOrganization_def run_stmt_def org_exists_iff Let_def split: if_splits option.splits)
  ultimately show ?thesis by (auto simp: tenant.kept_def tenant_keeps_def)
qed

lemma tenant_attaches:
  "i \<notin> row_ids gr_ID (vw_guardrails v) \<Longrightarrow> tenant.keeping o' v (AttachGuardrailToSource env s i)"
  "i \<notin> row_ids gr_ID (vw_guardrails v) \<Longrightarrow> tenant.keeping o' v (DetachGuardrailFromSource env s i)"
  "j \<notin> row_ids tf_ID (vw_transformers v) \<Longrightarrow> tenant.keeping o' v (AttachTransformerToSource env s j)"
  "j \<notin> row_ids tf_ID (vw_transformers v) \<Longrightarrow> tenant.keeping o' v (DetachTransformerFromSource env s j)"
  "s \<notin> row_ids so_ID (vw_sources v) \<Longrightarrow> tenant.keeping o' v (DeleteSourceTransformers env s)"
  "s \<notin> row_ids so_ID (vw_sources v) \<Longrightarrow> tenant.keeping o' v (InsertSourceTransformer env s j p)"
  "tenant.keeping o' v (CountTransformersByOrgAndIDs env t ids)"
  using integrity_attach integrity_chain integrity_count
  unfolding AttachGuardrailToSource_def DetachGuardrailFromSource_def AttachTransformerToSource_def
    DetachTransformerFromSource_def DeleteSourceTransformers_def InsertSourceTransformer_def
    CountTransformersByOrgAndIDs_def insert_attachment_def
  by (intro tenant_stmt; auto simp: view_simps own_pairs_simps own_chain_simps split: if_splits)+

subsection \<open>Services on behalf of another tenant\<close>

text \<open>A row read under the caller's organization is not the other tenant's.\<close>

lemma tenant_reads:
  assumes "t \<noteq> o'"
  shows "tenant.kept o' v (\<lambda>_. i \<notin> row_ids so_ID (vw_sources v)) (GetSource env i t)"
    and "tenant.kept o' v (\<lambda>_. i \<notin> row_ids gr_ID (vw_guardrails v)) (GetGuardrail env i t)"
    and "tenant.kept o' v (\<lambda>_. i \<notin> row_ids tf_ID (vw_transformers v)) (GetTransformer env i t)"
  unfolding reads_are_selects
  by (rule tenant.kept_weaken [OF tenant.kept_select_one];
      use foreign_rows [OF _ assms] in \<open>auto simp: tenant_keeps_def view_simps\<close>)+

lemma tenant_simple_services:
  assumes "t \<noteq> o'"
  shows "tenant.keeping o' v (SourceService_Create e t sp)"
    and "tenant.keeping o' v (SourceService_Update e t i sp)"
    and "tenant.keeping o' v (SourceService_Delete e t i)"
    and "tenant.keeping o' v (GuardrailService_Create e t gp)"
    and "tenant.keeping o' v (GuardrailService_Update e t i gp)"
    and "tenant.keeping o' v (GuardrailService_Delete e t i)"
    and "tenant.keeping o' v (TransformerService_Create e t tp)"
    and "tenant.keeping o' v (TransformerService_Update e t i tp)"
    and "tenant.keeping o' v (TransformerService_Delete e t i)"
    and "tenant.keeping o' v (AlertService_Create e t ap)"
    and "tenant.keeping o' v (AlertService_Update e t i ap)"
    and "tenant.keeping o' v (AlertService_Delete e t i)"
    and "tenant.keeping o' v (AuthService_CreateAPIKey a t nm rps bu)"
    and "tenant.keeping o' v (AuthService_RevokeAPIKey a t i)"
  unfolding service_defs reads_are_selects Let_def
  by (intro keeps tenant_creates [OF assms] tenant_deletes [OF assms] tenant_updates [OF assms])+

lemma tenant_attachment_services:
  assumes "t \<noteq> o'"
  shows "tenant.keeping o' v (GuardrailService_AttachToSource e t i s)"
    and "tenant.keeping o' v (GuardrailService_DetachFromSource e t i s)"
    and "tenant.keeping o' v (TransformerService_AttachToSource e t i s)"
    and "tenant.keeping o' v (TransformerService_DetachFromSource e t i s)"
  unfolding service_defs
  by (rule tenant.kept_bind [OF tenant.kept_wrap [OF tenant_reads(2) [OF assms]]]
        tenant.kept_bind [OF tenant.kept_wrap [OF tenant_reads(3) [OF assms]]];
      erule tenant_attaches)+

lemma tenant_chain_service:
  assumes "t \<noteq> o'"
  shows "tenant.keeping o' v (SetSourceTransformers e t s ids)"
proof -
  let ?tx = "in_transaction (ce_db e)
      (q_bind (q_wrap ''clearing source transformers: '' (DeleteSourceTransformers (ce_db e) s)) (\<lambda>_.
         insert_chain (ce_db e) s 0 ids))"
  have "tenant.keeping o' v ?tx" if "s \<notin> row_ids so_ID (vw_sources v)"
    using that by (intro keeps tenant.kept_insert_chain tenant_attaches)
  then have rest: "tenant.keeping o' v (q_bind (q_wrap ''source not found: '' (GetSource (ce_db e) s t)) (\<lambda>_. ?tx))"
    by (rule tenant.kept_bind [OF tenant.kept_wrap [OF tenant_reads(1) [OF assms]]])
  show ?thesis unfolding SetSourceTransformers_def
    by (rule tenant.keeping_if [OF tenant.keeping_basic(2)
          tenant.keeping_bind [OF tenant.keeping_derived(1) [OF tenant_attaches(7)]
            tenant.keeping_if [OF tenant.keeping_basic(2) rest]]])
qed

lemma tenant_register_service: "tenant.keeping o' v (Register a nm em pw)"
  unfolding Register_def
  by (rule tenant.kept_bind [OF tenant.kept_wrap [OF tenant_register]]) (intro keeps tenant_creates)

lemma cp_step_tenant:
  "cp_step e a t d d' \<Longrightarrow> t \<noteq> Some o' \<Longrightarrow> tenant_keeps o' v d \<Longrightarrow> tenant_keeps o' v d'"
  by (cases rule: cp_step.cases, assumption;
      auto intro: tenant_simple_services [THEN tenant.keptD] tenant_attachment_services [THEN tenant.keptD]
        tenant_chain_service [THEN tenant.keptD] tenant_register_service [THEN tenant.keptD])

text \<open>
  Tenants cannot change each other's data. No service call on behalf of one organization, and no
  registration, creates, changes or deletes a user, key, source, guardrail, transformer or alert of
  another organization, nor an attachment between that organization's own sources and parts; this
  holds on every reachable database and whatever statements fail.
\<close>

theorem tenant_isolation:
  assumes "reachable_db b d" and "o' \<in> org_ids d" and "cp_step e a t d d'" and "t \<noteq> Some o'"
  shows "tenant_view o' d' = tenant_view o' d"
  using cp_step_tenant [OF assms(3,4), of "tenant_view o' d"] reachable_ok [OF assms(1)] assms(2)
  by (simp add: tenant_keeps_def)


theorem tenant_isolation_witness:
  "tenant_view ''0'' (fst (SourceService_Create example_cp ''7'' (example_source_params ''other'') example_db))
     = tenant_view ''0'' example_db
   \<and> length (vw_sources (tenant_view ''0'' example_db)) = 1"
proof -
  have "''0'' \<in> org_ids example_db"
    using example_rows(1) by (metis row_ids_def image_set list.set_intros(1))
  then have "tenant_view ''0'' (fst (SourceService_Create example_cp ''7'' (example_source_params ''other'') example_db))
      = tenant_view ''0'' example_db"
    by (rule tenant_isolation [OF example_reachable _ cp_step.source_create [of _ example_auth]]) simp
  moreover have "length (vw_sources (tenant_view ''0'' example_db)) = 1" by code_simp
  ultimately show ?thesis by blast
qed

subsection \<open>What attachments let through\<close>

definition no_failures :: "cp_env \<Rightarrow> bool" where
  "no_failures e \<longleftrightarrow> (\<forall>n. db_fails (ce_db e) n = None)"

lemma select_one_found:
  assumes "db_fails env (statements d) = None" and "rows (d\<lparr>statements := Suc (statements d)\<rparr>) \<noteq> []"
  shows "\<exists>x. select_one env rows d = (d\<lparr>statements := Suc (statements d)\<rparr>, Inr x)"
  using assms by (auto simp: select_one_def run_stmt_def Let_def neq_Nil_conv)

text \<open>
  C31: attaching checks one side only. A tenant can attach its guardrail to a source of any other
  tenant: the call succeeds. From then on the listing of the guardrail's sources shows the caller
  the other tenant's source row, and the other tenant's listing of its source shows the foreign
  guardrail.
\<close>

theorem attachment_crosses_tenants:
  assumes "no_failures e" and "g \<in> set (guardrails d)" and "owns_guardrail gid t g"
    and "s \<in> set (sources d)" and "owns_source sid o' s" and "t \<noteq> o'"
  shows "case GuardrailService_AttachToSource e t gid sid d of
           (d', Inr u) \<Rightarrow>
             (case snd (GuardrailService_ListSources e t gid d') of Inr ss \<Rightarrow> s \<in> set ss | Inl _ \<Rightarrow> False)
             \<and> (case snd (GuardrailService_ListBySource e o' sid d') of Inr gs \<Rightarrow> g \<in> set gs | Inl _ \<Rightarrow> False)
         | (d', Inl err) \<Rightarrow> False"
proof -
  let ?env = "ce_db e" let ?d1 = "d\<lparr>statements := Suc (statements d)\<rparr>"
  have f: "db_fails ?env n = None" for n using assms(1) by (simp add: no_failures_def)
  have g: "g \<in> set (filter (owns_guardrail gid t) (guardrails d))"
    and s: "s \<in> set (filter (owns_source sid o') (sources d))" using assms by simp_all
  obtain x where get: "GetGuardrail ?env gid t d = (?d1, Inr x)"
    using select_one_found [OF f, of "\<lambda>d. filter (owns_guardrail gid t) (guardrails d)" d] g
    by (auto simp: GetGuardrail_def filter_empty_conv)
  obtain d' where at: "AttachGuardrailToSource ?env sid gid ?d1 = (d', Inr ())"
    and d': "guardrails d' = guardrails d" "sources d' = sources d" "(sid, gid) \<in> set (source_guardrails d')"
  proof -
    have "sid \<in> so_ID ` set (sources d)" and "gid \<in> gr_ID ` set (guardrails d)"
      using assms by (force simp: owns_defs)+
    then have "\<exists>d'. AttachGuardrailToSource ?env sid gid ?d1 = (d', Inr ()) \<and> guardrails d' = guardrails d
        \<and> sources d' = sources d \<and> (sid, gid) \<in> set (source_guardrails d')"
      by (simp add: AttachGuardrailToSource_def run_stmt_def f Let_def)
    with that show thesis by blast
  qed
  let ?d2 = "d'\<lparr>statements := Suc (statements d')\<rparr>"
  obtain y where y: "GetGuardrail ?env gid t d' = (?d2, Inr y)"
    using select_one_found [OF f, of "\<lambda>d. filter (owns_guardrail gid t) (guardrails d)" d'] g d'
    by (auto simp: GetGuardrail_def filter_empty_conv)
  obtain z where z: "GetSource ?env sid o' d' = (?d2, Inr z)"
    using select_one_found [OF f, of "\<lambda>d. filter (owns_source sid o') (sources d)" d'] s d'
    by (auto simp: GetSource_def filter_empty_conv)
  let ?ss = "[s. s \<leftarrow> sources d', (sid, g) \<leftarrow> source_guardrails d', sid = so_ID s \<and> g = gid]"
  have "snd (GuardrailService_ListSources e t gid d') = Inr (sort_key so_CreatedAt ?ss)"
    by (simp add: GuardrailService_ListSources_def GuardrailService_Get_def q_bind_def q_wrap_def y
        ListSourcesByGuardrail_def select_many_def run_stmt_def f Let_def)
  moreover have "snd (GuardrailService_ListBySource e o' sid d') = Inr (sort_key gr_CreatedAt (guardrails_of_source sid d'))"
    by (simp add: GuardrailService_ListBySource_def q_bind_def q_wrap_def z ListGuardrailsBySource_def
        select_many_def run_stmt_def f Let_def guardrails_of_source_def)
  moreover have "GuardrailService_AttachToSource e t gid sid d = (d', Inr ())"
    by (simp add: GuardrailService_AttachToSource_def q_bind_def q_wrap_def get at)
  moreover have "s \<in> set ?ss" and "g \<in> set (guardrails_of_source sid d')"
    using assms d' by (auto simp: owns_defs guardrails_of_source_def
        intro!: bexI [of _ s] bexI [of _ g] bexI [of _ "(sid, gid)"])
  ultimately show ?thesis by simp
qed

text \<open>The example's first tenant attaches its guardrail to the source of the second.\<close>

theorem attachment_crosses_tenants_witness:
  "case GuardrailService_AttachToSource example_cp ''0'' ''4'' ''9'' example_db of
     (d', Inr u) \<Rightarrow>
       (case snd (GuardrailService_ListSources example_cp ''0'' ''4'' d') of
          Inr ss \<Rightarrow> hd (filter (owns_source ''9'' ''7'') (sources example_db)) \<in> set ss | Inl _ \<Rightarrow> False)
       \<and> (case snd (GuardrailService_ListBySource example_cp ''7'' ''9'' d') of
          Inr gs \<Rightarrow> hd (guardrails example_db) \<in> set gs | Inl _ \<Rightarrow> False)
   | (d', Inl err) \<Rightarrow> False"
proof (rule attachment_crosses_tenants)
  show "no_failures example_cp" by (simp add: no_failures_def example_cp_def example_dbenv_def)
  show "hd (guardrails example_db) \<in> set (guardrails example_db)" by code_simp
  show "owns_guardrail ''4'' ''0'' (hd (guardrails example_db))" by code_simp
  show "hd (filter (owns_source ''9'' ''7'') (sources example_db)) \<in> set (sources example_db)" by code_simp
  show "owns_source ''9'' ''7'' (hd (filter (owns_source ''9'' ''7'') (sources example_db)))" by code_simp
qed simp

end
