(* ===== verification/Stream_Replay.thy ===== *)
theory Stream_Replay
  imports Llm_Types
begin

text \<open>
  \<open>internal/dataplane/gateway/stream.go\<close>: the replay of a buffered chat completion as server-sent
  events, and the splitting of its text into pieces.
\<close>

subsection \<open>Splitting the text\<close>

text \<open>\<open>utf8.RuneStart\<close>: not a continuation byte (\<open>10xxxxxx\<close>).\<close>

definition rune_start :: "char \<Rightarrow> bool" where
  "rune_start c = ((of_char c :: nat) div 64 \<noteq> 2)"

definition streamChunkSize :: nat where "streamChunkSize = 48"

text \<open>The inner loop: back up past continuation bytes.\<close>

fun back_up :: "string \<Rightarrow> nat \<Rightarrow> nat" where
  "back_up s 0 = 0"
| "back_up s (Suc n) = (if \<not> rune_start (s ! Suc n) then back_up s n else Suc n)"

definition cut_at :: "string \<Rightarrow> nat \<Rightarrow> nat" where
  "cut_at s sz =
     (let cut = back_up s sz;
          cut = (case last_index_of CHR '' '' (take cut s) of
                   Some i \<Rightarrow> if i > 0 then i + 1 else cut
                 | None \<Rightarrow> cut)
      in if cut = 0 then sz else cut)"

text \<open>The outer loop, which never ends when it makes no progress (a size of 0).\<close>

partial_function (option) split_loop :: "string \<Rightarrow> nat \<Rightarrow> string list option" where
  "split_loop s sz =
     (if length s > sz
      then Option.bind (split_loop (drop (cut_at s sz) s) sz)
             (\<lambda>pieces. Some (take (cut_at s sz) s # pieces))
      else Some [s])"

definition splitContent :: "string \<Rightarrow> nat \<Rightarrow> string list option" where
  "splitContent s sz = (if s = [] then Some [] else split_loop s sz)"

lemma back_up_le: "back_up s n \<le> n"
  by (induction n) auto

lemma back_up_start: "back_up s n = 0 \<or> rune_start (s ! back_up s n)"
  by (induction n) auto

lemma back_up_max: "back_up s n < i \<Longrightarrow> i \<le> n \<Longrightarrow> \<not> rune_start (s ! i)"
proof (induction n)
  case (Suc n)
  then show ?case by (cases "i = Suc n") (auto split: if_splits)
qed simp

text \<open>The three ways a cut is chosen.\<close>

lemma cut_at_cases:
  obtains (space) i where "0 < i" "i < back_up s sz" "i < length s" "s ! i = CHR '' ''" "cut_at s sz = i + 1"
  | (rune) "0 < back_up s sz" "cut_at s sz = back_up s sz"
  | (raw) "back_up s sz = 0" "cut_at s sz = sz"
proof -
  let ?b = "back_up s sz"
  show thesis
  proof (cases "last_index_of CHR '' '' (take ?b s)")
    case None
    then have "cut_at s sz = (if ?b = 0 then sz else ?b)" by (simp add: cut_at_def)
    with rune raw show thesis by (cases "?b = 0") auto
  next
    case (Some i)
    from last_index_ofD [OF Some] have i: "i < ?b" "i < length s" "s ! i = CHR '' ''" by simp_all
    show thesis
    proof (cases "i = 0")
      case True
      with Some i(1) have "cut_at s sz = ?b" by (simp add: cut_at_def)
      with i(1) rune show thesis by simp
    next
      case False
      with Some have "cut_at s sz = i + 1" by (simp add: cut_at_def)
      with False i space show thesis by simp
    qed
  qed
qed

lemma cut_at_bounds:
  assumes "0 < sz"
  shows "0 < cut_at s sz" and "cut_at s sz \<le> sz"
  by (cases rule: cut_at_cases [of s sz]; use assms back_up_le [of s sz] in simp)+

text \<open>The loop ends when the size is not 0.\<close>

lemma split_loop_total:
  assumes "0 < sz"
  shows "\<exists>ps. split_loop s sz = Some ps \<and> concat ps = s \<and> ps \<noteq> []
           \<and> (s \<noteq> [] \<longrightarrow> list_all (\<lambda>p. p \<noteq> [] \<and> length p \<le> sz) ps)"
proof (induction s rule: length_induct)
  case (1 s)
  let ?c = "cut_at s sz"
  show ?case
  proof (cases "length s > sz")
    case False
    then show ?thesis by (subst split_loop.simps) simp
  next
    case True
    note cut = cut_at_bounds [OF assms, of s]
    from True cut assms have len: "length (drop ?c s) < length s" "drop ?c s \<noteq> []" by auto
    with 1 obtain ps where ps: "split_loop (drop ?c s) sz = Some ps" "concat ps = drop ?c s"
        "list_all (\<lambda>p. p \<noteq> [] \<and> length p \<le> sz) ps"
      by blast
    moreover have "take ?c s \<noteq> []" using cut True by auto
    ultimately have "split_loop s sz = Some (take ?c s # ps)"
        "concat (take ?c s # ps) = s"
        "list_all (\<lambda>p. p \<noteq> [] \<and> length p \<le> sz) (take ?c s # ps)"
      using True cut by (auto simp: split_loop.simps [of s])
    then show ?thesis by blast
  qed
qed

lemma split_loop_step:
  assumes "0 < sz" "length s > sz" "split_loop s sz = Some ps"
  obtains ps' where "split_loop (drop (cut_at s sz) s) sz = Some ps'" "ps = take (cut_at s sz) s # ps'"
  using assms by (subst (asm) split_loop.simps) (auto simp: bind_eq_Some_conv)

subsection \<open>Runes stay whole\<close>

text \<open>The well-formed UTF-8 byte sequences of one rune (the table of the Unicode standard).\<close>

definition cont :: "nat \<Rightarrow> bool" where "cont b = (128 \<le> b \<and> b < 192)"

definition rune :: "string \<Rightarrow> bool" where
  "rune r =
     (case map of_char r of
        [a] \<Rightarrow> a < 128
      | [a, b] \<Rightarrow> 194 \<le> a \<and> a \<le> 223 \<and> cont b
      | [a, b, c] \<Rightarrow> 224 \<le> a \<and> a \<le> 239 \<and> cont b \<and> cont c
          \<and> (a = 224 \<longrightarrow> 160 \<le> b) \<and> (a = 237 \<longrightarrow> b < 160)
      | [a, b, c, d] \<Rightarrow> 240 \<le> a \<and> a \<le> 244 \<and> cont b \<and> cont c \<and> cont d
          \<and> (a = 240 \<longrightarrow> 144 \<le> b) \<and> (a = 244 \<longrightarrow> b < 144)
      | _ \<Rightarrow> False)"

text \<open>\<open>utf8.ValidString\<close>.\<close>

function utf8_valid :: "string \<Rightarrow> bool" where
  "utf8_valid s = (if s = [] then True else (\<exists>n \<in> {1, 2, 3, 4}. rune (take n s) \<and> utf8_valid (drop n s)))"
  by auto
termination by (relation "measure length") auto

declare utf8_valid.simps [simp del]

lemma rune_start_cont: "rune_start c \<longleftrightarrow> \<not> cont (of_char c)"
proof -
  have "n div 64 \<noteq> 2 \<longleftrightarrow> \<not> (128 \<le> n \<and> n < 192)" for n :: nat
    using div_mult_mod_eq [of n 64] mod_less_divisor [of 64 n] by (auto simp: div_nat_eqI)
  then show ?thesis unfolding rune_start_def cont_def .
qed

lemma rune_shape:
  assumes "rune r"
  shows "0 < length r" "length r \<le> 4" "rune_start (r ! 0)"
    and "\<lbrakk>0 < i; i < length r\<rbrakk> \<Longrightarrow> \<not> rune_start (r ! i)"
    and "r ! 0 = CHR '' '' \<Longrightarrow> length r = 1"
  using assms
  by (auto simp: rune_def rune_start_cont cont_def less_Suc_eq nth_Cons' split: list.splits if_splits)

lemma utf8_valid_Nil [simp]: "utf8_valid []"
  by (simp add: utf8_valid.simps)

lemma utf8_validE:
  assumes "utf8_valid s" "s \<noteq> []"
  obtains r s' where "s = r @ s'" "rune r" "utf8_valid s'"
proof -
  from assms obtain n where "rune (take n s)" "utf8_valid (drop n s)"
    by (auto simp: utf8_valid.simps [of s])
  with that [of "take n s" "drop n s"] show thesis by simp
qed

lemma utf8_valid_append: "rune r \<Longrightarrow> utf8_valid s \<Longrightarrow> utf8_valid (r @ s)"
proof -
  assume r: "rune r" and s: "utf8_valid s"
  have "length r \<in> {1, 2, 3, 4}" using rune_shape(1,2) [OF r] by (simp, linarith)
  moreover have "rune (take (length r) (r @ s))" "utf8_valid (drop (length r) (r @ s))" using r s by simp_all
  ultimately show ?thesis by (simp only: utf8_valid.simps [of "r @ s"] split: if_split) blast
qed

lemma utf8_induct [consumes 1, case_names Nil rune]:
  assumes "utf8_valid s" and "P []"
    and "\<And>r s. rune r \<Longrightarrow> utf8_valid s \<Longrightarrow> P s \<Longrightarrow> P (r @ s)"
  shows "P s"
  using assms(1)
proof (induction s rule: length_induct)
  case (1 s)
  show ?case
  proof (cases "s = []")
    case False
    with 1(2) obtain r s' where s: "s = r @ s'" "rune r" "utf8_valid s'" by (rule utf8_validE)
    with 1(1) rune_shape(1) [OF s(2)] have "P s'" by simp
    with s assms(3) show ?thesis by simp
  qed (simp add: assms(2))
qed

lemma utf8_start: "utf8_valid s \<Longrightarrow> s \<noteq> [] \<Longrightarrow> rune_start (s ! 0)"
  by (erule (1) utf8_validE) (metis nth_append rune_shape(1,3))

definition boundary :: "string \<Rightarrow> nat \<Rightarrow> bool" where
  "boundary s i = (i = length s \<or> (i < length s \<and> rune_start (s ! i)))"

lemma utf8_cut:
  assumes "utf8_valid s" "boundary s i"
  shows "utf8_valid (take i s) \<and> utf8_valid (drop i s)"
  using assms
proof (induction arbitrary: i rule: utf8_induct)
  case Nil
  then show ?case by (simp add: boundary_def)
next
  case (rune r s)
  show ?case
  proof (cases "length r \<le> i")
    case True
    with rune.prems have "boundary s (i - length r)" by (auto simp: boundary_def nth_append)
    from rune.IH [OF this] True show ?thesis by (simp add: utf8_valid_append rune.hyps(1))
  next
    case False
    with rune.prems have "rune_start (r ! i)" by (auto simp: boundary_def nth_append)
    with False rune_shape(4) [OF rune.hyps(1), of i] have "i = 0" by fastforce
    then show ?thesis by (simp add: utf8_valid_append rune.hyps)
  qed
qed

lemma utf8_space_boundary:
  assumes "utf8_valid s" "i < length s" "s ! i = CHR '' ''"
  shows "boundary s (i + 1)"
  using assms
proof (induction arbitrary: i rule: utf8_induct)
  case (rune r s)
  note shape = rune_shape [OF rune.hyps(1)]
  show ?case
  proof (cases "i < length r")
    case True
    with rune.prems have sp: "r ! i = CHR '' ''" by (simp add: nth_append)
    then have "rune_start (r ! i)" by (simp add: rune_start_def)
    with True shape(4) [of i] have "i = 0" by fastforce
    with sp shape(5) have one: "length r = 1" "i = 0" by simp_all
    with utf8_start [OF rune.hyps(2)] show ?thesis
      by (cases "s = []") (auto simp: boundary_def nth_append)
  next
    case False
    with rune.prems have "boundary s (i - length r + 1)" by (intro rune.IH) (auto simp: nth_append)
    with False show ?thesis by (auto simp: boundary_def nth_append Suc_diff_le)
  qed
qed simp

lemma back_up_positive:
  assumes "utf8_valid s" "4 \<le> sz" "sz < length s"
  shows "0 < back_up s sz"
proof (rule ccontr)
  assume "\<not> 0 < back_up s sz"
  then have zero: "back_up s sz = 0" by simp
  from assms obtain r s' where s: "s = r @ s'" "rune r" "utf8_valid s'" by (metis utf8_validE list.size(3) not_less_zero)
  note shape = rune_shape [OF s(2)]
  from assms shape s have "s' \<noteq> []" by auto
  with s utf8_start have "rune_start (s ! length r)" by (simp add: nth_append)
  with back_up_max [of s sz "length r"] shape assms(2) zero show False by auto
qed

lemma cut_at_boundary:
  assumes "utf8_valid s" "4 \<le> sz" "sz < length s"
  shows "boundary s (cut_at s sz)"
proof (cases rule: cut_at_cases [of s sz])
  case (space i)
  with utf8_space_boundary [OF assms(1)] show ?thesis by simp
next
  case rune
  with back_up_start [of s sz] back_up_le [of s sz] assms(3) show ?thesis by (auto simp: boundary_def)
next
  case raw
  with back_up_positive [OF assms] show ?thesis by simp
qed

lemma split_loop_utf8:
  assumes "4 \<le> sz" "utf8_valid s" "split_loop s sz = Some ps"
  shows "list_all utf8_valid ps"
  using assms(2,3)
proof (induction s arbitrary: ps rule: length_induct)
  case (1 s)
  show ?case
  proof (cases "length s > sz")
    case False
    with 1(3) have "ps = [s]" by (simp add: split_loop.simps [of s])
    with 1(2) show ?thesis by simp
  next
    case True
    have "0 < sz" using assms(1) by simp
    from this True 1(3) obtain ps' where ps: "split_loop (drop (cut_at s sz) s) sz = Some ps'"
        "ps = take (cut_at s sz) s # ps'"
      by (rule split_loop_step)
    note cut = utf8_cut [OF 1(2) cut_at_boundary [OF 1(2) assms(1) True]]
    have "length (drop (cut_at s sz) s) < length s"
      using cut_at_bounds(1) [OF \<open>0 < sz\<close>, of s] True by simp
    with 1(1) cut ps(1) have "list_all utf8_valid ps'" by blast
    with cut ps(2) show ?thesis by simp
  qed
qed

lemma splitContent_total:
  assumes "0 < sz"
  shows "\<exists>ps. splitContent s sz = Some ps \<and> concat ps = s \<and> list_all (\<lambda>p. p \<noteq> [] \<and> length p \<le> sz) ps"
  using split_loop_total [OF assms, of s] by (cases "s = []") (auto simp: splitContent_def)

text \<open>
  A replayed text is split completely and safely. For every positive piece size the loop ends;
  the pieces joined give back the text, none of them is empty and none longer than the size; and when
  the size is at least 4 and the text is valid UTF-8, no rune is split, so every piece is valid.
\<close>

theorem splitContent_pieces:
  assumes "0 < sz"
  shows "\<exists>ps. splitContent s sz = Some ps \<and> concat ps = s \<and> list_all (\<lambda>p. p \<noteq> [] \<and> length p \<le> sz) ps
           \<and> (if 4 \<le> sz \<and> utf8_valid s then list_all utf8_valid ps else True)"
proof -
  obtain ps where ps: "splitContent s sz = Some ps" "concat ps = s" "list_all (\<lambda>p. p \<noteq> [] \<and> length p \<le> sz) ps"
    using splitContent_total [OF assms] by blast
  moreover have "list_all utf8_valid ps" if "4 \<le> sz" "utf8_valid s"
    using split_loop_utf8 [OF that] ps(1) by (cases "s = []") (auto simp: splitContent_def)
  ultimately show ?thesis by simp
qed

theorem splitContent_pieces_witness:
  "\<exists>ps. splitContent ''one two three'' 6 = Some ps \<and> concat ps = ''one two three''"
  using splitContent_pieces [of 6 "''one two three''"] by auto

subsection \<open>The event stream\<close>

text \<open>One event: a \<open>chat.completion.chunk\<close>, or the closing \<open>[DONE]\<close>.\<close>

record chunk_delta =
  delta_role :: string
  delta_content :: string

record chunk_choice =
  ck_Index :: int
  Delta :: chunk_delta
  ck_FinishReason :: "string option"

record chat_chunk =
  ck_ID :: string
  ck_Object :: string
  ck_Created :: int
  ck_Model :: string
  ck_Choices :: "chunk_choice list"

datatype sse_event = Chunk chat_chunk | Done

record sse_response =
  sse_status :: int
  sse_headers :: "(string, string) gomap"
  sse_events :: "sse_event list"

definition no_delta :: chunk_delta where "no_delta = \<lparr>delta_role = [], delta_content = []\<rparr>"

definition chunk_base :: "chat_response \<Rightarrow> chunk_choice \<Rightarrow> sse_event" where
  "chunk_base resp c =
     Chunk \<lparr>ck_ID = ID resp, ck_Object = ''chat.completion.chunk'', ck_Created = Created resp,
            ck_Model = resp_Model resp, ck_Choices = [c]\<rparr>"

definition choice_events :: "chat_response \<Rightarrow> choice \<Rightarrow> sse_event list option" where
  "choice_events resp c =
     Option.bind (splitContent (Content (Message c)) streamChunkSize) (\<lambda>pieces.
       Some (map (chunk_base resp)
         (\<lparr>ck_Index = Index c, Delta = no_delta\<lparr>delta_role := Role (Message c)\<rparr>, ck_FinishReason = None\<rparr>
          # map (\<lambda>piece. \<lparr>ck_Index = Index c, Delta = no_delta\<lparr>delta_content := piece\<rparr>, ck_FinishReason = None\<rparr>)
              pieces
          @ [\<lparr>ck_Index = Index c, Delta = no_delta,
              ck_FinishReason = Some (if FinishReason c = [] then ''stop'' else FinishReason c)\<rparr>])))"

text \<open>The loop over the choices.\<close>

fun choices_events :: "chat_response \<Rightarrow> choice list \<Rightarrow> sse_event list option" where
  "choices_events resp [] = Some []"
| "choices_events resp (c # cs) =
     Option.bind (choice_events resp c) (\<lambda>es. Option.bind (choices_events resp cs) (\<lambda>es'. Some (es @ es')))"

definition writeSSEResponse :: "chat_response \<Rightarrow> sse_response option" where
  "writeSSEResponse resp =
     Option.bind (choices_events resp (Choices resp)) (\<lambda>es.
       Some \<lparr>sse_status = 200,
             sse_headers = [(''Content-Type'', ''text/event-stream''), (''Cache-Control'', ''no-cache''),
                            (''Connection'', ''keep-alive'')],
             sse_events = es @ [Done]\<rparr>)"

text \<open>The \<open>data:\<close> line of a chunk, as JSON; empty role and content are omitted.\<close>

definition chunk_choice_json :: "chunk_choice \<Rightarrow> json" where
  "chunk_choice_json c =
     JObj [(''index'', JInt (ck_Index c)),
           (''delta'', JObj
             ((if delta_role (Delta c) \<noteq> [] then [(''role'', JStr (delta_role (Delta c)))] else [])
              @ (if delta_content (Delta c) \<noteq> [] then [(''content'', JStr (delta_content (Delta c)))] else []))),
           (''finish_reason'', case ck_FinishReason c of None \<Rightarrow> JNull | Some f \<Rightarrow> JStr f)]"

definition chunk_json :: "chat_chunk \<Rightarrow> json" where
  "chunk_json k =
     JObj [(''id'', JStr (ck_ID k)), (''object'', JStr (ck_Object k)), (''created'', JInt (ck_Created k)),
           (''model'', JStr (ck_Model k)), (''choices'', JArr (map chunk_choice_json (ck_Choices k)))]"

subsection \<open>What a streaming client assembles\<close>

text \<open>
  A client adds up the deltas of each choice index: the last role, the contents joined, the last
  finish reason.
\<close>

type_synonym assembled = "(int, string \<times> string \<times> string) gomap"

definition add_delta :: "chunk_choice \<Rightarrow> assembled \<Rightarrow> assembled" where
  "add_delta c acc =
     (case (case m_get acc (ck_Index c) of None \<Rightarrow> ([], [], []) | Some x \<Rightarrow> x) of
        (role, content, finish) \<Rightarrow>
          m_set (ck_Index c)
            (if delta_role (Delta c) \<noteq> [] then delta_role (Delta c) else role,
             content @ delta_content (Delta c),
             case ck_FinishReason c of None \<Rightarrow> finish | Some f \<Rightarrow> f) acc)"

fun assemble :: "sse_event list \<Rightarrow> assembled \<Rightarrow> assembled" where
  "assemble [] acc = acc"
| "assemble (Done # es) acc = acc"
| "assemble (Chunk k # es) acc = assemble es (fold add_delta (ck_Choices k) acc)"

lemma assemble_chunks: "assemble (map (chunk_base resp) cs @ es) acc = assemble es (fold add_delta cs acc)"
  by (induction cs arbitrary: acc) (simp_all add: chunk_base_def)

lemma splitContent_Some: "\<exists>ps. splitContent s streamChunkSize = Some ps \<and> concat ps = s"
  using splitContent_total [of streamChunkSize s] by (auto simp: streamChunkSize_def)

lemma fold_contents:
  assumes "m_get acc i = Some (role, content, finish)"
  shows "m_get (fold add_delta
           (map (\<lambda>p. \<lparr>ck_Index = i, Delta = no_delta\<lparr>delta_content := p\<rparr>, ck_FinishReason = None\<rparr>) ps) acc) k
         = (if k = i then Some (role, content @ concat ps, finish) else m_get acc k)"
  using assms
proof (induction ps arbitrary: acc content)
  case (Cons p ps)
  let ?d = "\<lparr>ck_Index = i, Delta = no_delta\<lparr>delta_content := p\<rparr>, ck_FinishReason = None\<rparr>"
  have "m_get (add_delta ?d acc) i = Some (role, content @ p, finish)"
    using Cons.prems by (simp add: add_delta_def no_delta_def)
  moreover have "k \<noteq> i \<Longrightarrow> m_get (add_delta ?d acc) k = m_get acc k"
    by (simp add: add_delta_def split: prod.split)
  ultimately show ?case using Cons.IH [of "add_delta ?d acc" "content @ p"] by simp
qed simp

text \<open>The events of one choice set its entry and leave the others alone.\<close>

lemma assemble_choice:
  assumes "choice_events resp c = Some es" and "m_get acc (Index c) = None"
  shows "\<exists>acc'. assemble (es @ rest) acc = assemble rest acc'
           \<and> m_get acc' (Index c) = Some (Role (Message c), Content (Message c),
                (if FinishReason c = [] then ''stop'' else FinishReason c))
           \<and> (\<forall>k. k \<noteq> Index c \<longrightarrow> m_get acc' k = m_get acc k)"
proof -
  obtain ps where ps: "splitContent (Content (Message c)) streamChunkSize = Some ps" "concat ps = Content (Message c)"
    using splitContent_Some by blast
  let ?i = "Index c"
  let ?r = "\<lparr>ck_Index = ?i, Delta = no_delta\<lparr>delta_role := Role (Message c)\<rparr>, ck_FinishReason = None\<rparr>"
  let ?ds = "map (\<lambda>p. \<lparr>ck_Index = ?i, Delta = no_delta\<lparr>delta_content := p\<rparr>, ck_FinishReason = None\<rparr>) ps"
  let ?f = "\<lparr>ck_Index = ?i, Delta = no_delta, ck_FinishReason = Some (if FinishReason c = [] then ''stop'' else FinishReason c)\<rparr>"
  let ?acc1 = "add_delta ?r acc"
  have "es = map (chunk_base resp) (?r # ?ds @ [?f])"
    using assms(1) ps(1) by (simp add: choice_events_def)
  then have "assemble (es @ rest) acc = assemble rest (add_delta ?f (fold add_delta ?ds ?acc1))"
    using assemble_chunks [of resp "?r # ?ds @ [?f]" rest acc] by simp
  moreover have "m_get ?acc1 ?i = Some (Role (Message c), [], [])"
    using assms(2) by (simp add: add_delta_def no_delta_def)
  note pieces = fold_contents [OF this, of ps]
  have "m_get (add_delta ?f (fold add_delta ?ds ?acc1)) k =
      (if k = ?i then Some (Role (Message c), Content (Message c), (if FinishReason c = [] then ''stop'' else FinishReason c))
       else m_get acc k)" for k
    using pieces [of k] pieces [of ?i]
    by (simp add: add_delta_def [of ?f] no_delta_def ps(2)) (simp add: add_delta_def split: prod.split)
  ultimately show ?thesis by auto
qed

lemma assemble_choices:
  assumes "choices_events resp cs = Some es" and "distinct (map Index cs)"
    and "\<forall>c \<in> set cs. m_get acc (Index c) = None"
  shows "\<exists>acc'. assemble (es @ rest) acc = assemble rest acc'
           \<and> (\<forall>c \<in> set cs. m_get acc' (Index c) = Some (Role (Message c), Content (Message c),
                (if FinishReason c = [] then ''stop'' else FinishReason c)))
           \<and> (\<forall>k. k \<notin> Index ` set cs \<longrightarrow> m_get acc' k = m_get acc k)"
  using assms
proof (induction cs arbitrary: es acc)
  case (Cons c cs)
  from Cons.prems(1) obtain es1 es2 where es: "choice_events resp c = Some es1" "choices_events resp cs = Some es2"
    "es = es1 @ es2"
    by (auto simp: bind_eq_Some_conv)
  from assemble_choice [OF es(1), of acc "es2 @ rest"] Cons.prems(3) obtain acc1 where
    a1: "assemble (es1 @ es2 @ rest) acc = assemble (es2 @ rest) acc1"
      "m_get acc1 (Index c) = Some (Role (Message c), Content (Message c),
         (if FinishReason c = [] then ''stop'' else FinishReason c))"
      "\<forall>k. k \<noteq> Index c \<longrightarrow> m_get acc1 k = m_get acc k"
    by auto
  have d: "distinct (map Index cs)" "Index c \<notin> Index ` set cs" using Cons.prems(2) by auto
  have none: "\<forall>c' \<in> set cs. m_get acc1 (Index c') = None"
  proof
    fix c' assume "c' \<in> set cs"
    with d(2) have "Index c' \<noteq> Index c" by (metis image_eqI)
    with a1(3) Cons.prems(3) \<open>c' \<in> set cs\<close> show "m_get acc1 (Index c') = None" by simp
  qed
  from Cons.IH [OF es(2) d(1) none] obtain acc2 where
    a2: "assemble (es2 @ rest) acc1 = assemble rest acc2"
      "\<forall>c \<in> set cs. m_get acc2 (Index c) = Some (Role (Message c), Content (Message c),
         (if FinishReason c = [] then ''stop'' else FinishReason c))"
      "\<forall>k. k \<notin> Index ` set cs \<longrightarrow> m_get acc2 k = m_get acc1 k"
    by blast
  show ?case
    using a1 a2 d(2) es(3) by (intro exI [of _ acc2]) auto
qed auto

lemma choices_events_Some: "\<exists>es. choices_events resp cs = Some es"
proof (induction cs)
  case (Cons c cs)
  then show ?case using splitContent_Some [of "Content (Message c)"] by (auto simp: choice_events_def)
qed simp

text \<open>
  C39: streaming is faithful to the buffered answer. The replay always completes and ends with
  \<open>[DONE]\<close>, and a client that adds up the deltas gets, for each choice of a response with distinct
  indices, exactly the role, the text and the finish reason of the buffered choice (\<open>stop\<close> when the
  provider gave none).
\<close>

theorem stream_replays_answer:
  assumes "distinct (map Index (Choices resp))"
  shows "\<exists>r. writeSSEResponse resp = Some r \<and> sse_status r = 200 \<and> last (sse_events r) = Done
           \<and> (\<forall>c \<in> set (Choices resp). m_get (assemble (sse_events r) []) (Index c) =
                Some (Role (Message c), Content (Message c),
                  (if FinishReason c = [] then ''stop'' else FinishReason c)))"
proof -
  obtain es where es: "choices_events resp (Choices resp) = Some es" using choices_events_Some by blast
  from assemble_choices [OF es assms, of "[]" "[Done]"] show ?thesis
    by (auto simp: writeSSEResponse_def es)
qed

text \<open>
  But only that. Two responses that agree on id, time, model and on each choice's index, role,
  text and finish reason are replayed identically, so tool calls, refusals, usage and every other
  member of a buffered answer never reach a streaming client, which may still be told that the
  answer finished for \<open>tool_calls\<close>.
\<close>

theorem stream_drops_other_members:
  assumes "ID resp' = ID resp" and "Created resp' = Created resp" and "resp_Model resp' = resp_Model resp"
    and "map (\<lambda>c. (Index c, Role (Message c), Content (Message c), FinishReason c)) (Choices resp')
         = map (\<lambda>c. (Index c, Role (Message c), Content (Message c), FinishReason c)) (Choices resp)"
  shows "writeSSEResponse resp' = writeSSEResponse resp"
proof -
  have base: "chunk_base resp' = chunk_base resp" using assms(1-3) by (simp add: chunk_base_def fun_eq_iff)
  have "choices_events resp' cs' = choices_events resp cs"
    if "map (\<lambda>c. (Index c, Role (Message c), Content (Message c), FinishReason c)) cs'
      = map (\<lambda>c. (Index c, Role (Message c), Content (Message c), FinishReason c)) cs" for cs' cs
    using that
  proof (induction cs arbitrary: cs')
    case (Cons c cs)
    then obtain c1 cs1 where "cs' = c1 # cs1" by (cases cs') auto
    with Cons show ?case by (simp add: choice_events_def base)
  qed simp
  from this [OF assms(4)] show ?thesis by (simp add: writeSSEResponse_def)
qed

text \<open>An answer that calls a tool.\<close>

definition example_answer :: "(string, json) gomap \<Rightarrow> chat_response" where
  "example_answer extra =
     \<lparr>ID = ''c1'', Object = ''chat.completion'', Created = 1, resp_Model = ''m'',
      Choices = [\<lparr>Index = 0, Message = \<lparr>Role = ''assistant'', Content = ''one two'', contentRaw = None, contentText = [],
                     msg_extra = extra\<rparr>, FinishReason = ''tool_calls'', choice_extra = []\<rparr>],
      Usage = zero_usage, resp_extra = []\<rparr>"

theorem stream_replays_answer_witness:
  "\<exists>r. writeSSEResponse (example_answer []) = Some r
     \<and> m_get (assemble (sse_events r) []) 0 = Some (''assistant'', ''one two'', ''tool_calls'')"
proof -
  have "distinct (map Index (Choices (example_answer [])))" by (simp add: example_answer_def)
  from stream_replays_answer [OF this] show ?thesis by (auto simp: example_answer_def)
qed

theorem stream_drops_other_members_witness:
  "writeSSEResponse (example_answer [(''tool_calls'', JArr [JObj [(''id'', JStr ''t1'')]])])
     = writeSSEResponse (example_answer [])"
  by (rule stream_drops_other_members) (simp_all add: example_answer_def)

end
