(* ===== verification/Http_Service.thy ===== *)
theory Http_Service
  imports Stream_Replay Backend_Config
begin

text \<open>
  What the HTTP servers of both planes share: \<open>internal/shared/response/response.go\<close> and the
  request id, identity and body size of \<open>internal/shared/middleware\<close>.
\<close>

subsection \<open>Requests and replies\<close>

text \<open>
  A request as it reaches the middleware: its headers under their canonical names, its query
  parameters and its body. The context values are those the middleware sets; the nil UUID is
  the value read when there is none.
\<close>

record http_in =
  in_headers :: "(string, string) gomap"
  in_query :: "(string, string) gomap"
  in_body :: http_body

record req_ctx =
  cx_request_id :: "string option"
  cx_user :: "uuid option"
  cx_org :: "uuid option"
  cx_auth :: "auth_info option"

definition empty_ctx :: req_ctx where
  "empty_ctx = \<lparr>cx_request_id = None, cx_user = None, cx_org = None, cx_auth = None\<rparr>"

text \<open>\<open>Header.Get\<close> and \<open>Query().Get\<close>: the empty text when absent.\<close>

definition get_or_empty :: "(string, string) gomap \<Rightarrow> string \<Rightarrow> string" where
  "get_or_empty m k = (case m_get m k of None \<Rightarrow> [] | Some v \<Rightarrow> v)"

datatype reply_body =
    No_body
  | Json_body json
  | Text_body string
  | Event_body "sse_event list"

record reply =
  rep_status :: int
  rep_headers :: "(string, string) gomap"
  rep_body :: reply_body

subsection \<open>response.go\<close>

text \<open>\<open>w\<close> is the header map of the response writer when the function is called.\<close>

definition reply_json :: "(string, string) gomap \<Rightarrow> int \<Rightarrow> json \<Rightarrow> reply" where
  "reply_json w status payload =
     \<lparr>rep_status = status, rep_headers = m_set ''Content-Type'' ''application/json'' w,
      rep_body = Json_body payload\<rparr>"

definition reply_error :: "(string, string) gomap \<Rightarrow> int \<Rightarrow> string \<Rightarrow> reply" where
  "reply_error w status msg = reply_json w status (JObj [(''error'', JStr msg)])"

definition ValidationError :: "(string, string) gomap \<Rightarrow> string \<Rightarrow> string \<Rightarrow> reply" where
  "ValidationError w field msg =
     reply_json w 400 (JObj [(''error'', JStr ''validation_error''), (''field'', JStr field), (''message'', JStr msg)])"

subsection \<open>Request id, identity, body size\<close>

text \<open>\<open>new_id\<close> is \<open>uuid.New().String()\<close>.\<close>

definition RequestID :: "string \<Rightarrow> http_in \<Rightarrow> req_ctx \<times> (string, string) gomap \<Rightarrow> req_ctx \<times> (string, string) gomap" where
  "RequestID new_id r cw =
     (let rid = get_or_empty (in_headers r) ''X-Request-Id'';
          rid = (if rid = [] then new_id else rid)
      in ((fst cw)\<lparr>cx_request_id := Some rid\<rparr>, m_set ''X-Request-Id'' rid (snd cw)))"

definition uuid_Nil :: uuid where
  "uuid_Nil = ''00000000-0000-0000-0000-000000000000''"

definition OrgIDFromContext :: "req_ctx \<Rightarrow> uuid" where
  "OrgIDFromContext cx = (case cx_org cx of Some u \<Rightarrow> u | None \<Rightarrow> uuid_Nil)"

definition UserIDFromContext :: "req_ctx \<Rightarrow> uuid" where
  "UserIDFromContext cx = (case cx_user cx of Some u \<Rightarrow> u | None \<Rightarrow> uuid_Nil)"

text \<open>
  \<open>MaxBodySize\<close>: \<open>json.NewDecoder(r.Body).Decode\<close> on a body read through
  \<open>http.MaxBytesReader\<close>. A value that ends within the limit decodes; reading past the limit
  fails before.
\<close>

definition body_too_large :: go_error where
  "body_too_large = ''http: request body too large''"

definition decode_max :: "nat \<Rightarrow> http_body \<Rightarrow> json res" where
  "decode_max maxBytes b =
     (case b_value b of
        Some v \<Rightarrow> if b_end b \<le> maxBytes then Inr v else Inl body_too_large
      | None \<Rightarrow> if length (b_text b) \<le> maxBytes then Inl ''invalid character in JSON'' else Inl body_too_large)"

definition HandleMaxBytesError :: "(string, string) gomap \<Rightarrow> go_error option \<Rightarrow> reply option" where
  "HandleMaxBytesError w err =
     (if err = Some body_too_large then Some (reply_error w 413 ''request body too large'') else None)"

lemma reply_json_simps [simp]:
  "rep_status (reply_json w s p) = s" "rep_body (reply_json w s p) = Json_body p"
  "rep_headers (reply_json w s p) = m_set ''Content-Type'' ''application/json'' w"
  by (simp_all add: reply_json_def)

lemma reply_error_simps [simp]:
  "rep_status (reply_error w s e) = s" "rep_body (reply_error w s e) = Json_body (JObj [(''error'', JStr e)])"
  by (simp_all add: reply_error_def)

end
