(* ===== verification/Workspace_Builder.thy ===== *)
theory Workspace_Builder
  imports Tenant_Isolation Http_Service Config_Poller
begin

text \<open>
  \<open>internal/controlplane/workspaceconfig\<close>: \<open>builder.go\<close> assembles the configuration of all
  organizations from the database, \<open>handler.go\<close> serves it to the data planes; and what a data
  plane that applies it does for each tenant.
\<close>

subsection \<open>The payload as JSON\<close>

definition marshal_key :: "api_key_config \<Rightarrow> json" where
  "marshal_key k = JObj ([(''key_hash'', JStr (ak_KeyHash k))]
     @ opt_member ''rate_limit_rps'' JFloat (ak_RateLimitRPS k)
     @ opt_member ''rate_limit_burst'' JInt (ak_RateLimitBurst k))"

definition marshal_source :: "source_config \<Rightarrow> json" where
  "marshal_source s = JObj
     ([(''id'', JStr (sc_ID s)), (''route'', JStr (sc_Route s)), (''enabled'', JBool (sc_Enabled s)),
       (''llm_model'', JStr (sc_LLMModel s)), (''llm_api_key'', JStr (sc_LLMAPIKey s))]
      @ (if sc_LLMBaseURL s = [] then [] else [(''llm_base_url'', JStr (sc_LLMBaseURL s))])
      @ [(''input_pass_criteria'', JStr (sc_InputPassCriteria s))]
      @ opt_member ''input_pass_threshold'' JInt (sc_InputPassThreshold s)
      @ [(''output_pass_criteria'', JStr (sc_OutputPassCriteria s))]
      @ opt_member ''output_pass_threshold'' JInt (sc_OutputPassThreshold s)
      @ [(''guardrail_ids'', JArr (map JStr (sc_GuardrailIDs s))),
         (''transformer_ids'', JArr (map JStr (sc_TransformerIDs s)))])"

definition raw_json :: "json option \<Rightarrow> json" where
  "raw_json c = (case c of Some j \<Rightarrow> j | None \<Rightarrow> JNull)"

definition marshal_guardrail :: "guardrail_config \<Rightarrow> json" where
  "marshal_guardrail g = JObj [(''id'', JStr (gc_ID g)), (''name'', JStr (gc_Name g)),
     (''guard_type'', JStr (gc_GuardType g)), (''phase'', JStr (gc_Phase g)), (''config'', raw_json (gc_Config g))]"

definition marshal_transformer :: "transformer_config \<Rightarrow> json" where
  "marshal_transformer t = JObj [(''id'', JStr (tc_ID t)), (''name'', JStr (tc_Name t)),
     (''transformer_type'', JStr (tc_TransformerType t)), (''phase'', JStr (tc_Phase t)),
     (''config'', raw_json (tc_Config t))]"

definition marshal_alert :: "alert_webhook_config \<Rightarrow> json" where
  "marshal_alert a = JObj [(''id'', JStr (aw_ID a)), (''url'', JStr (aw_URL a)),
     (''payload_format'', JStr (aw_PayloadFormat a))]"

definition marshal_org :: "org_config \<Rightarrow> json" where
  "marshal_org org = JObj
     ([(''id'', JStr (org_ID org)), (''api_keys'', JArr (map marshal_key (org_APIKeys org))),
       (''sources'', JArr (map marshal_source (org_Sources org))),
       (''guardrails'', JArr (map marshal_guardrail (org_Guardrails org))),
       (''transformers'', JArr (map marshal_transformer (org_Transformers org)))]
      @ (if org_AlertWebhooks org = [] then []
         else [(''alert_webhooks'', JArr (map marshal_alert (org_AlertWebhooks org)))]))"

definition marshal_workspace :: "workspace_config \<Rightarrow> json" where
  "marshal_workspace w = JObj [(''version'', JStr (ws_Version w)), (''generated_at'', JStr (ws_GeneratedAt w)),
     (''organizations'', JArr (map marshal_org (ws_Organizations w)))]"

subsection \<open>builder.go\<close>

text \<open>\<open>digest\<close> is the hexadecimal SHA-256 of the printed JSON; \<open>now_text\<close> the printed time.\<close>

record builder =
  bu_env :: cp_env
  bu_digest :: "json \<Rightarrow> string"
  bu_now :: string

definition zero_time :: string where "zero_time = ''0001-01-01T00:00:00Z''"

definition computeVersion :: "builder \<Rightarrow> workspace_config \<Rightarrow> string" where
  "computeVersion b cfg =
     (let canonical = cfg\<lparr>ws_Version := [], ws_GeneratedAt := zero_time\<rparr>
      in bu_digest b (marshal_workspace canonical))"

text \<open>The ids attached to each source, in the order of the rows.\<close>

definition group_by_source :: "(uuid \<times> uuid) list \<Rightarrow> (uuid, uuid list) gomap" where
  "group_by_source ps =
     fold (\<lambda>(s, i) m. m_set s ((case m_get m s of Some l \<Rightarrow> l | None \<Rightarrow> []) @ [i]) m) ps []"

type_synonym org_map = "(uuid, org_config) gomap"

definition empty_org :: "uuid \<Rightarrow> org_config" where
  "empty_org i = \<lparr>org_ID = i, org_APIKeys = [], org_Sources = [], org_Guardrails = [],
     org_Transformers = [], org_AlertWebhooks = []\<rparr>"

text \<open>\<open>if org, ok := orgs[id]; ok\<close> followed by an append to one of its lists.\<close>

definition update_org :: "uuid \<Rightarrow> (org_config \<Rightarrow> org_config) \<Rightarrow> org_map \<Rightarrow> org_map" where
  "update_org i f orgs = (case m_get orgs i of None \<Rightarrow> orgs | Some org \<Rightarrow> m_set i (f org) orgs)"

definition key_config :: "api_key_row \<Rightarrow> api_key_config" where
  "key_config k = \<lparr>ak_KeyHash = ky_KeyHash k, ak_RateLimitRPS = ky_RateLimitRps k,
     ak_RateLimitBurst = ky_RateLimitBurst k\<rparr>"

definition add_key :: "api_key_row \<Rightarrow> org_map \<Rightarrow> org_map" where
  "add_key k = update_org (ky_OrganizationID k) (\<lambda>org. org\<lparr>org_APIKeys := org_APIKeys org @ [key_config k]\<rparr>)"

definition alert_config :: "alert_row \<Rightarrow> alert_webhook_config" where
  "alert_config a = \<lparr>aw_ID = al_ID a, aw_URL = al_Url a, aw_PayloadFormat = al_PayloadFormat a\<rparr>"

definition add_alert :: "alert_row \<Rightarrow> org_map \<Rightarrow> org_map" where
  "add_alert a = update_org (al_OrganizationID a)
     (\<lambda>org. org\<lparr>org_AlertWebhooks := org_AlertWebhooks org @ [alert_config a]\<rparr>)"

definition ids_or_empty :: "(uuid, uuid list) gomap \<Rightarrow> uuid \<Rightarrow> uuid list" where
  "ids_or_empty m i = (case m_get m i of Some l \<Rightarrow> l | None \<Rightarrow> [])"

definition source_cfg :: "string \<Rightarrow> uuid list \<Rightarrow> uuid list \<Rightarrow> source_row \<Rightarrow> source_config" where
  "source_cfg apiKey gids tids s =
     \<lparr>sc_ID = so_ID s, sc_Route = so_Route s, sc_Enabled = so_Enabled s, sc_LLMModel = so_LlmModel s,
      sc_LLMAPIKey = apiKey, sc_LLMBaseURL = so_LlmBaseUrl s,
      sc_InputPassCriteria = so_InputPassCriteria s, sc_InputPassThreshold = so_InputPassThreshold s,
      sc_OutputPassCriteria = so_OutputPassCriteria s, sc_OutputPassThreshold = so_OutputPassThreshold s,
      sc_GuardrailIDs = gids, sc_TransformerIDs = tids\<rparr>"

fun add_sources ::
    "cp_env \<Rightarrow> (uuid, uuid list) gomap \<Rightarrow> (uuid, uuid list) gomap \<Rightarrow> source_row list \<Rightarrow> org_map \<Rightarrow> org_map res" where
  "add_sources e guardrailsBySource transformersBySource [] orgs = Inr orgs"
| "add_sources e guardrailsBySource transformersBySource (s # ss) orgs =
     (case m_get orgs (so_OrganizationID s) of
        None \<Rightarrow> add_sources e guardrailsBySource transformersBySource ss orgs
      | Some org \<Rightarrow>
          (case Decrypt (ce_gcm e) (so_LlmApiKeyEnc s) (ce_encKey e) of
             Inl err \<Rightarrow> Inl (''decrypting LLM key for source '' @ so_ID s @ '': '' @ err)
           | Inr apiKey \<Rightarrow>
               (let src = source_cfg apiKey (ids_or_empty guardrailsBySource (so_ID s))
                            (ids_or_empty transformersBySource (so_ID s)) s
                in add_sources e guardrailsBySource transformersBySource ss
                     (m_set (so_OrganizationID s) (org\<lparr>org_Sources := org_Sources org @ [src]\<rparr>) orgs))))"

definition guardrail_cfg :: "guardrail_row \<Rightarrow> guardrail_config" where
  "guardrail_cfg g = \<lparr>gc_ID = gr_ID g, gc_Name = gr_Name g, gc_GuardType = gr_GuardType g,
     gc_Phase = gr_Phase g, gc_Config = Some (gr_Config g)\<rparr>"

definition add_guardrail :: "guardrail_row \<Rightarrow> org_map \<Rightarrow> org_map" where
  "add_guardrail g = update_org (gr_OrganizationID g)
     (\<lambda>org. org\<lparr>org_Guardrails := org_Guardrails org @ [guardrail_cfg g]\<rparr>)"

definition transformer_cfg :: "transformer_row \<Rightarrow> transformer_config" where
  "transformer_cfg t = \<lparr>tc_ID = tf_ID t, tc_Name = tf_Name t, tc_TransformerType = tf_TransformerType t,
     tc_Phase = tf_Phase t, tc_Config = Some (tf_Config t)\<rparr>"

definition add_transformer :: "transformer_row \<Rightarrow> org_map \<Rightarrow> org_map" where
  "add_transformer t = update_org (tf_OrganizationID t)
     (\<lambda>org. org\<lparr>org_Transformers := org_Transformers org @ [transformer_cfg t]\<rparr>)"

record build_rows =
  br_orgIDs :: "uuid list"
  br_apiKeys :: "api_key_row list"
  br_sources :: "source_row list"
  br_guardrails :: "guardrail_row list"
  br_attachments :: "(uuid \<times> uuid) list"
  br_transformers :: "transformer_row list"
  br_transformerAttachments :: "source_transformer_row list"
  br_alertWebhooks :: "alert_row list"

text \<open>The eight queries, in order.\<close>

definition build_queries :: "cp_env \<Rightarrow> build_rows query" where
  "build_queries e =
     q_bind (q_wrap ''listing organizations: '' (ListAllOrganizationIDs (ce_db e))) (\<lambda>orgIDs.
     q_bind (q_wrap ''listing api keys: '' (ListAllActiveAPIKeys (ce_db e))) (\<lambda>apiKeys.
     q_bind (q_wrap ''listing sources: '' (ListAllSources (ce_db e))) (\<lambda>srcs.
     q_bind (q_wrap ''listing guardrails: '' (ListAllEnabledGuardrails (ce_db e))) (\<lambda>grs.
     q_bind (q_wrap ''listing source guardrails: '' (ListAllSourceGuardrails (ce_db e))) (\<lambda>attachments.
     q_bind (q_wrap ''listing transformers: '' (ListAllEnabledTransformers (ce_db e))) (\<lambda>tfs.
     q_bind (q_wrap ''listing source transformers: '' (ListAllSourceTransformers (ce_db e))) (\<lambda>transformerAttachments.
     q_bind (q_wrap ''listing alert webhooks: '' (ListAllEnabledAlertWebhooks (ce_db e))) (\<lambda>alertWebhooks.
       q_return \<lparr>br_orgIDs = orgIDs, br_apiKeys = apiKeys, br_sources = srcs, br_guardrails = grs,
         br_attachments = attachments, br_transformers = tfs,
         br_transformerAttachments = transformerAttachments, br_alertWebhooks = alertWebhooks\<rparr>))))))))"

definition assemble_orgs :: "cp_env \<Rightarrow> build_rows \<Rightarrow> org_config list res" where
  "assemble_orgs e r =
     (let guardrailsBySource = group_by_source (br_attachments r);
          transformersBySource = group_by_source (transformer_pairs (br_transformerAttachments r));
          orgs = fold (\<lambda>i m. m_set i (empty_org i) m) (br_orgIDs r) [];
          orgs = fold add_key (br_apiKeys r) orgs;
          orgs = fold add_alert (br_alertWebhooks r) orgs
      in res_bind (add_sources e guardrailsBySource transformersBySource (br_sources r) orgs) (\<lambda>orgs.
           let orgs = fold add_guardrail (br_guardrails r) orgs;
               orgs = fold add_transformer (br_transformers r) orgs
           in Inr (map (\<lambda>i. case m_get orgs i of Some org \<Rightarrow> org | None \<Rightarrow> empty_org i) (br_orgIDs r))))"

definition Build :: "builder \<Rightarrow> workspace_config query" where
  "Build b =
     q_bind (build_queries (bu_env b)) (\<lambda>r.
     q_bind (q_lift (assemble_orgs (bu_env b) r)) (\<lambda>orgs.
       let cfg = \<lparr>ws_Version = [], ws_GeneratedAt = zero_time, ws_Organizations = orgs\<rparr>
       in q_return (cfg\<lparr>ws_Version := computeVersion b cfg, ws_GeneratedAt := bu_now b\<rparr>)))"

subsection \<open>handler.go\<close>

definition etag_of :: "workspace_config \<Rightarrow> string" where
  "etag_of cfg = [CHR 0x22] @ ws_Version cfg @ [CHR 0x22]"

definition Workspace_Get :: "builder \<Rightarrow> (string, string) gomap \<Rightarrow> http_in \<Rightarrow> db \<Rightarrow> db \<times> reply" where
  "Workspace_Get b w r d =
     (case Build b d of
        (d', Inl err) \<Rightarrow> (d', reply_error w 500 ''failed to build workspace config'')
      | (d', Inr cfg) \<Rightarrow>
          (let etag = etag_of cfg in
           if get_or_empty (in_headers r) ''If-None-Match'' = etag
           then (d', \<lparr>rep_status = 304, rep_headers = m_set ''ETag'' etag w, rep_body = No_body\<rparr>)
           else (d', reply_json (m_set ''ETag'' etag w) 200 (marshal_workspace cfg))))"

end
