(* ===== verification/Served_Config.thy ===== *)
theory Served_Config
  imports Workspace_Builder
begin

text \<open>
  What the served configuration is as a function of the database, and what a data plane does with
  it: for a database the services can reach, the build succeeds, every data plane with the same
  registries can apply it, and what it does for a tenant depends on that tenant's rows only.
\<close>

subsection \<open>Sorted tables, tenant by tenant\<close>

lemma insort_key_cong:
  "(\<And>y. y \<in> set ys \<Longrightarrow> f x \<le> f y \<longleftrightarrow> g x \<le> g y) \<Longrightarrow> insort_key f x ys = insort_key g x ys"
  by (induction ys) auto

lemma sort_key_cong:
  "(\<And>x y. x \<in> set xs \<Longrightarrow> y \<in> set xs \<Longrightarrow> f x \<le> f y \<longleftrightarrow> g x \<le> g y) \<Longrightarrow> sort_key f xs = sort_key g xs"
proof (induction xs)
  case (Cons x xs)
  then have "sort_key f xs = sort_key g xs" by simp
  moreover have "insort_key f x (sort_key g xs) = insort_key g x (sort_key g xs)"
    by (rule insort_key_cong) (use Cons.prems in auto)
  ultimately show ?case by simp
qed simp

lemma rows_of_sort:
  "rows_of orgf o' (sort_key orgf rows) = rows_of orgf o' rows"
  "rows_of orgf o' (sort_key (\<lambda>r. (orgf r, k r)) rows) = sort_key k (rows_of orgf o' rows)"
proof -
  show "rows_of orgf o' (sort_key orgf rows) = rows_of orgf o' rows"
    unfolding rows_of_def filter_sort by (rule sort_key_id_if_sorted) (induction rows; auto)
  show "rows_of orgf o' (sort_key (\<lambda>r. (orgf r, k r)) rows) = sort_key k (rows_of orgf o' rows)"
    unfolding rows_of_def filter_sort by (rule sort_key_cong) auto
qed

lemma rows_of_filter: "rows_of orgf o' (filter Q rows) = filter Q (rows_of orgf o' rows)"
  by (simp add: rows_of_def filter_filter conj_commute)

subsection \<open>The folds of the builder\<close>

lemma update_org_get:
  "m_get (update_org i f orgs) o' = (if o' = i then map_option f (m_get orgs o') else m_get orgs o')"
  by (auto simp: update_org_def split: option.splits)

lemma fold_update_org:
  "m_get (fold (\<lambda>r. update_org (orgf r) (upd r)) rows orgs) o' =
     map_option (fold upd (rows_of orgf o' rows)) (m_get orgs o')"
  by (induction rows arbitrary: orgs)
    (auto simp: rows_of_def update_org_get option.map_comp comp_def option.map_ident option.map_id)

lemma fold_append_field:
  "fold (\<lambda>k org. org\<lparr>org_APIKeys := org_APIKeys org @ [f k]\<rparr>) ks org = org\<lparr>org_APIKeys := org_APIKeys org @ map f ks\<rparr>"
  "fold (\<lambda>a org. org\<lparr>org_AlertWebhooks := org_AlertWebhooks org @ [fa a]\<rparr>) as org
     = org\<lparr>org_AlertWebhooks := org_AlertWebhooks org @ map fa as\<rparr>"
  "fold (\<lambda>g org. org\<lparr>org_Guardrails := org_Guardrails org @ [fg g]\<rparr>) gs org
     = org\<lparr>org_Guardrails := org_Guardrails org @ map fg gs\<rparr>"
  "fold (\<lambda>t org. org\<lparr>org_Transformers := org_Transformers org @ [ft t]\<rparr>) ts org
     = org\<lparr>org_Transformers := org_Transformers org @ map ft ts\<rparr>"
proof -
  show "fold (\<lambda>k org. org\<lparr>org_APIKeys := org_APIKeys org @ [f k]\<rparr>) ks org = org\<lparr>org_APIKeys := org_APIKeys org @ map f ks\<rparr>"
    by (induction ks arbitrary: org) auto
  show "fold (\<lambda>a org. org\<lparr>org_AlertWebhooks := org_AlertWebhooks org @ [fa a]\<rparr>) as org
     = org\<lparr>org_AlertWebhooks := org_AlertWebhooks org @ map fa as\<rparr>"
    by (induction as arbitrary: org) auto
  show "fold (\<lambda>g org. org\<lparr>org_Guardrails := org_Guardrails org @ [fg g]\<rparr>) gs org
     = org\<lparr>org_Guardrails := org_Guardrails org @ map fg gs\<rparr>"
    by (induction gs arbitrary: org) auto
  show "fold (\<lambda>t org. org\<lparr>org_Transformers := org_Transformers org @ [ft t]\<rparr>) ts org
     = org\<lparr>org_Transformers := org_Transformers org @ map ft ts\<rparr>"
    by (induction ts arbitrary: org) auto
qed

lemma fold_adds:
  "m_get (fold add_key ks orgs) o' =
     map_option (\<lambda>org. org\<lparr>org_APIKeys := org_APIKeys org @ map key_config (rows_of ky_OrganizationID o' ks)\<rparr>) (m_get orgs o')"
  "m_get (fold add_alert as orgs) o' =
     map_option (\<lambda>org. org\<lparr>org_AlertWebhooks := org_AlertWebhooks org @ map alert_config (rows_of al_OrganizationID o' as)\<rparr>) (m_get orgs o')"
  "m_get (fold add_guardrail gs orgs) o' =
     map_option (\<lambda>org. org\<lparr>org_Guardrails := org_Guardrails org @ map guardrail_cfg (rows_of gr_OrganizationID o' gs)\<rparr>) (m_get orgs o')"
  "m_get (fold add_transformer ts orgs) o' =
     map_option (\<lambda>org. org\<lparr>org_Transformers := org_Transformers org @ map transformer_cfg (rows_of tf_OrganizationID o' ts)\<rparr>) (m_get orgs o')"
  unfolding add_key_def add_alert_def add_guardrail_def add_transformer_def fold_update_org fold_append_field
  by (rule refl)+

lemma ids_group_by_source: "ids_or_empty (group_by_source ps) s = map snd (filter (\<lambda>p. fst p = s) ps)"
proof -
  have "ids_or_empty (fold (\<lambda>(s, i) m. m_set s ((case m_get m s of Some l \<Rightarrow> l | None \<Rightarrow> []) @ [i]) m) ps m) s
      = ids_or_empty m s @ map snd (filter (\<lambda>p. fst p = s) ps)" for m
    by (induction ps arbitrary: m) (auto simp: ids_or_empty_def)
  from this [of "[]"] show ?thesis by (simp add: group_by_source_def ids_or_empty_def)
qed

definition built_source :: "cp_env \<Rightarrow> (uuid, uuid list) gomap \<Rightarrow> (uuid, uuid list) gomap \<Rightarrow> source_row \<Rightarrow> source_config" where
  "built_source e gby tby s = source_cfg (projr (Decrypt (ce_gcm e) (so_LlmApiKeyEnc s) (ce_encKey e)))
     (ids_or_empty gby (so_ID s)) (ids_or_empty tby (so_ID s)) s"

lemma add_sources_ok:
  assumes "\<forall>s \<in> set ss. \<not> is_err (Decrypt (ce_gcm e) (so_LlmApiKeyEnc s) (ce_encKey e))"
  shows "\<exists>orgs'. add_sources e gby tby ss orgs = Inr orgs' \<and> (\<forall>o'. m_get orgs' o' =
     map_option (\<lambda>org. org\<lparr>org_Sources := org_Sources org @ map (built_source e gby tby) (rows_of so_OrganizationID o' ss)\<rparr>) (m_get orgs o'))"
  using assms(1)
proof (induction ss arbitrary: orgs)
  case Nil
  show ?case by (simp add: rows_of_def option.map_ident)
next
  case (Cons s ss)
  from Cons.prems obtain k where k: "Decrypt (ce_gcm e) (so_LlmApiKeyEnc s) (ce_encKey e) = Inr k"
    by (auto simp: not_is_err_iff)
  show ?case
  proof (cases "m_get orgs (so_OrganizationID s)")
    case None
    with Cons show ?thesis by (fastforce simp: rows_of_def)
  next
    case (Some org)
    let ?orgs = "m_set (so_OrganizationID s) (org\<lparr>org_Sources := org_Sources org @ [built_source e gby tby s]\<rparr>) orgs"
    from Cons.IH [of ?orgs] Cons.prems obtain orgs' where o1: "add_sources e gby tby ss ?orgs = Inr orgs'"
      and o2: "\<And>o'. m_get orgs' o' = map_option (\<lambda>org. org\<lparr>org_Sources := org_Sources org @ map (built_source e gby tby) (rows_of so_OrganizationID o' ss)\<rparr>) (m_get ?orgs o')"
      by auto
    have "add_sources e gby tby (s # ss) orgs = Inr orgs'" using o1 Some k by (simp add: built_source_def Let_def)
    moreover have "m_get orgs' o' = map_option (\<lambda>org. org\<lparr>org_Sources := org_Sources org @ map (built_source e gby tby) (rows_of so_OrganizationID o' (s # ss))\<rparr>) (m_get orgs o')" for o'
      using Some by (simp add: o2 rows_of_def)
    ultimately show ?thesis by blast
  qed
qed

subsection \<open>The configuration of a tenant\<close>

definition served_source :: "cp_env \<Rightarrow> db \<Rightarrow> source_row \<Rightarrow> source_config" where
  "served_source e d s =
     source_cfg (projr (Decrypt (ce_gcm e) (so_LlmApiKeyEnc s) (ce_encKey e)))
       (map snd (filter (\<lambda>p. fst p = so_ID s) (source_guardrails d)))
       (map sx_TransformerID (sort_key (\<lambda>x. (sx_Position x, sx_TransformerID x))
          (filter (\<lambda>x. sx_SourceID x = so_ID s) (source_transformers d)))) s"

definition served_org :: "cp_env \<Rightarrow> db \<Rightarrow> uuid \<Rightarrow> org_config" where
  "served_org e d o' =
     \<lparr>org_ID = o',
      org_APIKeys = map key_config (filter (\<lambda>k. ky_RevokedAt k = None) (rows_of ky_OrganizationID o' (api_keys d))),
      org_Sources = map (served_source e d) (sort_key so_Route (rows_of so_OrganizationID o' (sources d))),
      org_Guardrails = map guardrail_cfg (sort_key gr_ID (filter gr_Enabled (rows_of gr_OrganizationID o' (guardrails d)))),
      org_Transformers = map transformer_cfg (sort_key tf_ID (filter tf_Enabled (rows_of tf_OrganizationID o' (transformers d)))),
      org_AlertWebhooks = map alert_config (filter al_Enabled (rows_of al_OrganizationID o' (alert_webhooks d)))\<rparr>"

definition served_orgs :: "cp_env \<Rightarrow> db \<Rightarrow> org_config list" where
  "served_orgs e d = map (served_org e d) (sort (map og_ID (organizations d)))"

definition rows_read :: "db \<Rightarrow> build_rows" where
  "rows_read d = \<lparr>br_orgIDs = sort (map og_ID (organizations d)),
     br_apiKeys = sort_key ky_OrganizationID (filter (\<lambda>r. ky_RevokedAt r = None) (api_keys d)),
     br_sources = sort_key (\<lambda>r. (so_OrganizationID r, so_Route r)) (sources d),
     br_guardrails = sort_key (\<lambda>r. (gr_OrganizationID r, gr_ID r)) (filter gr_Enabled (guardrails d)),
     br_attachments = sort_key fst (source_guardrails d),
     br_transformers = sort_key (\<lambda>r. (tf_OrganizationID r, tf_ID r)) (filter tf_Enabled (transformers d)),
     br_transformerAttachments = sort_key (\<lambda>x. (sx_SourceID x, sx_Position x, sx_TransformerID x)) (source_transformers d),
     br_alertWebhooks = sort_key al_OrganizationID (filter al_Enabled (alert_webhooks d))\<rparr>"

lemma build_queries_ok:
  assumes "no_failures e"
  shows "build_queries e d = (d\<lparr>statements := statements d + 8\<rparr>, Inr (rows_read d))"
proof -
  have f: "db_fails (ce_db e) n = None" for n using assms by (simp add: no_failures_def)
  show ?thesis
    by (simp add: build_queries_def q_bind_def q_wrap_def select_many_def run_stmt_def f Let_def rows_read_def
        ListAllOrganizationIDs_def ListAllActiveAPIKeys_def ListAllSources_def ListAllEnabledGuardrails_def
        ListAllSourceGuardrails_def ListAllEnabledTransformers_def ListAllSourceTransformers_def
        ListAllEnabledAlertWebhooks_def)
qed


lemma group_attachments:
  "ids_or_empty (group_by_source (sort_key fst ps)) s = map snd (filter (\<lambda>p. fst p = s) ps)"
  "ids_or_empty (group_by_source (transformer_pairs
      (sort_key (\<lambda>x. (sx_SourceID x, sx_Position x, sx_TransformerID x)) xs))) s =
     map sx_TransformerID (sort_key (\<lambda>x. (sx_Position x, sx_TransformerID x)) (filter (\<lambda>x. sx_SourceID x = s) xs))"
proof -
  have "sort_key fst (filter (\<lambda>p. fst p = s) ps) = filter (\<lambda>p. fst p = s) ps"
    using rows_of_sort(1) [of fst s ps] by (simp add: rows_of_def filter_sort)
  then show "ids_or_empty (group_by_source (sort_key fst ps)) s = map snd (filter (\<lambda>p. fst p = s) ps)"
    by (simp add: ids_group_by_source filter_sort)
  have "filter (\<lambda>p. fst p = s) (transformer_pairs ys) = transformer_pairs (filter (\<lambda>x. sx_SourceID x = s) ys)" for ys
    by (induction ys) (auto simp: transformer_pairs_def)
  moreover have "map snd (transformer_pairs ys) = map sx_TransformerID ys" for ys
    by (simp add: transformer_pairs_def)
  moreover have "filter (\<lambda>x. sx_SourceID x = s) (sort_key (\<lambda>x. (sx_SourceID x, sx_Position x, sx_TransformerID x)) xs)
      = sort_key (\<lambda>x. (sx_Position x, sx_TransformerID x)) (filter (\<lambda>x. sx_SourceID x = s) xs)"
    using rows_of_sort(2) [of sx_SourceID s "\<lambda>x. (sx_Position x, sx_TransformerID x)" xs]
    by (simp add: rows_of_def)
  ultimately show "ids_or_empty (group_by_source (transformer_pairs
      (sort_key (\<lambda>x. (sx_SourceID x, sx_Position x, sx_TransformerID x)) xs))) s =
     map sx_TransformerID (sort_key (\<lambda>x. (sx_Position x, sx_TransformerID x)) (filter (\<lambda>x. sx_SourceID x = s) xs))"
    by (simp add: ids_group_by_source)
qed

lemma built_served_source:
  "built_source e (group_by_source (br_attachments (rows_read d)))
     (group_by_source (transformer_pairs (br_transformerAttachments (rows_read d)))) s = served_source e d s"
  by (simp add: built_source_def served_source_def rows_read_def group_attachments)

lemma m_get_empty_orgs:
  "m_get (fold (\<lambda>i m. m_set i (empty_org i) m) ids m) o' = (if o' \<in> set ids then Some (empty_org o') else m_get m o')"
  by (induction ids arbitrary: m) auto

lemma assemble_ok:
  assumes "content_ok e d"
  shows "assemble_orgs e (rows_read d) = Inr (served_orgs e d)"
proof -
  let ?r = "rows_read d"
  let ?gby = "group_by_source (br_attachments ?r)" and ?tby = "group_by_source (transformer_pairs (br_transformerAttachments ?r))"
  let ?orgs = "fold add_alert (br_alertWebhooks ?r) (fold add_key (br_apiKeys ?r)
      (fold (\<lambda>i m. m_set i (empty_org i) m) (br_orgIDs ?r) []))"
  have "\<forall>s \<in> set (br_sources ?r). \<not> is_err (Decrypt (ce_gcm e) (so_LlmApiKeyEnc s) (ce_encKey e))"
    using assms by (simp add: content_ok_def list_all_iff source_row_ok_def rows_read_def)
  from add_sources_ok [OF this, of ?gby ?tby ?orgs]
  obtain orgs' where a: "add_sources e ?gby ?tby (br_sources ?r) ?orgs = Inr orgs'"
    and g: "\<And>o'. m_get orgs' o' = map_option (\<lambda>org. org\<lparr>org_Sources := org_Sources org
        @ map (built_source e ?gby ?tby) (rows_of so_OrganizationID o' (br_sources ?r))\<rparr>) (m_get ?orgs o')"
    by blast
  let ?final = "fold add_transformer (br_transformers ?r) (fold add_guardrail (br_guardrails ?r) orgs')"
  have "m_get ?final o' = Some (served_org e d o')" if "o' \<in> set (br_orgIDs ?r)" for o'
  proof -
    from that have "m_get (fold (\<lambda>i m. m_set i (empty_org i) m) (br_orgIDs ?r) []) o' = Some (empty_org o')"
      by (simp add: m_get_empty_orgs)
    then show ?thesis
      unfolding fold_adds g built_served_source
      by (simp add: empty_org_def served_org_def rows_read_def rows_of_sort rows_of_filter)
  qed
  then have "map (\<lambda>i. case m_get ?final i of Some org \<Rightarrow> org | None \<Rightarrow> empty_org i) (br_orgIDs ?r)
      = map (served_org e d) (br_orgIDs ?r)" by simp
  then show ?thesis
    by (simp add: assemble_orgs_def Let_def a served_orgs_def) (simp add: rows_read_def)
qed

definition served_config :: "builder \<Rightarrow> db \<Rightarrow> workspace_config" where
  "served_config b d =
     (let cfg = \<lparr>ws_Version = [], ws_GeneratedAt = zero_time, ws_Organizations = served_orgs (bu_env b) d\<rparr>
      in cfg\<lparr>ws_Version := computeVersion b cfg, ws_GeneratedAt := bu_now b\<rparr>)"

lemma Build_ok:
  assumes "no_failures (bu_env b)" and "content_ok (bu_env b) d"
  shows "Build b d = (d\<lparr>statements := statements d + 8\<rparr>, Inr (served_config b d))"
  by (simp add: Build_def q_bind_def build_queries_ok [OF assms(1)] assemble_ok [OF assms(2)] served_config_def Let_def)

lemma served_config_orgs [simp]: "ws_Organizations (served_config b d) = served_orgs (bu_env b) d"
  by (simp add: served_config_def Let_def)

subsection \<open>Applying it\<close>

lemma guardrailsByID_served:
  "m_get (guardrailsByID (served_org e d o')) i = Some gc \<Longrightarrow>
   \<exists>g \<in> set (guardrails d). gr_OrganizationID g = o' \<and> gr_Enabled g \<and> gr_ID g = i \<and> gc = guardrail_cfg g"
  using set_m_of_entries [of "map (\<lambda>g. (gc_ID g, g)) (org_Guardrails (served_org e d o'))"]
  by (fastforce simp: guardrailsByID_def served_org_def rows_of_def guardrail_cfg_def dest: map_of_SomeD)

lemma transformersByID_served:
  "m_get (transformersByID (served_org e d o')) i = Some tc \<Longrightarrow>
   \<exists>t \<in> set (transformers d). tf_OrganizationID t = o' \<and> tf_Enabled t \<and> tf_ID t = i \<and> tc = transformer_cfg t"
  using set_m_of_entries [of "map (\<lambda>t. (tc_ID t, t)) (org_Transformers (served_org e d o'))"]
  by (fastforce simp: transformersByID_def served_org_def rows_of_def transformer_cfg_def dest: map_of_SomeD)

lemma in_map_filter: "y \<in> set (List.map_filter f xs) \<Longrightarrow> \<exists>x \<in> set xs. f x = Some y"
  by (auto simp: map_filter_def)

lemma served_source_builds:
  assumes "content_ok e d"
  shows "source_builds (ce_reg e) (ce_treg e) (served_org e d o') src"
proof -
  have "\<not> is_err (create_guard (ce_reg e) gc)" if "gc \<in> set (attached_guards (served_org e d o') src)" for gc
  proof -
    from that obtain i where "m_get (guardrailsByID (served_org e d o')) i = Some gc"
      by (auto simp: attached_guards_def dest!: in_map_filter)
    from guardrailsByID_served [OF this] obtain g where "g \<in> set (guardrails d)" "gc = guardrail_cfg g" by blast
    with assms show ?thesis
      by (simp add: create_guard_def guardrail_cfg_def content_ok_def list_all_iff guardrail_row_ok_def)
  qed
  moreover have "\<not> is_err (create_transformer (ce_treg e) tc)"
    if "tc \<in> set (attached_transformers (served_org e d o') src)" for tc
  proof -
    from that obtain i where "m_get (transformersByID (served_org e d o')) i = Some tc"
      by (auto simp: attached_transformers_def dest!: in_map_filter)
    from transformersByID_served [OF this] obtain t where "t \<in> set (transformers d)" "tc = transformer_cfg t" by blast
    with assms show ?thesis
      by (simp add: create_transformer_def transformer_cfg_def content_ok_def list_all_iff transformer_row_ok_def)
  qed
  ultimately show ?thesis by (simp add: source_builds_def)
qed

lemma served_applies:
  assumes "content_ok (bu_env b) d"
  shows "\<exists>snap. Apply (ce_reg (bu_env b)) (ce_treg (bu_env b)) (served_config b d) s = (Some snap, Inr ())
    \<and> apply_orgs (ce_reg (bu_env b)) (ce_treg (bu_env b)) (served_orgs (bu_env b) d)
        \<lparr>sn_Version = ws_Version (served_config b d), sn_apiKeys = [], sn_sources = [], sn_alerts = []\<rparr> = Inr snap"
proof -
  let ?e = "\<lparr>sn_Version = ws_Version (served_config b d), sn_apiKeys = [], sn_sources = [], sn_alerts = []\<rparr>"
  have "\<not> is_err (apply_orgs (ce_reg (bu_env b)) (ce_treg (bu_env b)) (served_orgs (bu_env b) d) ?e)"
    unfolding apply_orgs_ok by (auto simp: served_orgs_def list_all_iff served_source_builds [OF assms])
  then show ?thesis by (auto simp: Apply_def not_is_err_iff)
qed


lemma mem_served_orgs: "org \<in> set (served_orgs e d) \<longleftrightarrow> (\<exists>o' \<in> org_ids d. org = served_org e d o')"
  by (auto simp: served_orgs_def row_ids_def)

lemma served_org_ID [simp]: "org_ID (served_org e d o') = o'"
  by (simp add: served_org_def)

lemma served_source_route [simp]: "sc_Route (served_source e d s) = so_Route s" "sc_ID (served_source e d s) = so_ID s"
  by (simp_all add: served_source_def source_cfg_def)

text \<open>A store loaded from a database: what it finds for an organization and a route.\<close>

definition loaded_from :: "builder \<Rightarrow> db \<Rightarrow> store \<Rightarrow> bool" where
  "loaded_from b d s' \<longleftrightarrow> (\<exists>s d' cfg. Build b d = (d', Inr cfg)
     \<and> Apply (ce_reg (bu_env b)) (ce_treg (bu_env b)) cfg s = (s', Inr ()))"

definition sound :: "builder \<Rightarrow> db \<Rightarrow> bool" where
  "sound b d \<longleftrightarrow> no_failures (bu_env b) \<and> db_ok d \<and> content_ok (bu_env b) d"

lemma loaded_fromD:
  assumes "sound b d" and "loaded_from b d s'"
  shows "\<exists>snap. s' = Some snap \<and> apply_orgs (ce_reg (bu_env b)) (ce_treg (bu_env b)) (served_orgs (bu_env b) d)
        \<lparr>sn_Version = ws_Version (served_config b d), sn_apiKeys = [], sn_sources = [], sn_alerts = []\<rparr> = Inr snap"
proof -
  from assms(2) obtain s d' cfg where b: "Build b d = (d', Inr cfg)"
    and a: "Apply (ce_reg (bu_env b)) (ce_treg (bu_env b)) cfg s = (s', Inr ())"
    by (auto simp: loaded_from_def)
  from b Build_ok [of b d] assms(1) have "cfg = served_config b d" by (simp add: sound_def)
  with a show ?thesis by (auto simp: Apply_def split: sum.splits)
qed

lemma loaded_lookup:
  assumes "sound b d" and "loaded_from b d s'" and "src \<in> set (sources d)"
  shows "LookupSource s' (so_OrganizationID src) (so_Route src) =
    Some (resolved (ce_reg (bu_env b)) (ce_treg (bu_env b)) (served_org (bu_env b) d (so_OrganizationID src))
           (served_source (bu_env b) d src))"
proof -
  let ?e = "bu_env b" and ?o = "so_OrganizationID src" and ?r = "so_Route src"
  let ?P = "\<lambda>(org, s). (org_ID org, sc_Route s) = (?o, ?r)"
  have ok: "db_ok d" using assms(1) by (simp add: sound_def)
  from loaded_fromD [OF assms(1,2)] obtain snap where s': "s' = Some snap"
    and ap: "apply_orgs (ce_reg ?e) (ce_treg ?e) (served_orgs ?e d)
        \<lparr>sn_Version = ws_Version (served_config b d), sn_apiKeys = [], sn_sources = [], sn_alerts = []\<rparr> = Inr snap"
    by blast
  have "?o \<in> org_ids d" using db_okD(1) [OF ok] assms(3) by (auto simp: rows_ok_def)
  then have mem: "(served_org ?e d ?o, served_source ?e d src) \<in> set (config_sources (served_orgs ?e d))"
    using assms(3) by (auto simp: set_config_sources mem_served_orgs served_org_def rows_of_def)
  have "find ?P (rev (config_sources (served_orgs ?e d))) \<noteq> None"
  proof
    assume "find ?P (rev (config_sources (served_orgs ?e d))) = None"
    then have "\<not> ?P (served_org ?e d ?o, served_source ?e d src)"
      using mem unfolding find_None_iff set_rev by blast
    then show False by simp
  qed
  then obtain org s where f: "find ?P (rev (config_sources (served_orgs ?e d))) = Some (org, s)" by auto
  from find_SomeD [OF f] have "org \<in> set (served_orgs ?e d)" "s \<in> set (org_Sources org)" "org_ID org = ?o" "sc_Route s = ?r"
    by (auto simp: set_config_sources)
  then obtain row where org: "org = served_org ?e d ?o" and row: "row \<in> set (sources d)" "so_OrganizationID row = ?o"
      "s = served_source ?e d row" "so_Route row = ?r"
    by (auto simp: mem_served_orgs served_org_def rows_of_def)
  with db_okD(6) [OF ok] assms(3) have "row = src" by (auto simp: distinct_map inj_on_def)
  with org row f apply_orgs_lookup(1) [OF ap, of "(?o, ?r)"] show ?thesis by (simp add: LookupSource_def s')
qed

lemma loaded_lookup_None:
  assumes "sound b d" and "loaded_from b d s'"
    and "\<not> (\<exists>src \<in> set (sources d). so_OrganizationID src = o' \<and> so_Route src = route)"
  shows "LookupSource s' o' route = None"
proof -
  let ?e = "bu_env b"
  from loaded_fromD [OF assms(1,2)] obtain snap where s': "s' = Some snap"
    and ap: "apply_orgs (ce_reg ?e) (ce_treg ?e) (served_orgs ?e d)
        \<lparr>sn_Version = ws_Version (served_config b d), sn_apiKeys = [], sn_sources = [], sn_alerts = []\<rparr> = Inr snap"
    by blast
  have "find (\<lambda>(org, s). (org_ID org, sc_Route s) = (o', route)) (rev (config_sources (served_orgs ?e d))) = None"
    using assms(3) by (fastforce simp: find_None_iff set_config_sources mem_served_orgs served_org_def rows_of_def)
  with apply_orgs_lookup(1) [OF ap, of "(o', route)"] show ?thesis by (simp add: LookupSource_def s')
qed

text \<open>The keys of a loaded store.\<close>

lemma m_get_functional:
  "(\<And>v1 v2. (h, v1) \<in> set kvs \<Longrightarrow> (h, v2) \<in> set kvs \<Longrightarrow> v1 = v2) \<Longrightarrow> m_get kvs h = Some v \<longleftrightarrow> (h, v) \<in> set kvs"
  by (metis map_of_SomeD weak_map_of_SomeI)

lemma fold_set_pairs:
  "fold (\<lambda>(k, v) m. m_set k v m) (map (\<lambda>(a, b). (f a b, g a b)) xs) m = fold (\<lambda>(a, b) m. m_set (f a b) (g a b) m) xs m"
  by (induction xs arbitrary: m) auto

definition key_entries :: "db \<Rightarrow> (string \<times> auth_info) set" where
  "key_entries d = (\<lambda>k. (ky_KeyHash k, auth_of (ky_OrganizationID k) (key_config k)))
     ` {k \<in> set (api_keys d). ky_RevokedAt k = None}"

lemma loaded_keys:
  assumes "sound b d" and "loaded_from b d s'"
  shows "LookupAPIKey sha s' raw = Some info \<longleftrightarrow> (sha raw, info) \<in> key_entries d"
proof -
  let ?e = "bu_env b"
  have ok: "db_ok d" using assms(1) by (simp add: sound_def)
  from loaded_fromD [OF assms] obtain snap where s': "s' = Some snap"
    and ap: "apply_orgs (ce_reg ?e) (ce_treg ?e) (served_orgs ?e d)
        \<lparr>sn_Version = ws_Version (served_config b d), sn_apiKeys = [], sn_sources = [], sn_alerts = []\<rparr> = Inr snap"
    by blast
  let ?pairs = "concat (map (\<lambda>org. map (Pair org) (org_APIKeys org)) (served_orgs ?e d))"
  let ?kvs = "map (\<lambda>(org, k). (ak_KeyHash k, auth_of (org_ID org) k)) ?pairs"
  have "sn_apiKeys snap = fold (\<lambda>(k, v) m. m_set k v m) ?kvs []"
    using apply_orgs_tables [OF ap] by (simp add: fold_set_pairs)
  then have get: "m_get (sn_apiKeys snap) h = m_get (rev ?kvs) h" for h
    by (simp add: m_get_fold_set split: option.split)
  have orgs: "ky_OrganizationID k \<in> org_ids d" if "k \<in> set (api_keys d)" for k
    using db_okD(5) [OF ok] that by (auto simp: rows_ok_def)
  have set: "set (rev ?kvs) = key_entries d"
    using orgs by (force simp: key_entries_def mem_served_orgs [THEN eqTrueI] served_orgs_def served_org_def rows_of_def
        key_config_def row_ids_def)
  have "v1 = v2" if "(h, v1) \<in> key_entries d" and "(h, v2) \<in> key_entries d" for h v1 v2
    using that db_okD(12) [OF ok] by (auto simp: key_entries_def distinct_map inj_on_def)
  then have "m_get (rev ?kvs) (sha raw) = Some info \<longleftrightarrow> (sha raw, info) \<in> set (rev ?kvs)"
    unfolding set [symmetric] by (rule m_get_functional)
  then show ?thesis unfolding set by (simp only: LookupAPIKey_def s' get option.case)
qed

end
