(* ===== verification/Plane_Agreement.thy ===== *)
theory Plane_Agreement
  imports Served_Config
begin

text \<open>
  From the control plane's tables to the data plane's lookups: every reachable database can be
  served and applied, a source resolves to what its tenant configured, both planes accept the same
  API keys, and no tenant's calls influence what the data plane does for another tenant.
\<close>

subsection \<open>The data plane's view of a tenant\<close>

text \<open>The guards and transformers of a source as rows, in the order in which they run.\<close>

definition tenant_guards :: "tenant_rows \<Rightarrow> source_row \<Rightarrow> guardrail_row list" where
  "tenant_guards v s = List.map_filter
     (\<lambda>p. if fst p = so_ID s then find (\<lambda>g. gr_ID g = snd p \<and> gr_Enabled g) (vw_guardrails v) else None)
     (vw_guards_at v)"

definition tenant_chain :: "tenant_rows \<Rightarrow> source_row \<Rightarrow> transformer_row list" where
  "tenant_chain v s = List.map_filter
     (\<lambda>x. find (\<lambda>t. tf_ID t = sx_TransformerID x \<and> tf_Enabled t) (vw_transformers v))
     (sort_key (\<lambda>x. (sx_Position x, sx_TransformerID x)) (filter (\<lambda>x. sx_SourceID x = so_ID s) (vw_chain v)))"

text \<open>What a request on a source is served with, from its tenant's rows alone.\<close>

definition tenant_source :: "cp_env \<Rightarrow> tenant_rows \<Rightarrow> source_row \<Rightarrow> resolved_source" where
  "tenant_source e v s =
     (let runs = (\<lambda>ph g. gr_Phase g = ph \<or> gr_Phase g = ''both'');
          guards = (\<lambda>ph. map (\<lambda>g. mk_guard (ce_reg e) (guardrail_cfg g)) (filter (runs ph) (tenant_guards v s)));
          chain = (\<lambda>ph. map (\<lambda>t. mk_transformer (ce_treg e) (transformer_cfg t))
                           (filter (\<lambda>t. tf_Phase t = ph) (tenant_chain v s)))
      in \<lparr>rs_ID = so_ID s, rs_OrgID = so_OrganizationID s, rs_Route = so_Route s, rs_Enabled = so_Enabled s,
          rs_LLMModel = so_LlmModel s,
          rs_LLMAPIKey = projr (Decrypt (ce_gcm e) (so_LlmApiKeyEnc s) (ce_encKey e)),
          rs_LLMBaseURL = so_LlmBaseUrl s,
          rs_InputPassCriteria = so_InputPassCriteria s, rs_InputPassThreshold = so_InputPassThreshold s,
          rs_OutputPassCriteria = so_OutputPassCriteria s, rs_OutputPassThreshold = so_OutputPassThreshold s,
          rs_InputGuards = guards ''input'', rs_OutputGuards = guards ''output'',
          rs_InputTransformers = chain ''input'', rs_OutputTransformers = chain ''output''\<rparr>)"

lemma find_unique:
  assumes "distinct (map idf rows)"
  shows "find (\<lambda>r. idf r = i \<and> Q r) rows = Some r \<longleftrightarrow> r \<in> set rows \<and> idf r = i \<and> Q r"
  using assms by (induction rows) force+

lemma option_eqI: "(\<And>x. a = Some x \<longleftrightarrow> b = Some x) \<Longrightarrow> a = b"
  by (cases a; cases b) auto

text \<open>Looking up an id among the served guardrails is looking for the row.\<close>

lemma byID_rows:
  assumes "distinct (map idf rows)" and "\<And>r. cid (cfg r) = idf r"
  shows "m_get (m_of_entries (map (\<lambda>c. (cid c, c)) (map cfg (sort_key idf (filter Q rows))))) i =
    map_option cfg (find (\<lambda>r. idf r = i \<and> Q r) rows)"
proof -
  let ?rows = "sort_key idf (filter Q rows)"
  have m: "map (\<lambda>c. (cid c, c)) (map cfg ?rows) = map (\<lambda>r. (idf r, cfg r)) ?rows" by (simp add: comp_def assms(2))
  have d: "distinct (map fst (map (\<lambda>r. (idf r, cfg r)) ?rows))"
    using assms(1) by (simp add: comp_def distinct_map inj_on_def)
  have e: "m_get (m_of_entries (map (\<lambda>c. (cid c, c)) (map cfg ?rows))) i = m_get (map (\<lambda>r. (idf r, cfg r)) ?rows) i"
    unfolding m by (simp only: m_of_entries_distinct [OF d])
  have "m_get (map (\<lambda>r. (idf r, cfg r)) ?rows) i = Some c \<longleftrightarrow> map_option cfg (find (\<lambda>r. idf r = i \<and> Q r) rows) = Some c" for c
  proof -
    have "m_get (map (\<lambda>r. (idf r, cfg r)) ?rows) i = Some c \<longleftrightarrow> (i, c) \<in> set (map (\<lambda>r. (idf r, cfg r)) ?rows)"
      by (rule map_of_eq_Some_iff [OF d])
    also have "\<dots> \<longleftrightarrow> (\<exists>r. find (\<lambda>r. idf r = i \<and> Q r) rows = Some r \<and> cfg r = c)"
      by (auto simp: find_unique [OF assms(1)])
    finally show ?thesis by (simp only: map_option_eq_Some)
  qed
  then show ?thesis unfolding e by (rule option_eqI)
qed

lemma map_filter_own:
  assumes "\<And>x. \<not> Q x \<Longrightarrow> f x = None"
  shows "List.map_filter f (filter Q xs) = List.map_filter f xs"
  using assms by (induction xs) (auto simp: map_filter_simps split: option.split)

lemma map_filter_map_option: "List.map_filter (\<lambda>x. map_option h (f x)) xs = map h (List.map_filter f xs)"
  by (induction xs) (auto simp: map_filter_simps split: option.splits)

lemma map_filter_map: "List.map_filter f (map g xs) = List.map_filter (\<lambda>x. f (g x)) xs"
  by (induction xs) (auto simp: map_filter_simps split: option.split)

lemma map_filter_if: "List.map_filter (\<lambda>x. if Q x then f x else None) xs = List.map_filter f (filter Q xs)"
  by (induction xs) (auto simp: map_filter_simps split: option.split)

lemma attached_guards_rows:
  assumes "db_ok d" and "s \<in> set (sources d)" and "so_OrganizationID s = o'"
  shows "attached_guards (served_org e d o') (served_source e d s) = map guardrail_cfg (tenant_guards (tenant_view o' d) s)"
proof -
  let ?gs = "rows_of gr_OrganizationID o' (guardrails d)" and ?ss = "rows_of so_OrganizationID o' (sources d)"
  let ?find = "\<lambda>i. find (\<lambda>g. gr_ID g = i \<and> gr_Enabled g) ?gs"
  have dist: "distinct (map gr_ID ?gs)"
    using db_okD(8) [OF assms(1)] by (simp add: rows_of_def distinct_map_filter)
  have get: "m_get (guardrailsByID (served_org e d o')) = (\<lambda>i. map_option guardrail_cfg (?find i))"
    unfolding guardrailsByID_def served_org_def org_config.simps
    by (rule ext, rule byID_rows [OF dist]) (simp add: guardrail_cfg_def)
  have own: "?find (snd p) = None" if "\<not> (fst p \<in> row_ids so_ID ?ss \<and> snd p \<in> row_ids gr_ID ?gs)" "fst p = so_ID s" for p
    using that assms(2,3) by (force simp: find_None_iff row_ids_def rows_of_def)
  have "attached_guards (served_org e d o') (served_source e d s)
      = map guardrail_cfg (List.map_filter (\<lambda>p. if fst p = so_ID s then ?find (snd p) else None) (source_guardrails d))"
    by (simp add: attached_guards_def get served_source_def source_cfg_def map_filter_map map_filter_map_option map_filter_if)
  also have "List.map_filter (\<lambda>p. if fst p = so_ID s then ?find (snd p) else None) (source_guardrails d)
      = tenant_guards (tenant_view o' d) s"
    unfolding tenant_guards_def view_simps own_pairs_def
    by (rule map_filter_own [symmetric]) (use own in auto)
  finally show ?thesis .
qed

lemma attached_transformers_rows:
  assumes "db_ok d" and "s \<in> set (sources d)" and "so_OrganizationID s = o'"
  shows "attached_transformers (served_org e d o') (served_source e d s) = map transformer_cfg (tenant_chain (tenant_view o' d) s)"
proof -
  let ?ts = "rows_of tf_OrganizationID o' (transformers d)" and ?ss = "rows_of so_OrganizationID o' (sources d)"
  let ?find = "\<lambda>i. find (\<lambda>t. tf_ID t = i \<and> tf_Enabled t) ?ts"
  let ?K = "\<lambda>x. (sx_Position x, sx_TransformerID x)"
  let ?Q = "\<lambda>x. sx_SourceID x \<in> row_ids so_ID ?ss \<and> sx_TransformerID x \<in> row_ids tf_ID ?ts"
  let ?S = "\<lambda>x. sx_SourceID x = so_ID s"
  have dist: "distinct (map tf_ID ?ts)"
    using db_okD(9) [OF assms(1)] by (simp add: rows_of_def distinct_map_filter)
  have get: "m_get (transformersByID (served_org e d o')) = (\<lambda>i. map_option transformer_cfg (?find i))"
    unfolding transformersByID_def served_org_def org_config.simps
    by (rule ext, rule byID_rows [OF dist]) (simp add: transformer_cfg_def)
  have s: "so_ID s \<in> row_ids so_ID ?ss" using assms(2,3) by (auto simp: row_ids_def rows_of_def)
  have none: "?find (sx_TransformerID x) = None" if "\<not> sx_TransformerID x \<in> row_ids tf_ID ?ts" for x :: source_transformer_row
    using that by (force simp: find_None_iff row_ids_def)
  have "filter ?S (filter ?Q (source_transformers d))
      = filter (\<lambda>x. sx_TransformerID x \<in> row_ids tf_ID ?ts) (filter ?S (source_transformers d))"
    using s by (auto simp: filter_filter intro!: filter_cong)
  then have "sort_key ?K (filter ?S (filter ?Q (source_transformers d)))
      = filter (\<lambda>x. sx_TransformerID x \<in> row_ids tf_ID ?ts) (sort_key ?K (filter ?S (source_transformers d)))"
    by (simp only: filter_sort)
  then have "tenant_chain (tenant_view o' d) s
      = List.map_filter (\<lambda>x. ?find (sx_TransformerID x)) (sort_key ?K (filter ?S (source_transformers d)))"
    unfolding tenant_chain_def view_simps own_chain_def by (simp only:) (rule map_filter_own, erule none)
  then show ?thesis
    by (simp add: attached_transformers_def get served_source_def source_cfg_def map_filter_map map_filter_map_option)
qed

lemma resolved_tenant:
  assumes "db_ok d" and "s \<in> set (sources d)" and "so_OrganizationID s = o'"
  shows "resolved (ce_reg e) (ce_treg e) (served_org e d o') (served_source e d s) = tenant_source e (tenant_view o' d) s"
  unfolding resolved_def tenant_source_def attached_guards_rows [OF assms] attached_transformers_rows [OF assms]
  by (simp add: empty_resolved_def served_source_def source_cfg_def served_org_def assms(3) in_phase_def
      filter_map comp_def guardrail_cfg_def transformer_cfg_def Let_def)


lemma loaded_tenant_source:
  assumes "sound b d" and "loaded_from b d s'" and "src \<in> set (sources d)"
  shows "LookupSource s' (so_OrganizationID src) (so_Route src) =
    Some (tenant_source (bu_env b) (tenant_view (so_OrganizationID src) d) src)"
  using loaded_lookup [OF assms] resolved_tenant [OF _ assms(3) refl] assms(1) by (simp add: sound_def)

text \<open>Alerts, and what a lookup of one tenant depends on.\<close>

lemma option_nonempty: "(\<And>v. x = Some v \<longleftrightarrow> v = a \<and> v \<noteq> []) \<Longrightarrow> x = (if a = [] then None else Some a)"
  by (cases x) auto

lemma loaded_alerts:
  assumes "sound b d" and "loaded_from b d s'" and "o' \<in> org_ids d"
  shows "AlertWebhooks s' o' = map alert_config (filter al_Enabled (vw_alerts (tenant_view o' d)))"
proof -
  let ?e = "bu_env b"
  from loaded_fromD [OF assms(1,2)] obtain snap where s': "s' = Some snap"
    and ap: "apply_orgs (ce_reg ?e) (ce_treg ?e) (served_orgs ?e d)
        \<lparr>sn_Version = ws_Version (served_config b d), sn_apiKeys = [], sn_sources = [], sn_alerts = []\<rparr> = Inr snap"
    by blast
  let ?al = "\<lambda>i. map alert_config (filter al_Enabled (rows_of al_OrganizationID i (alert_webhooks d)))"
  let ?kvs = "map (\<lambda>org. (org_ID org, org_AlertWebhooks org)) (filter (\<lambda>org. org_AlertWebhooks org \<noteq> []) (served_orgs ?e d))"
  have "fold (\<lambda>(k, v) m. m_set k v m) (map (\<lambda>org. (org_ID org, org_AlertWebhooks org)) xs) m
      = fold (\<lambda>org m. m_set (org_ID org) (org_AlertWebhooks org) m) xs m"
    for xs :: "org_config list" and m :: "(uuid, alert_webhook_config list) gomap"
    by (induction xs arbitrary: m) auto
  with apply_orgs_tables [OF ap] have "sn_alerts snap = fold (\<lambda>(k, v) m. m_set k v m) ?kvs []" by simp
  then have get: "m_get (sn_alerts snap) o' = m_get (rev ?kvs) o'" by (simp add: m_get_fold_set split: option.split)
  have mem: "(o', v) \<in> set (rev ?kvs) \<longleftrightarrow> v = ?al o' \<and> v \<noteq> []" for v
    using assms(3) by (auto simp: mem_served_orgs served_org_def image_iff)
  have "m_get (rev ?kvs) o' = Some v \<longleftrightarrow> (o', v) \<in> set (rev ?kvs)" for v
    by (rule m_get_functional) (simp only: mem)
  then have "m_get (rev ?kvs) o' = (if ?al o' = [] then None else Some (?al o'))"
    unfolding mem by (rule option_nonempty)
  then show ?thesis by (simp add: AlertWebhooks_def s' get view_simps)
qed

lemma view_sources: "vw_sources (tenant_view o' d) = rows_of so_OrganizationID o' (sources d)"
  and view_keys: "vw_keys (tenant_view o' d) = rows_of ky_OrganizationID o' (api_keys d)"
  by (simp_all add: view_simps)

lemma loaded_lookup_view:
  assumes "sound b d1" and "loaded_from b d1 s1" and "sound b d2" and "loaded_from b d2 s2"
    and "tenant_view o' d1 = tenant_view o' d2"
  shows "LookupSource s1 o' route = LookupSource s2 o' route"
proof -
  have rows: "rows_of so_OrganizationID o' (sources d1) = rows_of so_OrganizationID o' (sources d2)"
    using assms(5) by (metis view_sources)
  then have mem: "src \<in> set (sources d1) \<and> so_OrganizationID src = o' \<longleftrightarrow> src \<in> set (sources d2) \<and> so_OrganizationID src = o'" for src
    by (metis (mono_tags, lifting) filter_set mem_Collect_eq rows_of_def set_filter)
  show ?thesis
  proof (cases "\<exists>src \<in> set (sources d1). so_OrganizationID src = o' \<and> so_Route src = route")
    case True
    then obtain src where "src \<in> set (sources d1)" "so_OrganizationID src = o'" "so_Route src = route" by blast
    moreover from this mem have "src \<in> set (sources d2)" by blast
    ultimately show ?thesis
      using loaded_tenant_source [OF assms(1,2), of src] loaded_tenant_source [OF assms(3,4), of src] assms(5) by simp
  next
    case False
    moreover from this mem have "\<not> (\<exists>src \<in> set (sources d2). so_OrganizationID src = o' \<and> so_Route src = route)" by blast
    ultimately show ?thesis
      using loaded_lookup_None [OF assms(1,2)] loaded_lookup_None [OF assms(3,4)] by simp
  qed
qed

lemma key_entries_view:
  "(h, info) \<in> key_entries d \<and> ai_OrgID info = o' \<longleftrightarrow>
   (\<exists>k \<in> set (vw_keys (tenant_view o' d)). ky_RevokedAt k = None \<and> h = ky_KeyHash k \<and> info = auth_of o' (key_config k))"
  by (auto simp: key_entries_def view_keys rows_of_def auth_of_def)


subsection \<open>Serving\<close>

lemma reachable_sound:
  assumes "reachable_db c d" and "same_setup c (bu_env b)" and "no_failures (bu_env b)"
  shows "sound b d"
  using reachable_ok [OF assms(1)] content_ok_setup [OF assms(2)] assms(3) by (simp add: sound_def)

text \<open>
  C4: what tenants configure is what the data plane serves. From every database the services can
  reach, the build succeeds, and a data plane with the same registries can apply the result whatever
  it had before; then every source is found under its organization and route with exactly the stored
  settings, its LLM key decrypted, the enabled guardrails of its own organization that are attached
  to it, each in its phase, and the enabled transformers in the order of their positions.
\<close>

theorem configured_is_served:
  assumes "reachable_db c d" and "same_setup c (bu_env b)" and "no_failures (bu_env b)"
    and "src \<in> set (sources d)"
  shows "case Build b d of
      (d', Inl err) \<Rightarrow> False
    | (d', Inr cfg) \<Rightarrow>
        (case Apply (ce_reg (bu_env b)) (ce_treg (bu_env b)) cfg s of
           (s', Inl err) \<Rightarrow> False
         | (s', Inr u) \<Rightarrow> Version s' = ws_Version cfg
             \<and> LookupSource s' (so_OrganizationID src) (so_Route src)
                 = Some (tenant_source (bu_env b) (tenant_view (so_OrganizationID src) d) src)
             \<and> \<not> is_err (Decrypt (ce_gcm c) (so_LlmApiKeyEnc src) (ce_encKey c)))"
proof -
  have sd: "sound b d" by (rule reachable_sound [OF assms(1-3)])
  then have b: "Build b d = (d\<lparr>statements := statements d + 8\<rparr>, Inr (served_config b d))"
    by (simp add: sound_def Build_ok)
  obtain snap where a: "Apply (ce_reg (bu_env b)) (ce_treg (bu_env b)) (served_config b d) s = (Some snap, Inr ())"
    and o: "apply_orgs (ce_reg (bu_env b)) (ce_treg (bu_env b)) (served_orgs (bu_env b) d)
        \<lparr>sn_Version = ws_Version (served_config b d), sn_apiKeys = [], sn_sources = [], sn_alerts = []\<rparr> = Inr snap"
    using served_applies [of b d s] sd by (auto simp: sound_def)
  have "loaded_from b d (Some snap)" using a b unfolding loaded_from_def by blast
  from loaded_tenant_source [OF sd this assms(4)] have l: "LookupSource (Some snap) (so_OrganizationID src) (so_Route src)
      = Some (tenant_source (bu_env b) (tenant_view (so_OrganizationID src) d) src)" .
  have "Version (Some snap) = ws_Version (served_config b d)"
    using apply_orgs_lookup(2) [OF o] by (simp add: Version_def)
  moreover have "\<not> is_err (Decrypt (ce_gcm c) (so_LlmApiKeyEnc src) (ce_encKey c))"
    using reachable_ok [OF assms(1)] assms(4) by (simp add: content_ok_def list_all_iff source_row_ok_def)
  ultimately show ?thesis using a b l by simp
qed

definition example_builder :: builder where
  "example_builder = \<lparr>bu_env = example_cp, bu_digest = (\<lambda>_. ''v1''), bu_now = ''now''\<rparr>"

lemma example_builder_ok:
  "same_setup example_cp (bu_env example_builder)" "no_failures (bu_env example_builder)"
  by (simp_all add: example_builder_def same_setup_def no_failures_def example_cp_def example_dbenv_def)

definition example_row :: source_row where "example_row = hd (sources example_db)"

lemma example_row_facts:
  "example_row \<in> set (sources example_db)" "so_OrganizationID example_row = ''0''" "so_Route example_row = ''chat''"
  "map gr_ID (tenant_guards (tenant_view ''0'' example_db) example_row) = [''4'']"
  by code_simp+

theorem configured_is_served_witness:
  "case Build example_builder example_db of
      (d', Inl err) \<Rightarrow> False
    | (d', Inr cfg) \<Rightarrow>
        (case Apply (ce_reg (bu_env example_builder)) (ce_treg (bu_env example_builder)) cfg NewStore of
           (s', Inl err) \<Rightarrow> False
         | (s', Inr u) \<Rightarrow> Version s' = ws_Version cfg
             \<and> LookupSource s' ''0'' ''chat''
                 = Some (tenant_source (bu_env example_builder) (tenant_view ''0'' example_db) example_row)
             \<and> \<not> is_err (Decrypt (ce_gcm example_cp) (so_LlmApiKeyEnc example_row) (ce_encKey example_cp)))"
  using configured_is_served [OF example_reachable example_builder_ok example_row_facts(1), of NewStore]
  unfolding example_row_facts(2,3) .

lemma example_loaded: "\<exists>s'. loaded_from example_builder example_db s'"
proof -
  have sd: "sound example_builder example_db"
    by (rule reachable_sound [OF example_reachable example_builder_ok])
  then show ?thesis using served_applies [of example_builder example_db NewStore] Build_ok [of example_builder example_db]
    unfolding loaded_from_def sound_def by blast
qed

subsection \<open>API keys\<close>

text \<open>
  C28: both planes accept the same API keys. On a store loaded from a reachable database the data
  plane accepts a raw key exactly when the control plane's own check accepts it, for the same
  organization; an unknown or revoked key is refused by both.
\<close>

theorem api_keys_agree:
  assumes "reachable_db c d" and "same_setup c (bu_env b)" and "no_failures (bu_env b)"
    and "loaded_from b d s'" and "\<And>n. db_fails (au_db a) n = None"
  shows "snd (ValidateAPIKey a raw d) =
    (case LookupAPIKey (sha256_hex a) s' raw of
       Some info \<Rightarrow> Inr (ai_OrgID info) | None \<Rightarrow> Inl ''invalid API key'')"
proof -
  have sd: "sound b d" by (rule reachable_sound [OF assms(1-3)])
  let ?h = "sha256_hex a raw"
  let ?keys = "filter (\<lambda>r. ky_KeyHash r = ?h \<and> ky_RevokedAt r = None) (api_keys d)"
  note entry = loaded_keys [OF sd assms(4), of "sha256_hex a" raw]
  show ?thesis
  proof (cases ?keys)
    case Nil
    then have "(?h, info) \<notin> key_entries d" for info by (auto simp: key_entries_def filter_empty_conv)
    then have "LookupAPIKey (sha256_hex a) s' raw = None"
      using entry by (cases "LookupAPIKey (sha256_hex a) s' raw") auto
    with Nil show ?thesis
      by (simp add: ValidateAPIKey_def q_bind_def q_replace_err_def GetAPIKeyByHash_def select_one_def run_stmt_def
          assms(5) Let_def)
  next
    case (Cons k ks)
    then have "k \<in> set ?keys" by simp
    then have "LookupAPIKey (sha256_hex a) s' raw = Some (auth_of (ky_OrganizationID k) (key_config k))"
      unfolding entry by (auto simp: key_entries_def intro!: image_eqI [of _ _ k])
    with Cons show ?thesis
      by (simp add: ValidateAPIKey_def q_bind_def q_replace_err_def GetAPIKeyByHash_def select_one_def run_stmt_def
          assms(5) Let_def auth_of_def)
  qed
qed

theorem api_keys_agree_witness:
  "\<exists>s'. loaded_from example_builder example_db s'
      \<and> snd (ValidateAPIKey example_auth ''wrong'' example_db) =
        (case LookupAPIKey (sha256_hex example_auth) s' ''wrong'' of
           Some info \<Rightarrow> Inr (ai_OrgID info) | None \<Rightarrow> Inl ''invalid API key'')"
proof -
  obtain s' where l: "loaded_from example_builder example_db s'" using example_loaded by blast
  have "db_fails (au_db example_auth) n = None" for n by (simp add: example_auth_def example_dbenv_def)
  from api_keys_agree [OF example_reachable example_builder_ok l this] l show ?thesis by blast
qed

text \<open>
  C29: revocation takes effect with the next configuration. Once a key's revocation has succeeded, no
  data plane that has loaded the configuration built afterwards accepts a raw key with that hash,
  for any organization.
\<close>

theorem revoked_key_refused:
  assumes "reachable_db c d" and "same_setup c (bu_env b)" and "no_failures (bu_env b)"
    and "k \<in> set (api_keys d)" and "ky_KeyHash k = sha raw"
    and "AuthService_RevokeAPIKey a (ky_OrganizationID k) (ky_ID k) d = (d', Inr ())"
    and "loaded_from b d' s'"
  shows "LookupAPIKey sha s' raw = None"
proof -
  have d': "d' = fst (AuthService_RevokeAPIKey a (ky_OrganizationID k) (ky_ID k) d)" using assms(6) by simp
  have sd: "sound b d'"
    using reachable_sound [OF assms(1-3)] integrity.keptD [OF integrity_services(20)] content.keptD [OF content_services(12)]
    unfolding sound_def d' by blast
  have ok: "db_ok d" using reachable_ok [OF assms(1)] by blast
  have rows: "api_keys d' = map (\<lambda>r. if ky_ID r = ky_ID k \<and> ky_OrganizationID r = ky_OrganizationID k
      then r\<lparr>ky_RevokedAt := Some (db_now (au_db a) (statements d))\<rparr> else r) (api_keys d)"
    using assms(6) by (auto simp: AuthService_RevokeAPIKey_def db_RevokeAPIKey_def run_stmt_def Let_def split: option.splits)
  have "r = k" if "r \<in> set (api_keys d)" "ky_KeyHash r = ky_KeyHash k" for r
    using that assms(4) db_okD(12) [OF ok] by (auto simp: distinct_map inj_on_def)
  then have "ky_RevokedAt r' \<noteq> None" if "r' \<in> set (api_keys d')" "ky_KeyHash r' = ky_KeyHash k" for r'
    using that unfolding rows by (auto split: if_splits)
  then have "(sha raw, info) \<notin> key_entries d'" for info
    unfolding key_entries_def using assms(5) by fastforce
  then show ?thesis
    using loaded_keys [OF sd assms(7), of sha raw] by (cases "LookupAPIKey sha s' raw") auto
qed


definition example_revoked :: db where
  "example_revoked = fst (AuthService_RevokeAPIKey example_auth ''0'' ''2'' example_db)"

lemma example_revoked_run:
  "AuthService_RevokeAPIKey example_auth ''0'' ''2'' example_db = (example_revoked, Inr ())"
proof -
  have "snd (AuthService_RevokeAPIKey example_auth ''0'' ''2'' example_db) = Inr ()" by code_simp
  then show ?thesis by (simp add: example_revoked_def prod_eq_iff)
qed

lemma sound_loads: "sound b d \<Longrightarrow> \<exists>s'. loaded_from b d s'"
  using served_applies [of b d NewStore] Build_ok [of b d] unfolding loaded_from_def sound_def by blast

lemma example_revoked_reachable: "reachable_db example_cp example_revoked"
  unfolding example_revoked_def by (rule reachable_step [OF example_reachable example_setup cp_step.key_revoke])

theorem revoked_key_refused_witness:
  "\<exists>s'. loaded_from example_builder example_revoked s'
     \<and> LookupAPIKey (sha256_hex example_auth) s' (''shld_'' @ EncodeToString (replicate 32 CHR ''r'')) = None"
proof -
  let ?k = "hd (api_keys example_db)"
  obtain s' where l: "loaded_from example_builder example_revoked s'"
    using sound_loads [OF reachable_sound [OF example_revoked_reachable example_builder_ok]] by blast
  have k: "?k \<in> set (api_keys example_db)" "ky_OrganizationID ?k = ''0''" "ky_ID ?k = ''2''"
    and h: "ky_KeyHash ?k = sha256_hex example_auth (''shld_'' @ EncodeToString (replicate 32 CHR ''r''))"
    by code_simp+
  have "AuthService_RevokeAPIKey example_auth (ky_OrganizationID ?k) (ky_ID ?k) example_db = (example_revoked, Inr ())"
    unfolding k(2,3) by (rule example_revoked_run)
  from revoked_key_refused [where sha = "sha256_hex example_auth"
      and raw = "''shld_'' @ EncodeToString (replicate 32 CHR ''r'')", OF example_reachable example_builder_ok k(1) h this l] l show ?thesis by blast
qed

subsection \<open>Tenants\<close>

text \<open>
  C13: no tenant influences another one's traffic. Whatever call another organization makes, and
  whoever registers, the data plane that loads the next configuration resolves every route of the
  tenant to the same guards, transformers, model, key and criteria as before, accepts exactly the
  same keys for it with the same limits, and alerts the same webhooks; attachments across tenants
  have no effect there.
\<close>

theorem tenants_do_not_interfere:
  assumes "reachable_db c d" and "same_setup c (bu_env b)" and "no_failures (bu_env b)"
    and "same_setup c e" and "crypto_ok e" and "cp_step e a t d d'" and "t \<noteq> Some o'" and "o' \<in> org_ids d"
    and "loaded_from b d s1" and "loaded_from b d' s2"
  shows "LookupSource s2 o' route = LookupSource s1 o' route \<and> AlertWebhooks s2 o' = AlertWebhooks s1 o'
    \<and> (LookupAPIKey sha s2 raw = Some info \<and> ai_OrgID info = o' \<longleftrightarrow>
       LookupAPIKey sha s1 raw = Some info \<and> ai_OrgID info = o')"
proof -
  have sd: "sound b d" by (rule reachable_sound [OF assms(1-3)])
  have r': "reachable_db c d'" by (rule reachable_step [OF assms(1,4-6)])
  have sd': "sound b d'" by (rule reachable_sound [OF r' assms(2,3)])
  have "tenant_keeps o' (tenant_view o' d) d'"
    by (rule cp_step_tenant [OF assms(6,7)]) (use sd assms(8) in \<open>simp add: tenant_keeps_def sound_def\<close>)
  then have v: "tenant_view o' d' = tenant_view o' d" and o': "o' \<in> org_ids d'" by (simp_all add: tenant_keeps_def)
  have "LookupSource s2 o' route = LookupSource s1 o' route"
    by (rule loaded_lookup_view [OF sd' assms(10) sd assms(9) v])
  moreover have "AlertWebhooks s2 o' = AlertWebhooks s1 o'"
    using loaded_alerts [OF sd assms(9,8)] loaded_alerts [OF sd' assms(10) o'] v by simp
  moreover have "LookupAPIKey sha s2 raw = Some info \<and> ai_OrgID info = o' \<longleftrightarrow>
      LookupAPIKey sha s1 raw = Some info \<and> ai_OrgID info = o'"
    unfolding loaded_keys [OF sd assms(9)] loaded_keys [OF sd' assms(10)] key_entries_view v ..
  ultimately show ?thesis by blast
qed

text \<open>The second organization attaches nothing to the first one's source that would run there.\<close>

theorem tenants_do_not_interfere_witness:
  "\<exists>s1 s2. loaded_from example_builder example_db s1
     \<and> loaded_from example_builder (fst (SourceService_Delete example_cp ''7'' ''3'' example_db)) s2
     \<and> LookupSource s2 ''0'' ''chat'' = LookupSource s1 ''0'' ''chat''"
proof -
  let ?d = "fst (SourceService_Delete example_cp ''7'' ''3'' example_db)"
  have st: "cp_step example_cp example_auth (Some ''7'') example_db ?d" by (rule cp_step.source_delete)
  have o': "''0'' \<in> org_ids example_db"
    using example_rows(1) by (metis row_ids_def image_set list.set_intros(1))
  obtain s1 where s1: "loaded_from example_builder example_db s1" using example_loaded by blast
  obtain s2 where s2: "loaded_from example_builder ?d s2"
    using sound_loads [OF reachable_sound [OF reachable_step [OF example_reachable example_setup st] example_builder_ok]]
    by blast
  have "Some ''7'' \<noteq> Some ''0''" by simp
  from tenants_do_not_interfere [OF example_reachable example_builder_ok example_setup st this o' s1 s2, of "''chat''"]
  show ?thesis using s1 s2 by blast
qed

end
