(* ===== verification/Alert_Notifier.thy ===== *)
theory Alert_Notifier
  imports Backend_Config
begin

text \<open>
  \<open>internal/dataplane/alert/notifier.go\<close>: rejection events and their delivery to an
  organization's alert webhooks under a per-webhook rate cap. The token-bucket limiter is a library
  (\<open>golang.org/x/time/rate\<close>), given by \<open>limiter_lib\<close>.
\<close>

record failed_guard =
  fg_Name :: string
  fg_Type :: string
  fg_Message :: string

record alert_event =
  ev_OrganizationID :: uuid
  ev_SourceRoute :: string
  ev_Phase :: string
  ev_RequestID :: string
  ev_FailedGuards :: "failed_guard list"
  ev_Timestamp :: string

subsection \<open>Payloads\<close>

definition bullet :: string where
  "bullet = [CHR 0x0A, CHR 0xE2, CHR 0x80, CHR 0xA2]"

definition slackText :: "alert_event \<Rightarrow> string" where
  "slackText ev =
     '':no_entry: Sheeld rejected a request on source `'' @ ev_SourceRoute ev @ ''` ('' @ ev_Phase ev @ '' phase)''
     @ concat (map (\<lambda>g. bullet @ '' *'' @ fg_Name g @ ''* ('' @ fg_Type g @ ''): '' @ fg_Message g)
                 (ev_FailedGuards ev))
     @ (if ev_RequestID ev \<noteq> [] then [CHR 0x0A] @ ''request_id: `'' @ ev_RequestID ev @ ''`'' else [])"

definition failed_guard_json :: "failed_guard \<Rightarrow> json" where
  "failed_guard_json g =
     JObj [(''name'', JStr (fg_Name g)), (''type'', JStr (fg_Type g)), (''message'', JStr (fg_Message g))]"

text \<open>A nil slice of failed guards is printed as \<open>null\<close>.\<close>

definition event_members :: "alert_event \<Rightarrow> (string \<times> json) list" where
  "event_members ev =
     [(''organization_id'', JStr (ev_OrganizationID ev)), (''source_route'', JStr (ev_SourceRoute ev)),
      (''phase'', JStr (ev_Phase ev))]
     @ (if ev_RequestID ev \<noteq> [] then [(''request_id'', JStr (ev_RequestID ev))] else [])
     @ [(''failed_guards'', if ev_FailedGuards ev = [] then JNull
                            else JArr (map failed_guard_json (ev_FailedGuards ev))),
        (''timestamp'', JStr (ev_Timestamp ev))]"

definition marshalPayload :: "string \<Rightarrow> alert_event \<Rightarrow> json" where
  "marshalPayload format ev =
     (if format = ''slack'' then JObj [(''text'', JStr (slackText ev))]
      else JObj ((''type'', JStr ''guard_rejection'') # event_members ev))"

subsection \<open>Delivery\<close>

text \<open>The outcome label that the metric of sent alerts counts.\<close>

definition deliver :: "network \<Rightarrow> string \<Rightarrow> string \<Rightarrow> alert_event \<Rightarrow> string" where
  "deliver net url format ev =
     (case net (post_request url [] (marshalPayload format ev)) of
        Build_error _ \<Rightarrow> ''error''
      | Do_error _ \<Rightarrow> ''error''
      | Response status _ \<Rightarrow> if status \<ge> 300 then ''error'' else ''sent'')"

record 'l limiter_lib =
  NewLimiter :: "rat \<Rightarrow> int \<Rightarrow> 'l"
  Allow :: "'l \<Rightarrow> bool \<times> 'l"

definition alertsPerSecond :: rat where "alertsPerSecond = 1 / 10"
definition alertBurst :: int where "alertBurst = 3"

text \<open>\<open>allow\<close>: the map of limiters, keyed by webhook id, is the notifier's state.\<close>

definition allow :: "'l limiter_lib \<Rightarrow> uuid \<Rightarrow> (uuid, 'l) gomap \<Rightarrow> bool \<times> (uuid, 'l) gomap" where
  "allow rl wid m =
     (let l = (case m_get m wid of Some l \<Rightarrow> l | None \<Rightarrow> NewLimiter rl alertsPerSecond alertBurst)
      in case Allow rl l of (ok, l') \<Rightarrow> (ok, m_set wid l' m))"

text \<open>
  \<open>Notify\<close>: the goroutines that deliver are listed with their URL, format and event; what they
  count is \<open>deliver\<close>. The other component counts suppressed alerts.
\<close>

fun notify_each ::
    "'l limiter_lib \<Rightarrow> alert_event \<Rightarrow> alert_webhook_config list \<Rightarrow> (uuid, 'l) gomap
     \<Rightarrow> (string \<times> string \<times> alert_event) list \<times> nat \<times> (uuid, 'l) gomap" where
  "notify_each rl ev [] m = ([], 0, m)"
| "notify_each rl ev (wh # whs) m =
     (case allow rl (aw_ID wh) m of
        (ok, m1) \<Rightarrow>
          (case notify_each rl ev whs m1 of
             (sent, suppressed, m2) \<Rightarrow>
               if ok then ((aw_URL wh, aw_PayloadFormat wh, ev) # sent, suppressed, m2)
               else (sent, suppressed + 1, m2)))"

definition Notify ::
    "'l limiter_lib \<Rightarrow> (string \<Rightarrow> string) \<Rightarrow> store \<Rightarrow> alert_event \<Rightarrow> (uuid, 'l) gomap
     \<Rightarrow> (string \<times> string \<times> alert_event) list \<times> nat \<times> (uuid, 'l) gomap" where
  "Notify rl utc s ev m =
     (let webhooks = AlertWebhooks s (ev_OrganizationID ev) in
      if length webhooks = 0 then ([], 0, m)
      else notify_each rl (ev\<lparr>ev_Timestamp := utc (ev_Timestamp ev)\<rparr>) webhooks m)"

text \<open>Every webhook is either notified or counted as suppressed.\<close>

lemma notify_each_accounts:
  "notify_each rl ev whs m = (sent, suppressed, m') \<Longrightarrow> length sent + suppressed = length whs
     \<and> set sent \<subseteq> (\<lambda>wh. (aw_URL wh, aw_PayloadFormat wh, ev)) ` set whs"
proof (induction whs arbitrary: m sent suppressed m')
  case (Cons wh whs)
  obtain ok m1 where a: "allow rl (aw_ID wh) m = (ok, m1)" by fastforce
  obtain s n m2 where r: "notify_each rl ev whs m1 = (s, n, m2)" by (metis prod_cases3)
  from Cons.IH [OF r] Cons.prems show ?case by (auto simp: a r split: if_splits)
qed simp

end
