(* ===== verification/Processor.thy ===== *)
theory Processor
  imports Alert_Notifier Llm_Client
begin

text \<open>
  \<open>internal/dataplane/processor/processor.go\<close>: the stages of a proxied request, input
  transformers, input guards, model call, output transformers and output guards, with what is
  recorded in the audit log, alerted and counted.
\<close>

record proc_result =
  pr_Status :: string
  pr_Phase :: string
  pr_LLMResponse :: "chat_response option"
  pr_GuardResults :: "(string, engine_result) gomap"
  pr_Transforms :: "chain_result option"
  pr_OutputTransforms :: "chain_result option"
  pr_LatencyMs :: int

text \<open>The arguments of \<open>AuditSink.Record\<close>.\<close>

record audit_record =
  au_OrgID :: uuid
  au_SourceID :: uuid
  au_InputText :: string
  au_GuardResults :: "(string, engine_result) gomap"
  au_Transforms :: "chain_result option"
  au_OutputTransforms :: "chain_result option"
  au_OverallResult :: string
  au_LatencyMs :: int
  au_Usage :: "usage option"
  au_Model :: string

record processor =
  p_store :: store
  p_client :: client
  p_has_audit :: bool
  p_has_alerts :: bool

text \<open>
  What one execution meets: the library, the network of the transformers, the guard executions of
  the two phases, the attempts of the model call, the clock readings, and the request's id and time.
\<close>

record exec_env =
  xe_lib :: go_lib
  xe_world :: world
  xe_dur :: "nat \<Rightarrow> int"
  xe_elapsed :: "string \<Rightarrow> int"  \<comment> \<open>per stage\<close>
  xe_calls :: "string \<Rightarrow> nat \<Rightarrow> guard_call"  \<comment> \<open>per phase and guard\<close>
  xe_llm :: "nat \<Rightarrow> attempt_env"
  xe_requestID :: string
  xe_now :: string

text \<open>
  The outcome: the result or error returned, the calls of the audit and alert sinks, the label of
  the request metric, and the request sent to the model with what became of it.
\<close>

record exec_outcome =
  xo_result :: "proc_result res"
  xo_audit :: "audit_record list"
  xo_alerts :: "alert_event list"
  xo_metric :: "string \<times> string"
  xo_llm :: "(chat_request \<times> llm_outcome) option"

subsection \<open>Stages\<close>

definition input_eval :: "resolved_source \<Rightarrow> eval_config" where
  "input_eval src = \<lparr>Criteria = rs_InputPassCriteria src,
     Threshold = (case rs_InputPassThreshold src of None \<Rightarrow> 0 | Some n \<Rightarrow> n)\<rparr>"

definition output_eval :: "resolved_source \<Rightarrow> eval_config" where
  "output_eval src = \<lparr>Criteria = rs_OutputPassCriteria src,
     Threshold = (case rs_OutputPassThreshold src of None \<Rightarrow> 0 | Some n \<Rightarrow> n)\<rparr>"

definition phase_meta :: "string \<Rightarrow> resolved_source \<Rightarrow> string \<Rightarrow> call_meta" where
  "phase_meta ph src msgs = \<lparr>Phase = ph, SourceRoute = rs_Route src, AllMessagesText = msgs\<rparr>"

text \<open>The transformer chain of a phase; without transformers nothing runs and nothing is recorded.\<close>

definition transform_stage ::
    "exec_env \<Rightarrow> string \<Rightarrow> resolved_source \<Rightarrow> transformer list \<Rightarrow> tctx \<Rightarrow> message list
     \<Rightarrow> tctx \<times> message list res \<times> chain_result option" where
  "transform_stage env ph src ts ctx msgs =
     (if length ts > 0
      then (case ApplyAll (xe_lib env) (xe_world env) (xe_dur env) (xe_elapsed env (ph @ '' transformers'')) ts
                   (ctx\<lparr>tc_meta := Some (phase_meta ph src [])\<rparr>) msgs of
              (ctx', r, chain) \<Rightarrow> (ctx'\<lparr>tc_meta := tc_meta ctx\<rparr>, r, Some chain))
      else (ctx, Inr msgs, None))"

definition guard_stage ::
    "exec_env \<Rightarrow> string \<Rightarrow> resolved_source \<Rightarrow> guard list \<Rightarrow> string \<Rightarrow> string \<Rightarrow> eval_config \<Rightarrow> engine_result" where
  "guard_stage env ph src guards allText input cfg =
     Engine_Run (xe_lib env) (xe_calls env ph) (xe_elapsed env (ph @ '' guards''))
       (Some (phase_meta ph src allText)) guards input cfg"

text \<open>\<open>alert\<close> and \<open>record\<close>.\<close>

definition alert :: "processor \<Rightarrow> exec_env \<Rightarrow> uuid \<Rightarrow> string \<Rightarrow> string \<Rightarrow> engine_result \<Rightarrow> alert_event list" where
  "alert p env orgID route ph res =
     (if p_has_alerts p
      then [\<lparr>ev_OrganizationID = orgID, ev_SourceRoute = route, ev_Phase = ph, ev_RequestID = xe_requestID env,
             ev_FailedGuards = map (\<lambda>r. \<lparr>fg_Name = GuardName r, fg_Type = GuardType r, fg_Message = ResMessage r\<rparr>)
                (filter (\<lambda>r. \<not> Passed r \<and> \<not> Shadow r) (er_Results res)),
             ev_Timestamp = xe_now env\<rparr>]
      else [])"

definition audit :: "processor \<Rightarrow> resolved_source \<Rightarrow> uuid \<Rightarrow> string \<Rightarrow> (string, engine_result) gomap
    \<Rightarrow> chain_result option \<Rightarrow> chain_result option \<Rightarrow> string \<Rightarrow> int \<Rightarrow> usage option \<Rightarrow> string \<Rightarrow> audit_record list" where
  "audit p src orgID inputText guardResults ts ots overall latency us model =
     (if p_has_audit p
      then [\<lparr>au_OrgID = orgID, au_SourceID = rs_ID src, au_InputText = inputText, au_GuardResults = guardResults,
             au_Transforms = ts, au_OutputTransforms = ots, au_OverallResult = overall, au_LatencyMs = latency,
             au_Usage = us, au_Model = model\<rparr>]
      else [])"

definition failed :: "go_error \<Rightarrow> (chat_request \<times> llm_outcome) option \<Rightarrow> exec_outcome" where
  "failed e llm = \<lparr>xo_result = Inl e, xo_audit = [], xo_alerts = [], xo_metric = (''error'', []), xo_llm = llm\<rparr>"

definition set_messages :: "choice list \<Rightarrow> message list \<Rightarrow> choice list" where
  "set_messages cs ms = map (\<lambda>(c, m). c\<lparr>Message := m\<rparr>) (zip cs ms)"

text \<open>The output transformers see the messages of all choices and must keep their number.\<close>

definition output_transforms ::
    "exec_env \<Rightarrow> resolved_source \<Rightarrow> tctx \<Rightarrow> chat_response \<Rightarrow> (chat_response \<times> chain_result option) res" where
  "output_transforms env src ctx resp0 =
     (if length (rs_OutputTransformers src) > 0 \<and> length (Choices resp0) > 0
      then (case transform_stage env ''output'' src (rs_OutputTransformers src) ctx (map Message (Choices resp0)) of
              (_, Inl e, chain) \<Rightarrow> Inl (''running output transformers: '' @ e)
            | (_, Inr transformed, chain) \<Rightarrow>
                if length transformed \<noteq> length (Choices resp0)
                then Inl (''output transformers changed message count: '' @ int_text (int (length transformed))
                          @ '' != '' @ int_text (int (length (Choices resp0))))
                else Inr (resp0\<lparr>Choices := set_messages (Choices resp0) transformed\<rparr>, chain))
      else Inr (resp0, None))"

text \<open>After the model's answer: output transformers and guards.\<close>

definition execute_output ::
    "processor \<Rightarrow> exec_env \<Rightarrow> uuid \<Rightarrow> resolved_source \<Rightarrow> string \<Rightarrow> (string, engine_result) gomap
     \<Rightarrow> chain_result option \<Rightarrow> tctx \<Rightarrow> (chat_request \<times> llm_outcome) \<Rightarrow> chat_response \<Rightarrow> exec_outcome" where
  "execute_output p env orgID src inputText guardResults ts ctx llm resp0 =
     (case output_transforms env src ctx resp0 of
        Inl e \<Rightarrow> failed e (Some llm)
      | Inr (resp, ots) \<Rightarrow>
          (let latency = xe_elapsed env ''request'';
               usage' = Some (Usage resp);
               outres = guard_stage env ''output'' src (rs_OutputGuards src) [] (ExtractOutputText resp) (output_eval src);
               guarded = (length (rs_OutputGuards src) > 0);
               results = (if guarded then m_set ''output'' outres guardResults else guardResults)
           in if guarded \<and> \<not> er_Passed outres
              then \<lparr>xo_result = Inr \<lparr>pr_Status = ''rejected'', pr_Phase = ''output'', pr_LLMResponse = None,
                      pr_GuardResults = results, pr_Transforms = ts, pr_OutputTransforms = ots, pr_LatencyMs = latency\<rparr>,
                    xo_audit = audit p src orgID inputText results ts ots ''fail'' latency usage' (resp_Model resp),
                    xo_alerts = alert p env orgID (rs_Route src) ''output'' outres,
                    xo_metric = (''rejected'', ''output''), xo_llm = Some llm\<rparr>
              else \<lparr>xo_result = Inr \<lparr>pr_Status = ''pass'', pr_Phase = [], pr_LLMResponse = Some resp,
                      pr_GuardResults = results, pr_Transforms = ts, pr_OutputTransforms = ots, pr_LatencyMs = latency\<rparr>,
                    xo_audit = audit p src orgID inputText results ts ots ''pass'' latency usage' (resp_Model resp),
                    xo_alerts = [], xo_metric = (''pass'', []), xo_llm = Some llm\<rparr>))"

text \<open>
  \<open>Execute\<close>. \<open>Engine.Run\<close> never returns an error, so the branches for it do not appear; the
  context of the transformers carries fresh state.
\<close>

definition Execute :: "processor \<Rightarrow> exec_env \<Rightarrow> uuid \<Rightarrow> string \<Rightarrow> chat_request \<Rightarrow> exec_outcome" where
  "Execute p env orgID sourceRoute req0 =
     (case LookupSource (p_store p) orgID sourceRoute of
        None \<Rightarrow> failed (''source not found: '' @ go_quote sourceRoute) None
      | Some src \<Rightarrow>
          if \<not> rs_Enabled src then failed (''source '' @ go_quote sourceRoute @ '' is disabled'') None
          else case transform_stage env ''input'' src (rs_InputTransformers src)
                  (WithState \<lparr>tc_meta = None, tc_state = None, tc_calls = 0\<rparr>) (Messages req0) of
            (_, Inl e, _) \<Rightarrow> failed (''running transformers: '' @ e) None
          | (ctx, Inr msgs, ts) \<Rightarrow>
              (let req1 = req0\<lparr>Messages := msgs\<rparr>;
                   inputText = ExtractInputText req1;
                   latency = xe_elapsed env ''request'';
                   inres = guard_stage env ''input'' src (rs_InputGuards src) (SerializeMessages msgs) inputText (input_eval src);
                   guarded = (length (rs_InputGuards src) > 0);
                   results = (if guarded then [(''input'', inres)] else [])
               in if guarded \<and> \<not> er_Passed inres
                  then \<lparr>xo_result = Inr \<lparr>pr_Status = ''rejected'', pr_Phase = ''input'', pr_LLMResponse = None,
                          pr_GuardResults = results, pr_Transforms = ts, pr_OutputTransforms = None, pr_LatencyMs = latency\<rparr>,
                        xo_audit = audit p src orgID inputText results ts None ''fail'' latency None [],
                        xo_alerts = alert p env orgID (rs_Route src) ''input'' inres,
                        xo_metric = (''rejected'', ''input''), xo_llm = None\<rparr>
                  else (let req2 = req1\<lparr>req_Model := rs_LLMModel src\<rparr>;
                            call = ChatCompletionAt (p_client p) (xe_llm env) (rs_LLMBaseURL src) (rs_LLMAPIKey src) req2
                        in case lo_result call of
                             Inl e \<Rightarrow> failed (''LLM call failed: '' @ e) (Some (req2, call))
                           | Inr resp \<Rightarrow> execute_output p env orgID src inputText results ts ctx (req2, call) resp)))"

subsection \<open>Properties of an execution\<close>

text \<open>The cases of an execution.\<close>

definition in_result :: "exec_env \<Rightarrow> resolved_source \<Rightarrow> chat_request \<Rightarrow> engine_result" where
  "in_result env src req =
     guard_stage env ''input'' src (rs_InputGuards src) (SerializeMessages (Messages req)) (ExtractInputText req) (input_eval src)"

definition out_result :: "exec_env \<Rightarrow> resolved_source \<Rightarrow> chat_response \<Rightarrow> engine_result" where
  "out_result env src resp =
     guard_stage env ''output'' src (rs_OutputGuards src) [] (ExtractOutputText resp) (output_eval src)"

lemma execute_output_cases:
  obtains (error) e where "execute_output p env orgID src inText gr ts ctx llm resp0 = failed e (Some llm)"
  | (rejected) results ots latency resp where
      "rs_OutputGuards src \<noteq> []" and "\<not> er_Passed (out_result env src resp)"
      and "execute_output p env orgID src inText gr ts ctx llm resp0 =
        \<lparr>xo_result = Inr \<lparr>pr_Status = ''rejected'', pr_Phase = ''output'', pr_LLMResponse = None,
                      pr_GuardResults = results, pr_Transforms = ts, pr_OutputTransforms = ots, pr_LatencyMs = latency\<rparr>,
         xo_audit = audit p src orgID inText results ts ots ''fail'' latency (Some (Usage resp)) (resp_Model resp),
         xo_alerts = alert p env orgID (rs_Route src) ''output'' (out_result env src resp),
         xo_metric = (''rejected'', ''output''), xo_llm = Some llm\<rparr>"
  | (passed) results ots latency resp where
      "rs_OutputGuards src \<noteq> [] \<longrightarrow> er_Passed (out_result env src resp)"
      and "execute_output p env orgID src inText gr ts ctx llm resp0 =
        \<lparr>xo_result = Inr \<lparr>pr_Status = ''pass'', pr_Phase = [], pr_LLMResponse = Some resp,
                      pr_GuardResults = results, pr_Transforms = ts, pr_OutputTransforms = ots, pr_LatencyMs = latency\<rparr>,
         xo_audit = audit p src orgID inText results ts ots ''pass'' latency (Some (Usage resp)) (resp_Model resp),
         xo_alerts = [], xo_metric = (''pass'', []), xo_llm = Some llm\<rparr>"
proof -
  show thesis
  proof (cases "output_transforms env src ctx resp0")
    case (Inl e)
    with error show ?thesis by (simp add: execute_output_def)
  next
    case (Inr ro)
    obtain resp ots where ro: "ro = (resp, ots)" by fastforce
    show ?thesis
    proof (cases "rs_OutputGuards src \<noteq> [] \<and> \<not> er_Passed (out_result env src resp)")
      case True
      show ?thesis
        by (rule rejected [of resp "m_set ''output'' (out_result env src resp) gr" ots "xe_elapsed env ''request''"])
          (use True in \<open>simp_all add: execute_output_def Inr ro Let_def out_result_def\<close>)
    next
      case False
      show ?thesis
        by (rule passed [of resp "if rs_OutputGuards src \<noteq> [] then m_set ''output'' (out_result env src resp) gr else gr"
              ots "xe_elapsed env ''request''"])
          (use False in \<open>auto simp: execute_output_def Inr ro Let_def out_result_def\<close>)
    qed
  qed
qed

lemma Execute_cases:
  obtains (error) e llm where "Execute p env orgID route req = failed e llm"
  | (rejected) src msgs ts results latency where
      "LookupSource (p_store p) orgID route = Some src" and "rs_Enabled src" and "rs_InputGuards src \<noteq> []"
      and "\<not> er_Passed (in_result env src (req\<lparr>Messages := msgs\<rparr>))"
      and "Execute p env orgID route req =
        \<lparr>xo_result = Inr \<lparr>pr_Status = ''rejected'', pr_Phase = ''input'', pr_LLMResponse = None,
                          pr_GuardResults = results, pr_Transforms = ts, pr_OutputTransforms = None, pr_LatencyMs = latency\<rparr>,
         xo_audit = audit p src orgID (ExtractInputText (req\<lparr>Messages := msgs\<rparr>)) results ts None ''fail'' latency None [],
         xo_alerts = alert p env orgID (rs_Route src) ''input'' (in_result env src (req\<lparr>Messages := msgs\<rparr>)),
         xo_metric = (''rejected'', ''input''), xo_llm = None\<rparr>"
  | (called) src msgs ts results ctx call resp where
      "LookupSource (p_store p) orgID route = Some src" and "rs_Enabled src"
      and "transform_stage env ''input'' src (rs_InputTransformers src)
                  (WithState \<lparr>tc_meta = None, tc_state = None, tc_calls = 0\<rparr>) (Messages req) = (ctx, Inr msgs, ts)"
      and "rs_InputGuards src \<noteq> [] \<longrightarrow> er_Passed (in_result env src (req\<lparr>Messages := msgs\<rparr>))"
      and "call = ChatCompletionAt (p_client p) (xe_llm env) (rs_LLMBaseURL src) (rs_LLMAPIKey src)
             (req\<lparr>Messages := msgs, req_Model := rs_LLMModel src\<rparr>)" and "lo_result call = Inr resp"
      and "Execute p env orgID route req = execute_output p env orgID src (ExtractInputText (req\<lparr>Messages := msgs\<rparr>))
             results ts ctx (req\<lparr>Messages := msgs, req_Model := rs_LLMModel src\<rparr>, call) resp"
proof (cases "LookupSource (p_store p) orgID route")
  case None
  with error show ?thesis by (simp add: Execute_def)
next
  case src: (Some src)
  show ?thesis
  proof (cases "rs_Enabled src")
    case False
    with src error show ?thesis by (simp add: Execute_def)
  next
    case en: True
    obtain ctx r ts where st: "transform_stage env ''input'' src (rs_InputTransformers src)
                  (WithState \<lparr>tc_meta = None, tc_state = None, tc_calls = 0\<rparr>) (Messages req) = (ctx, r, ts)"
      by (metis prod_cases3)
    show ?thesis
    proof (cases r)
      case (Inl e)
      with src en st error show ?thesis by (simp add: Execute_def)
    next
      case (Inr msgs)
      let ?req1 = "req\<lparr>Messages := msgs\<rparr>" and ?req2 = "req\<lparr>Messages := msgs, req_Model := rs_LLMModel src\<rparr>"
      have inres: "guard_stage env ''input'' src (rs_InputGuards src) (SerializeMessages msgs)
          (ExtractInputText ?req1) (input_eval src) = in_result env src ?req1"
        by (simp add: in_result_def)
      show ?thesis
      proof (cases "rs_InputGuards src \<noteq> [] \<and> \<not> er_Passed (in_result env src ?req1)")
        case True
        show ?thesis
          by (rule rejected [OF src en, of msgs "[(''input'', in_result env src ?req1)]" ts "xe_elapsed env ''request''"])
            (use True in \<open>simp_all add: Execute_def src en st Inr Let_def inres\<close>)
      next
        case False
        define call where "call = ChatCompletionAt (p_client p) (xe_llm env) (rs_LLMBaseURL src) (rs_LLMAPIKey src) ?req2"
        have ex: "Execute p env orgID route req = (case lo_result call of
             Inl e \<Rightarrow> failed (''LLM call failed: '' @ e) (Some (?req2, call))
           | Inr resp \<Rightarrow> execute_output p env orgID src (ExtractInputText ?req1)
               (if rs_InputGuards src \<noteq> [] then [(''input'', in_result env src ?req1)] else []) ts ctx (?req2, call) resp)"
        proof (cases "rs_InputGuards src = []")
          case True
          then show ?thesis by (simp add: Execute_def src en st Inr Let_def call_def split: sum.split)
        next
          case ne: False
          with False have "er_Passed (in_result env src ?req1)" by simp
          with ne show ?thesis by (simp add: Execute_def src en st Inr Let_def inres call_def split: sum.split)
        qed
        show ?thesis
        proof (cases "lo_result call")
          case (Inl e)
          with ex error show ?thesis by simp
        next
          case resp: (Inr resp)
          show ?thesis
            by (rule called [OF src en, where ?msgs = msgs and ?ts = ts and ?ctx = ctx and ?call = call and ?resp = resp])
              (use False st Inr ex resp call_def in auto)
        qed
      qed
    qed
  qed
qed

text \<open>A source with a guard in each phase, and a model that answers every request.\<close>

definition example_snapshot :: "guard list \<Rightarrow> guard list \<Rightarrow> snapshot" where
  "example_snapshot ins outs =
     \<lparr>sn_Version = ''v1'', sn_apiKeys = [],
      sn_sources = [((''org'', ''chat''),
        \<lparr>rs_ID = ''s1'', rs_OrgID = ''org'', rs_Route = ''chat'', rs_Enabled = True, rs_LLMModel = ''m'',
         rs_LLMAPIKey = ''key'', rs_LLMBaseURL = [], rs_InputPassCriteria = ''all'', rs_InputPassThreshold = None,
         rs_OutputPassCriteria = ''all'', rs_OutputPassThreshold = None, rs_InputGuards = ins,
         rs_OutputGuards = outs, rs_InputTransformers = [], rs_OutputTransformers = []\<rparr>)],
      sn_alerts = []\<rparr>"

definition example_processor :: "guard list \<Rightarrow> guard list \<Rightarrow> processor" where
  "example_processor ins outs =
     \<lparr>p_store = Some (example_snapshot ins outs), p_client = NewClient ''http://gw'' 30,
      p_has_audit = True, p_has_alerts = True\<rparr>"

definition no_secret :: guard where
  "no_secret = GExternal ''g'' ''t'' (\<lambda>_ _ s. Inr (mk_result ''g'' ''t'' (s \<noteq> ''secret'') [] [] 0))"

definition example_env :: "string list \<Rightarrow> exec_env" where
  "example_env answers =
     \<lparr>xe_lib = eq_lib, xe_world = (\<lambda>_ _. Do_error ''down''), xe_dur = (\<lambda>_. 1), xe_elapsed = (\<lambda>_. 2),
      xe_calls = (\<lambda>_ _. \<lparr>call_net = (\<lambda>_. Do_error ''down''), call_ms = 1, err_ms = 2\<rparr>),
      xe_llm = (\<lambda>_. \<lparr>ae_net = (\<lambda>_. Response 200 \<lparr>b_value = Some (JObj [(''choices'',
                   JArr (map (\<lambda>a. JObj [(''message'', JObj [(''content'', JStr a)])]) answers))]),
                   b_end = 100, b_trailing = False, b_text = []\<rparr>),
                 ae_cancelled = (\<lambda>_. False), ae_read_err = None, ae_ctx_err = None, ae_wait_err = None\<rparr>),
      xe_requestID = ''r1'', xe_now = ''now''\<rparr>"

definition example_request :: chat_request where
  "example_request = \<lparr>req_Model = [], Messages = [], Stream = False, req_extra = []\<rparr>"

lemma example_delivered:
  "case xo_result (Execute (example_processor [no_secret] [no_secret]) (example_env [''hi'', ''secret''])
      ''org'' ''chat'' example_request) of
     Inl _ \<Rightarrow> False | Inr r \<Rightarrow> (case pr_LLMResponse r of None \<Rightarrow> False | Some resp \<Rightarrow> length (Choices resp) = 2)"
  by code_simp


text \<open>
  Nothing is delivered unless both phases approved it: the request sent to the provider is the
  client's with the transformed messages and the source's model, under the source's key and URL; the
  input guards (if any) passed on exactly those messages, the output guards (if any) on the text
  that is returned.
\<close>

lemma approved_delivery:
  assumes "xo_result (Execute p env orgID route req) = Inr r" and "pr_LLMResponse r = Some resp"
  shows "\<exists>src msgs call. LookupSource (p_store p) orgID route = Some src \<and> rs_Enabled src
           \<and> call = ChatCompletionAt (p_client p) (xe_llm env) (rs_LLMBaseURL src) (rs_LLMAPIKey src)
                      (req\<lparr>Messages := msgs, req_Model := rs_LLMModel src\<rparr>)
           \<and> xo_llm (Execute p env orgID route req)
               = Some (req\<lparr>Messages := msgs, req_Model := rs_LLMModel src\<rparr>, call)
           \<and> (rs_InputGuards src = [] \<or> er_Passed (in_result env src (req\<lparr>Messages := msgs\<rparr>)))
           \<and> (rs_OutputGuards src = [] \<or> er_Passed (out_result env src resp))"
proof (cases rule: Execute_cases [where p = p and env = env and orgID = orgID and route = route and req = req])
  case (error e llm)
  with assms show ?thesis by (simp add: failed_def)
next
  case (rejected src msgs ts results latency)
  with assms show ?thesis by auto
next
  case (called src msgs ts results ctx call resp')
  let ?llm = "(req\<lparr>Messages := msgs, req_Model := rs_LLMModel src\<rparr>, call)"
  have "xo_llm (Execute p env orgID route req) = Some ?llm \<and> (rs_OutputGuards src = [] \<or> er_Passed (out_result env src resp))"
    by (rule execute_output_cases [where p = p and env = env and orgID = orgID and src = src
        and inText = "ExtractInputText (req\<lparr>Messages := msgs\<rparr>)" and gr = results and ts = ts and ctx = ctx
        and llm = ?llm and ?resp0.0 = resp'])
      (use assms called(7) in \<open>auto simp: failed_def\<close>)
  with called(1,2,4,5) show ?thesis by blast
qed

lemma Execute_result_shape:
  assumes "xo_result (Execute p env orgID route req) = Inr r"
  shows "(pr_Status r = ''rejected'' \<and> pr_Phase r \<in> {''input'', ''output''} \<and> pr_LLMResponse r = None)
       \<or> (pr_Status r = ''pass'' \<and> (\<exists>resp. pr_LLMResponse r = Some resp))"
proof (cases rule: Execute_cases [where p = p and env = env and orgID = orgID and route = route and req = req])
  case (error e llm)
  with assms show ?thesis by (simp add: failed_def)
next
  case (rejected src msgs ts results latency)
  with assms show ?thesis by auto
next
  case (called src msgs ts results ctx call resp)
  show ?thesis
    by (rule execute_output_cases [where p = p and env = env and orgID = orgID and src = src
        and inText = "ExtractInputText (req\<lparr>Messages := msgs\<rparr>)" and gr = results and ts = ts and ctx = ctx
        and llm = "(req\<lparr>Messages := msgs, req_Model := rs_LLMModel src\<rparr>, call)" and ?resp0.0 = resp])
      (use assms called(7) in \<open>auto simp: failed_def\<close>)
qed

text \<open>
  Only the first choice of a response is guarded. When the input phase lets a request through
  and the source has output guards and no output transformers, a response whose first choice passes
  the output guards is delivered whole, whatever its other choices contain.
\<close>

theorem other_choices_unguarded:
  assumes "LookupSource (p_store p) orgID route = Some src" and "rs_Enabled src"
    and "rs_InputTransformers src = []" and "rs_InputGuards src = []" and "rs_OutputTransformers src = []"
    and "lo_result (ChatCompletionAt (p_client p) (xe_llm env) (rs_LLMBaseURL src) (rs_LLMAPIKey src)
           (req\<lparr>req_Model := rs_LLMModel src\<rparr>)) = Inr resp"
    and "Choices resp = c # others"
    and "er_Passed (guard_stage env ''output'' src (rs_OutputGuards src) [] (Content (Message c)) (output_eval src))"
  shows "\<exists>r. xo_result (Execute p env orgID route req) = Inr r \<and> pr_LLMResponse r = Some resp"
proof -
  have out: "ExtractOutputText resp = Content (Message c)" using assms(7) by (simp add: ExtractOutputText_def)
  have req: "req\<lparr>Messages := Messages req\<rparr> = req" by simp
  show ?thesis
    using assms(1-6,8)
    by (simp add: Execute_def transform_stage_def Let_def execute_output_def output_transforms_def out req)
qed

theorem other_choices_unguarded_witness:
  "\<exists>r resp. xo_result (Execute (example_processor [] [no_secret]) (example_env [''hi'', ''secret''])
       ''org'' ''chat'' example_request) = Inr r
     \<and> pr_LLMResponse r = Some resp \<and> map (Content \<circ> Message) (Choices resp) = [''hi'', ''secret'']"
proof -
  let ?p = "example_processor [] [no_secret]"
  let ?env = "example_env [''hi'', ''secret'']"
  let ?msg = "\<lambda>s. \<lparr>Role = [], Content = s, contentRaw = None, contentText = [], msg_extra = []\<rparr>"
  let ?c = "\<lambda>s. \<lparr>Index = 0, Message = ?msg s, FinishReason = [], choice_extra = []\<rparr>"
  let ?resp = "\<lparr>ID = [], Object = [], Created = 0, resp_Model = [], Choices = [?c ''hi'', ?c ''secret''],
      Usage = \<lparr>PromptTokens = 0, CompletionTokens = 0, TotalTokens = 0\<rparr>, resp_extra = []\<rparr>"
  obtain src where src: "LookupSource (p_store ?p) ''org'' ''chat'' = Some src" "rs_Enabled src"
    "rs_InputTransformers src = []" "rs_InputGuards src = []" "rs_OutputTransformers src = []"
    "rs_OutputGuards src = [no_secret]" "rs_LLMModel src = ''m''" "rs_LLMBaseURL src = []" "rs_LLMAPIKey src = ''key''"
    "rs_OutputPassCriteria src = ''all''" "rs_Route src = ''chat''" "rs_OutputPassThreshold src = None"
    by (simp add: LookupSource_def example_processor_def example_snapshot_def)
  have "lo_result (ChatCompletionAt (NewClient ''http://gw'' 30) (xe_llm ?env) [] ''key'' (example_request\<lparr>req_Model := ''m''\<rparr>))
      = Inr ?resp"
    by code_simp
  then have call: "lo_result (ChatCompletionAt (p_client ?p) (xe_llm ?env) (rs_LLMBaseURL src) (rs_LLMAPIKey src)
      (example_request\<lparr>req_Model := rs_LLMModel src\<rparr>)) = Inr ?resp"
    by (simp add: src example_processor_def)
  have chs: "Choices ?resp = ?c ''hi'' # [?c ''secret'']" by simp
  have pass: "er_Passed (guard_stage ?env ''output'' src (rs_OutputGuards src) [] (Content (Message (?c ''hi'')))
      (output_eval src))"
    by (simp add: src guard_stage_def Engine_Run_def no_secret_def output_eval_def guard_results_def
        engine_decide_def run_guard_def mk_result_def evaluate_def)
  obtain r where "xo_result (Execute ?p ?env ''org'' ''chat'' example_request) = Inr r" "pr_LLMResponse r = Some ?resp"
    using other_choices_unguarded [OF src(1-5) call chs pass] by blast
  then show ?thesis by simp
qed

end
