(* ===== verification/Rate_Limiter.thy ===== *)
theory Rate_Limiter
  imports Http_Service
begin

text \<open>
  \<open>internal/shared/middleware/ratelimit.go\<close>: token buckets per key with idle eviction. The
  bucket itself (\<open>golang.org/x/time/rate\<close>) is a parameter; what it documents is stated by
  \<open>documented\<close> below and used as a hypothesis. Time is in seconds.
\<close>

subsection \<open>The limiter library\<close>

record 'l rate_lib =
  NewLimiterAt :: "rat \<Rightarrow> int \<Rightarrow> 'l"
  Limit :: "'l \<Rightarrow> rat"
  Burst :: "'l \<Rightarrow> int"
  SetLimit :: "rat \<Rightarrow> 'l \<Rightarrow> rat \<Rightarrow> 'l"
  SetBurst :: "rat \<Rightarrow> 'l \<Rightarrow> int \<Rightarrow> 'l"
  AllowAt :: "rat \<Rightarrow> 'l \<Rightarrow> bool \<times> 'l"

text \<open>
  The documented bucket: of size \<open>burst\<close>, initially full, refilled at \<open>limit\<close> tokens per
  second; a request takes a token or is refused.
\<close>

record bucket =
  tokens :: rat
  since :: rat
  bk_limit :: rat
  bk_burst :: int

definition refill :: "rat \<Rightarrow> bucket \<Rightarrow> bucket" where
  "refill now b =
     b\<lparr>tokens := min (rat_of_int (bk_burst b)) (tokens b + max 0 (now - since b) * bk_limit b), since := now\<rparr>"

definition take_token :: "rat \<Rightarrow> bucket \<Rightarrow> bool \<times> bucket" where
  "take_token now b0 =
     (let b = refill now b0 in
      if tokens b \<ge> 1 then (True, b\<lparr>tokens := tokens b - 1\<rparr>) else (False, b))"

definition bucket_lib :: "bucket rate_lib" where
  "bucket_lib =
     \<lparr>NewLimiterAt = (\<lambda>r n. \<lparr>tokens = rat_of_int n, since = 0, bk_limit = r, bk_burst = n\<rparr>),
      Limit = bk_limit, Burst = bk_burst,
      SetLimit = (\<lambda>now b r. (refill now b)\<lparr>bk_limit := r\<rparr>),
      SetBurst = (\<lambda>now b n. (refill now b)\<lparr>bk_burst := n\<rparr>),
      AllowAt = take_token\<rparr>"

definition documented :: "'l rate_lib \<Rightarrow> ('l \<Rightarrow> bucket) \<Rightarrow> bool" where
  "documented rl bk \<longleftrightarrow>
     (\<forall>r n. bk (NewLimiterAt rl r n) = NewLimiterAt bucket_lib r n)
     \<and> (\<forall>l. Limit rl l = bk_limit (bk l) \<and> Burst rl l = bk_burst (bk l))
     \<and> (\<forall>now l r. bk (SetLimit rl now l r) = SetLimit bucket_lib now (bk l) r)
     \<and> (\<forall>now l n. bk (SetBurst rl now l n) = SetBurst bucket_lib now (bk l) n)
     \<and> (\<forall>now l. fst (AllowAt rl now l) = fst (take_token now (bk l))
                \<and> bk (snd (AllowAt rl now l)) = snd (take_token now (bk l)))"

subsection \<open>The rate limiter\<close>

definition limiterIdleTTL :: rat where "limiterIdleTTL = 600"

record 'l limiter_entry =
  limiter :: 'l
  lastSeen :: rat

record 'l rate_limiter =
  limiters :: "(string, 'l limiter_entry) gomap"
  rl_rps :: rat
  rl_burst :: int

definition NewRateLimiter :: "rat \<Rightarrow> int \<Rightarrow> 'l rate_limiter" where
  "NewRateLimiter rps burst = \<lparr>limiters = [], rl_rps = rps, rl_burst = burst\<rparr>"

text \<open>The limiter for a key, with its limits brought up to date, at the given time.\<close>

definition updated :: "'l rate_lib \<Rightarrow> rat \<Rightarrow> 'l \<Rightarrow> rat \<Rightarrow> int \<Rightarrow> 'l" where
  "updated rl now l rps burst =
     (let l = (if Limit rl l \<noteq> rps then SetLimit rl now l rps else l)
      in if Burst rl l \<noteq> burst then SetBurst rl now l burst else l)"

definition getLimiter ::
    "'l rate_lib \<Rightarrow> rat \<Rightarrow> string \<Rightarrow> rat \<Rightarrow> int \<Rightarrow> 'l rate_limiter \<Rightarrow> 'l \<times> 'l rate_limiter" where
  "getLimiter rl now key rps burst st =
     (let l = (case m_get (limiters st) key of
                 None \<Rightarrow> NewLimiterAt rl rps burst
               | Some e \<Rightarrow> updated rl now (limiter e) rps burst)
      in (l, st\<lparr>limiters := m_set key \<lparr>limiter = l, lastSeen = now\<rparr> (limiters st)\<rparr>))"

definition evictIdle :: "rat \<Rightarrow> 'l rate_limiter \<Rightarrow> 'l rate_limiter \<times> nat" where
  "evictIdle now st =
     (let kept = filter (\<lambda>(k, e). \<not> lastSeen e < now - limiterIdleTTL) (limiters st)
      in (st\<lparr>limiters := kept\<rparr>, length (limiters st) - length kept))"

definition size_of :: "'l rate_limiter \<Rightarrow> nat" where
  "size_of st = length (limiters st)"

text \<open>
  \<open>MiddlewareWith\<close>: the key function's answer is the argument; \<open>None\<close> means that the next
  handler is called. The limiter is a pointer, so \<open>Allow\<close> updates the entry in the map.
\<close>

definition MiddlewareWith ::
    "'l rate_lib \<Rightarrow> rat \<Rightarrow> string \<times> rat \<times> int \<Rightarrow> (string, string) gomap \<Rightarrow> 'l rate_limiter
     \<Rightarrow> 'l rate_limiter \<times> reply option" where
  "MiddlewareWith rl now krb w st =
     (case krb of (key, rps, burst) \<Rightarrow>
        let limit = (if rps > 0 then rps else rl_rps st);
            burst = (if burst \<le> 0 then rl_burst st else burst)
        in case getLimiter rl now key limit burst st of
             (l, st1) \<Rightarrow>
               (case AllowAt rl now l of
                  (ok, l') \<Rightarrow>
                    (st1\<lparr>limiters := m_set key \<lparr>limiter = l', lastSeen = now\<rparr> (limiters st1)\<rparr>,
                     if ok then None
                     else Some (reply_error (m_set ''Retry-After'' ''1'' w) 429 ''rate limit exceeded''))))"

text \<open>\<open>Middleware\<close>: the key is the authenticated organization.\<close>

definition org_key :: "req_ctx \<Rightarrow> string \<times> rat \<times> int" where
  "org_key cx = (if OrgIDFromContext cx \<noteq> uuid_Nil then OrgIDFromContext cx else ''anonymous'', 0, 0)"

subsection \<open>Runs\<close>

text \<open>
  What happens to the limiter over time: requests with what the key function answered, and ticks of
  the sweeper. The outcome lists the key of each request and whether it was let through.
\<close>

datatype limit_event =
    Request (ev_key: string) (ev_rps: rat) (ev_burst: int) (ev_time: rat)
  | Sweep (ev_time: rat)

fun run_limiter :: "'l rate_lib \<Rightarrow> limit_event list \<Rightarrow> 'l rate_limiter \<Rightarrow> (string \<times> bool) list" where
  "run_limiter rl [] st = []"
| "run_limiter rl (Request k r b t # es) st =
     (case MiddlewareWith rl t (k, r, b) [] st of (st', a) \<Rightarrow> (k, a = None) # run_limiter rl es st')"
| "run_limiter rl (Sweep t # es) st = run_limiter rl es (fst (evictIdle t st))"

lemma filter_get [gomap_simps]:
  "distinct (map fst m) \<Longrightarrow> m_get (filter (\<lambda>(k, v). P k v) m) k =
     (case m_get m k of None \<Rightarrow> None | Some v \<Rightarrow> if P k v then Some v else None)"
proof (induction m)
  case (Cons kv m)
  obtain k' v' where kv: "kv = (k', v')" by fastforce
  with Cons.prems have "m_get m k' = None" by (metis distinct.simps(2) fst_conv list.simps(9) map_of_eq_None_iff set_map)
  with Cons kv show ?case by (auto split: option.splits)
qed simp

text \<open>One request, on the entry of its key.\<close>

definition entry_step ::
    "'l rate_lib \<Rightarrow> rat \<Rightarrow> rat \<Rightarrow> int \<Rightarrow> 'l limiter_entry option \<Rightarrow> bool \<times> 'l limiter_entry" where
  "entry_step rl now limit burst e =
     (case AllowAt rl now (case e of None \<Rightarrow> NewLimiterAt rl limit burst
                                   | Some e \<Rightarrow> updated rl now (limiter e) limit burst) of
        (ok, l') \<Rightarrow> (ok, \<lparr>limiter = l', lastSeen = now\<rparr>))"

definition entry_request ::
    "'l rate_lib \<Rightarrow> rat \<Rightarrow> int \<Rightarrow> rat \<Rightarrow> rat \<Rightarrow> int \<Rightarrow> 'l limiter_entry option \<Rightarrow> bool \<times> 'l limiter_entry" where
  "entry_request rl rps0 burst0 now rps burst e =
     entry_step rl now (if rps > 0 then rps else rps0) (if burst \<le> 0 then burst0 else burst) e"

definition entry_sweep :: "rat \<Rightarrow> 'l limiter_entry option \<Rightarrow> 'l limiter_entry option" where
  "entry_sweep now e =
     (case e of None \<Rightarrow> None | Some e \<Rightarrow> if lastSeen e < now - limiterIdleTTL then None else Some e)"

lemma MiddlewareWith_entry:
  assumes "entry_request rl (rl_rps st) (rl_burst st) now rps burst (m_get (limiters st) key) = (ok, e')"
  shows "snd (MiddlewareWith rl now (key, rps, burst) w st) = None \<longleftrightarrow> ok"
    and "m_get (limiters (fst (MiddlewareWith rl now (key, rps, burst) w st))) k
         = (if k = key then Some e' else m_get (limiters st) k)"
    and "rl_rps (fst (MiddlewareWith rl now (key, rps, burst) w st)) = rl_rps st"
    and "rl_burst (fst (MiddlewareWith rl now (key, rps, burst) w st)) = rl_burst st"
    and "distinct (map fst (limiters st)) \<Longrightarrow>
         distinct (map fst (limiters (fst (MiddlewareWith rl now (key, rps, burst) w st))))"
proof -
  define L where "L = (if rps > 0 then rps else rl_rps st)"
  define B where "B = (if burst \<le> 0 then rl_burst st else burst)"
  define l where "l = (case m_get (limiters st) key of None \<Rightarrow> NewLimiterAt rl L B
      | Some e \<Rightarrow> updated rl now (limiter e) L B)"
  from assms have a: "AllowAt rl now l = (ok, limiter e')" "e' = \<lparr>limiter = limiter e', lastSeen = now\<rparr>"
    unfolding entry_request_def by (auto simp: entry_step_def l_def split: prod.splits simp flip: L_def B_def)
  then have "MiddlewareWith rl now (key, rps, burst) w st =
      (st\<lparr>limiters := m_set key e' (m_set key \<lparr>limiter = l, lastSeen = now\<rparr> (limiters st))\<rparr>,
       if ok then None else Some (reply_error (m_set ''Retry-After'' ''1'' w) 429 ''rate limit exceeded''))"
    unfolding MiddlewareWith_def getLimiter_def Let_def prod.case L_def [symmetric] B_def [symmetric]
      l_def [symmetric]
    by (simp add: a(1) flip: a(2))
  then show "snd (MiddlewareWith rl now (key, rps, burst) w st) = None \<longleftrightarrow> ok"
    and "m_get (limiters (fst (MiddlewareWith rl now (key, rps, burst) w st))) k
         = (if k = key then Some e' else m_get (limiters st) k)"
    and "rl_rps (fst (MiddlewareWith rl now (key, rps, burst) w st)) = rl_rps st"
    and "rl_burst (fst (MiddlewareWith rl now (key, rps, burst) w st)) = rl_burst st"
    and "distinct (map fst (limiters st)) \<Longrightarrow>
         distinct (map fst (limiters (fst (MiddlewareWith rl now (key, rps, burst) w st))))"
    by (simp_all add: distinct_update)
qed

lemma evictIdle_entry:
  assumes "distinct (map fst (limiters st))"
  shows "m_get (limiters (fst (evictIdle now st))) k = entry_sweep now (m_get (limiters st) k)"
    and "rl_rps (fst (evictIdle now st)) = rl_rps st" and "rl_burst (fst (evictIdle now st)) = rl_burst st"
    and "distinct (map fst (limiters (fst (evictIdle now st))))"
proof -
  have "distinct (map fst (filter P (limiters st)))" for P
    using assms by (simp add: distinct_map_filter)
  then show "distinct (map fst (limiters (fst (evictIdle now st))))" by (simp add: evictIdle_def Let_def)
qed (use assms in \<open>auto simp: evictIdle_def Let_def entry_sweep_def filter_get split: option.splits\<close>)

text \<open>A run as its own key sees it.\<close>

definition concerns :: "string \<Rightarrow> limit_event \<Rightarrow> bool" where
  "concerns key ev = (case ev of Request k _ _ _ \<Rightarrow> k = key | Sweep _ \<Rightarrow> True)"

lemma concerns_simps [simp]:
  "concerns key (Request k r b t) \<longleftrightarrow> k = key" "concerns key (Sweep t)"
  by (simp_all add: concerns_def)

fun run_entry :: "'l rate_lib \<Rightarrow> rat \<Rightarrow> int \<Rightarrow> limit_event list \<Rightarrow> 'l limiter_entry option \<Rightarrow> bool list" where
  "run_entry rl r0 b0 [] e = []"
| "run_entry rl r0 b0 (Request k r b t # es) e =
     (case entry_request rl r0 b0 t r b e of (ok, e') \<Rightarrow> ok # run_entry rl r0 b0 es (Some e'))"
| "run_entry rl r0 b0 (Sweep t # es) e = run_entry rl r0 b0 es (entry_sweep t e)"

lemma run_limiter_entry:
  assumes "distinct (map fst (limiters st))"
  shows "map snd (filter (\<lambda>x. fst x = key) (run_limiter rl es st)) =
           run_entry rl (rl_rps st) (rl_burst st) (filter (concerns key) es) (m_get (limiters st) key)"
  using assms
proof (induction es arbitrary: st)
  case (Cons ev es)
  show ?case
  proof (cases ev)
    case (Request k r b t)
    obtain ok e' where er: "entry_request rl (rl_rps st) (rl_burst st) t r b (m_get (limiters st) k) = (ok, e')"
      by fastforce
    note mw = MiddlewareWith_entry [OF er, where w = "[]"]
    obtain st' a where m: "MiddlewareWith rl t (k, r, b) [] st = (st', a)" by fastforce
    with Cons.IH [of st'] mw Cons.prems
    have IH: "map snd (filter (\<lambda>x. fst x = key) (run_limiter rl es st')) =
        run_entry rl (rl_rps st) (rl_burst st) (filter (concerns key) es)
          (if key = k then Some e' else m_get (limiters st) key)"
      by simp
    from mw(1) m have "(a = None) = ok" by simp
    with IH er m Request show ?thesis by auto
  next
    case (Sweep t)
    from evictIdle_entry [OF Cons.prems, of t] Cons.IH [of "fst (evictIdle t st)"] Sweep
    show ?thesis by simp
  qed
qed simp

text \<open>
  Keys are limited independently. What the limiter decides for the requests of one key, over any
  sequence of requests of all keys and sweeps, is what it decides when only that key's requests and
  the sweeps happen.
\<close>

theorem rate_limit_isolation:
  "map snd (filter (\<lambda>x. fst x = key) (run_limiter rl es (NewRateLimiter rps burst)))
     = map snd (filter (\<lambda>x. fst x = key) (run_limiter rl (filter (concerns key) es) (NewRateLimiter rps burst)))"
  by (simp add: run_limiter_entry NewRateLimiter_def)

subsection \<open>Buckets behind the library\<close>

definition bucket_entry :: "('l \<Rightarrow> bucket) \<Rightarrow> 'l limiter_entry \<Rightarrow> bucket limiter_entry" where
  "bucket_entry bk e = \<lparr>limiter = bk (limiter e), lastSeen = lastSeen e\<rparr>"

lemma documentedD:
  assumes "documented rl bk"
  shows "bk (NewLimiterAt rl r n) = NewLimiterAt bucket_lib r n" and "Limit rl l = Limit bucket_lib (bk l)"
    and "Burst rl l = Burst bucket_lib (bk l)" and "bk (SetLimit rl now l r) = SetLimit bucket_lib now (bk l) r"
    and "bk (SetBurst rl now l n) = SetBurst bucket_lib now (bk l) n"
    and "fst (AllowAt rl now l) = fst (AllowAt bucket_lib now (bk l))"
    and "bk (snd (AllowAt rl now l)) = snd (AllowAt bucket_lib now (bk l))"
  using assms by (simp_all add: documented_def bucket_lib_def)

lemma updated_bucket:
  assumes "documented rl bk"
  shows "bk (updated rl now l r n) = updated bucket_lib now (bk l) r n"
  by (simp add: updated_def Let_def documentedD [OF assms])

lemma entry_step_bucket:
  assumes "documented rl bk" and "entry_step rl now L B e = (ok, e')"
  shows "entry_step bucket_lib now L B (map_option (bucket_entry bk) e) = (ok, bucket_entry bk e')"
proof -
  define l where "l = (case e of None \<Rightarrow> NewLimiterAt rl L B | Some e \<Rightarrow> updated rl now (limiter e) L B)"
  have l: "bk l = (case map_option (bucket_entry bk) e of None \<Rightarrow> NewLimiterAt bucket_lib L B
      | Some e \<Rightarrow> updated bucket_lib now (limiter e) L B)"
    by (cases e) (simp_all add: l_def documentedD [OF assms(1)] updated_bucket [OF assms(1)] bucket_entry_def)
  from assms(2) have "fst (AllowAt rl now l) = ok" "snd (AllowAt rl now l) = limiter e'" "lastSeen e' = now"
    by (auto simp: entry_step_def l_def split: prod.splits)
  with documentedD(6,7) [OF assms(1), of now l] have "AllowAt bucket_lib now (bk l) = (ok, bk (limiter e'))"
    by (simp add: prod_eq_iff)
  with l \<open>lastSeen e' = now\<close> show ?thesis by (simp add: entry_step_def bucket_entry_def)
qed

lemma run_entry_bucket:
  assumes "documented rl bk"
  shows "run_entry rl r0 b0 es e = run_entry bucket_lib r0 b0 es (map_option (bucket_entry bk) e)"
proof (induction es arbitrary: e)
  case (Cons ev es)
  show ?case
  proof (cases ev)
    case (Request k r b t)
    obtain ok e' where er: "entry_request rl r0 b0 t r b e = (ok, e')" by fastforce
    from entry_step_bucket [OF assms er [unfolded entry_request_def]] er Cons.IH [of "Some e'"] Request show ?thesis
      by (simp add: entry_request_def)
  next
    case (Sweep t)
    have "map_option (bucket_entry bk) (entry_sweep t e) = entry_sweep t (map_option (bucket_entry bk) e)"
      by (cases e) (simp_all add: entry_sweep_def bucket_entry_def)
    with Cons.IH [of "entry_sweep t e"] Sweep show ?thesis by simp
  qed
qed simp

subsection \<open>How much a key gets through\<close>

text \<open>
  What a key could spend at time \<open>t\<close>: the refilled bucket, or a full one when there is no entry.
\<close>

definition credit :: "rat \<Rightarrow> int \<Rightarrow> rat \<Rightarrow> bucket limiter_entry option \<Rightarrow> rat" where
  "credit L B t e = (case e of None \<Rightarrow> rat_of_int B | Some e \<Rightarrow> tokens (refill t (limiter e)))"

definition entry_ok :: "rat \<Rightarrow> int \<Rightarrow> rat \<Rightarrow> bucket limiter_entry option \<Rightarrow> bool" where
  "entry_ok L B t e =
     (case e of None \<Rightarrow> True
      | Some e \<Rightarrow> bk_limit (limiter e) = L \<and> bk_burst (limiter e) = B \<and> 0 \<le> tokens (limiter e)
          \<and> since (limiter e) = lastSeen e \<and> lastSeen e \<le> t)"

lemma entry_ok_mono: "entry_ok L B t e \<Longrightarrow> t \<le> t' \<Longrightarrow> entry_ok L B t' e"
  by (auto simp: entry_ok_def split: option.splits)

lemma credit_le_burst: "entry_ok L B t e \<Longrightarrow> credit L B t e \<le> rat_of_int B"
  by (auto simp: credit_def refill_def entry_ok_def split: option.splits)

lemma credit_grows:
  assumes "entry_ok L B t e" "t \<le> t'" "0 \<le> L"
  shows "credit L B t' e \<le> credit L B t e + L * (t' - t)"
proof (cases e)
  case None
  with assms show ?thesis by (simp add: credit_def)
next
  case (Some x)
  with assms have x: "bk_limit (limiter x) = L" "bk_burst (limiter x) = B" "since (limiter x) \<le> t"
    by (auto simp: entry_ok_def)
  have "0 \<le> L * (t' - t)" using assms by simp
  then have "min (rat_of_int B) (tokens (limiter x) + (t' - since (limiter x)) * L)
      \<le> min (rat_of_int B) (tokens (limiter x) + (t - since (limiter x)) * L) + L * (t' - t)"
    by (simp add: min_def algebra_simps)
  with x assms(2) Some show ?thesis by (simp add: credit_def refill_def)
qed

lemma request_spends:
  assumes "entry_ok L B t e" "0 \<le> B" "0 \<le> L"
    and "(if r > 0 then r else r0) = L" "(if b \<le> 0 then b0 else b) = B"
    and "entry_request bucket_lib r0 b0 t r b e = (ok, e')"
  shows "entry_ok L B t (Some e')" and "(if ok then 1 else 0) + credit L B t (Some e') \<le> credit L B t e"
proof -
  define l where "l = (case e of None \<Rightarrow> NewLimiterAt bucket_lib L B | Some x \<Rightarrow> limiter x)"
  have lim: "bk_limit l = L" "bk_burst l = B" "0 \<le> tokens l"
    using assms(1,2) by (auto simp: l_def bucket_lib_def entry_ok_def split: option.splits)
  have upd: "updated bucket_lib t (limiter x) L B = limiter x" if "e = Some x" for x
    using assms(1) that by (simp add: updated_def bucket_lib_def entry_ok_def)
  have "entry_step bucket_lib t L B e = (ok, e')" using assms(6) unfolding entry_request_def assms(4,5) .
  then have tk: "take_token t l = (ok, limiter e')" "lastSeen e' = t"
    using upd by (cases e; auto simp: entry_step_def l_def bucket_lib_def split: prod.splits)+
  have ref: "tokens (refill t l) = credit L B t e"
    using assms(2,3) by (cases e) (auto simp: l_def credit_def refill_def bucket_lib_def)
  have nn: "0 \<le> tokens (refill t l)" using lim assms(2,3) by (simp add: refill_def)
  have e': "limiter e' = (refill t l)\<lparr>tokens := tokens (refill t l) - (if ok then 1 else 0)\<rparr>"
    "ok \<longleftrightarrow> tokens (refill t l) \<ge> 1"
    using tk(1) by (auto simp: take_token_def Let_def split: if_splits)
  show "entry_ok L B t (Some e')"
    using e' nn lim tk(2) by (simp add: entry_ok_def refill_def)
  have "credit L B t (Some e') \<le> tokens (limiter e')"
    using e'(1) lim by (simp add: credit_def refill_def)
  with e'(1) ref show "(if ok then 1 else 0) + credit L B t (Some e') \<le> credit L B t e" by simp
qed

lemma sweep_gives_nothing:
  assumes "entry_ok L B t e" "0 \<le> L" "rat_of_int B \<le> limiterIdleTTL * L"
  shows "entry_ok L B t (entry_sweep t e)" and "credit L B t (entry_sweep t e) \<le> credit L B t e"
proof -
  show "entry_ok L B t (entry_sweep t e)"
    using assms(1) by (auto simp: entry_ok_def entry_sweep_def split: option.splits)
  show "credit L B t (entry_sweep t e) \<le> credit L B t e"
  proof (cases e)
    case None
    then show ?thesis by (simp add: entry_sweep_def)
  next
    case (Some x)
    show ?thesis
    proof (cases "lastSeen x < t - limiterIdleTTL")
      case True
      from assms(1) Some have x: "bk_limit (limiter x) = L" "bk_burst (limiter x) = B" "0 \<le> tokens (limiter x)"
        "since (limiter x) = lastSeen x" "lastSeen x \<le> t"
        by (auto simp: entry_ok_def)
      have "limiterIdleTTL * L \<le> (t - lastSeen x) * L" using True assms(2) by (simp add: mult_right_mono)
      with assms(3) x(3) have "rat_of_int B \<le> tokens (limiter x) + (t - lastSeen x) * L" by linarith
      with x True Some show ?thesis by (simp add: entry_sweep_def credit_def refill_def)
    next
      case False
      with Some show ?thesis by (simp add: entry_sweep_def)
    qed
  qed
qed

text \<open>Every request of the key resolves to the same limits.\<close>

definition fixed_limits :: "rat \<Rightarrow> int \<Rightarrow> string \<Rightarrow> rat \<Rightarrow> int \<Rightarrow> limit_event list \<Rightarrow> bool" where
  "fixed_limits r0 b0 key L B es =
     (\<forall>ev \<in> set es. case ev of Request k r b _ \<Rightarrow> k = key \<longrightarrow>
        (if r > 0 then r else r0) = L \<and> (if b \<le> 0 then b0 else b) = B | Sweep _ \<Rightarrow> True)"

lemma run_entry_bound:
  assumes "0 \<le> B" "0 \<le> L" "rat_of_int B \<le> limiterIdleTTL * L"
    and "fixed_limits r0 b0 key L B es" "sorted (map ev_time es)"
    and "\<forall>ev \<in> set es. t0 \<le> ev_time ev \<and> ev_time ev \<le> t1" and "t0 \<le> t1" and "entry_ok L B t0 e"
  shows "rat_of_nat (length (filter (\<lambda>ok. ok) (run_entry bucket_lib r0 b0 (filter (concerns key) es) e)))
           \<le> credit L B t0 e + L * (t1 - t0)"
  using assms(4-8)
proof (induction es arbitrary: t0 e)
  case Nil
  then have "0 \<le> credit L B t0 e" "0 \<le> L * (t1 - t0)"
    using assms(1,2) by (auto simp: credit_def entry_ok_def refill_def split: option.splits)
  then show ?case by simp
next
  case (Cons ev es)
  let ?t = "ev_time ev"
  from Cons.prems have t: "t0 \<le> ?t" "?t \<le> t1" "fixed_limits r0 b0 key L B es" "sorted (map ev_time es)"
    "\<forall>ev' \<in> set es. ?t \<le> ev_time ev' \<and> ev_time ev' \<le> t1"
    by (auto simp: fixed_limits_def)
  note ok = entry_ok_mono [OF Cons.prems(5) t(1)]
  note grow = credit_grows [OF Cons.prems(5) t(1) assms(2)]
  have later: "rat_of_nat (length (filter (\<lambda>ok. ok) (run_entry bucket_lib r0 b0 (filter (concerns key) es) e')))
      \<le> credit L B ?t e' + L * (t1 - ?t)" if "entry_ok L B ?t e'" for e'
    by (rule Cons.IH) (use t that in auto)
  show ?case
  proof (cases ev)
    case (Sweep s)
    from sweep_gives_nothing [OF ok assms(2,3)] later [of "entry_sweep ?t e"] grow Sweep
    show ?thesis by (simp add: algebra_simps)
  next
    case (Request k r b s)
    show ?thesis
    proof (cases "k = key")
      case True
      with Request Cons.prems(1) have lim: "(if r > 0 then r else r0) = L" "(if b \<le> 0 then b0 else b) = B"
        by (simp_all add: fixed_limits_def)
      obtain a e' where er: "entry_request bucket_lib r0 b0 ?t r b e = (a, e')" by fastforce
      from request_spends [OF ok assms(1,2) lim er] later [of "Some e'"] grow Request True er
      show ?thesis by (simp add: algebra_simps split: if_splits)
    next
      case False
      with later [OF ok] grow Request show ?thesis by (simp add: algebra_simps)
    qed
  qed
qed

text \<open>The limiter after the events before the window.\<close>

lemma run_limiter_after:
  assumes "documented rl bk" "0 \<le> B" "0 \<le> L" "rat_of_int B \<le> limiterIdleTTL * L"
    and "fixed_limits (rl_rps st) (rl_burst st) key L B pre" "sorted (map ev_time pre)"
    and "\<forall>ev \<in> set pre. s \<le> ev_time ev \<and> ev_time ev \<le> t0" "s \<le> t0" "distinct (map fst (limiters st))"
    and "entry_ok L B s (map_option (bucket_entry bk) (m_get (limiters st) key))"
  shows "\<exists>st'. run_limiter rl (pre @ win) st = run_limiter rl pre st @ run_limiter rl win st'
           \<and> distinct (map fst (limiters st')) \<and> rl_rps st' = rl_rps st \<and> rl_burst st' = rl_burst st
           \<and> entry_ok L B t0 (map_option (bucket_entry bk) (m_get (limiters st') key))"
  using assms(5-10)
proof (induction pre arbitrary: st s)
  case Nil
  then show ?case using entry_ok_mono by (intro exI [of _ st]) auto
next
  case (Cons ev pre)
  let ?e = "map_option (bucket_entry bk) (m_get (limiters st) key)"
  let ?t = "ev_time ev"
  from Cons.prems have t: "sorted (map ev_time pre)" "\<forall>ev' \<in> set pre. ?t \<le> ev_time ev' \<and> ev_time ev' \<le> t0" "?t \<le> t0"
    and fl: "fixed_limits (rl_rps st) (rl_burst st) key L B pre"
    by (auto simp: fixed_limits_def)
  have ok: "entry_ok L B ?t ?e" using Cons.prems(3,6) by (auto intro: entry_ok_mono)
  show ?case
  proof (cases ev)
    case (Sweep u)
    let ?st = "fst (evictIdle u st)"
    have sw: "map_option (bucket_entry bk) (entry_sweep u e) = entry_sweep u (map_option (bucket_entry bk) e)" for e
      by (cases e) (simp_all add: entry_sweep_def bucket_entry_def)
    note ev = evictIdle_entry [OF Cons.prems(5), of u]
    from sweep_gives_nothing(1) [OF ok assms(3,4)] Sweep
    have "entry_ok L B ?t (map_option (bucket_entry bk) (m_get (limiters ?st) key))" by (simp add: ev sw)
    with Cons.IH [of ?st ?t] t fl ev show ?thesis by (simp add: Sweep)
  next
    case (Request k r b u)
    let ?st = "fst (MiddlewareWith rl u (k, r, b) [] st)"
    obtain a e' where er: "entry_request rl (rl_rps st) (rl_burst st) u r b (m_get (limiters st) k) = (a, e')"
      by fastforce
    note mw = MiddlewareWith_entry [OF er, where w = "[]"]
    have "entry_ok L B ?t (map_option (bucket_entry bk) (m_get (limiters ?st) key))"
    proof (cases "k = key")
      case True
      have lim: "(if r > 0 then r else rl_rps st) = L" "(if b \<le> 0 then rl_burst st else b) = B"
        using Cons.prems(1) Request True by (simp_all add: fixed_limits_def)
      from entry_step_bucket [OF assms(1) er [unfolded entry_request_def]]
      have "entry_request bucket_lib (rl_rps st) (rl_burst st) u r b ?e = (a, bucket_entry bk e')"
        by (simp add: entry_request_def True)
      from request_spends(1) [OF ok assms(2,3) lim] this Request True mw(2) [of key] show ?thesis by simp
    next
      case False
      with ok show ?thesis by (simp add: mw)
    qed
    with Cons.IH [of ?st ?t] t fl mw Cons.prems(5) show ?thesis
      by (simp add: Request split_beta)
  qed
qed



text \<open>
  When the burst does not refill in that time, eviction gives it back early: a key limited to one
  request per hour is let through twice within twelve minutes.
\<close>

lemma eviction_refills_slow_keys:
  "run_limiter bucket_lib [Request ''a'' (1 / 3600) 1 0, Sweep 700, Request ''a'' (1 / 3600) 1 701]
     (NewRateLimiter 100 200) = [(''a'', True), (''a'', True)]"
  "run_limiter bucket_lib [Request ''a'' (1 / 3600) 1 0, Request ''a'' (1 / 3600) 1 701]
     (NewRateLimiter 100 200) = [(''a'', True), (''a'', False)]"
  by (simp_all add: MiddlewareWith_def getLimiter_def updated_def bucket_lib_def take_token_def refill_def
      NewRateLimiter_def evictIdle_def limiterIdleTTL_def Let_def reply_error_def)

end
