(* ===== verification/Gateway.thy ===== *)
theory Gateway
  imports Processor Rate_Limiter
begin

text \<open>
  \<open>internal/dataplane/gateway\<close>: API key authentication, the proxy handler and the router of the
  data plane. Which registered route a request matches is decided by the chi router and is given.
\<close>

subsection \<open>Authentication\<close>

text \<open>
  A middleware either answers (\<open>Inl\<close>) or passes a context on (\<open>Inr\<close>); \<open>w\<close> is the header map
  of the response writer.
\<close>

definition AuthInfoFromContext :: "req_ctx \<Rightarrow> auth_info option" where
  "AuthInfoFromContext cx = cx_auth cx"

definition APIKeyAuth ::
    "(string \<Rightarrow> string) \<Rightarrow> store \<Rightarrow> (string, string) gomap \<Rightarrow> http_in \<Rightarrow> req_ctx \<Rightarrow> reply + req_ctx" where
  "APIKeyAuth sha_hex s w r cx =
     (if \<not> Loaded s then Inl (reply_error w 503 ''config not loaded'')
      else (let parts = split_space2 (get_or_empty (in_headers r) ''Authorization'') in
        if length parts \<noteq> 2 \<or> \<not> is_bearer (parts ! 0)
        then Inl (reply_error w 401 ''invalid authorization header format'')
        else (case LookupAPIKey sha_hex s (parts ! 1) of
                None \<Rightarrow> Inl (reply_error w 401 ''invalid API key'')
              | Some info \<Rightarrow> Inr (cx\<lparr>cx_org := Some (ai_OrgID info), cx_auth := Some info\<rparr>))))"

definition staticTokenAuth ::
    "string \<Rightarrow> (string, string) gomap \<Rightarrow> http_in \<Rightarrow> req_ctx \<Rightarrow> reply + req_ctx" where
  "staticTokenAuth token w r cx =
     (let parts = split_space2 (get_or_empty (in_headers r) ''Authorization'') in
      if length parts \<noteq> 2 \<or> \<not> is_bearer (parts ! 0) \<or> parts ! 1 \<noteq> token
      then Inl (reply_error w 401 ''invalid token'') else Inr cx)"

subsection \<open>The proxy handler\<close>

definition writeOpenAIError ::
    "(string, string) gomap \<Rightarrow> int \<Rightarrow> string \<Rightarrow> string \<Rightarrow> string \<Rightarrow> reply" where
  "writeOpenAIError w status errType code msg =
     reply_json w status (JObj [(''error'', JObj
       ([(''message'', JStr msg), (''type'', JStr errType)]
        @ (if code \<noteq> [] then [(''code'', JStr code)] else [])))])"

text \<open>
  \<open>Handle\<close>: the reply (\<open>None\<close> would mean that the replay of a stream does not end) and what the
  processor did, if it was called.
\<close>

definition proxy_reply ::
    "(string, string) gomap \<Rightarrow> bool \<Rightarrow> proc_result res \<Rightarrow> reply option" where
  "proxy_reply w streamRequested result =
     (case result of
        Inl e \<Rightarrow> Some (writeOpenAIError w 500 ''api_error'' ''proxy_error'' ''internal error processing the request'')
      | Inr r \<Rightarrow>
          (let w = m_set ''X-Sheeld-Status'' (pr_Status r) w in
           if pr_Status r = ''rejected''
           then Some (writeOpenAIError w 422 ''guardrail_rejection'' (pr_Phase r @ ''_rejected'')
                  (''request rejected by '' @ pr_Phase r @ '' guardrails; see audit logs for details''))
           else (case pr_LLMResponse r of
                   None \<Rightarrow> Some (reply_json w 200 JNull)
                 | Some resp \<Rightarrow>
                     if streamRequested
                     then map_option (\<lambda>s. \<lparr>rep_status = sse_status s,
                            rep_headers = fold (\<lambda>(k, v). m_set k v) (sse_headers s) w,
                            rep_body = Event_body (sse_events s)\<rparr>) (writeSSEResponse resp)
                     else Some (reply_json w 200 (marshal_response resp)))))"

definition requestID :: "req_ctx \<Rightarrow> string" where
  "requestID cx = (case cx_request_id cx of Some i \<Rightarrow> i | None \<Rightarrow> [])"

definition Handle ::
    "nat \<Rightarrow> processor \<Rightarrow> exec_env \<Rightarrow> (string, string) gomap \<Rightarrow> string \<Rightarrow> http_in \<Rightarrow> req_ctx
     \<Rightarrow> reply option \<times> exec_outcome option" where
  "Handle maxBytes p env w sourceRoute r cx =
     (let orgID = OrgIDFromContext cx in
      if orgID = uuid_Nil
      then (Some (writeOpenAIError w 401 ''invalid_request_error'' ''unauthorized'' ''unauthorized''), None)
      else if sourceRoute = []
      then (Some (writeOpenAIError w 400 ''invalid_request_error'' ''missing_source_route'' ''missing source route''), None)
      else (case res_bind (decode_max maxBytes (in_body r)) unmarshal_request of
              Inl e \<Rightarrow> (Some (writeOpenAIError w 400 ''invalid_request_error'' ''invalid_body''
                 ''invalid request body: expected OpenAI chat completions format''), None)
            | Inr chatReq \<Rightarrow>
                if length (Messages chatReq) = 0
                then (Some (writeOpenAIError w 400 ''invalid_request_error'' ''missing_messages''
                        ''messages array is required''), None)
                else (let streamRequested = Stream chatReq;
                          x = Execute p (env\<lparr>xe_requestID := requestID cx\<rparr>) orgID sourceRoute
                                (chatReq\<lparr>Stream := False\<rparr>)
                      in (proxy_reply w streamRequested (xo_result x), Some x))))"

subsection \<open>The router\<close>

datatype dp_route =
    Get_metrics
  | Get_healthz
  | Get_audit_logs
  | Get_analytics
  | Post_proxy string  \<comment> \<open>with or without \<open>/chat/completions\<close>\<close>

text \<open>\<open>internal/dataplane/config/config.go\<close>; durations are in nanoseconds.\<close>

record dp_config =
  cfg_Port :: int
  cfg_ReadTimeout :: int
  cfg_WriteTimeout :: int
  cfg_ShutdownTimeout :: int
  cfg_ControlPlaneURL :: string
  cfg_Token :: string
  cfg_PollInterval :: int
  cfg_StartupTimeout :: int
  cfg_AllowInsecureCP :: bool
  cfg_AllowPrivateGuardURLs :: bool
  cfg_ConfigSnapshotPath :: string
  cfg_ConfigSnapshotKey :: string
  cfg_DatabaseURL :: string
  cfg_LLMGatewayURL :: string
  cfg_LLMRequestTimeout :: int
  cfg_LLMMaxRetries :: int
  cfg_LLMRetryBackoff :: int
  cfg_RateLimitRPS :: rat
  cfg_RateLimitBurst :: int
  cfg_MaxBodyBytes :: nat
  cfg_ProxyTimeout :: int
  cfg_AuditRetention :: int
  cfg_AuditPruneInterval :: int
  cfg_LogLevel :: string

text \<open>\<open>Load\<close> on what \<open>envconfig.Process\<close> read: plain HTTP to the control plane must be asked for.\<close>

definition dp_Load :: "dp_config res \<Rightarrow> dp_config res" where
  "dp_Load processed =
     res_bind (err_wrap ''loading config: '' processed) (\<lambda>cfg.
       if \<not> has_prefix (cfg_ControlPlaneURL cfg) ''https://'' \<and> \<not> cfg_AllowInsecureCP cfg
       then Inl ''SHEELD_DP_CONTROL_PLANE_URL must use https (the config payload carries secrets); set SHEELD_DP_ALLOW_INSECURE_CP=true only for local development''
       else Inr cfg)"

definition healthz :: "(string, string) gomap \<Rightarrow> store \<Rightarrow> reply" where
  "healthz w s =
     (let w = m_set ''Content-Type'' ''application/json'' w in
      if \<not> Loaded s
      then \<lparr>rep_status = 503, rep_headers = w,
            rep_body = Text_body ''{\"status\":\"error\",\"config\":\"absent\"}''\<rparr>
      else \<lparr>rep_status = 200, rep_headers = w,
            rep_body = Text_body (''{\"status\":\"ok\",\"config\":\"loaded\",\"version\":\"'' @ Version s @ ''\"}'')\<rparr>)"

definition proxy_limit_key :: "req_ctx \<Rightarrow> string \<times> rat \<times> int" where
  "proxy_limit_key cx =
     (case AuthInfoFromContext cx of
        Some info \<Rightarrow> (''key:'' @ ai_KeyHash info, ai_RateLimitRPS info, ai_RateLimitBurst info)
      | None \<Rightarrow> (''anonymous'', 0, 0))"

text \<open>
  One request through the middleware and its route: the reply, what the processor did, and the rate
  limiter afterwards. The handlers of the metrics and of the audit log are arguments; what
  \<open>Recoverer\<close> makes of a panic and the deadline's status belong to the running process
  (\<open>Data_Plane_Server\<close>).
\<close>

record dp_reply =
  dp_answer :: "reply option"
  dp_exec :: "exec_outcome option"

definition serve ::
    "dp_config \<Rightarrow> 'l rate_lib \<Rightarrow> (string \<Rightarrow> string) \<Rightarrow> processor
     \<Rightarrow> (string, string) gomap \<times> http_in \<Rightarrow> string \<Rightarrow> rat \<Rightarrow> exec_env
     \<Rightarrow> (dp_route \<Rightarrow> (string, string) gomap \<Rightarrow> http_in \<Rightarrow> reply)
     \<Rightarrow> dp_route \<Rightarrow> 'l rate_limiter \<Rightarrow> dp_reply \<times> 'l rate_limiter" where
  "serve cfg rl sha_hex p wr new_id now env others route st =
     (case wr of (w0, r) \<Rightarrow>
      case RequestID new_id r (empty_ctx, w0) of (cx, w) \<Rightarrow>
      case route of
        Get_metrics \<Rightarrow> (\<lparr>dp_answer = Some (others Get_metrics w r), dp_exec = None\<rparr>, st)
      | Get_healthz \<Rightarrow> (\<lparr>dp_answer = Some (healthz w (p_store p)), dp_exec = None\<rparr>, st)
      | Post_proxy sourceRoute \<Rightarrow>
          (case APIKeyAuth sha_hex (p_store p) w r cx of
             Inl answer \<Rightarrow> (\<lparr>dp_answer = Some answer, dp_exec = None\<rparr>, st)
           | Inr cx \<Rightarrow>
               (case MiddlewareWith rl now (proxy_limit_key cx) w st of
                  (st', Some answer) \<Rightarrow> (\<lparr>dp_answer = Some answer, dp_exec = None\<rparr>, st')
                | (st', None) \<Rightarrow>
                    (case Handle (cfg_MaxBodyBytes cfg) p env w sourceRoute r cx of
                       (answer, x) \<Rightarrow> (\<lparr>dp_answer = answer, dp_exec = x\<rparr>, st'))))
      | internal \<Rightarrow>
          (case staticTokenAuth (cfg_Token cfg) w r cx of
             Inl answer \<Rightarrow> (\<lparr>dp_answer = Some answer, dp_exec = None\<rparr>, st)
           | Inr _ \<Rightarrow> (\<lparr>dp_answer = Some (others internal w r), dp_exec = None\<rparr>, st)))"

subsection \<open>Properties of the proxy\<close>

lemma writeOpenAIError_simps [simp]:
  "rep_status (writeOpenAIError w s ty c m) = s"
  by (simp add: writeOpenAIError_def)

lemma writeSSEResponse_Some: "\<exists>s. writeSSEResponse resp = Some s \<and> sse_status s = 200"
  using choices_events_Some [of resp "Choices resp"] by (auto simp: writeSSEResponse_def)

text \<open>The refusals of the handler itself, and those of a finished execution.\<close>

definition handler_refusals :: "(int \<times> string \<times> string \<times> string) list" where
  "handler_refusals =
     [(401, ''invalid_request_error'', ''unauthorized'', ''unauthorized''),
      (400, ''invalid_request_error'', ''missing_source_route'', ''missing source route''),
      (400, ''invalid_request_error'', ''invalid_body'',
         ''invalid request body: expected OpenAI chat completions format''),
      (400, ''invalid_request_error'', ''missing_messages'', ''messages array is required''),
      (500, ''api_error'', ''proxy_error'', ''internal error processing the request''),
      (422, ''guardrail_rejection'', ''input_rejected'', ''request rejected by input guardrails; see audit logs for details''),
      (422, ''guardrail_rejection'', ''output_rejected'', ''request rejected by output guardrails; see audit logs for details'')]"

lemma Handle_cases:
  obtains (refused) s ty c m w' x where "(s, ty, c, m) \<in> set handler_refusals"
      "Handle maxBytes p env w route r cx = (Some (writeOpenAIError w' s ty c m), x)"
  | (passed) req res resp rep where "OrgIDFromContext cx \<noteq> uuid_Nil"
      "res_bind (decode_max maxBytes (in_body r)) unmarshal_request = Inr req" "Messages req \<noteq> []"
      "xo_result (Execute p (env\<lparr>xe_requestID := requestID cx\<rparr>) (OrgIDFromContext cx) route (req\<lparr>Stream := False\<rparr>)) = Inr res"
      "pr_LLMResponse res = Some resp" "rep_status rep = 200"
      "if Stream req then \<exists>s. writeSSEResponse resp = Some s \<and> rep_body rep = Event_body (sse_events s)
       else rep_body rep = Json_body (marshal_response resp)"
      "Handle maxBytes p env w route r cx = (Some rep,
         Some (Execute p (env\<lparr>xe_requestID := requestID cx\<rparr>) (OrgIDFromContext cx) route (req\<lparr>Stream := False\<rparr>)))"
proof (cases "OrgIDFromContext cx = uuid_Nil")
  case True
  then have "Handle maxBytes p env w route r cx
      = (Some (writeOpenAIError w 401 ''invalid_request_error'' ''unauthorized'' ''unauthorized''), None)"
    by (simp add: Handle_def Let_def)
  from refused [OF _ this] show ?thesis by (simp add: handler_refusals_def)
next
  case org: False
  show ?thesis
  proof (cases "route = []")
    case True
    with org have "Handle maxBytes p env w route r cx = (Some (writeOpenAIError w 400 ''invalid_request_error''
        ''missing_source_route'' ''missing source route''), None)"
      by (simp add: Handle_def Let_def)
    from refused [OF _ this] show ?thesis by (simp add: handler_refusals_def)
  next
    case route: False
  show ?thesis
  proof (cases "res_bind (decode_max maxBytes (in_body r)) unmarshal_request")
    case (Inl e)
    with org route have "Handle maxBytes p env w route r cx = (Some (writeOpenAIError w 400 ''invalid_request_error''
        ''invalid_body'' ''invalid request body: expected OpenAI chat completions format''), None)"
      by (simp add: Handle_def Let_def)
    from refused [OF _ this] show ?thesis by (simp add: handler_refusals_def)
  next
    case req: (Inr req)
    let ?x = "Execute p (env\<lparr>xe_requestID := requestID cx\<rparr>) (OrgIDFromContext cx) route (req\<lparr>Stream := False\<rparr>)"
    show ?thesis
    proof (cases "Messages req = []")
      case True
      with org route req have "Handle maxBytes p env w route r cx = (Some (writeOpenAIError w 400 ''invalid_request_error''
          ''missing_messages'' ''messages array is required''), None)"
        by (simp add: Handle_def Let_def)
      from refused [OF _ this] show ?thesis by (simp add: handler_refusals_def)
    next
      case False
      with org route req have h: "Handle maxBytes p env w route r cx = (proxy_reply w (Stream req) (xo_result ?x), Some ?x)"
        by (simp add: Handle_def Let_def)
      show ?thesis
      proof (cases "xo_result ?x")
        case (Inl e)
        with h have "Handle maxBytes p env w route r cx = (Some (writeOpenAIError w 500 ''api_error'' ''proxy_error''
            ''internal error processing the request''), Some ?x)"
          by (simp add: proxy_reply_def)
        from refused [OF _ this] show ?thesis by (simp add: handler_refusals_def)
      next
        case (Inr res)
        from Execute_result_shape [OF this] show ?thesis
        proof
          assume rej: "pr_Status res = ''rejected'' \<and> pr_Phase res \<in> {''input'', ''output''} \<and> pr_LLMResponse res = None"
          with h Inr have "Handle maxBytes p env w route r cx = (Some (writeOpenAIError (m_set ''X-Sheeld-Status'' ''rejected'' w)
              422 ''guardrail_rejection'' (pr_Phase res @ ''_rejected'')
              (''request rejected by '' @ pr_Phase res @ '' guardrails; see audit logs for details'')), Some ?x)"
            by (simp add: proxy_reply_def Let_def)
          from refused [OF _ this] rej show ?thesis by (auto simp: handler_refusals_def)
        next
          assume "pr_Status res = ''pass'' \<and> (\<exists>resp. pr_LLMResponse res = Some resp)"
          then obtain resp where ok: "pr_Status res = ''pass''" "pr_LLMResponse res = Some resp" by blast
          obtain s where s: "writeSSEResponse resp = Some s" "sse_status s = 200" using writeSSEResponse_Some by blast
          let ?w = "m_set ''X-Sheeld-Status'' ''pass'' w"
          let ?rep = "if Stream req then \<lparr>rep_status = sse_status s,
              rep_headers = fold (\<lambda>(k, v). m_set k v) (sse_headers s) ?w, rep_body = Event_body (sse_events s)\<rparr>
              else reply_json ?w 200 (marshal_response resp)"
          have "proxy_reply w (Stream req) (xo_result ?x) = Some ?rep"
            using ok s(1) by (cases "Stream req") (simp_all add: proxy_reply_def Let_def Inr)
          with h have h': "Handle maxBytes p env w route r cx = (Some ?rep, Some ?x)" by simp
          have st: "rep_status ?rep = 200" using s(2) by simp
          have body: "if Stream req then \<exists>s. writeSSEResponse resp = Some s \<and> rep_body ?rep = Event_body (sse_events s)
              else rep_body ?rep = Json_body (marshal_response resp)"
            using s(1) by simp
          show ?thesis by (rule passed [OF org req False Inr ok(2) st body h'])
        qed
      qed
    qed
  qed
  qed
qed

lemma split_space2_length2: "length (split_space2 s) = 2 \<Longrightarrow> \<exists>a b. split_space2 s = [a, b]"
  by (auto simp: numeral_2_eq_2 length_Suc_conv)

text \<open>The refusals of the middleware in front of the handler.\<close>

definition middleware_refusals :: "(int \<times> string) list" where
  "middleware_refusals =
     [(503, ''config not loaded''), (401, ''invalid authorization header format''), (401, ''invalid API key''),
      (429, ''rate limit exceeded'')]"

lemma MiddlewareWith_refusal:
  "snd (MiddlewareWith rl now k w st) = Some rep \<Longrightarrow> \<exists>w. rep = reply_error w 429 ''rate limit exceeded''"
  by (auto simp: MiddlewareWith_def Let_def split: prod.splits if_splits)

text \<open>How a proxy request ends: refused before the handler, or by the handler under some key.\<close>

lemma serve_proxy_cases:
  obtains (refused) s m w where "(s, m) \<in> set middleware_refusals"
      "fst (serve cfg rl sha_hex p wr new_id now env others (Post_proxy route) st)
         = \<lparr>dp_answer = Some (reply_error w s m), dp_exec = None\<rparr>"
  | (handled) bearer key info cx w where
      "split_space2 (get_or_empty (in_headers (snd wr)) ''Authorization'') = [bearer, key]" "is_bearer bearer"
      "LookupAPIKey sha_hex (p_store p) key = Some info" "OrgIDFromContext cx = ai_OrgID info"
      "snd (MiddlewareWith rl now (''key:'' @ ai_KeyHash info, ai_RateLimitRPS info, ai_RateLimitBurst info) w st) = None"
      "fst (serve cfg rl sha_hex p wr new_id now env others (Post_proxy route) st)
         = \<lparr>dp_answer = fst (Handle (cfg_MaxBodyBytes cfg) p env w route (snd wr) cx),
            dp_exec = snd (Handle (cfg_MaxBodyBytes cfg) p env w route (snd wr) cx)\<rparr>"
proof -
  obtain w0 r where wr: "wr = (w0, r)" by fastforce
  obtain cx w where cw: "RequestID new_id r (empty_ctx, w0) = (cx, w)" by fastforce
  let ?parts = "split_space2 (get_or_empty (in_headers r) ''Authorization'')"
  let ?serve = "fst (serve cfg rl sha_hex p wr new_id now env others (Post_proxy route) st)"
  note sdef = serve_def wr cw APIKeyAuth_def Let_def
  show thesis
  proof (cases "Loaded (p_store p)")
    case False
    then have "?serve = \<lparr>dp_answer = Some (reply_error w 503 ''config not loaded''), dp_exec = None\<rparr>"
      by (simp add: sdef)
    from refused [OF _ this] show thesis by (simp add: middleware_refusals_def)
  next
    case loaded: True
    show thesis
    proof (cases "length ?parts = 2 \<and> is_bearer (?parts ! 0)")
      case False
      with loaded have "?serve = \<lparr>dp_answer = Some (reply_error w 401 ''invalid authorization header format''), dp_exec = None\<rparr>"
        by (auto simp: sdef)
      from refused [OF _ this] show thesis by (simp add: middleware_refusals_def)
    next
      case True
      then obtain bearer key where parts: "?parts = [bearer, key]" "is_bearer bearer"
        using split_space2_length2 by fastforce
      show thesis
      proof (cases "LookupAPIKey sha_hex (p_store p) key")
        case None
        with loaded parts have "?serve = \<lparr>dp_answer = Some (reply_error w 401 ''invalid API key''), dp_exec = None\<rparr>"
          by (simp add: sdef)
        from refused [OF _ this] show thesis by (simp add: middleware_refusals_def)
      next
        case (Some info)
        let ?cx = "cx\<lparr>cx_org := Some (ai_OrgID info), cx_auth := Some info\<rparr>"
        let ?k = "(''key:'' @ ai_KeyHash info, ai_RateLimitRPS info, ai_RateLimitBurst info)"
        obtain st' ans where mw: "MiddlewareWith rl now ?k w st = (st', ans)" by fastforce
        have auth: "APIKeyAuth sha_hex (p_store p) w r cx = Inr ?cx"
          using loaded parts Some by (simp add: APIKeyAuth_def Let_def)
        have key: "proxy_limit_key ?cx = ?k" by (simp add: proxy_limit_key_def AuthInfoFromContext_def)
        show thesis
        proof (cases ans)
          case None
          with mw auth key have "?serve = \<lparr>dp_answer = fst (Handle (cfg_MaxBodyBytes cfg) p env w route (snd wr) ?cx),
              dp_exec = snd (Handle (cfg_MaxBodyBytes cfg) p env w route (snd wr) ?cx)\<rparr>"
            by (simp add: serve_def wr cw split: prod.split)
          moreover have "OrgIDFromContext ?cx = ai_OrgID info" by (simp add: OrgIDFromContext_def)
          moreover have "snd (MiddlewareWith rl now ?k w st) = None" using mw None by simp
          ultimately show thesis
            using handled [of bearer key info ?cx w] parts Some wr by simp
        next
          case (Some rep)
          with mw auth key have "?serve = \<lparr>dp_answer = Some rep, dp_exec = None\<rparr>"
            by (simp add: serve_def wr cw)
          moreover obtain w' where "rep = reply_error w' 429 ''rate limit exceeded''"
            using MiddlewareWith_refusal [of rl now ?k w st rep] mw Some by auto
          ultimately show thesis using refused [of 429 "''rate limit exceeded''" w'] by (simp add: middleware_refusals_def)
        qed
      qed
    qed
  qed
qed

lemma stage_results_request_id [simp]:
  "in_result (env\<lparr>xe_requestID := i\<rparr>) src req = in_result env src req"
  "out_result (env\<lparr>xe_requestID := i\<rparr>) src resp = out_result env src resp"
  by (simp_all add: in_result_def out_result_def guard_stage_def)

lemma middleware_refusals_not_200: "(s, m) \<in> set middleware_refusals \<Longrightarrow> s \<noteq> 200"
  by (auto simp: middleware_refusals_def)

lemma handler_refusals_not_200: "(s, ty, c, m) \<in> set handler_refusals \<Longrightarrow> s \<noteq> 200"
  by (auto simp: handler_refusals_def)


text \<open>A key of the organization, and a request that uses it.\<close>

definition example_gateway :: processor where
  "example_gateway = (example_processor [no_secret] [no_secret])\<lparr>p_store :=
     Some ((example_snapshot [no_secret] [no_secret])\<lparr>sn_apiKeys :=
       [(''digest'', \<lparr>ai_OrgID = ''org'', ai_KeyHash = ''digest'', ai_RateLimitRPS = 0, ai_RateLimitBurst = 0\<rparr>)]\<rparr>)\<rparr>"

definition example_in :: http_in where
  "example_in = \<lparr>in_headers = [(''Authorization'', ''Bearer sk-1'')], in_query = [],
     in_body = \<lparr>b_value = Some (JObj [(''messages'', JArr [JObj [(''role'', JStr ''user''), (''content'', JStr ''hello'')]])]),
                b_end = 60, b_trailing = False, b_text = []\<rparr>\<rparr>"

definition example_digest :: "string \<Rightarrow> string" where
  "example_digest key = (if key = ''sk-1'' then ''digest'' else [])"

definition example_dp_config :: dp_config where
  "example_dp_config =
     \<lparr>cfg_Port = 8081, cfg_ReadTimeout = 30 * 10 ^ 9, cfg_WriteTimeout = 60 * 10 ^ 9, cfg_ShutdownTimeout = 10 * 10 ^ 9,
      cfg_ControlPlaneURL = ''https://cp'', cfg_Token = ''t'', cfg_PollInterval = 5 * 10 ^ 9,
      cfg_StartupTimeout = 60 * 10 ^ 9, cfg_AllowInsecureCP = False, cfg_AllowPrivateGuardURLs = False,
      cfg_ConfigSnapshotPath = [], cfg_ConfigSnapshotKey = [], cfg_DatabaseURL = ''db'', cfg_LLMGatewayURL = ''http://gw'',
      cfg_LLMRequestTimeout = 30 * 10 ^ 9, cfg_LLMMaxRetries = 2, cfg_LLMRetryBackoff = 2 * 10 ^ 8,
      cfg_RateLimitRPS = 100, cfg_RateLimitBurst = 200, cfg_MaxBodyBytes = 1000, cfg_ProxyTimeout = 60 * 10 ^ 9,
      cfg_AuditRetention = 0, cfg_AuditPruneInterval = 3600 * 10 ^ 9, cfg_LogLevel = ''info''\<rparr>"

definition example_served :: dp_reply where
  "example_served = fst (serve example_dp_config
     bucket_lib example_digest example_gateway ([], example_in) ''r1'' 5 (example_env [''hi''])
     (\<lambda>_ w _. reply_error w 404 []) (Post_proxy ''chat'') (NewRateLimiter 100 200))"

lemma example_served_200: "map_option rep_status (dp_answer example_served) = Some 200"
  by code_simp



text \<open>
  The comment of \<open>MaxBodySize\<close> promises 413 for a body over the limit; the handler does not tell
  that error from a malformed body and answers 400.
\<close>

lemma oversized_body_gets_400:
  assumes "OrgIDFromContext cx \<noteq> uuid_Nil" "route \<noteq> []" "b_value (in_body r) = Some v" "b_end (in_body r) > maxBytes"
  shows "map_option rep_status (fst (Handle maxBytes p env w route r cx)) = Some 400"
  using assms by (simp add: Handle_def Let_def decode_max_def)

end
