(* ===== verification/Model_Catalog.thy ===== *)
theory Model_Catalog
  imports Http_Service "HOL-Library.List_Lexorder" "HOL-Library.Char_ord" "HOL-Library.Product_Lexorder"
begin

text \<open>
  \<open>internal/shared/modelcatalog/catalog.go\<close> and its \<open>prices.json\<close>: the supported models and
  what their tokens cost. Prices are rationals (the code's are \<open>float64\<close>).
\<close>

record model_entry =
  mo_Provider :: string
  mo_ID :: string
  mo_InputPer1M :: rat
  mo_OutputPer1M :: rat

record catalog_file =
  cat_AsOf :: string
  cat_Models :: "model_entry list"

subsection \<open>prices.json\<close>

abbreviation price :: "string \<Rightarrow> string \<Rightarrow> rat \<Rightarrow> rat \<Rightarrow> model_entry" where
  "price p i inp out \<equiv> \<lparr>mo_Provider = p, mo_ID = i, mo_InputPer1M = inp, mo_OutputPer1M = out\<rparr>"

definition pricesData :: catalog_file where
  "pricesData = \<lparr>cat_AsOf = ''2026-01'', cat_Models =
     [price ''openai'' ''gpt-4o'' (5/2) 10,
      price ''openai'' ''gpt-4o-mini'' (15/100) (6/10),
      price ''openai'' ''gpt-4.1'' 2 8,
      price ''openai'' ''gpt-4.1-mini'' (4/10) (16/10),
      price ''openai'' ''gpt-4.1-nano'' (1/10) (4/10),
      price ''openai'' ''o3'' 2 8,
      price ''openai'' ''o3-mini'' (11/10) (44/10),
      price ''openai'' ''o4-mini'' (11/10) (44/10),
      price ''anthropic'' ''claude-opus-4'' 15 75,
      price ''anthropic'' ''claude-sonnet-4-5'' 3 15,
      price ''anthropic'' ''claude-sonnet-4'' 3 15,
      price ''anthropic'' ''claude-haiku-4-5'' 1 5,
      price ''anthropic'' ''claude-3-5-haiku'' (8/10) 4,
      price ''anthropic'' ''claude-3-5-sonnet'' 3 15]\<rparr>"

subsection \<open>catalog.go\<close>

text \<open>\<open>init\<close>: the longest ids first; \<open>sort.SliceStable\<close> is \<^const>\<open>sort_key\<close>.\<close>

definition loaded_catalog :: "catalog_file \<Rightarrow> catalog_file" where
  "loaded_catalog f = f\<lparr>cat_Models := sort_key (\<lambda>m. - int (length (mo_ID m))) (cat_Models f)\<rparr>"

definition Models :: "catalog_file \<Rightarrow> string \<Rightarrow> model_entry list" where
  "Models cat provider =
     sort_key (\<lambda>m. (mo_Provider m, mo_ID m))
       (filter (\<lambda>m. provider = [] \<or> mo_Provider m = provider) (cat_Models cat))"

definition lookup_model :: "catalog_file \<Rightarrow> string \<Rightarrow> model_entry option" where
  "lookup_model cat model =
     (if model = [] then None
      else (case find (\<lambda>m. mo_ID m = model) (cat_Models cat) of
              Some m \<Rightarrow> Some m
            | None \<Rightarrow>
                find (\<lambda>m. length (mo_ID m) \<le> length model \<and> take (length (mo_ID m)) model = mo_ID m)
                  (cat_Models cat)))"

definition Cost :: "catalog_file \<Rightarrow> string \<Rightarrow> int \<Rightarrow> int \<Rightarrow> rat option" where
  "Cost cat model promptTokens completionTokens =
     (case lookup_model cat model of
        None \<Rightarrow> None
      | Some m \<Rightarrow>
          if mo_InputPer1M m = 0 \<and> mo_OutputPer1M m = 0 then None
          else Some (of_int promptTokens / 10 ^ 6 * mo_InputPer1M m
                     + of_int completionTokens / 10 ^ 6 * mo_OutputPer1M m))"

subsection \<open>The handler of the control plane\<close>

text \<open>\<open>api/handler/models.go\<close>.\<close>

definition ModelsHandler_List :: "catalog_file \<Rightarrow> (string, string) gomap \<Rightarrow> http_in \<Rightarrow> reply" where
  "ModelsHandler_List cat w r =
     reply_json w 200 (JArr (map (\<lambda>m. JObj [(''provider'', JStr (mo_Provider m)), (''id'', JStr (mo_ID m))])
       (Models cat (get_or_empty (in_query r) ''provider''))))"

subsection \<open>Properties\<close>

lemma prefix_take_iff: "length p \<le> length s \<and> take (length p) s = p \<longleftrightarrow> has_prefix s p"
  by (auto simp: has_prefix_iff) (metis append_take_drop_id)

lemma find_first_max:
  fixes f :: "'a \<Rightarrow> int"
  assumes "sorted (map (\<lambda>x. - f x) xs)" and "find P xs = Some x"
  shows "x \<in> set xs \<and> P x \<and> (\<forall>y \<in> set xs. P y \<longrightarrow> f y \<le> f x)"
  using assms by (induction xs) (auto split: if_splits)

text \<open>
  A recorded model name is priced by the most specific entry of the catalogue: a lookup finds an
  entry exactly when the name is not empty and some entry's id is a prefix of it, and what it finds
  is the longest such id, an exact match included, whatever the order of the file.
\<close>

theorem lookup_longest_prefix:
  "case lookup_model (loaded_catalog f) name of
     None \<Rightarrow> name = [] \<or> \<not> (\<exists>m \<in> set (cat_Models f). has_prefix name (mo_ID m))
   | Some m \<Rightarrow> name \<noteq> [] \<and> m \<in> set (cat_Models f) \<and> has_prefix name (mo_ID m)
       \<and> (\<forall>m' \<in> set (cat_Models f). has_prefix name (mo_ID m') \<longrightarrow> length (mo_ID m') \<le> length (mo_ID m))"
proof -
  let ?ms = "sort_key (\<lambda>m. - int (length (mo_ID m))) (cat_Models f)"
  have prefix: "has_prefix name p \<Longrightarrow> length p \<le> length name" for p by (auto simp: has_prefix_iff)
  show ?thesis
  proof (cases "name = []")
    case False
    show ?thesis
    proof (cases "find (\<lambda>m. mo_ID m = name) ?ms")
      case (Some m)
      from find_SomeD [OF this] have "m \<in> set (cat_Models f)" "mo_ID m = name" by simp_all
      with False Some prefix show ?thesis
        by (simp add: lookup_model_def loaded_catalog_def has_prefix_iff)
    next
      case None
      let ?P = "\<lambda>m. has_prefix name (mo_ID m)"
      have l: "lookup_model (loaded_catalog f) name = find ?P ?ms"
        using False None by (simp add: lookup_model_def loaded_catalog_def prefix_take_iff)
      show ?thesis
      proof (cases "find ?P ?ms")
        case None
        moreover have "\<not> (\<exists>m \<in> set (cat_Models f). ?P m)" using None by (simp add: find_None_iff)
        ultimately show ?thesis unfolding l by simp
      next
        case (Some m)
        have "sorted (map (\<lambda>m. - int (length (mo_ID m))) ?ms)" by simp
        from find_first_max [OF this Some] False show ?thesis unfolding l Some by simp
      qed
    qed
  qed (simp add: lookup_model_def)
qed

lemma lookup_dated: "lookup_model (loaded_catalog pricesData) ''gpt-4o-mini-2024-07-18'' = Some (price ''openai'' ''gpt-4o-mini'' (15/100) (6/10))"
  by code_simp

theorem lookup_longest_prefix_witness:
  "\<exists>m. lookup_model (loaded_catalog pricesData) ''gpt-4o-mini-2024-07-18'' = Some m
     \<and> m \<in> set (cat_Models pricesData) \<and> mo_ID m = ''gpt-4o-mini''"
  using lookup_longest_prefix [where f = pricesData and name = "''gpt-4o-mini-2024-07-18''"]
  unfolding lookup_dated by simp

end
