(* ===== verification/Audit_Log.thy ===== *)
theory Audit_Log
  imports Gateway Control_Db Config_Redaction Model_Catalog "HOL-Library.Sublist"
begin

text \<open>
  The data plane's audit store, \<open>internal/dataplane/auditstore\<close>, and its queries,
  \<open>internal/dataplane/db/generated\<close>: the asynchronous writer, the retention sweep, the paginated
  listing and the aggregated usage. Statements fail, generate ids and read the clock as in
  \<open>Control_Db\<close>; an \<open>ORDER BY\<close> is a stable sort.
\<close>

subsection \<open>The table\<close>

record audit_row =
  ar_ID :: uuid
  ar_OrganizationID :: uuid
  ar_SourceID :: uuid
  ar_InputHash :: "string option"
  ar_GuardResults :: json
  ar_OverallResult :: string
  ar_LatencyMs :: int
  ar_CreatedAt :: int
  ar_PromptTokens :: "int option"
  ar_CompletionTokens :: "int option"
  ar_TotalTokens :: "int option"
  ar_Model :: "string option"

record audit_db =
  audit_logs :: "audit_row list"
  audit_statements :: nat

type_synonym 'a audit_query = "audit_db \<Rightarrow> audit_db \<times> 'a res"

definition audit_stmt :: "db_env \<Rightarrow> (uuid \<Rightarrow> int \<Rightarrow> audit_row list \<Rightarrow> audit_row list \<times> 'a res) \<Rightarrow> 'a audit_query" where
  "audit_stmt env body d =
     (let n = audit_statements d; d' = d\<lparr>audit_statements := n + 1\<rparr> in
      case db_fails env n of
        Some e \<Rightarrow> (d', Inl e)
      | None \<Rightarrow> (case body (db_uuid env n) (db_now env n) (audit_logs d) of
                   (rows, Inl e) \<Rightarrow> (d', Inl e) | (rows, Inr x) \<Rightarrow> (d'\<lparr>audit_logs := rows\<rparr>, Inr x)))"

subsection \<open>audit_logs.sql.go: writing and deleting\<close>

record audit_params =
  ap_OrganizationID :: uuid
  ap_SourceID :: uuid
  ap_InputHash :: "string option"
  ap_GuardResults :: json
  ap_OverallResult :: string
  ap_LatencyMs :: int
  ap_PromptTokens :: "int option"
  ap_CompletionTokens :: "int option"
  ap_TotalTokens :: "int option"
  ap_Model :: "string option"

definition audit_row_of :: "uuid \<Rightarrow> int \<Rightarrow> audit_params \<Rightarrow> audit_row" where
  "audit_row_of new now p =
     \<lparr>ar_ID = new, ar_OrganizationID = ap_OrganizationID p, ar_SourceID = ap_SourceID p,
      ar_InputHash = ap_InputHash p, ar_GuardResults = ap_GuardResults p,
      ar_OverallResult = ap_OverallResult p, ar_LatencyMs = ap_LatencyMs p, ar_CreatedAt = now,
      ar_PromptTokens = ap_PromptTokens p, ar_CompletionTokens = ap_CompletionTokens p,
      ar_TotalTokens = ap_TotalTokens p, ar_Model = ap_Model p\<rparr>"

definition CreateAuditLog :: "db_env \<Rightarrow> audit_params \<Rightarrow> audit_row audit_query" where
  "CreateAuditLog env p = audit_stmt env (\<lambda>new now rows.
     if new \<in> ar_ID ` set rows then (rows, Inl unique_violation)
     else (rows @ [audit_row_of new now p], Inr (audit_row_of new now p)))"

text \<open>
  Which rows a bounded deletion picks is open in SQL; here the first ones. \<open>delete_first n P xs\<close>
  drops the first \<open>n\<close> elements that satisfy \<open>P\<close>.
\<close>

fun delete_first :: "nat \<Rightarrow> ('a \<Rightarrow> bool) \<Rightarrow> 'a list \<Rightarrow> 'a list" where
  "delete_first n P [] = []"
| "delete_first n P (x # xs) =
     (if P x then (case n of 0 \<Rightarrow> x # xs | Suc m \<Rightarrow> delete_first m P xs) else x # delete_first n P xs)"

definition DeleteAuditLogsBefore :: "db_env \<Rightarrow> int \<Rightarrow> nat \<Rightarrow> nat audit_query" where
  "DeleteAuditLogsBefore env cutoff limit = audit_stmt env (\<lambda>_ _ rows.
     (delete_first limit (\<lambda>r. ar_CreatedAt r < cutoff) rows,
      Inr (min limit (length (filter (\<lambda>r. ar_CreatedAt r < cutoff) rows)))))"

subsection \<open>What the writer stores\<close>

text \<open>\<open>json.Marshal\<close> of the results; a map prints its keys sorted and is omitted when empty.\<close>

definition marshal_guard_result :: "guard_result \<Rightarrow> json" where
  "marshal_guard_result r = JObj
     ([(''guard_name'', JStr (GuardName r)), (''guard_type'', JStr (GuardType r)),
       (''passed'', JBool (Passed r)), (''message'', JStr (ResMessage r))]
      @ (if Details r = [] then [] else [(''details'', JObj (sorted_members (Details r)))])
      @ [(''duration_ms'', JInt (DurationMs r))]
      @ (if Shadow r then [(''shadow'', JBool True)] else []))"

definition marshal_engine_result :: "engine_result \<Rightarrow> json" where
  "marshal_engine_result e = JObj
     ([(''passed'', JBool (er_Passed e)), (''criteria'', JStr (er_Criteria e))]
      @ (case er_Threshold e of None \<Rightarrow> [] | Some n \<Rightarrow> [(''threshold'', JInt n)])
      @ [(''results'', JArr (map marshal_guard_result (er_Results e))),
         (''total_duration_ms'', JInt (er_TotalDurationMs e)),
         (''pass_count'', JInt (int (PassCount e))), (''fail_count'', JInt (int (FailCount e)))])"

definition marshal_step :: "step_result \<Rightarrow> json" where
  "marshal_step s = JObj
     ([(''name'', JStr (st_Name s)), (''type'', JStr (st_Type s)), (''changed'', JBool (st_Changed s))]
      @ (if st_Errored s then [(''errored'', JBool True)] else [])
      @ (if st_Skipped s then [(''skipped'', JBool True)] else [])
      @ (if st_Message s = [] then [] else [(''message'', JStr (st_Message s))])
      @ [(''duration_ms'', JInt (st_DurationMs s))])"

definition marshal_chain :: "chain_result \<Rightarrow> json" where
  "marshal_chain c = JObj [(''steps'', JArr (map marshal_step (Steps c))), (''changed'', JBool (ch_Changed c)),
     (''total_duration_ms'', JInt (ch_TotalDurationMs c))]"

definition results_blob :: "audit_record \<Rightarrow> json" where
  "results_blob r =
     (let blob = m_of_entries (map (\<lambda>(ph, res). (ph, marshal_engine_result res)) (au_GuardResults r));
          blob = (case au_Transforms r of None \<Rightarrow> blob | Some c \<Rightarrow> m_set ''transforms'' (marshal_chain c) blob);
          blob = (case au_OutputTransforms r of None \<Rightarrow> blob
                  | Some c \<Rightarrow> m_set ''output_transforms'' (marshal_chain c) blob)
      in JObj (sorted_members blob))"

subsection \<open>writer.go\<close>

definition bufferSize :: nat where "bufferSize = 1024"
definition batchSize :: nat where "batchSize = 100"

record audit_entry =
  en_orgID :: uuid
  en_sourceID :: uuid
  en_inputHash :: string
  en_guardResults :: json
  en_overallResult :: string
  en_latencyMs :: int
  en_usage :: "usage option"
  en_model :: string

definition entry_of :: "(string \<Rightarrow> string) \<Rightarrow> audit_record \<Rightarrow> audit_entry" where
  "entry_of sha_hex r =
     \<lparr>en_orgID = au_OrgID r, en_sourceID = au_SourceID r, en_inputHash = sha_hex (au_InputText r),
      en_guardResults = results_blob r, en_overallResult = au_OverallResult r,
      en_latencyMs = au_LatencyMs r, en_usage = au_Usage r, en_model = au_Model r\<rparr>"

definition entry_params :: "audit_entry \<Rightarrow> audit_params" where
  "entry_params e =
     \<lparr>ap_OrganizationID = en_orgID e, ap_SourceID = en_sourceID e, ap_InputHash = Some (en_inputHash e),
      ap_GuardResults = en_guardResults e, ap_OverallResult = en_overallResult e,
      ap_LatencyMs = to_int32 (en_latencyMs e),
      ap_PromptTokens = map_option (\<lambda>u. to_int32 (PromptTokens u)) (en_usage e),
      ap_CompletionTokens = map_option (\<lambda>u. to_int32 (CompletionTokens u)) (en_usage e),
      ap_TotalTokens = map_option (\<lambda>u. to_int32 (TotalTokens u)) (en_usage e),
      ap_Model = (if en_model e = [] then None else Some (en_model e))\<rparr>"

text \<open>
  The channel with its buffer, the batch of the consumer goroutine, whether the channel is closed and
  the goroutine has ended, and the two counters of lost entries.
\<close>

record audit_writer =
  wr_ch :: "audit_entry list"
  wr_closed :: bool
  wr_batch :: "audit_entry list"
  wr_done :: bool
  wr_dropped :: nat       \<comment> \<open>\<open>metrics.AuditDropped\<close>\<close>
  wr_lostBatches :: nat   \<comment> \<open>\<open>metrics.AuditBatchesDropped\<close>\<close>

definition NewWriter :: audit_writer where
  "NewWriter = \<lparr>wr_ch = [], wr_closed = False, wr_batch = [], wr_done = False, wr_dropped = 0, wr_lostBatches = 0\<rparr>"

text \<open>\<open>Record\<close>; sending on a closed channel panics, which is \<open>None\<close>.\<close>

definition Record :: "(string \<Rightarrow> string) \<Rightarrow> audit_record \<Rightarrow> audit_writer \<Rightarrow> audit_writer option" where
  "Record sha_hex r w =
     (if wr_closed w then None
      else if length (wr_ch w) < bufferSize then Some (w\<lparr>wr_ch := wr_ch w @ [entry_of sha_hex r]\<rparr>)
      else Some (w\<lparr>wr_dropped := wr_dropped w + 1\<rparr>))"

text \<open>
  \<open>flush\<close>: the batch is inserted entry by entry up to the first failure, and then once more from its
  beginning; the result says whether an attempt went through. The deadline of the context is one
  of the ways a statement fails.
\<close>

fun insert_batch :: "db_env \<Rightarrow> audit_entry list \<Rightarrow> audit_db \<Rightarrow> audit_db \<times> bool" where
  "insert_batch env [] d = (d, True)"
| "insert_batch env (e # es) d =
     (case CreateAuditLog env (entry_params e) d of
        (d', Inl err) \<Rightarrow> (d', False)
      | (d', Inr row) \<Rightarrow> insert_batch env es d')"

definition flush :: "db_env \<Rightarrow> audit_entry list \<Rightarrow> audit_db \<Rightarrow> audit_db \<times> bool" where
  "flush env batch d =
     (if batch = [] then (d, True)
      else (case insert_batch env batch d of
              (d', True) \<Rightarrow> (d', True) | (d', False) \<Rightarrow> insert_batch env batch d'))"

definition flush_batch :: "db_env \<Rightarrow> audit_writer \<times> audit_db \<Rightarrow> audit_writer \<times> audit_db" where
  "flush_batch env s =
     (case s of (w, d) \<Rightarrow> case flush env (wr_batch w) d of (d', ok) \<Rightarrow>
        (w\<lparr>wr_batch := [], wr_lostBatches := wr_lostBatches w + (if ok then 0 else 1)\<rparr>, d'))"

text \<open>
  The steps of the program: a request records, the consumer receives (from a closed empty channel:
  the end) or is ticked, and \<open>Close\<close>. \<open>None\<close>: the step cannot happen.
\<close>

datatype writer_event =
    Ev_Record audit_record
  | Ev_Receive
  | Ev_Tick
  | Ev_Close

fun writer_do :: "(string \<Rightarrow> string) \<Rightarrow> db_env \<Rightarrow> writer_event \<Rightarrow> audit_writer \<times> audit_db
    \<Rightarrow> (audit_writer \<times> audit_db) option" where
  "writer_do sha_hex env (Ev_Record r) (w, d) = map_option (\<lambda>w'. (w', d)) (Record sha_hex r w)"
| "writer_do sha_hex env Ev_Close (w, d) = Some (w\<lparr>wr_closed := True\<rparr>, d)"
| "writer_do sha_hex env Ev_Tick (w, d) =
     (if wr_done w then None
      else if length (wr_batch w) > 0 then Some (flush_batch env (w, d)) else Some (w, d))"
| "writer_do sha_hex env Ev_Receive (w, d) =
     (if wr_done w then None
      else (case wr_ch w of
              e # es \<Rightarrow>
                (let w' = w\<lparr>wr_ch := es, wr_batch := wr_batch w @ [e]\<rparr> in
                 if length (wr_batch w') \<ge> batchSize then Some (flush_batch env (w', d)) else Some (w', d))
            | [] \<Rightarrow>
                if wr_closed w
                then (case flush_batch env (w, d) of (w', d') \<Rightarrow> Some (w'\<lparr>wr_done := True\<rparr>, d'))
                else None))"

fun writer_run :: "(string \<Rightarrow> string) \<Rightarrow> db_env \<Rightarrow> writer_event list \<Rightarrow> audit_writer \<times> audit_db
    \<Rightarrow> (audit_writer \<times> audit_db) option" where
  "writer_run sha_hex env [] s = Some s"
| "writer_run sha_hex env (ev # evs) s =
     (case writer_do sha_hex env ev s of None \<Rightarrow> None | Some s' \<Rightarrow> writer_run sha_hex env evs s')"

subsection \<open>pruner.go\<close>

definition pruneBatchSize :: nat where "pruneBatchSize = 1000"

lemma length_delete_first:
  "length (delete_first n P xs) + min n (length (filter P xs)) = length xs"
proof (induction n P xs rule: delete_first.induct)
  case (2 n P x xs)
  then show ?case by (cases n) auto
qed simp

lemma DeleteAuditLogsBefore_Inr:
  assumes "DeleteAuditLogsBefore env cutoff limit d = (d', Inr n)"
  shows "n = min limit (length (filter (\<lambda>r. ar_CreatedAt r < cutoff) (audit_logs d)))"
    and "audit_logs d' = delete_first limit (\<lambda>r. ar_CreatedAt r < cutoff) (audit_logs d)"
    and "length (audit_logs d') + n = length (audit_logs d)"
  using assms length_delete_first [of limit "\<lambda>r. ar_CreatedAt r < cutoff" "audit_logs d"]
  by (auto simp: DeleteAuditLogsBefore_def audit_stmt_def Let_def split: option.splits)

text \<open>The loop of \<open>pruneOnce\<close>; \<open>cancelled\<close> is \<open>ctx.Err() != nil\<close> at a statement.\<close>

function prune_loop :: "db_env \<Rightarrow> (nat \<Rightarrow> bool) \<Rightarrow> int \<Rightarrow> audit_db \<Rightarrow> audit_db" where
  "prune_loop env cancelled cutoff d =
     (if cancelled (audit_statements d) then d
      else (case DeleteAuditLogsBefore env cutoff pruneBatchSize d of
              (d', Inl e) \<Rightarrow> d'
            | (d', Inr n) \<Rightarrow> if n < pruneBatchSize then d' else prune_loop env cancelled cutoff d'))"
  by auto
termination
proof (relation "measure (\<lambda>(env, cancelled, cutoff, d). length (audit_logs d))")
  fix env :: db_env and cancelled :: "nat \<Rightarrow> bool" and cutoff :: int and d d' :: audit_db and y n
  assume "(d', y) = DeleteAuditLogsBefore env cutoff pruneBatchSize d" "y = Inr n" "\<not> n < pruneBatchSize"
  with DeleteAuditLogsBefore_Inr(3) [of env cutoff pruneBatchSize d d' n] have "length (audit_logs d') < length (audit_logs d)"
    by (simp add: pruneBatchSize_def)
  then show "((env, cancelled, cutoff, d'), env, cancelled, cutoff, d)
      \<in> measure (\<lambda>(env, cancelled, cutoff, d). length (audit_logs d))" by simp
qed simp

declare prune_loop.simps [simp del]

definition pruneOnce :: "db_env \<Rightarrow> (nat \<Rightarrow> bool) \<Rightarrow> int \<Rightarrow> int \<Rightarrow> audit_db \<Rightarrow> audit_db" where
  "pruneOnce env cancelled retention now d = prune_loop env cancelled (now - retention) d"

text \<open>\<open>Run\<close>: one sweep at once and one per tick, at the clock readings \<open>nows\<close>, until cancelled.\<close>

definition Pruner_Run :: "db_env \<Rightarrow> (nat \<Rightarrow> bool) \<Rightarrow> int \<Rightarrow> int list \<Rightarrow> audit_db \<Rightarrow> audit_db" where
  "Pruner_Run env cancelled retention nows d =
     (if retention \<le> 0 then d else fold (pruneOnce env cancelled retention) nows d)"

end
