(* ===== verification/Audit_Ledger.thy ===== *)
theory Audit_Ledger
  imports Audit_Log "HOL-Library.Multiset"
begin

text \<open>
  What the audit writer and the retention sweep guarantee: nothing is lost without being counted,
  without failures the table is the recorded sequence, a shutdown ends, and a sweep removes exactly
  the expired rows.
\<close>

subsection \<open>What a batch leaves in the table\<close>

text \<open>The parameters a row was created from.\<close>

definition row_params :: "audit_row \<Rightarrow> audit_params" where
  "row_params r =
     \<lparr>ap_OrganizationID = ar_OrganizationID r, ap_SourceID = ar_SourceID r, ap_InputHash = ar_InputHash r,
      ap_GuardResults = ar_GuardResults r, ap_OverallResult = ar_OverallResult r,
      ap_LatencyMs = ar_LatencyMs r, ap_PromptTokens = ar_PromptTokens r,
      ap_CompletionTokens = ar_CompletionTokens r, ap_TotalTokens = ar_TotalTokens r, ap_Model = ar_Model r\<rparr>"

lemma row_params_of [simp]: "row_params (audit_row_of new now p) = p"
  by (simp add: row_params_def audit_row_of_def)

abbreviation contents :: "audit_row list \<Rightarrow> audit_params list" where
  "contents rows \<equiv> map row_params rows"

abbreviation entries_params :: "audit_entry list \<Rightarrow> audit_params list" where
  "entries_params es \<equiv> map entry_params es"

lemma insert_batch_prefix:
  "\<exists>new k. audit_logs (fst (insert_batch env es d)) = audit_logs d @ new
     \<and> contents new = entries_params (take k es) \<and> (snd (insert_batch env es d) \<longrightarrow> k = length es)"
proof (induction es arbitrary: d)
  case (Cons e es)
  show ?case
  proof (cases "CreateAuditLog env (entry_params e) d")
    case (Pair d' r)
    show ?thesis
    proof (cases r)
      case (Inl err)
      with Pair have "audit_logs d' = audit_logs d"
        by (auto simp: CreateAuditLog_def audit_stmt_def Let_def split: option.splits if_splits)
      with Pair Inl show ?thesis by (auto intro!: exI [of _ "[]"] exI [of _ 0])
    next
      case (Inr row)
      with Pair have row: "audit_logs d' = audit_logs d @ [row]" "row_params row = entry_params e"
        by (auto simp: CreateAuditLog_def audit_stmt_def Let_def split: option.splits if_splits)
      from Cons.IH [of d'] obtain new k where "audit_logs (fst (insert_batch env es d')) = audit_logs d' @ new"
        "contents new = entries_params (take k es)" "snd (insert_batch env es d') \<longrightarrow> k = length es" by blast
      with row Pair Inr show ?thesis by (auto intro!: exI [of _ "row # new"] exI [of _ "Suc k"])
    qed
  qed
qed (auto intro: exI [of _ "[]"])

text \<open>A flush stores copies of entries of the batch only, and reports success only when all are stored.\<close>

lemma flush_stores:
  obtains new where "audit_logs (fst (flush env es d)) = audit_logs d @ new"
    "set (contents new) \<subseteq> set (entries_params es)"
    "snd (flush env es d) \<Longrightarrow> mset (entries_params es) \<subseteq># mset (contents new)"
proof (cases "es = []")
  case True
  then show ?thesis using that [of "[]"] by (simp add: flush_def)
next
  case False
  let ?a = "insert_batch env es d"
  from insert_batch_prefix [of env es d] obtain n1 k1 where
    1: "audit_logs (fst ?a) = audit_logs d @ n1" "contents n1 = entries_params (take k1 es)" "snd ?a \<longrightarrow> k1 = length es"
    by blast
  have sub: "set (take k (entries_params es)) \<subseteq> set (entries_params es)" for k by (rule set_take_subset)
  show ?thesis
  proof (cases "snd ?a")
    case True
    with False have "flush env es d = (fst ?a, True)" by (cases ?a) (simp add: flush_def)
    with 1 True show ?thesis using that [of n1] by simp
  next
    case failed: False
    let ?b = "insert_batch env es (fst ?a)"
    from failed False have f: "flush env es d = ?b" by (cases ?a) (simp add: flush_def)
    from insert_batch_prefix [of env es "fst ?a"] obtain n2 k2 where
      2: "audit_logs (fst ?b) = audit_logs (fst ?a) @ n2" "contents n2 = entries_params (take k2 es)"
         "snd ?b \<longrightarrow> k2 = length es"
      by blast
    show ?thesis
    proof (rule that [of "n1 @ n2"])
      show "audit_logs (fst (flush env es d)) = audit_logs d @ n1 @ n2" using f 1 2 by simp
      show "set (contents (n1 @ n2)) \<subseteq> set (entries_params es)" using 1 2 sub by (auto simp: take_map)
      show "mset (entries_params es) \<subseteq># mset (contents (n1 @ n2))" if "snd (flush env es d)"
        using that f 2 by simp
    qed
  qed
qed

subsection \<open>The ledger of the writer\<close>

fun recorded :: "writer_event list \<Rightarrow> audit_record list" where
  "recorded [] = []"
| "recorded (Ev_Record r # evs) = r # recorded evs"
| "recorded (_ # evs) = recorded evs"

definition writer_ok :: "audit_writer \<Rightarrow> bool" where
  "writer_ok w \<longleftrightarrow> length (wr_ch w) \<le> bufferSize \<and> length (wr_batch w) < batchSize
     \<and> (wr_done w \<longrightarrow> wr_closed w \<and> wr_ch w = [] \<and> wr_batch w = [])"

lemma writer_ok_flush:
  "wr_done w = False \<Longrightarrow> length (wr_ch w) \<le> bufferSize \<Longrightarrow> writer_ok (fst (flush_batch env (w, d)))"
  by (simp add: writer_ok_def flush_batch_def batchSize_def split: prod.split)

lemma flush_batch_sel [simp]:
  "wr_ch (fst (flush_batch env (w, d))) = wr_ch w" "wr_batch (fst (flush_batch env (w, d))) = []"
  "wr_closed (fst (flush_batch env (w, d))) = wr_closed w" "wr_done (fst (flush_batch env (w, d))) = wr_done w"
  "wr_dropped (fst (flush_batch env (w, d))) = wr_dropped w"
  by (simp_all add: flush_batch_def split: prod.split)

text \<open>
  What is proved of a run of the writer needs two laws of a ledger \<open>L\<close> of the accepted entries: it
  survives a flush, and it follows entries that are accepted or move to the batch.
\<close>

locale writer_ledger =
  fixes env :: db_env and L :: "audit_entry list \<Rightarrow> audit_writer \<times> audit_db \<Rightarrow> bool"
  assumes flushed: "L acc (w, d) \<Longrightarrow> length (wr_batch w) \<le> batchSize \<Longrightarrow> L acc (flush_batch env (w, d))"
    and moved: "L acc (w, d) \<Longrightarrow> wr_lostBatches w' = wr_lostBatches w
      \<Longrightarrow> wr_batch w' @ wr_ch w' = wr_batch w @ wr_ch w @ es \<Longrightarrow> L (acc @ es) (w', d)"
begin

text \<open>One lemma per step.\<close>

lemma record_step:
  assumes "writer_do sha_hex env (Ev_Record r) (w, d) = Some (w', d')" and "L acc (w, d)" and "writer_ok w"
  shows "\<exists>more. subseq more [entry_of sha_hex r] \<and> length more + wr_dropped w' = Suc (wr_dropped w)
     \<and> L (acc @ more) (w', d') \<and> writer_ok w'"
proof (cases "length (wr_ch w) < bufferSize")
  case True
  with assms(1) have w': "w' = w\<lparr>wr_ch := wr_ch w @ [entry_of sha_hex r]\<rparr>" "d' = d" and running: "\<not> wr_closed w"
    by (auto simp: Record_def split: if_splits)
  have "L (acc @ [entry_of sha_hex r]) (w', d')"
    unfolding w'(2) by (rule moved [OF assms(2)]) (simp_all add: w')
  moreover have "writer_ok w'" using assms(3) True running w' by (auto simp: writer_ok_def)
  ultimately show ?thesis using w' by (auto intro!: exI [of _ "[entry_of sha_hex r]"])
next
  case False
  with assms(1) have w': "w' = w\<lparr>wr_dropped := wr_dropped w + 1\<rparr>" "d' = d"
    by (auto simp: Record_def split: if_splits)
  have "L (acc @ []) (w', d')"
    unfolding w'(2) by (rule moved [OF assms(2)]) (simp_all add: w')
  moreover have "writer_ok w'" using assms(3) w' by (auto simp: writer_ok_def)
  ultimately show ?thesis using w' by (auto intro!: exI [of _ "[]"])
qed

lemma receive_step:
  assumes "writer_do sha_hex env Ev_Receive (w, d) = Some (w', d')" and "L acc (w, d)" and "writer_ok w"
  shows "L acc (w', d') \<and> writer_ok w' \<and> wr_dropped w' = wr_dropped w"
proof (cases "wr_ch w")
  case Nil
  let ?f = "flush_batch env (w, d)"
  from assms(1) Nil have w': "w' = (fst ?f)\<lparr>wr_done := True\<rparr>" "d' = snd ?f" "wr_closed w" "\<not> wr_done w"
    by (auto split: if_splits prod.splits)
  have "L acc (fst ?f, snd ?f)"
    using flushed [OF assms(2)] assms(3) by (simp add: writer_ok_def)
  then have "L (acc @ []) (w', d')" unfolding w'(2) by (rule moved) (simp_all add: w'(1))
  then show ?thesis using assms(3) Nil w'(3) unfolding w'(1) by (simp add: writer_ok_def batchSize_def)
next
  case (Cons e es)
  let ?w = "w\<lparr>wr_ch := es, wr_batch := wr_batch w @ [e]\<rparr>"
  have running: "\<not> wr_done w" using assms(1) by (auto split: if_splits)
  have l: "L acc (?w, d)"
    using moved [OF assms(2), of ?w "[]"] Cons by simp
  show ?thesis
  proof (cases "length (wr_batch ?w) \<ge> batchSize")
    case True
    with assms(1) Cons running have "(w', d') = flush_batch env (?w, d)" by (simp add: Let_def)
    then have w': "w' = fst (flush_batch env (?w, d))" "d' = snd (flush_batch env (?w, d))" by (metis fst_conv snd_conv)+
    have "length (wr_batch ?w) \<le> batchSize" using assms(3) by (simp add: writer_ok_def)
    from flushed [OF l this] have "L acc (w', d')" unfolding w' by simp
    moreover have "writer_ok w'"
      unfolding w' using assms(3) running Cons by (intro writer_ok_flush) (simp_all add: writer_ok_def)
    ultimately show ?thesis by (simp add: w')
  next
    case False
    with assms(1) Cons running have "w' = ?w" "d' = d" by (simp_all add: Let_def)
    with l False assms(3) Cons running show ?thesis by (simp add: writer_ok_def)
  qed
qed

lemma tick_step:
  assumes "writer_do sha_hex env Ev_Tick (w, d) = Some (w', d')" and "L acc (w, d)" and "writer_ok w"
  shows "L acc (w', d') \<and> writer_ok w' \<and> wr_dropped w' = wr_dropped w"
proof (cases "wr_batch w = []")
  case False
  with assms(1) have "(w', d') = flush_batch env (w, d)" and running: "\<not> wr_done w" by (auto split: if_splits)
  then have w': "w' = fst (flush_batch env (w, d))" "d' = snd (flush_batch env (w, d))" by (metis fst_conv snd_conv)+
  have "L acc (w', d')" unfolding w' using flushed [OF assms(2)] assms(3) by (simp add: writer_ok_def)
  moreover have "writer_ok w'"
    unfolding w' using assms(3) running by (intro writer_ok_flush) (simp_all add: writer_ok_def)
  ultimately show ?thesis by (simp add: w')
qed (use assms in \<open>auto split: if_splits\<close>)

lemma close_step:
  assumes "writer_do sha_hex env Ev_Close (w, d) = Some (w', d')" and "L acc (w, d)" and "writer_ok w"
  shows "L acc (w', d') \<and> writer_ok w' \<and> wr_dropped w' = wr_dropped w"
  using assms(1,3) moved [OF assms(2), of "w\<lparr>wr_closed := True\<rparr>" "[]"] by (auto simp: writer_ok_def)

lemmas consumer_steps = receive_step tick_step close_step

lemma writer_run_ledger:
  assumes "writer_run sha_hex env evs (w, d) = Some (w', d')" and "L acc (w, d)" and "writer_ok w"
  shows "\<exists>more. subseq more (map (entry_of sha_hex) (recorded evs))
     \<and> length more + wr_dropped w' = length (recorded evs) + wr_dropped w
     \<and> L (acc @ more) (w', d') \<and> writer_ok w'"
  using assms
proof (induction evs arbitrary: w d acc)
  case Nil
  then show ?case by (auto intro!: exI [of _ "[]"])
next
  case (Cons ev evs)
  from Cons.prems(1) obtain w1 d1 where s: "writer_do sha_hex env ev (w, d) = Some (w1, d1)"
    and r: "writer_run sha_hex env evs (w1, d1) = Some (w', d')"
    by (auto split: option.splits)
  show ?case
  proof (cases "\<exists>x. ev = Ev_Record x")
    case True
    then obtain x where ev: "ev = Ev_Record x" by blast
    from record_step [OF s [unfolded ev] Cons.prems(2,3)] obtain m1 where
      m1: "subseq m1 [entry_of sha_hex x]" "length m1 + wr_dropped w1 = Suc (wr_dropped w)"
        "L (acc @ m1) (w1, d1)" "writer_ok w1" by blast
    from Cons.IH [OF r m1(3,4)] obtain m2 where
      m2: "subseq m2 (map (entry_of sha_hex) (recorded evs))"
        "length m2 + wr_dropped w' = length (recorded evs) + wr_dropped w1"
        "L ((acc @ m1) @ m2) (w', d')" "writer_ok w'" by blast
    have "subseq (m1 @ m2) (map (entry_of sha_hex) (recorded (ev # evs)))"
      using list_emb_append_mono [OF m1(1) m2(1)] by (simp add: ev)
    with m1 m2 ev show ?thesis by (auto intro!: exI [of _ "m1 @ m2"])
  next
    case False
    then have rec: "recorded (ev # evs) = recorded evs" by (cases ev) auto
    have "L acc (w1, d1) \<and> writer_ok w1 \<and> wr_dropped w1 = wr_dropped w"
      using False s consumer_steps [OF _ Cons.prems(2,3)] by (cases ev) auto
    with Cons.IH [OF r] show ?thesis unfolding rec by metis
  qed
qed

end

subsection \<open>Nothing is lost uncounted\<close>

text \<open>
  \<open>acc\<close> are the accepted entries; each is stored, waiting or in a batch that was given up and
  counted, and what is stored beyond the old rows are copies of accepted entries.
\<close>

definition ledger :: "audit_row list \<Rightarrow> audit_entry list \<Rightarrow> audit_writer \<times> audit_db \<Rightarrow> bool" where
  "ledger rows0 acc s \<longleftrightarrow> (case s of (w, d) \<Rightarrow>
     \<exists>new lost. audit_logs d = rows0 @ new
       \<and> set (contents new) \<subseteq> set (entries_params acc)
       \<and> mset (entries_params acc) \<subseteq># mset (contents new @ entries_params (wr_batch w @ wr_ch w)) + lost
       \<and> size lost \<le> batchSize * wr_lostBatches w
       \<and> set (wr_batch w @ wr_ch w) \<subseteq> set acc)"

lemma ledger_flush:
  assumes "ledger rows0 acc (w, d)" and "length (wr_batch w) \<le> batchSize"
  shows "ledger rows0 acc (flush_batch env (w, d))"
proof -
  from assms(1) obtain new lost where l: "audit_logs d = rows0 @ new" "set (contents new) \<subseteq> set (entries_params acc)"
    "mset (entries_params acc) \<subseteq># mset (contents new @ entries_params (wr_batch w @ wr_ch w)) + lost"
    "size lost \<le> batchSize * wr_lostBatches w" "set (wr_batch w @ wr_ch w) \<subseteq> set acc"
    by (auto simp: ledger_def)
  obtain d' ok where f: "flush env (wr_batch w) d = (d', ok)" by (cases "flush env (wr_batch w) d")
  from flush_stores [of env "wr_batch w" d] f obtain n where
    n: "audit_logs d' = audit_logs d @ n" "set (contents n) \<subseteq> set (entries_params (wr_batch w))"
      "ok \<Longrightarrow> mset (entries_params (wr_batch w)) \<subseteq># mset (contents n)" by auto
  let ?b = "mset (entries_params (wr_batch w))"
  have old: "mset (entries_params acc) \<subseteq># mset (contents new) + ?b + mset (entries_params (wr_ch w)) + lost"
    using l(3) by (simp add: ac_simps)
  have res: "flush_batch env (w, d) = (w\<lparr>wr_batch := [], wr_lostBatches := wr_lostBatches w + (if ok then 0 else 1)\<rparr>, d')"
    by (simp add: flush_batch_def f)
  have "set (entries_params (wr_batch w)) \<subseteq> set (entries_params acc)" using l(5) by auto
  with l n have stored: "audit_logs d' = rows0 @ (new @ n)" "set (contents (new @ n)) \<subseteq> set (entries_params acc)"
    by (simp_all add: subset_trans)
  show ?thesis
  proof (cases ok)
    case True
    have "mset (entries_params acc) \<subseteq># mset (contents new) + mset (contents n) + mset (entries_params (wr_ch w)) + lost"
      by (rule subset_mset.order_trans [OF old]) (use n(3) [OF True] in simp)
    with stored l(4,5) True show ?thesis
      unfolding res ledger_def by (auto simp: ac_simps intro!: exI [of _ "new @ n"] exI [of _ lost])
  next
    case False
    have "mset (entries_params acc)
        \<subseteq># mset (contents new) + mset (contents n) + mset (entries_params (wr_ch w)) + (lost + ?b)"
      using subset_mset.add_increasing2 [OF _ old, of "mset (contents n)"] by (simp add: ac_simps)
    moreover have "size (lost + ?b) \<le> batchSize * Suc (wr_lostBatches w)"
      using l(4) assms(2) by simp
    ultimately show ?thesis using stored l(5) False
      unfolding res ledger_def by (auto simp: ac_simps intro!: exI [of _ "new @ n"] exI [of _ "lost + ?b"])
  qed
qed

lemma ledger_moved:
  assumes "ledger rows0 acc (w, d)" and "wr_lostBatches w' = wr_lostBatches w"
    and "wr_batch w' @ wr_ch w' = wr_batch w @ wr_ch w @ es"
  shows "ledger rows0 (acc @ es) (w', d)"
proof -
  from assms(1) obtain new lost where l: "audit_logs d = rows0 @ new" "set (contents new) \<subseteq> set (entries_params acc)"
    "mset (entries_params acc) \<subseteq># mset (contents new @ entries_params (wr_batch w @ wr_ch w)) + lost"
    "size lost \<le> batchSize * wr_lostBatches w" "set (wr_batch w @ wr_ch w) \<subseteq> set acc"
    by (auto simp: ledger_def)
  have "mset (entries_params (acc @ es))
      \<subseteq># mset (contents new @ entries_params (wr_batch w @ wr_ch w)) + lost + mset (entries_params es)"
    using subset_mset.add_mono [OF l(3) subset_mset.order_refl, of "mset (entries_params es)"] by simp
  then have "mset (entries_params (acc @ es)) \<subseteq># mset (contents new @ entries_params (wr_batch w' @ wr_ch w')) + lost"
    unfolding assms(3) by (simp add: ac_simps)
  moreover have "set (wr_batch w' @ wr_ch w') \<subseteq> set (acc @ es)" unfolding assms(3) using l(5) by auto
  ultimately show ?thesis using l(1,2,4) assms(2)
    unfolding ledger_def by (auto intro!: exI [of _ new] exI [of _ lost])
qed

interpretation counted: writer_ledger env "ledger rows0" for env rows0
  by unfold_locales (rule ledger_flush ledger_moved; assumption)+

text \<open>
  C35: the audit log loses nothing silently. After any run of requests, consumer steps, ticks and
  shutdown, and whatever statements failed: of the recorded entries exactly the counted number was
  dropped at the full buffer, and every other one is in the table, still waiting, or in one of the
  counted batches given up; the table got copies of accepted entries only, and the buffers keep
  their bounds.
\<close>

theorem audit_entries_accounted:
  assumes "writer_run sha_hex env evs (NewWriter, d0) = Some (w, d)"
  shows "\<exists>acc. subseq acc (map (entry_of sha_hex) (recorded evs))
     \<and> length acc + wr_dropped w = length (recorded evs)
     \<and> ledger (audit_logs d0) acc (w, d) \<and> writer_ok w"
proof -
  have "ledger (audit_logs d0) [] (NewWriter, d0)" by (simp add: ledger_def NewWriter_def)
  moreover have "writer_ok NewWriter" by (simp add: writer_ok_def NewWriter_def batchSize_def)
  ultimately show ?thesis using counted.writer_run_ledger [OF assms] by (force simp: NewWriter_def)
qed

subsection \<open>Without failures the table is the record\<close>

text \<open>Generated ids are new, and statements succeed.\<close>

definition fresh_ids :: "db_env \<Rightarrow> audit_db \<Rightarrow> bool" where
  "fresh_ids env d \<longleftrightarrow> inj (db_uuid env)
     \<and> (\<forall>n \<ge> audit_statements d. db_uuid env n \<notin> ar_ID ` set (audit_logs d))"

definition reliable :: "db_env \<Rightarrow> audit_db \<Rightarrow> bool" where
  "reliable env d \<longleftrightarrow> (\<forall>n. db_fails env n = None) \<and> fresh_ids env d"

definition exact_ledger :: "db_env \<Rightarrow> audit_row list \<Rightarrow> audit_entry list \<Rightarrow> audit_writer \<times> audit_db \<Rightarrow> bool" where
  "exact_ledger env rows0 acc s \<longleftrightarrow> (case s of (w, d) \<Rightarrow> reliable env d \<and> wr_lostBatches w = 0
     \<and> (\<exists>new. audit_logs d = rows0 @ new \<and> contents new @ entries_params (wr_batch w @ wr_ch w) = entries_params acc))"

lemma CreateAuditLog_ok:
  assumes "db_fails env (audit_statements d) = None" and "fresh_ids env d"
  obtains row d' where "CreateAuditLog env p d = (d', Inr row)" "audit_logs d' = audit_logs d @ [row]"
    "row_params row = p" "fresh_ids env d'" "audit_statements d' = Suc (audit_statements d)"
proof -
  let ?n = "audit_statements d"
  let ?row = "audit_row_of (db_uuid env ?n) (db_now env ?n) p"
  let ?d = "d\<lparr>audit_statements := Suc ?n, audit_logs := audit_logs d @ [?row]\<rparr>"
  have "CreateAuditLog env p d = (?d, Inr ?row)"
    using assms by (simp add: CreateAuditLog_def audit_stmt_def fresh_ids_def Let_def)
  moreover have "fresh_ids env ?d"
    using assms by (auto simp: fresh_ids_def audit_row_of_def dest: injD)
  ultimately show ?thesis by (intro that [of ?d ?row]) simp_all
qed

lemma insert_batch_ok:
  assumes "fresh_ids env d" and "\<forall>i < length es. db_fails env (audit_statements d + i) = None"
  obtains new d' where "insert_batch env es d = (d', True)" "audit_logs d' = audit_logs d @ new"
    "contents new = entries_params es" "fresh_ids env d'" "audit_statements d' = audit_statements d + length es"
  using assms
proof (induction es arbitrary: d thesis)
  case Nil
  then show ?case by simp
next
  case (Cons e es)
  have "db_fails env (audit_statements d) = None" using Cons.prems(3) by force
  from CreateAuditLog_ok [OF this Cons.prems(2), of "entry_params e"] obtain row d1 where
    c: "CreateAuditLog env (entry_params e) d = (d1, Inr row)" "audit_logs d1 = audit_logs d @ [row]"
      "row_params row = entry_params e" "fresh_ids env d1" "audit_statements d1 = Suc (audit_statements d)" by blast
  have "\<forall>i < length es. db_fails env (audit_statements d1 + i) = None" using Cons.prems(3) c(5) by auto
  from Cons.IH [OF _ c(4) this] obtain new d2 where
    i: "insert_batch env es d1 = (d2, True)" "audit_logs d2 = audit_logs d1 @ new"
      "contents new = entries_params es" "fresh_ids env d2" "audit_statements d2 = audit_statements d1 + length es" by blast
  show ?case by (rule Cons.prems(1) [of d2 "row # new"]) (use c i in simp_all)
qed

lemma exact_flush:
  assumes "exact_ledger env rows0 acc (w, d)"
  shows "exact_ledger env rows0 acc (flush_batch env (w, d))"
proof -
  from assms obtain new where e: "audit_logs d = rows0 @ new" "reliable env d" "wr_lostBatches w = 0"
    "contents new @ entries_params (wr_batch w @ wr_ch w) = entries_params acc"
    by (auto simp: exact_ledger_def)
  obtain n d' where i: "insert_batch env (wr_batch w) d = (d', True)" "audit_logs d' = audit_logs d @ n"
    "contents n = entries_params (wr_batch w)" "reliable env d'"
    using insert_batch_ok [of env d "wr_batch w"] e(2) unfolding reliable_def by blast
  show ?thesis
  proof (cases "wr_batch w = []")
    case True
    with e show ?thesis by (simp add: flush_batch_def flush_def exact_ledger_def)
  next
    case False
    with i have "flush_batch env (w, d) = (w\<lparr>wr_batch := []\<rparr>, d')" by (simp add: flush_batch_def flush_def)
    with e i show ?thesis by (auto simp: exact_ledger_def intro!: exI [of _ "new @ n"])
  qed
qed

lemma exact_moved:
  assumes "exact_ledger env rows0 acc (w, d)" and "wr_lostBatches w' = wr_lostBatches w"
    and "wr_batch w' @ wr_ch w' = wr_batch w @ wr_ch w @ es"
  shows "exact_ledger env rows0 (acc @ es) (w', d)"
  using assms(1,2) arg_cong [OF assms(3), of entries_params] by (auto simp: exact_ledger_def)

interpretation exact: writer_ledger env "exact_ledger env rows0" for env rows0
  by unfold_locales (rule exact_flush exact_moved; assumption)+

text \<open>After \<open>Close\<close> the consumer needs one receive per waiting entry and a last one.\<close>

lemma drain_ends:
  assumes "wr_closed w" and "\<not> wr_done w"
  shows "\<exists>w' d'. writer_run sha_hex env (replicate (Suc (length (wr_ch w))) Ev_Receive) (w, d) = Some (w', d') \<and> wr_done w'"
  using assms
proof (induction "wr_ch w" arbitrary: w d)
  case Nil
  then show ?case by (simp add: Nil.hyps [symmetric] split: prod.split)
next
  case (Cons e es)
  then have ch: "wr_ch w = e # es" by simp
  let ?w = "w\<lparr>wr_ch := es, wr_batch := wr_batch w @ [e]\<rparr>"
  obtain w1 d1 where s: "writer_do sha_hex env Ev_Receive (w, d) = Some (w1, d1)"
    and w1: "wr_ch w1 = es" "wr_closed w1" "\<not> wr_done w1"
  proof (cases "length (wr_batch ?w) \<ge> batchSize")
    case True
    then show ?thesis
      using that [of "fst (flush_batch env (?w, d))" "snd (flush_batch env (?w, d))"] ch Cons.prems by (simp add: Let_def)
  next
    case False
    then show ?thesis using that [of ?w d] ch Cons.prems by (simp add: Let_def)
  qed
  have "writer_run sha_hex env (replicate (Suc (length (wr_ch w))) Ev_Receive) (w, d)
      = writer_run sha_hex env (replicate (Suc (length (wr_ch w1))) Ev_Receive) (w1, d1)"
    by (simp add: ch s w1(1) del: writer_do.simps)
  with Cons.hyps(1) [OF w1(1) [symmetric] w1(2,3), of d1] show ?case by simp
qed

text \<open>
  A shutdown stores everything. From any state a run reaches before the writer is done, closing
  it and letting the consumer receive ends it; and when the database works, the table then holds, after
  the old rows, one row per accepted entry with its contents, in the order recorded, where only the
  counted entries that met a full buffer are missing.
\<close>

theorem shutdown_stores_all:
  assumes "writer_run sha_hex env evs (NewWriter, d0) = Some (w, d)" and "\<not> wr_done w" and "reliable env d0"
  shows "\<exists>w' d' acc new.
       writer_run sha_hex env (Ev_Close # replicate (Suc (length (wr_ch w))) Ev_Receive) (w, d) = Some (w', d')
     \<and> wr_done w' \<and> wr_lostBatches w' = 0
     \<and> subseq acc (map (entry_of sha_hex) (recorded evs)) \<and> length acc + wr_dropped w' = length (recorded evs)
     \<and> audit_logs d' = audit_logs d0 @ new \<and> contents new = entries_params acc"
proof -
  let ?stop = "replicate (Suc (length (wr_ch w))) Ev_Receive"
  have "recorded (replicate n Ev_Receive) = []" for n by (induction n) simp_all
  then have rec: "recorded ?stop = []" .
  have "exact_ledger env (audit_logs d0) [] (NewWriter, d0)" using assms(3) by (simp add: exact_ledger_def NewWriter_def)
  moreover have "writer_ok NewWriter" by (simp add: writer_ok_def NewWriter_def batchSize_def)
  ultimately obtain acc where acc: "subseq acc (map (entry_of sha_hex) (recorded evs))"
    "length acc + wr_dropped w = length (recorded evs)" "exact_ledger env (audit_logs d0) acc (w, d)" "writer_ok w"
    using exact.writer_run_ledger [OF assms(1)] by (force simp: NewWriter_def)
  let ?c = "w\<lparr>wr_closed := True\<rparr>"
  have "exact_ledger env (audit_logs d0) (acc @ []) (?c, d)" by (rule exact_moved [OF acc(3)]) simp_all
  then have c: "exact_ledger env (audit_logs d0) acc (?c, d)" "writer_ok ?c"
    using acc(4) by (simp_all add: writer_ok_def)
  from drain_ends [of ?c sha_hex env d] assms(2) obtain w' d' where
    r: "writer_run sha_hex env ?stop (?c, d) = Some (w', d')" and done': "wr_done w'" by auto
  from exact.writer_run_ledger [OF r c] rec have fin: "exact_ledger env (audit_logs d0) acc (w', d')"
    "writer_ok w'" "wr_dropped w' = wr_dropped w" by (auto dest!: list_emb_Nil2)
  with done' obtain new where "audit_logs d' = audit_logs d0 @ new" "contents new = entries_params acc"
      "wr_lostBatches w' = 0"
    by (auto simp: exact_ledger_def writer_ok_def)
  with r done' fin(3) acc(1,2) show ?thesis by auto
qed

subsection \<open>A retried batch is stored twice\<close>

lemma insert_batch_append:
  "insert_batch env es d = (d', True) \<Longrightarrow> insert_batch env (es @ es') d = insert_batch env es' d'"
  by (induction es arbitrary: d) (auto split: prod.splits sum.splits)

text \<open>
  A batch whose insertion fails in the middle is stored from its beginning again. When one
  statement fails after some entries were inserted and the retry goes through, those entries have two
  rows each, so requests, rejections and tokens are counted twice.
\<close>

theorem retry_duplicates_rows:
  assumes "fresh_ids env d" and "0 < k" and "k < length es"
    and "\<And>n. db_fails env n = (if n = audit_statements d + k then Some err else None)"
  shows "\<exists>d' new. flush env es d = (d', True) \<and> audit_logs d' = audit_logs d @ new
     \<and> contents new = entries_params (take k es @ es)"
proof -
  have "\<forall>i < length (take k es). db_fails env (audit_statements d + i) = None" using assms(4) by simp
  moreover have len: "length (take k es) = k" using assms(3) by simp
  ultimately obtain n1 d1 where
    1: "insert_batch env (take k es) d = (d1, True)" "audit_logs d1 = audit_logs d @ n1"
      "contents n1 = entries_params (take k es)" "fresh_ids env d1" "audit_statements d1 = audit_statements d + k"
    using insert_batch_ok [OF assms(1), of "take k es"] by metis
  let ?d2 = "d1\<lparr>audit_statements := Suc (audit_statements d1)\<rparr>"
  have "insert_batch env (es ! k # drop (Suc k) es) d1 = (?d2, False)"
    using assms(4) 1(5) by (simp add: CreateAuditLog_def audit_stmt_def Let_def)
  with insert_batch_append [OF 1(1), of "es ! k # drop (Suc k) es"] id_take_nth_drop [OF assms(3)]
  have first: "insert_batch env es d = (?d2, False)" by simp
  have "fresh_ids env ?d2" using 1(4) by (simp add: fresh_ids_def)
  moreover have "\<forall>i < length es. db_fails env (audit_statements ?d2 + i) = None" using assms(4) 1(5) by simp
  ultimately obtain n2 d3 where
    2: "insert_batch env es ?d2 = (d3, True)" "audit_logs d3 = audit_logs ?d2 @ n2" "contents n2 = entries_params es"
    using insert_batch_ok [of env ?d2 es] by blast
  have "es \<noteq> []" using assms(3) by auto
  with first 2 have "flush env es d = (d3, True)" by (simp add: flush_def)
  with 1 2 show ?thesis by (auto intro!: exI [of _ "n1 @ n2"])
qed

subsection \<open>Retention\<close>

lemma delete_first_keeps: "filter (\<lambda>x. \<not> P x) (delete_first n P xs) = filter (\<lambda>x. \<not> P x) xs"
  by (induction n P xs rule: delete_first.induct) (auto split: nat.splits)

lemma delete_first_subseq: "subseq (delete_first n P xs) xs"
  by (induction n P xs rule: delete_first.induct) (auto split: nat.splits)

lemma delete_first_all: "length (filter P xs) \<le> n \<Longrightarrow> delete_first n P xs = filter (\<lambda>x. \<not> P x) xs"
proof (induction n P xs rule: delete_first.induct)
  case (2 n P x xs)
  then show ?case by (cases n) auto
qed simp

lemma DeleteAuditLogsBefore_Inl:
  "DeleteAuditLogsBefore env cutoff limit d = (d', Inl e) \<Longrightarrow> audit_logs d' = audit_logs d"
  by (auto simp: DeleteAuditLogsBefore_def audit_stmt_def Let_def split: option.splits)

lemma prune_loop_safe:
  "filter (\<lambda>r. cutoff \<le> ar_CreatedAt r) (audit_logs (prune_loop env cancelled cutoff d))
     = filter (\<lambda>r. cutoff \<le> ar_CreatedAt r) (audit_logs d)
   \<and> subseq (audit_logs (prune_loop env cancelled cutoff d)) (audit_logs d)"
proof (induction env cancelled cutoff d rule: prune_loop.induct)
  case (1 env cancelled cutoff d)
  let ?P = "\<lambda>r. ar_CreatedAt r < cutoff"
  show ?case
  proof (cases "cancelled (audit_statements d)")
    case True
    then show ?thesis by (simp add: prune_loop.simps [of env cancelled cutoff d])
  next
    case run: False
    obtain d' r where del: "DeleteAuditLogsBefore env cutoff pruneBatchSize d = (d', r)" by fastforce
    show ?thesis
    proof (cases r)
      case (Inl e)
      with run del DeleteAuditLogsBefore_Inl [of env cutoff pruneBatchSize d d' e] show ?thesis
        by (simp add: prune_loop.simps [of env cancelled cutoff d])
    next
      case (Inr n)
      have rows: "audit_logs d' = delete_first pruneBatchSize ?P (audit_logs d)"
        using DeleteAuditLogsBefore_Inr(2) del Inr by blast
      have kept: "filter (\<lambda>r. cutoff \<le> ar_CreatedAt r) (audit_logs d') = filter (\<lambda>r. cutoff \<le> ar_CreatedAt r) (audit_logs d)"
        using delete_first_keeps [of ?P pruneBatchSize "audit_logs d"] unfolding rows by (simp add: not_less)
      have sub: "subseq (audit_logs d') (audit_logs d)" unfolding rows by (rule delete_first_subseq)
      show ?thesis
      proof (cases "n < pruneBatchSize")
        case True
        with run del Inr kept sub show ?thesis by (simp add: prune_loop.simps [of env cancelled cutoff d])
      next
        case False
        with 1 [OF run del [symmetric] Inr False] run del Inr kept sub show ?thesis
          by (simp add: prune_loop.simps [of env cancelled cutoff d]) (meson subseq_order.order_trans)
      qed
    qed
  qed
qed

lemma prune_loop_complete:
  assumes "\<And>n. db_fails env n = None" and "\<And>n. \<not> cancelled n"
  shows "audit_logs (prune_loop env cancelled cutoff d) = filter (\<lambda>r. cutoff \<le> ar_CreatedAt r) (audit_logs d)"
  using assms
proof (induction env cancelled cutoff d rule: prune_loop.induct)
  case (1 env cancelled cutoff d)
  let ?P = "\<lambda>r. ar_CreatedAt r < cutoff"
  obtain d' n where del: "DeleteAuditLogsBefore env cutoff pruneBatchSize d = (d', Inr n)"
    using 1(2) by (simp add: DeleteAuditLogsBefore_def audit_stmt_def Let_def)
  note rows = DeleteAuditLogsBefore_Inr [OF del]
  have nc: "\<not> cancelled (audit_statements d)" by (rule 1(3))
  show ?case
  proof (cases "n < pruneBatchSize")
    case True
    with rows(1) have "length (filter ?P (audit_logs d)) \<le> pruneBatchSize" by simp
    from delete_first_all [OF this] True nc del rows(2) show ?thesis
      by (simp add: prune_loop.simps [of env cancelled cutoff d] not_less)
  next
    case False
    have "filter (\<lambda>r. cutoff \<le> ar_CreatedAt r) (audit_logs d') = filter (\<lambda>r. cutoff \<le> ar_CreatedAt r) (audit_logs d)"
      using delete_first_keeps [of ?P pruneBatchSize "audit_logs d"] unfolding rows(2) by (simp add: not_less)
    with 1(1) [OF 1(3) del [symmetric] refl False 1(2,3)] False nc del show ?thesis
      by (simp add: prune_loop.simps [of env cancelled cutoff d])
  qed
qed

text \<open>
  C36: a retention sweep ends and removes expired rows only. Whatever fails and whenever it is
  cancelled, every row inside the retention window stays, in order; and a sweep that is not disturbed
  removes all others, however many batches that takes.
\<close>

theorem retention_sweep:
  "(let kept = filter (\<lambda>r. now - retention \<le> ar_CreatedAt r);
        d' = pruneOnce env cancelled retention now d
    in kept (audit_logs d') = kept (audit_logs d) \<and> subseq (audit_logs d') (audit_logs d)
       \<and> ((\<forall>n. db_fails env n = None \<and> \<not> cancelled n) \<longrightarrow> audit_logs d' = kept (audit_logs d)))"
  using prune_loop_safe [of "now - retention" env cancelled d] prune_loop_complete [of env cancelled "now - retention" d]
  by (simp add: pruneOnce_def)

subsection \<open>Examples\<close>

definition example_audit_env :: db_env where
  "example_audit_env = \<lparr>db_fails = (\<lambda>_. None), db_uuid = itoa, db_now = int\<rparr>"

definition example_record :: audit_record where
  "example_record = \<lparr>au_OrgID = ''o'', au_SourceID = ''s'', au_InputText = ''hello'', au_GuardResults = [],
     au_Transforms = None, au_OutputTransforms = None, au_OverallResult = ''pass'', au_LatencyMs = 7,
     au_Usage = None, au_Model = ''gpt-4o''\<rparr>"

definition empty_audit_db :: audit_db where "empty_audit_db = \<lparr>audit_logs = [], audit_statements = 0\<rparr>"

definition example_run :: "(audit_writer \<times> audit_db) option" where
  "example_run = writer_run (\<lambda>t. t) example_audit_env
     [Ev_Record example_record, Ev_Receive, Ev_Tick, Ev_Record example_record] (NewWriter, empty_audit_db)"

lemma example_run_Some: "example_run = Some (fst (the example_run), snd (the example_run))"
  "\<not> wr_done (fst (the example_run))" "wr_dropped (fst (the example_run)) = 0"
  "length (wr_ch (fst (the example_run))) = 1"
  by code_simp+

theorem audit_entries_accounted_witness:
  "\<exists>acc. subseq acc [entry_of (\<lambda>t. t) example_record, entry_of (\<lambda>t. t) example_record] \<and> length acc = 2
     \<and> ledger [] acc (the example_run)"
  using audit_entries_accounted [OF example_run_Some(1) [unfolded example_run_def], folded example_run_def]
    example_run_Some(3) by (simp add: empty_audit_db_def numeral_2_eq_2) blast

lemma example_reliable: "reliable example_audit_env empty_audit_db"
  by (simp add: reliable_def fresh_ids_def example_audit_env_def empty_audit_db_def inj_on_def)

theorem shutdown_stores_all_witness:
  "\<exists>w' d' new. writer_run (\<lambda>t. t) example_audit_env [Ev_Close, Ev_Receive, Ev_Receive] (the example_run) = Some (w', d')
     \<and> wr_done w' \<and> audit_logs d' = new \<and> length new = 2"
proof -
  let ?w = "fst (the example_run)" let ?d = "snd (the example_run)"
  have stop: "Ev_Close # replicate (Suc (length (wr_ch ?w))) Ev_Receive = [Ev_Close, Ev_Receive, Ev_Receive]"
    by (simp add: example_run_Some(4))
  from shutdown_stores_all [OF example_run_Some(1) [unfolded example_run_def], folded example_run_def,
      OF example_run_Some(2) example_reliable, unfolded stop]
  obtain w' d' acc new where r: "writer_run (\<lambda>t. t) example_audit_env [Ev_Close, Ev_Receive, Ev_Receive] (?w, ?d) = Some (w', d')"
    "wr_done w'" "length acc + wr_dropped w' = length (recorded [Ev_Record example_record, Ev_Receive, Ev_Tick, Ev_Record example_record])"
    "audit_logs d' = audit_logs empty_audit_db @ new" "contents new = entries_params acc" by blast
  have "wr_dropped (fst (the (writer_run (\<lambda>t. t) example_audit_env [Ev_Close, Ev_Receive, Ev_Receive] (the example_run)))) = 0"
    by code_simp
  then have "wr_dropped w' = 0" using r(1) by (simp del: writer_run.simps)
  with r(3) have "length acc = 2" by simp
  moreover have "length new = length acc" using arg_cong [OF r(5), of length] by simp
  ultimately have "length (audit_logs d') = 2" using r(4) by (simp add: empty_audit_db_def)
  with r(1,2) show ?thesis by (auto simp del: writer_run.simps)
qed

theorem retry_duplicates_rows_witness:
  "\<exists>d' new. flush (example_audit_env\<lparr>db_fails := (\<lambda>n. if n = 1 then Some ''lost'' else None)\<rparr>)
       [entry_of (\<lambda>t. t) example_record, entry_of (\<lambda>t. t) example_record] empty_audit_db = (d', True)
     \<and> audit_logs d' = new \<and> length new = 3"
proof -
  let ?env = "example_audit_env\<lparr>db_fails := (\<lambda>n. if n = 1 then Some ''lost'' else None)\<rparr>"
  let ?e = "entry_of (\<lambda>t. t) example_record"
  have "fresh_ids ?env empty_audit_db"
    by (simp add: fresh_ids_def example_audit_env_def empty_audit_db_def inj_on_def)
  from retry_duplicates_rows [OF this, of 1 "[?e, ?e]" "''lost''"] obtain d' new where
    d: "flush ?env [?e, ?e] empty_audit_db = (d', True)" "audit_logs d' = audit_logs empty_audit_db @ new"
      "contents new = entries_params (take 1 [?e, ?e] @ [?e, ?e])"
    by (auto simp: empty_audit_db_def)
  have "length new = 3" using arg_cong [OF d(3), of length] by simp
  with d show ?thesis by (simp add: empty_audit_db_def)
qed

theorem retention_sweep_witness:
  "audit_logs (pruneOnce example_audit_env (\<lambda>_. False) 5 10
      \<lparr>audit_logs = [audit_row_of ''a'' 3 (entry_params (entry_of (\<lambda>t. t) example_record)),
                   audit_row_of ''b'' 8 (entry_params (entry_of (\<lambda>t. t) example_record))], audit_statements = 0\<rparr>)
   = [audit_row_of ''b'' 8 (entry_params (entry_of (\<lambda>t. t) example_record))]"
proof -
  let ?p = "entry_params (entry_of (\<lambda>t. t) example_record)"
  let ?d = "\<lparr>audit_logs = [audit_row_of ''a'' 3 ?p, audit_row_of ''b'' 8 ?p], audit_statements = 0\<rparr>"
  have "\<forall>n. db_fails example_audit_env n = None \<and> \<not> (\<lambda>_. False) n" by (simp add: example_audit_env_def)
  with retention_sweep [of 10 5 example_audit_env "\<lambda>_. False" ?d]
  have "audit_logs (pruneOnce example_audit_env (\<lambda>_. False) 5 10 ?d)
      = filter (\<lambda>r. 10 - 5 \<le> ar_CreatedAt r) (audit_logs ?d)" unfolding Let_def by blast
  then show ?thesis by (simp add: audit_row_of_def)
qed

end
