(* ===== verification/Control_Api.thy ===== *)
theory Control_Api
  imports Control_Auth Workspace_Builder Audit_Log Model_Catalog
begin

text \<open>
  The HTTP handlers of the control plane, \<open>internal/controlplane/api/handler\<close>: each checks the
  caller's organization, its path and its body, calls one operation of a service, and answers.
\<close>

subsection \<open>What the handlers are built from\<close>

text \<open>
  The services' environments, \<open>uuid.Parse\<close>, the body limit, the model catalogue, the printing of
  a \<open>time.Time\<close> as JSON, and for the audit proxy the data plane's address, its token and what
  a request to it (path below the address, then the request) comes to.
\<close>

datatype dp_outcome =
    Dp_build_error
  | Dp_failed
  | Dp_answer int reply_body

record api_env =
  pe_cp :: cp_env
  pe_auth :: auth_env
  pe_uuid :: "string \<Rightarrow> uuid option"
  pe_maxBody :: nat
  pe_catalog :: catalog_file
  pe_rfc3339 :: "int \<Rightarrow> string"
  pe_dpURL :: string
  pe_token :: string
  pe_dataplane :: "string \<Rightarrow> http_in \<Rightarrow> dp_outcome"

text \<open>A handler acts on the database and replies; \<open>w\<close> is the header map of the response writer.\<close>

type_synonym endpoint = "db \<Rightarrow> db \<times> reply"
type_synonym headers = "(string, string) gomap"

definition answer :: "reply \<Rightarrow> endpoint" where "answer rep d = (d, rep)"

definition respond :: "'a query \<Rightarrow> (go_error \<Rightarrow> reply) \<Rightarrow> ('a \<Rightarrow> reply) \<Rightarrow> endpoint" where
  "respond q bad good d = (case q d of (d', Inl e) \<Rightarrow> (d', bad e) | (d', Inr x) \<Rightarrow> (d', good x))"

definition with_org :: "headers \<Rightarrow> req_ctx \<Rightarrow> (uuid \<Rightarrow> endpoint) \<Rightarrow> endpoint" where
  "with_org w cx k =
     (if OrgIDFromContext cx = uuid_Nil then answer (reply_error w 401 ''unauthorized'')
      else k (OrgIDFromContext cx))"

definition with_id :: "api_env \<Rightarrow> headers \<Rightarrow> string \<Rightarrow> string \<Rightarrow> (uuid \<Rightarrow> endpoint) \<Rightarrow> endpoint" where
  "with_id pe w raw msg k =
     (case pe_uuid pe raw of None \<Rightarrow> answer (reply_error w 400 msg) | Some i \<Rightarrow> k i)"

text \<open>\<open>json.NewDecoder(r.Body).Decode(&params)\<close>.\<close>

definition decode_body :: "api_env \<Rightarrow> (json \<Rightarrow> 'a option) \<Rightarrow> http_in \<Rightarrow> 'a res" where
  "decode_body pe dec r =
     res_bind (decode_max (pe_maxBody pe) (in_body r)) (\<lambda>j.
       case dec j of None \<Rightarrow> Inl json_type_error | Some x \<Rightarrow> Inr x)"

definition with_body ::
    "api_env \<Rightarrow> headers \<Rightarrow> (json \<Rightarrow> 'a option) \<Rightarrow> http_in \<Rightarrow> ('a \<Rightarrow> endpoint) \<Rightarrow> endpoint" where
  "with_body pe w dec r k =
     (case decode_body pe dec r of
        Inl e \<Rightarrow> answer (reply_error w 400 ''invalid request body'') | Inr x \<Rightarrow> k x)"

text \<open>The checks of required fields, in order: when it fails, the field and the message.\<close>

fun required :: "headers \<Rightarrow> (bool \<times> string \<times> string) list \<Rightarrow> endpoint \<Rightarrow> endpoint" where
  "required w [] k = k"
| "required w ((bad, field, msg) # cs) k =
     (if bad then answer (ValidationError w field msg) else required w cs k)"

definition says :: "headers \<Rightarrow> int \<Rightarrow> string \<Rightarrow> 'a \<Rightarrow> reply" where
  "says w status msg _ = reply_error w status msg"

definition status_reply :: "headers \<Rightarrow> int \<Rightarrow> string \<Rightarrow> 'a \<Rightarrow> reply" where
  "status_reply w status s _ = reply_json w status (JObj [(''status'', JStr s)])"

subsection \<open>Decoding request bodies\<close>

text \<open>Pointers to numbers and texts, and identifiers, which decode from their text form.\<close>

fun dec_int_ptr :: "(int \<Rightarrow> bool) \<Rightarrow> json list \<Rightarrow> int option \<Rightarrow> int option option" where
  "dec_int_ptr ok [] cur = Some cur"
| "dec_int_ptr ok (JNull # vs) cur = dec_int_ptr ok vs None"
| "dec_int_ptr ok (JInt n # vs) cur = (if ok n then dec_int_ptr ok vs (Some n) else None)"
| "dec_int_ptr ok (_ # vs) cur = None"

definition int32_ok :: "int \<Rightarrow> bool" where
  "int32_ok n \<longleftrightarrow> - (2 ^ 31) \<le> n \<and> n < 2 ^ 31"

fun dec_float_ptr :: "json list \<Rightarrow> rat option \<Rightarrow> rat option option" where
  "dec_float_ptr [] cur = Some cur"
| "dec_float_ptr (JNull # vs) cur = dec_float_ptr vs None"
| "dec_float_ptr (JInt n # vs) cur = dec_float_ptr vs (Some (of_int n))"
| "dec_float_ptr (JFloat q # vs) cur = dec_float_ptr vs (Some q)"
| "dec_float_ptr (_ # vs) cur = None"

fun dec_str_ptr :: "json list \<Rightarrow> string option \<Rightarrow> string option option" where
  "dec_str_ptr [] cur = Some cur"
| "dec_str_ptr (JNull # vs) cur = dec_str_ptr vs None"
| "dec_str_ptr (JStr s # vs) cur = dec_str_ptr vs (Some s)"
| "dec_str_ptr (_ # vs) cur = None"

fun dec_uuid :: "(string \<Rightarrow> uuid option) \<Rightarrow> json list \<Rightarrow> uuid \<Rightarrow> uuid option" where
  "dec_uuid parse [] cur = Some cur"
| "dec_uuid parse (JNull # vs) cur = dec_uuid parse vs cur"
| "dec_uuid parse (JStr s # vs) cur = (case parse s of None \<Rightarrow> None | Some u \<Rightarrow> dec_uuid parse vs u)"
| "dec_uuid parse (_ # vs) cur = None"

text \<open>A null element is the nil UUID of a fresh slice.\<close>

fun dec_uuids :: "(string \<Rightarrow> uuid option) \<Rightarrow> json list \<Rightarrow> uuid list option" where
  "dec_uuids parse [] = Some []"
| "dec_uuids parse (v # vs) =
     (case dec_uuid parse [v] uuid_Nil of None \<Rightarrow> None | Some u \<Rightarrow> map_option ((#) u) (dec_uuids parse vs))"

fun dec_uuid_slice :: "(string \<Rightarrow> uuid option) \<Rightarrow> json list \<Rightarrow> uuid list \<Rightarrow> uuid list option" where
  "dec_uuid_slice parse [] cur = Some cur"
| "dec_uuid_slice parse (JNull # vs) cur = dec_uuid_slice parse vs []"
| "dec_uuid_slice parse (JArr xs # vs) cur =
     (case dec_uuids parse xs of None \<Rightarrow> None | Some us \<Rightarrow> dec_uuid_slice parse vs us)"
| "dec_uuid_slice parse (_ # vs) cur = None"

text \<open>One field of a struct, and the decoders of the request types.\<close>

definition text_field :: "string \<Rightarrow> (string \<times> json) list \<Rightarrow> string option" where
  "text_field k kvs = dec_str (field_vals k kvs) []"

definition flag_field :: "string \<Rightarrow> (string \<times> json) list \<Rightarrow> bool option option" where
  "flag_field k kvs = dec_bool_ptr (field_vals k kvs) None"

definition source_params_of :: "json \<Rightarrow> source_params option" where
  "source_params_of j =
     Option.bind (struct_members j) (\<lambda>kvs.
     Option.bind (text_field ''name'' kvs) (\<lambda>nm.
     Option.bind (text_field ''route'' kvs) (\<lambda>route.
     Option.bind (dec_str_ptr (field_vals ''description'' kvs) None) (\<lambda>descr.
     Option.bind (text_field ''llm_provider'' kvs) (\<lambda>provider.
     Option.bind (text_field ''llm_model'' kvs) (\<lambda>model.
     Option.bind (text_field ''llm_api_key'' kvs) (\<lambda>key.
     Option.bind (text_field ''llm_base_url'' kvs) (\<lambda>base.
     Option.bind (text_field ''input_pass_criteria'' kvs) (\<lambda>ic.
     Option.bind (dec_int_ptr int32_ok (field_vals ''input_pass_threshold'' kvs) None) (\<lambda>ith.
     Option.bind (text_field ''output_pass_criteria'' kvs) (\<lambda>oc.
     Option.bind (dec_int_ptr int32_ok (field_vals ''output_pass_threshold'' kvs) None) (\<lambda>oth.
     Option.bind (flag_field ''enabled'' kvs) (\<lambda>en.
       Some \<lparr>sv_Name = nm, sv_Route = route, sv_Description = descr, sv_LLMProvider = provider,
             sv_LLMModel = model, sv_LLMAPIKey = key, sv_LLMBaseURL = base, sv_InputPassCriteria = ic,
             sv_InputPassThreshold = ith, sv_OutputPassCriteria = oc, sv_OutputPassThreshold = oth,
             sv_Enabled = en\<rparr>)))))))))))))"

definition guardrail_params_of :: "(int \<Rightarrow> json option) \<Rightarrow> json \<Rightarrow> guardrail_params option" where
  "guardrail_params_of big j =
     Option.bind (struct_members j) (\<lambda>kvs.
     Option.bind (text_field ''name'' kvs) (\<lambda>nm.
     Option.bind (text_field ''guard_type'' kvs) (\<lambda>ty.
     Option.bind (text_field ''phase'' kvs) (\<lambda>ph.
     Option.bind (dec_iface_map big (field_vals ''config'' kvs) None) (\<lambda>config.
     Option.bind (flag_field ''enabled'' kvs) (\<lambda>en.
       Some \<lparr>gv_Name = nm, gv_GuardType = ty, gv_Phase = ph, gv_Config = config, gv_Enabled = en\<rparr>))))))"

definition transformer_params_of :: "(int \<Rightarrow> json option) \<Rightarrow> json \<Rightarrow> transformer_params option" where
  "transformer_params_of big j =
     Option.bind (struct_members j) (\<lambda>kvs.
     Option.bind (text_field ''name'' kvs) (\<lambda>nm.
     Option.bind (text_field ''transformer_type'' kvs) (\<lambda>ty.
     Option.bind (text_field ''phase'' kvs) (\<lambda>ph.
     Option.bind (dec_iface_map big (field_vals ''config'' kvs) None) (\<lambda>config.
     Option.bind (flag_field ''enabled'' kvs) (\<lambda>en.
       Some \<lparr>tv_Name = nm, tv_TransformerType = ty, tv_Phase = ph, tv_Config = config, tv_Enabled = en\<rparr>))))))"

definition alert_params_of :: "json \<Rightarrow> alert_params option" where
  "alert_params_of j =
     Option.bind (struct_members j) (\<lambda>kvs.
     Option.bind (text_field ''name'' kvs) (\<lambda>nm.
     Option.bind (text_field ''url'' kvs) (\<lambda>url.
     Option.bind (text_field ''payload_format'' kvs) (\<lambda>fmt.
     Option.bind (flag_field ''enabled'' kvs) (\<lambda>en.
       Some \<lparr>lv_Name = nm, lv_URL = url, lv_PayloadFormat = fmt, lv_Enabled = en\<rparr>)))))"

subsection \<open>The rows as JSON\<close>

text \<open>
  \<open>db/generated/models.go\<close>: the structs as their JSON tags print them. \<open>pgtype\<close> values print
  as the value or as null.
\<close>

definition marshal_organization :: "api_env \<Rightarrow> organization_row \<Rightarrow> json" where
  "marshal_organization pe r = JObj
     [(''id'', JStr (og_ID r)), (''name'', JStr (og_Name r)), (''created_at'', JStr (pe_rfc3339 pe (og_CreatedAt r))),
      (''updated_at'', JStr (pe_rfc3339 pe (og_UpdatedAt r)))]"

definition marshal_user :: "api_env \<Rightarrow> user_row \<Rightarrow> json" where
  "marshal_user pe r = JObj
     [(''id'', JStr (us_ID r)), (''organization_id'', JStr (us_OrganizationID r)), (''email'', JStr (us_Email r)),
      (''password_hash'', JStr (us_PasswordHash r)), (''created_at'', JStr (pe_rfc3339 pe (us_CreatedAt r))),
      (''updated_at'', JStr (pe_rfc3339 pe (us_UpdatedAt r)))]"

definition null_or :: "('a \<Rightarrow> json) \<Rightarrow> 'a option \<Rightarrow> json" where
  "null_or f v = (case v of None \<Rightarrow> JNull | Some x \<Rightarrow> f x)"

definition marshal_api_key :: "api_env \<Rightarrow> api_key_row \<Rightarrow> json" where
  "marshal_api_key pe r = JObj
     [(''id'', JStr (ky_ID r)), (''organization_id'', JStr (ky_OrganizationID r)), (''name'', JStr (ky_Name r)),
      (''key_hash'', JStr (ky_KeyHash r)), (''key_prefix'', JStr (ky_KeyPrefix r)),
      (''created_at'', JStr (pe_rfc3339 pe (ky_CreatedAt r))),
      (''revoked_at'', null_or (\<lambda>t. JStr (pe_rfc3339 pe t)) (ky_RevokedAt r)),
      (''rate_limit_rps'', null_or JFloat (ky_RateLimitRps r)),
      (''rate_limit_burst'', null_or JInt (ky_RateLimitBurst r))]"

definition marshal_alert_row :: "api_env \<Rightarrow> alert_row \<Rightarrow> json" where
  "marshal_alert_row pe r = JObj
     [(''id'', JStr (al_ID r)), (''organization_id'', JStr (al_OrganizationID r)), (''name'', JStr (al_Name r)),
      (''url'', JStr (al_Url r)), (''payload_format'', JStr (al_PayloadFormat r)), (''enabled'', JBool (al_Enabled r)),
      (''created_at'', JStr (pe_rfc3339 pe (al_CreatedAt r))), (''updated_at'', JStr (pe_rfc3339 pe (al_UpdatedAt r)))]"

subsection \<open>handler/auth.go\<close>

definition registerRequest :: "json \<Rightarrow> (string \<times> string \<times> string) option" where
  "registerRequest j =
     Option.bind (struct_members j) (\<lambda>kvs.
     Option.bind (text_field ''org_name'' kvs) (\<lambda>orgName.
     Option.bind (text_field ''email'' kvs) (\<lambda>email.
     Option.bind (text_field ''password'' kvs) (\<lambda>password. Some (orgName, email, password)))))"

definition loginRequest :: "json \<Rightarrow> (string \<times> string) option" where
  "loginRequest j =
     Option.bind (struct_members j) (\<lambda>kvs.
     Option.bind (text_field ''email'' kvs) (\<lambda>email.
     Option.bind (text_field ''password'' kvs) (\<lambda>password. Some (email, password))))"

definition createAPIKeyRequest :: "json \<Rightarrow> (string \<times> rat option \<times> int option) option" where
  "createAPIKeyRequest j =
     Option.bind (struct_members j) (\<lambda>kvs.
     Option.bind (text_field ''name'' kvs) (\<lambda>nm.
     Option.bind (dec_float_ptr (field_vals ''rate_limit_rps'' kvs) None) (\<lambda>rps.
     Option.bind (dec_int_ptr int64_ok (field_vals ''rate_limit_burst'' kvs) None) (\<lambda>burst.
       Some (nm, rps, burst)))))"

definition AuthHandler_Register :: "api_env \<Rightarrow> headers \<Rightarrow> http_in \<Rightarrow> endpoint" where
  "AuthHandler_Register pe w r =
     with_body pe w registerRequest r
       (\<lambda>(orgName, email, password).
         required w
           [(orgName = [], ''org_name'', ''organization name is required''),
            (email = [], ''email'', ''email is required''),
            (length password < 8, ''password'', ''password must be at least 8 characters'')]
           (respond (Register (pe_auth pe) orgName email password) (says w 500 ''failed to register'')
              (\<lambda>(org, user, token). reply_json w 201 (JObj
                 [(''organization'', marshal_organization pe org), (''user'', marshal_user pe user),
                  (''token'', JStr token)]))))"

definition AuthHandler_Login :: "api_env \<Rightarrow> headers \<Rightarrow> http_in \<Rightarrow> endpoint" where
  "AuthHandler_Login pe w r =
     with_body pe w loginRequest r
       (\<lambda>(email, password).
         if email = [] \<or> password = [] then answer (reply_error w 400 ''email and password are required'')
         else respond (Login (pe_auth pe) email password) (says w 401 ''invalid credentials'')
           (\<lambda>(user, token). reply_json w 200 (JObj [(''user'', marshal_user pe user), (''token'', JStr token)])))"

definition AuthHandler_CreateAPIKey :: "api_env \<Rightarrow> headers \<Rightarrow> http_in \<Rightarrow> req_ctx \<Rightarrow> endpoint" where
  "AuthHandler_CreateAPIKey pe w r cx =
     with_org w cx (\<lambda>orgID.
       with_body pe w createAPIKeyRequest r
         (\<lambda>(nm, rps, burst).
           required w
             [(nm = [], ''name'', ''API key name is required''),
              (case rps of None \<Rightarrow> False | Some q \<Rightarrow> q \<le> 0, ''rate_limit_rps'', ''rate_limit_rps must be greater than 0''),
              (case burst of None \<Rightarrow> False | Some n \<Rightarrow> n \<le> 0, ''rate_limit_burst'', ''rate_limit_burst must be greater than 0'')]
             (respond (AuthService_CreateAPIKey (pe_auth pe) orgID nm rps burst) (says w 500 ''failed to create API key'')
                (\<lambda>(k, rawKey). reply_json w 201 (JObj
                   [(''api_key'', marshal_api_key pe k), (''raw_key'', JStr rawKey)])))))"

definition toAPIKeySummary :: "api_env \<Rightarrow> api_key_row \<Rightarrow> json" where
  "toAPIKeySummary pe k =
     (let ftime = ce_time (pe_cp pe) in JObj
       [(''id'', JStr (ky_ID k)), (''name'', JStr (ky_Name k)), (''created_at'', JStr (ftime (ky_CreatedAt k))),
        (''revoked_at'', null_or (\<lambda>t. JStr (ftime t)) (ky_RevokedAt k)),
        (''rate_limit_rps'', null_or JFloat (ky_RateLimitRps k)),
        (''rate_limit_burst'', null_or JInt (ky_RateLimitBurst k))])"

definition AuthHandler_ListAPIKeys :: "api_env \<Rightarrow> headers \<Rightarrow> req_ctx \<Rightarrow> endpoint" where
  "AuthHandler_ListAPIKeys pe w cx =
     with_org w cx (\<lambda>orgID.
       respond (AuthService_ListAPIKeys (pe_auth pe) orgID) (says w 500 ''failed to list API keys'')
         (\<lambda>ks. reply_json w 200 (JArr (map (toAPIKeySummary pe) ks))))"

definition AuthHandler_Refresh :: "api_env \<Rightarrow> headers \<Rightarrow> req_ctx \<Rightarrow> endpoint" where
  "AuthHandler_Refresh pe w cx =
     (let userID = UserIDFromContext cx; orgID = OrgIDFromContext cx in
      if userID = uuid_Nil \<or> orgID = uuid_Nil then answer (reply_error w 401 ''unauthorized'')
      else (case RefreshToken (pe_auth pe)
                \<lparr>tk_UserID = userID, tk_OrgID = orgID, tk_ExpiresAt = 0, tk_IssuedAt = 0, tk_Issuer = []\<rparr> of
              Inl e \<Rightarrow> answer (reply_error w 500 ''failed to refresh token'')
            | Inr token \<Rightarrow> answer (reply_json w 200 (JObj [(''token'', JStr token)]))))"

definition AuthHandler_RevokeAPIKey :: "api_env \<Rightarrow> headers \<Rightarrow> req_ctx \<Rightarrow> string \<Rightarrow> endpoint" where
  "AuthHandler_RevokeAPIKey pe w cx raw =
     with_org w cx (\<lambda>orgID.
     with_id pe w raw ''invalid API key ID'' (\<lambda>keyID.
       respond (AuthService_RevokeAPIKey (pe_auth pe) orgID keyID) (says w 500 ''failed to revoke API key'')
         (status_reply w 200 ''revoked'')))"

subsection \<open>handler/source.go\<close>

definition SourceHandler_Create :: "api_env \<Rightarrow> headers \<Rightarrow> http_in \<Rightarrow> req_ctx \<Rightarrow> endpoint" where
  "SourceHandler_Create pe w r cx =
     with_org w cx (\<lambda>orgID.
     with_body pe w source_params_of r (\<lambda>p.
       required w
         [(sv_Name p = [], ''name'', ''name is required''),
          (sv_Route p = [], ''route'', ''route is required''),
          (sv_LLMProvider p = [], ''llm_provider'', ''LLM provider is required''),
          (sv_LLMModel p = [], ''llm_model'', ''LLM model is required''),
          (sv_LLMAPIKey p = [], ''llm_api_key'', ''LLM API key is required'')]
         (respond (SourceService_Create (pe_cp pe) orgID p) (reply_error w 422)
            (\<lambda>s. reply_json w 201 (ToSourceResponse (pe_cp pe) s)))))"

definition SourceHandler_List :: "api_env \<Rightarrow> headers \<Rightarrow> req_ctx \<Rightarrow> endpoint" where
  "SourceHandler_List pe w cx =
     with_org w cx (\<lambda>orgID.
       respond (SourceService_List (pe_cp pe) orgID) (says w 500 ''failed to list sources'')
         (\<lambda>ss. reply_json w 200 (ToSourceResponses (pe_cp pe) ss)))"

definition SourceHandler_Get :: "api_env \<Rightarrow> headers \<Rightarrow> req_ctx \<Rightarrow> string \<Rightarrow> endpoint" where
  "SourceHandler_Get pe w cx raw =
     with_org w cx (\<lambda>orgID.
     with_id pe w raw ''invalid source ID'' (\<lambda>sourceID.
       respond (SourceService_Get (pe_cp pe) orgID sourceID) (says w 404 ''source not found'')
         (\<lambda>s. reply_json w 200 (ToSourceResponse (pe_cp pe) s))))"

definition SourceHandler_Update :: "api_env \<Rightarrow> headers \<Rightarrow> http_in \<Rightarrow> req_ctx \<Rightarrow> string \<Rightarrow> endpoint" where
  "SourceHandler_Update pe w r cx raw =
     with_org w cx (\<lambda>orgID.
     with_id pe w raw ''invalid source ID'' (\<lambda>sourceID.
     with_body pe w source_params_of r (\<lambda>p.
       respond (SourceService_Update (pe_cp pe) orgID sourceID p) (reply_error w 422)
         (\<lambda>s. reply_json w 200 (ToSourceResponse (pe_cp pe) s)))))"

definition SourceHandler_Delete :: "api_env \<Rightarrow> headers \<Rightarrow> req_ctx \<Rightarrow> string \<Rightarrow> endpoint" where
  "SourceHandler_Delete pe w cx raw =
     with_org w cx (\<lambda>orgID.
     with_id pe w raw ''invalid source ID'' (\<lambda>sourceID.
       respond (SourceService_Delete (pe_cp pe) orgID sourceID) (says w 500 ''failed to delete source'')
         (status_reply w 200 ''deleted'')))"

subsection \<open>handler/guardrail.go\<close>

text \<open>These handlers read the organization from the context without checking that there is one.\<close>

definition toSourceSummaries :: "source_row list \<Rightarrow> json" where
  "toSourceSummaries ss =
     JArr (map (\<lambda>s. JObj [(''id'', JStr (so_ID s)), (''name'', JStr (so_Name s)), (''route'', JStr (so_Route s))]) ss)"

definition GuardrailHandler_Create :: "api_env \<Rightarrow> headers \<Rightarrow> http_in \<Rightarrow> req_ctx \<Rightarrow> endpoint" where
  "GuardrailHandler_Create pe w r cx =
     (let orgID = OrgIDFromContext cx in
      with_body pe w (guardrail_params_of (ce_big (pe_cp pe))) r (\<lambda>p.
        required w
          [(gv_Name p = [], ''name'', ''name is required''),
           (gv_GuardType p = [], ''guard_type'', ''guard type is required'')]
          (let p = (if gv_Phase p = [] then p\<lparr>gv_Phase := ''input''\<rparr> else p) in
           respond (GuardrailService_Create (pe_cp pe) orgID p) (reply_error w 422)
             (\<lambda>g. reply_json w 201 (ToGuardrailResponse (pe_cp pe) g)))))"

definition GuardrailHandler_List :: "api_env \<Rightarrow> headers \<Rightarrow> req_ctx \<Rightarrow> endpoint" where
  "GuardrailHandler_List pe w cx =
     respond (GuardrailService_List (pe_cp pe) (OrgIDFromContext cx)) (says w 500 ''failed to list guardrails'')
       (\<lambda>gs. reply_json w 200 (ToGuardrailResponses (pe_cp pe) gs))"

definition GuardrailHandler_Get :: "api_env \<Rightarrow> headers \<Rightarrow> req_ctx \<Rightarrow> string \<Rightarrow> endpoint" where
  "GuardrailHandler_Get pe w cx raw =
     with_id pe w raw ''invalid guardrail ID'' (\<lambda>guardrailID.
       respond (GuardrailService_Get (pe_cp pe) (OrgIDFromContext cx) guardrailID) (says w 404 ''guardrail not found'')
         (\<lambda>g. reply_json w 200 (ToGuardrailResponse (pe_cp pe) g)))"

definition GuardrailHandler_Test :: "api_env \<Rightarrow> headers \<Rightarrow> http_in \<Rightarrow> req_ctx \<Rightarrow> string \<Rightarrow> endpoint" where
  "GuardrailHandler_Test pe w r cx raw =
     with_id pe w raw ''invalid guardrail ID'' (\<lambda>guardrailID.
     with_body pe w (\<lambda>j. Option.bind (struct_members j) (text_field ''input'')) r (\<lambda>input.
       respond (GuardrailService_Test (pe_cp pe) (OrgIDFromContext cx) guardrailID input) (reply_error w 422)
         (\<lambda>res. reply_json w 200 (marshal_guard_result res))))"

definition GuardrailHandler_Update :: "api_env \<Rightarrow> headers \<Rightarrow> http_in \<Rightarrow> req_ctx \<Rightarrow> string \<Rightarrow> endpoint" where
  "GuardrailHandler_Update pe w r cx raw =
     with_id pe w raw ''invalid guardrail ID'' (\<lambda>guardrailID.
     with_body pe w (guardrail_params_of (ce_big (pe_cp pe))) r (\<lambda>p.
       respond (GuardrailService_Update (pe_cp pe) (OrgIDFromContext cx) guardrailID p) (reply_error w 422)
         (\<lambda>g. reply_json w 200 (ToGuardrailResponse (pe_cp pe) g))))"

definition GuardrailHandler_Delete :: "api_env \<Rightarrow> headers \<Rightarrow> req_ctx \<Rightarrow> string \<Rightarrow> endpoint" where
  "GuardrailHandler_Delete pe w cx raw =
     with_id pe w raw ''invalid guardrail ID'' (\<lambda>guardrailID.
       respond (GuardrailService_Delete (pe_cp pe) (OrgIDFromContext cx) guardrailID)
         (says w 500 ''failed to delete guardrail'') (status_reply w 200 ''deleted''))"

definition GuardrailHandler_AttachToSource :: "api_env \<Rightarrow> headers \<Rightarrow> http_in \<Rightarrow> req_ctx \<Rightarrow> string \<Rightarrow> endpoint" where
  "GuardrailHandler_AttachToSource pe w r cx raw =
     with_id pe w raw ''invalid guardrail ID'' (\<lambda>guardrailID.
     with_body pe w (\<lambda>j. Option.bind (struct_members j) (text_field ''source_id'')) r (\<lambda>rawSource.
     with_id pe w rawSource ''invalid source_id'' (\<lambda>sourceID.
       respond (GuardrailService_AttachToSource (pe_cp pe) (OrgIDFromContext cx) guardrailID sourceID)
         (says w 500 ''failed to attach guardrail to source'') (status_reply w 201 ''attached''))))"

definition GuardrailHandler_DetachFromSource :: "api_env \<Rightarrow> headers \<Rightarrow> req_ctx \<Rightarrow> string \<Rightarrow> string \<Rightarrow> endpoint" where
  "GuardrailHandler_DetachFromSource pe w cx raw rawSource =
     with_id pe w raw ''invalid guardrail ID'' (\<lambda>guardrailID.
     with_id pe w rawSource ''invalid source ID'' (\<lambda>sourceID.
       respond (GuardrailService_DetachFromSource (pe_cp pe) (OrgIDFromContext cx) guardrailID sourceID)
         (says w 404 ''guardrail not found'') (status_reply w 200 ''detached'')))"

definition GuardrailHandler_ListSources :: "api_env \<Rightarrow> headers \<Rightarrow> req_ctx \<Rightarrow> string \<Rightarrow> endpoint" where
  "GuardrailHandler_ListSources pe w cx raw =
     with_id pe w raw ''invalid guardrail ID'' (\<lambda>guardrailID.
       respond (GuardrailService_ListSources (pe_cp pe) (OrgIDFromContext cx) guardrailID)
         (says w 404 ''guardrail not found'') (\<lambda>ss. reply_json w 200 (toSourceSummaries ss)))"

definition GuardrailHandler_ListBySource :: "api_env \<Rightarrow> headers \<Rightarrow> req_ctx \<Rightarrow> string \<Rightarrow> endpoint" where
  "GuardrailHandler_ListBySource pe w cx rawSource =
     with_id pe w rawSource ''invalid source ID'' (\<lambda>sourceID.
       respond (GuardrailService_ListBySource (pe_cp pe) (OrgIDFromContext cx) sourceID)
         (says w 404 ''source not found'') (\<lambda>gs. reply_json w 200 (ToGuardrailResponses (pe_cp pe) gs)))"

subsection \<open>handler/transformer.go\<close>

definition toTransformerResponse :: "api_env \<Rightarrow> transformer_row \<Rightarrow> int option \<Rightarrow> json" where
  "toTransformerResponse pe t position =
     (let e = pe_cp pe; config = SanitizeConfig (ce_lib e) (stored_config (ce_big e) (tf_Config t)) in
      JObj ([(''id'', JStr (tf_ID t)), (''organization_id'', JStr (tf_OrganizationID t)), (''name'', JStr (tf_Name t)),
             (''transformer_type'', JStr (tf_TransformerType t)), (''phase'', JStr (tf_Phase t)),
             (''config'', marshal_config config), (''enabled'', JBool (tf_Enabled t))]
            @ opt_member ''position'' JInt position
            @ [(''created_at'', JStr (ce_time e (tf_CreatedAt t))), (''updated_at'', JStr (ce_time e (tf_UpdatedAt t)))]))"

definition TransformerHandler_Create :: "api_env \<Rightarrow> headers \<Rightarrow> http_in \<Rightarrow> req_ctx \<Rightarrow> endpoint" where
  "TransformerHandler_Create pe w r cx =
     with_org w cx (\<lambda>orgID.
     with_body pe w (transformer_params_of (ce_big (pe_cp pe))) r (\<lambda>p.
       required w
         [(tv_Name p = [], ''name'', ''name is required''),
          (tv_TransformerType p = [], ''transformer_type'', ''transformer type is required'')]
         (respond (TransformerService_Create (pe_cp pe) orgID p) (reply_error w 422)
            (\<lambda>t. reply_json w 201 (toTransformerResponse pe t None)))))"

definition TransformerHandler_List :: "api_env \<Rightarrow> headers \<Rightarrow> req_ctx \<Rightarrow> endpoint" where
  "TransformerHandler_List pe w cx =
     with_org w cx (\<lambda>orgID.
       respond (TransformerService_List (pe_cp pe) orgID) (says w 500 ''failed to list transformers'')
         (\<lambda>ts. reply_json w 200 (JArr (map (\<lambda>t. toTransformerResponse pe t None) ts))))"

definition TransformerHandler_Get :: "api_env \<Rightarrow> headers \<Rightarrow> req_ctx \<Rightarrow> string \<Rightarrow> endpoint" where
  "TransformerHandler_Get pe w cx raw =
     with_org w cx (\<lambda>orgID.
     with_id pe w raw ''invalid transformer ID'' (\<lambda>tid.
       respond (TransformerService_Get (pe_cp pe) orgID tid) (says w 404 ''transformer not found'')
         (\<lambda>t. reply_json w 200 (toTransformerResponse pe t None))))"

definition TransformerHandler_Update :: "api_env \<Rightarrow> headers \<Rightarrow> http_in \<Rightarrow> req_ctx \<Rightarrow> string \<Rightarrow> endpoint" where
  "TransformerHandler_Update pe w r cx raw =
     with_org w cx (\<lambda>orgID.
     with_id pe w raw ''invalid transformer ID'' (\<lambda>tid.
     with_body pe w (transformer_params_of (ce_big (pe_cp pe))) r (\<lambda>p.
       respond (TransformerService_Update (pe_cp pe) orgID tid p) (reply_error w 422)
         (\<lambda>t. reply_json w 200 (toTransformerResponse pe t None)))))"

definition TransformerHandler_Delete :: "api_env \<Rightarrow> headers \<Rightarrow> req_ctx \<Rightarrow> string \<Rightarrow> endpoint" where
  "TransformerHandler_Delete pe w cx raw =
     with_org w cx (\<lambda>orgID.
     with_id pe w raw ''invalid transformer ID'' (\<lambda>tid.
       respond (TransformerService_Delete (pe_cp pe) orgID tid) (says w 500 ''failed to delete transformer'')
         (status_reply w 200 ''deleted'')))"

text \<open>A body that does not decode and one without a source give the same answer.\<close>

definition TransformerHandler_AttachToSource ::
    "api_env \<Rightarrow> headers \<Rightarrow> http_in \<Rightarrow> req_ctx \<Rightarrow> string \<Rightarrow> endpoint" where
  "TransformerHandler_AttachToSource pe w r cx raw =
     with_org w cx (\<lambda>orgID.
     with_id pe w raw ''invalid transformer ID'' (\<lambda>tid.
       case decode_body pe (\<lambda>j. Option.bind (struct_members j)
                (\<lambda>kvs. dec_uuid (pe_uuid pe) (field_vals ''source_id'' kvs) uuid_Nil)) r of
         Inl e \<Rightarrow> answer (reply_error w 400 ''source_id is required'')
       | Inr sourceID \<Rightarrow>
           if sourceID = uuid_Nil then answer (reply_error w 400 ''source_id is required'')
           else respond (TransformerService_AttachToSource (pe_cp pe) orgID tid sourceID) (reply_error w 400)
                  (status_reply w 201 ''attached'')))"

definition TransformerHandler_ListSources :: "api_env \<Rightarrow> headers \<Rightarrow> req_ctx \<Rightarrow> string \<Rightarrow> endpoint" where
  "TransformerHandler_ListSources pe w cx raw =
     with_org w cx (\<lambda>orgID.
     with_id pe w raw ''invalid transformer ID'' (\<lambda>tid.
       respond (TransformerService_ListSources (pe_cp pe) orgID tid) (says w 404 ''transformer not found'')
         (\<lambda>ss. reply_json w 200 (toSourceSummaries ss))))"

definition TransformerHandler_DetachFromSource ::
    "api_env \<Rightarrow> headers \<Rightarrow> req_ctx \<Rightarrow> string \<Rightarrow> string \<Rightarrow> endpoint" where
  "TransformerHandler_DetachFromSource pe w cx raw rawSource =
     with_org w cx (\<lambda>orgID.
     with_id pe w raw ''invalid transformer ID'' (\<lambda>tid.
     with_id pe w rawSource ''invalid source ID'' (\<lambda>sourceID.
       respond (TransformerService_DetachFromSource (pe_cp pe) orgID tid sourceID)
         (says w 404 ''transformer not found'') (status_reply w 200 ''detached''))))"

definition TransformerHandler_ListBySource :: "api_env \<Rightarrow> headers \<Rightarrow> req_ctx \<Rightarrow> string \<Rightarrow> endpoint" where
  "TransformerHandler_ListBySource pe w cx rawSource =
     with_org w cx (\<lambda>orgID.
     with_id pe w rawSource ''invalid source ID'' (\<lambda>sourceID.
       respond (TransformerService_ListBySource (pe_cp pe) orgID sourceID) (says w 404 ''source not found'')
         (\<lambda>rows. reply_json w 200 (JArr (map (\<lambda>(t, position). toTransformerResponse pe t (Some position)) rows)))))"

definition TransformerHandler_SetSourceTransformers ::
    "api_env \<Rightarrow> headers \<Rightarrow> http_in \<Rightarrow> req_ctx \<Rightarrow> string \<Rightarrow> endpoint" where
  "TransformerHandler_SetSourceTransformers pe w r cx rawSource =
     with_org w cx (\<lambda>orgID.
     with_id pe w rawSource ''invalid source ID'' (\<lambda>sourceID.
     with_body pe w (\<lambda>j. Option.bind (struct_members j)
         (\<lambda>kvs. dec_uuid_slice (pe_uuid pe) (field_vals ''transformer_ids'' kvs) [])) r (\<lambda>ids.
       respond (SetSourceTransformers (pe_cp pe) orgID sourceID ids) (reply_error w 422)
         (status_reply w 200 ''updated''))))"

subsection \<open>handler/alert.go and handler/connections.go\<close>

definition AlertHandler_Create :: "api_env \<Rightarrow> headers \<Rightarrow> http_in \<Rightarrow> req_ctx \<Rightarrow> endpoint" where
  "AlertHandler_Create pe w r cx =
     with_org w cx (\<lambda>orgID.
     with_body pe w alert_params_of r (\<lambda>p.
       respond (AlertService_Create (pe_cp pe) orgID p) (reply_error w 422)
         (\<lambda>wh. reply_json w 201 (marshal_alert_row pe wh))))"

definition AlertHandler_List :: "api_env \<Rightarrow> headers \<Rightarrow> req_ctx \<Rightarrow> endpoint" where
  "AlertHandler_List pe w cx =
     with_org w cx (\<lambda>orgID.
       respond (AlertService_List (pe_cp pe) orgID) (says w 500 ''failed to list alert webhooks'')
         (\<lambda>whs. reply_json w 200 (JArr (map (marshal_alert_row pe) whs))))"

definition AlertHandler_Update :: "api_env \<Rightarrow> headers \<Rightarrow> http_in \<Rightarrow> req_ctx \<Rightarrow> string \<Rightarrow> endpoint" where
  "AlertHandler_Update pe w r cx raw =
     with_org w cx (\<lambda>orgID.
     with_id pe w raw ''invalid id'' (\<lambda>aid.
     with_body pe w alert_params_of r (\<lambda>p.
       respond (AlertService_Update (pe_cp pe) orgID aid p) (reply_error w 422)
         (\<lambda>wh. reply_json w 200 (marshal_alert_row pe wh)))))"

definition AlertHandler_Delete :: "api_env \<Rightarrow> headers \<Rightarrow> req_ctx \<Rightarrow> string \<Rightarrow> endpoint" where
  "AlertHandler_Delete pe w cx raw =
     with_org w cx (\<lambda>orgID.
     with_id pe w raw ''invalid id'' (\<lambda>aid.
       respond (AlertService_Delete (pe_cp pe) orgID aid) (says w 500 ''failed to delete alert webhook'')
         (status_reply w 200 ''deleted'')))"

definition ConnectionsHandler_List :: "api_env \<Rightarrow> headers \<Rightarrow> req_ctx \<Rightarrow> endpoint" where
  "ConnectionsHandler_List pe w cx =
     with_org w cx (\<lambda>orgID.
       respond (ListSourceGuardrailsByOrg (ce_db (pe_cp pe)) orgID) (says w 500 ''failed to list connections'')
         (\<lambda>rows. reply_json w 200 (JArr (map (\<lambda>(s, g). JObj [(''source_id'', JStr s), (''guardrail_id'', JStr g)]) rows))))"

subsection \<open>handler/audit_log.go\<close>

text \<open>
  The request to the data plane: the query is encoded and decoded again, so the receiver sees the
  same parameters. Whatever it answers is passed on as JSON.
\<close>

definition audit_proxy :: "api_env \<Rightarrow> headers \<Rightarrow> string \<Rightarrow> (string, string) gomap \<Rightarrow> endpoint" where
  "audit_proxy pe w path q =
     (case pe_dataplane pe path
        \<lparr>in_headers = [(''Authorization'', ''Bearer '' @ pe_token pe)], in_query = q,
         in_body = \<lparr>b_value = None, b_end = 0, b_trailing = False, b_text = []\<rparr>\<rparr> of
        Dp_build_error \<Rightarrow> answer (reply_error w 500 ''failed to build data-plane query'')
      | Dp_failed \<Rightarrow> answer (reply_error w 502 ''data-plane query failed'')
      | Dp_answer status body \<Rightarrow>
          answer \<lparr>rep_status = status, rep_headers = m_set ''Content-Type'' ''application/json'' w, rep_body = body\<rparr>)"

text \<open>The parameters that are passed on when they are not empty.\<close>

fun pass_params :: "string list \<Rightarrow> (string, string) gomap \<Rightarrow> (string, string) gomap \<Rightarrow> (string, string) gomap" where
  "pass_params [] given q = q"
| "pass_params (k # ks) given q =
     (let v = get_or_empty given k in pass_params ks given (if v \<noteq> [] then m_set k v q else q))"

definition audit_query :: "string list \<Rightarrow> uuid \<Rightarrow> http_in \<Rightarrow> (string, string) gomap" where
  "audit_query ks orgID r = pass_params ks (in_query r) (m_set ''org_id'' orgID [])"

definition AuditLogHandler_List :: "api_env \<Rightarrow> headers \<Rightarrow> http_in \<Rightarrow> req_ctx \<Rightarrow> endpoint" where
  "AuditLogHandler_List pe w r cx =
     with_org w cx (\<lambda>orgID.
       if pe_dpURL pe = [] then answer (reply_error w 503 ''data plane not configured'')
       else audit_proxy pe w ''/v1/internal/audit-logs''
         (audit_query [''source_id'', ''status'', ''from'', ''to'', ''before'', ''before_id'', ''limit''] orgID r))"

definition AuditLogHandler_Analytics :: "api_env \<Rightarrow> headers \<Rightarrow> http_in \<Rightarrow> req_ctx \<Rightarrow> endpoint" where
  "AuditLogHandler_Analytics pe w r cx =
     with_org w cx (\<lambda>orgID.
       if pe_dpURL pe = [] then answer (reply_error w 503 ''data plane not configured'')
       else audit_proxy pe w ''/v1/internal/analytics'' (audit_query [''days''] orgID r))"

end
