(* ===== verification/Control_Router.thy ===== *)
theory Control_Router
  imports Control_Api Rate_Limiter
begin

text \<open>
  The control plane's server: \<open>internal/controlplane/config/config.go\<close>, the authentication of
  \<open>internal/controlplane/api/middleware\<close> and the routes of \<open>internal/controlplane/api/router.go\<close>.
  Which route a request matches is decided by the chi router and is given, with its path parameters.
\<close>

subsection \<open>config.go\<close>

text \<open>Durations are in nanoseconds; \<open>processed\<close> is what \<open>envconfig.Process\<close> read.\<close>

record cp_config =
  cc_Port :: int
  cc_ReadTimeout :: int
  cc_WriteTimeout :: int
  cc_ShutdownTimeout :: int
  cc_DatabaseURL :: string
  cc_JWTSecret :: string
  cc_JWTExpiration :: int
  cc_EncryptionKey :: string
  cc_DataPlaneToken :: string
  cc_DataPlaneURL :: string
  cc_LLMGatewayURL :: string
  cc_LLMRequestTimeout :: int
  cc_RateLimitRPS :: rat
  cc_RateLimitBurst :: int
  cc_AllowPrivateGuardURLs :: bool
  cc_MaxBodyBytes :: nat
  cc_ProxyTimeout :: int
  cc_CORSAllowedOrigins :: "string list"
  cc_LogLevel :: string

definition cp_Load :: "cp_config res \<Rightarrow> cp_config res" where
  "cp_Load processed = err_wrap ''loading config: '' processed"

subsection \<open>middleware/auth.go and middleware/dataplane.go\<close>

definition JWTAuth :: "auth_env \<Rightarrow> headers \<Rightarrow> http_in \<Rightarrow> req_ctx \<Rightarrow> reply + req_ctx" where
  "JWTAuth a w r cx =
     (let authHeader = get_or_empty (in_headers r) ''Authorization'' in
      if authHeader = [] then Inl (reply_error w 401 ''missing authorization header'')
      else
        (let parts = split_space2 authHeader in
         if length parts \<noteq> 2 \<or> \<not> is_bearer (parts ! 0)
         then Inl (reply_error w 401 ''invalid authorization header format'')
         else (case ValidateToken a (parts ! 1) of
                 Inl e \<Rightarrow> Inl (reply_error w 401 ''invalid or expired token'')
               | Inr claims \<Rightarrow> Inr (cx\<lparr>cx_user := Some (tk_UserID claims), cx_org := Some (tk_OrgID claims)\<rparr>))))"

definition CpAPIKeyAuth :: "auth_env \<Rightarrow> headers \<Rightarrow> http_in \<Rightarrow> req_ctx \<Rightarrow> db \<Rightarrow> db \<times> (reply + req_ctx)" where
  "CpAPIKeyAuth a w r cx d =
     (let authHeader = get_or_empty (in_headers r) ''Authorization'' in
      if authHeader = [] then (d, Inl (reply_error w 401 ''missing authorization header''))
      else
        (let parts = split_space2 authHeader in
         if length parts \<noteq> 2 \<or> \<not> is_bearer (parts ! 0)
         then (d, Inl (reply_error w 401 ''invalid authorization header format''))
         else (case ValidateAPIKey a (parts ! 1) d of
                 (d', Inl e) \<Rightarrow> (d', Inl (reply_error w 401 ''invalid API key''))
               | (d', Inr orgID) \<Rightarrow> (d', Inr (cx\<lparr>cx_org := Some orgID\<rparr>)))))"

definition DataPlaneAuth :: "string \<Rightarrow> headers \<Rightarrow> http_in \<Rightarrow> req_ctx \<Rightarrow> reply + req_ctx" where
  "DataPlaneAuth token w r cx =
     (if token = [] then Inl (reply_error w 503 ''data plane endpoint not configured'')
      else
        (let parts = split_space2 (get_or_empty (in_headers r) ''Authorization'') in
         if length parts \<noteq> 2 \<or> \<not> is_bearer (parts ! 0)
         then Inl (reply_error w 401 ''invalid authorization header format'')
         else if parts ! 1 \<noteq> token then Inl (reply_error w 401 ''invalid data plane token'')
         else Inr cx))"

subsection \<open>router.go\<close>

text \<open>The routes behind a JWT; an argument is a path parameter.\<close>

datatype jwt_route =
    Post_refresh | Post_api_keys | Get_api_keys | Delete_api_key string
  | Get_models
  | Post_sources | Get_sources | Get_source string | Put_source string | Delete_source string
  | Get_source_guardrails string | Get_source_transformers string | Put_source_transformers string
  | Post_guardrails | Get_guardrails | Get_guardrail string | Put_guardrail string | Delete_guardrail string
  | Post_guardrail_test string | Post_guardrail_sources string | Get_guardrail_sources string
  | Delete_guardrail_source string string
  | Get_connections
  | Post_transformers | Get_transformers | Get_transformer string | Put_transformer string
  | Delete_transformer string | Get_transformer_sources string | Post_transformer_sources string
  | Delete_transformer_source string string
  | Get_audit | Get_usage
  | Post_alerts | Get_alerts | Put_alert string | Delete_alert string

datatype cp_route =
    Get_cp_healthz | Get_cp_metrics | Get_openapi
  | Post_register | Post_login
  | Get_workspace_config
  | Behind_jwt jwt_route

fun jwt_handler :: "api_env \<Rightarrow> jwt_route \<Rightarrow> headers \<Rightarrow> http_in \<Rightarrow> req_ctx \<Rightarrow> endpoint" where
  "jwt_handler pe Post_refresh w r cx = AuthHandler_Refresh pe w cx"
| "jwt_handler pe Post_api_keys w r cx = AuthHandler_CreateAPIKey pe w r cx"
| "jwt_handler pe Get_api_keys w r cx = AuthHandler_ListAPIKeys pe w cx"
| "jwt_handler pe (Delete_api_key i) w r cx = AuthHandler_RevokeAPIKey pe w cx i"
| "jwt_handler pe Get_models w r cx = answer (ModelsHandler_List (pe_catalog pe) w r)"
| "jwt_handler pe Post_sources w r cx = SourceHandler_Create pe w r cx"
| "jwt_handler pe Get_sources w r cx = SourceHandler_List pe w cx"
| "jwt_handler pe (Get_source i) w r cx = SourceHandler_Get pe w cx i"
| "jwt_handler pe (Put_source i) w r cx = SourceHandler_Update pe w r cx i"
| "jwt_handler pe (Delete_source i) w r cx = SourceHandler_Delete pe w cx i"
| "jwt_handler pe (Get_source_guardrails s) w r cx = GuardrailHandler_ListBySource pe w cx s"
| "jwt_handler pe (Get_source_transformers s) w r cx = TransformerHandler_ListBySource pe w cx s"
| "jwt_handler pe (Put_source_transformers s) w r cx = TransformerHandler_SetSourceTransformers pe w r cx s"
| "jwt_handler pe Post_guardrails w r cx = GuardrailHandler_Create pe w r cx"
| "jwt_handler pe Get_guardrails w r cx = GuardrailHandler_List pe w cx"
| "jwt_handler pe (Get_guardrail i) w r cx = GuardrailHandler_Get pe w cx i"
| "jwt_handler pe (Put_guardrail i) w r cx = GuardrailHandler_Update pe w r cx i"
| "jwt_handler pe (Delete_guardrail i) w r cx = GuardrailHandler_Delete pe w cx i"
| "jwt_handler pe (Post_guardrail_test i) w r cx = GuardrailHandler_Test pe w r cx i"
| "jwt_handler pe (Post_guardrail_sources i) w r cx = GuardrailHandler_AttachToSource pe w r cx i"
| "jwt_handler pe (Get_guardrail_sources i) w r cx = GuardrailHandler_ListSources pe w cx i"
| "jwt_handler pe (Delete_guardrail_source i s) w r cx = GuardrailHandler_DetachFromSource pe w cx i s"
| "jwt_handler pe Get_connections w r cx = ConnectionsHandler_List pe w cx"
| "jwt_handler pe Post_transformers w r cx = TransformerHandler_Create pe w r cx"
| "jwt_handler pe Get_transformers w r cx = TransformerHandler_List pe w cx"
| "jwt_handler pe (Get_transformer i) w r cx = TransformerHandler_Get pe w cx i"
| "jwt_handler pe (Put_transformer i) w r cx = TransformerHandler_Update pe w r cx i"
| "jwt_handler pe (Delete_transformer i) w r cx = TransformerHandler_Delete pe w cx i"
| "jwt_handler pe (Get_transformer_sources i) w r cx = TransformerHandler_ListSources pe w cx i"
| "jwt_handler pe (Post_transformer_sources i) w r cx = TransformerHandler_AttachToSource pe w r cx i"
| "jwt_handler pe (Delete_transformer_source i s) w r cx = TransformerHandler_DetachFromSource pe w cx i s"
| "jwt_handler pe Get_audit w r cx = AuditLogHandler_List pe w r cx"
| "jwt_handler pe Get_usage w r cx = AuditLogHandler_Analytics pe w r cx"
| "jwt_handler pe Post_alerts w r cx = AlertHandler_Create pe w r cx"
| "jwt_handler pe Get_alerts w r cx = AlertHandler_List pe w cx"
| "jwt_handler pe (Put_alert i) w r cx = AlertHandler_Update pe w r cx i"
| "jwt_handler pe (Delete_alert i) w r cx = AlertHandler_Delete pe w cx i"

definition cp_healthz :: "headers \<Rightarrow> bool \<Rightarrow> reply" where
  "cp_healthz w ping_ok =
     (if \<not> ping_ok
      then reply_json w 503 (JObj [(''db'', JStr ''disconnected''), (''status'', JStr ''error'')])
      else reply_json w 200 (JObj [(''db'', JStr ''connected''), (''status'', JStr ''ok'')]))"

text \<open>
  One request through the middleware and its handler: the database and the reply, and the rate
  limiter of the organizations. The configuration is the one the environment was built from. The
  ping of the health check and the handlers of the metrics and of the static file are arguments;
  logging and metrics are those of \<open>Request_Metrics\<close>, and CORS and the recovery from panics the
  router library's.
\<close>

record cp_server =
  sr_cfg :: cp_config
  sr_api :: api_env
  sr_builder :: builder
  sr_ping :: bool
  sr_other :: "cp_route \<Rightarrow> headers \<Rightarrow> http_in \<Rightarrow> reply"

definition cp_serve ::
    "cp_server \<Rightarrow> 'l rate_lib \<Rightarrow> headers \<times> http_in \<Rightarrow> string \<Rightarrow> rat \<Rightarrow> cp_route
     \<Rightarrow> db \<Rightarrow> 'l rate_limiter \<Rightarrow> (db \<times> reply) \<times> 'l rate_limiter" where
  "cp_serve sr rl wr new_id now route d st =
     (case wr of (w0, r) \<Rightarrow>
      case RequestID new_id r (empty_ctx, w0) of (cx, w) \<Rightarrow>
      case route of
        Get_cp_healthz \<Rightarrow> ((d, cp_healthz w (sr_ping sr)), st)
      | Post_register \<Rightarrow> (AuthHandler_Register (sr_api sr) w r d, st)
      | Post_login \<Rightarrow> (AuthHandler_Login (sr_api sr) w r d, st)
      | Get_workspace_config \<Rightarrow>
          (case DataPlaneAuth (cc_DataPlaneToken (sr_cfg sr)) w r cx of
             Inl rep \<Rightarrow> ((d, rep), st)
           | Inr _ \<Rightarrow> (Workspace_Get (sr_builder sr) w r d, st))
      | Behind_jwt jr \<Rightarrow>
          (case JWTAuth (pe_auth (sr_api sr)) w r cx of
             Inl rep \<Rightarrow> ((d, rep), st)
           | Inr cx \<Rightarrow>
               (case MiddlewareWith rl now (org_key cx) w st of
                  (st', Some rep) \<Rightarrow> ((d, rep), st')
                | (st', None) \<Rightarrow> (jwt_handler (sr_api sr) jr w r cx d, st')))
      | other \<Rightarrow> ((d, sr_other sr other w r), st))"

end
