(* ===== verification/Api_Isolation.thy ===== *)
theory Api_Isolation
  imports Control_Router Tenant_Isolation
begin

text \<open>
  What the control plane's API lets through: every request is one step of the services on behalf of
  the organization its token names, so the separation of the tenants and the soundness of the
  database hold for every sequence of requests; and without a token nothing happens.
\<close>

subsection \<open>Requests as service steps\<close>

text \<open>The claims of the request's bearer token, when it is valid, and the organization they name.\<close>

definition bearer_claims :: "auth_env \<Rightarrow> http_in \<Rightarrow> token_claims option" where
  "bearer_claims a r =
     (case split_space2 (get_or_empty (in_headers r) ''Authorization'') of
        [b, token] \<Rightarrow>
          if is_bearer b
          then (case ValidateToken a token of Inl e \<Rightarrow> None | Inr c \<Rightarrow> Some c)
          else None
      | _ \<Rightarrow> None)"

definition caller :: "cp_server \<Rightarrow> cp_route \<Rightarrow> http_in \<Rightarrow> uuid option" where
  "caller sr route r =
     (case route of Behind_jwt jr \<Rightarrow> map_option tk_OrgID (bearer_claims (pe_auth (sr_api sr)) r) | _ \<Rightarrow> None)"

lemma two_parts: "length xs = 2 \<longleftrightarrow> (\<exists>a b. xs = [a, b])"
  by (auto simp: numeral_2_eq_2 length_Suc_conv)

lemma JWTAuth_cases:
  obtains (refused) m where "bearer_claims a r = None" "JWTAuth a w r cx = Inl (reply_error w 401 m)"
  | (passed) c where "bearer_claims a r = Some c"
      "JWTAuth a w r cx = Inr (cx\<lparr>cx_user := Some (tk_UserID c), cx_org := Some (tk_OrgID c)\<rparr>)"
proof (cases "bearer_claims a r")
  case None
  then have "\<exists>m. JWTAuth a w r cx = Inl (reply_error w 401 m)"
    by (auto simp: JWTAuth_def Let_def bearer_claims_def two_parts split: sum.splits)
  with None refused show thesis by blast
next
  case (Some c)
  then obtain b token where hd: "split_space2 (get_or_empty (in_headers r) ''Authorization'') = [b, token]"
    "is_bearer b" "ValidateToken a token = Inr c"
    by (auto simp: bearer_claims_def split: list.splits if_splits sum.splits)
  then have "get_or_empty (in_headers r) ''Authorization'' \<noteq> []" by (auto simp: split_space2_def)
  with hd Some passed show thesis by (simp add: JWTAuth_def Let_def)
qed

text \<open>A request with a valid token passes on with the token's user and organization.\<close>

definition identified :: "token_claims \<Rightarrow> req_ctx \<Rightarrow> req_ctx" where
  "identified c cx = cx\<lparr>cx_user := Some (tk_UserID c), cx_org := Some (tk_OrgID c)\<rparr>"

lemma identified_org [simp]: "OrgIDFromContext (identified c cx) = tk_OrgID c"
  by (simp add: identified_def OrgIDFromContext_def)

lemma cp_serve_jwt:
  assumes "bearer_claims (pe_auth (sr_api sr)) r = Some c" and "RequestID new_id r (empty_ctx, w0) = (cx, w)"
  shows "cp_serve sr rl (w0, r) new_id now (Behind_jwt jr) d st =
     (case MiddlewareWith rl now (org_key (identified c cx)) w st of
        (st', Some rep) \<Rightarrow> ((d, rep), st')
      | (st', None) \<Rightarrow> (jwt_handler (sr_api sr) jr w r (identified c cx) d, st'))"
proof -
  have "JWTAuth (pe_auth (sr_api sr)) w r cx = Inr (identified c cx)"
    using assms(1) by (cases rule: JWTAuth_cases [where a = "pe_auth (sr_api sr)" and w = w and r = r and cx = cx])
      (auto simp: identified_def)
  with assms(2) show ?thesis by (simp add: cp_serve_def)
qed

definition acts :: "cp_env \<Rightarrow> auth_env \<Rightarrow> uuid option \<Rightarrow> endpoint \<Rightarrow> bool" where
  "acts e a t h \<longleftrightarrow> (\<forall>d. cp_step e a t d (fst (h d)))"

named_theorems acting "endpoints that are service steps"

lemma cp_step_same: "cp_step e a t d d"
  using cp_step.read [of e a t d "statements d"] by simp

lemma acts_answer [acting]: "acts e a t (answer rep)"
  by (simp add: acts_def answer_def cp_step_same)

lemma fst_respond: "fst (respond q bad good d) = fst (q d)"
  by (simp add: respond_def split: prod.splits sum.splits)

lemma acts_respond: "(\<And>d. cp_step e a t d (fst (q d))) \<Longrightarrow> acts e a t (respond q bad good)"
  by (simp add: acts_def fst_respond)

lemma acts_guards [acting]:
  "acts e a t (k (OrgIDFromContext cx)) \<Longrightarrow> acts e a t (with_org w cx k)"
  "(\<And>i. acts e a t (k' i)) \<Longrightarrow> acts e a t (with_id pe w raw msg k')"
  "(\<And>x. acts e a t (k'' x)) \<Longrightarrow> acts e a t (with_body pe w dec r k'')"
  by (simp_all add: with_org_def with_id_def with_body_def acts_answer split: option.split sum.split)

lemma acts_required [acting]: "acts e a t k \<Longrightarrow> acts e a t (required w checks k)"
  by (induction w checks k rule: required.induct) (simp_all add: acts_answer)

lemma acts_if [acting]: "acts e a t h \<Longrightarrow> acts e a t h' \<Longrightarrow> acts e a t (if b then h else h')"
  by simp

lemma acts_pair [acting]: "(\<And>x y. acts e a t (f x y)) \<Longrightarrow> acts e a t (case p of (x, y) \<Rightarrow> f x y)"
  by (cases p) simp

text \<open>Reading advances the statement counter only.\<close>

interpretation reading: table_property "\<lambda>d. d\<lparr>statements := 0\<rparr> = d0\<lparr>statements := 0\<rparr>" for d0
  by unfold_locales simp

lemma reads_step:
  assumes "\<And>d0. reading.keeping d0 q"
  shows "cp_step e a t d (fst (q d))"
proof -
  let ?d' = "fst (q d)"
  have "?d' = (?d'\<lparr>statements := 0\<rparr>)\<lparr>statements := statements ?d'\<rparr>" by simp
  also have "?d'\<lparr>statements := 0\<rparr> = d\<lparr>statements := 0\<rparr>" by (rule reading.keptD [OF assms refl])
  finally have "?d' = d\<lparr>statements := statements ?d'\<rparr>" by simp
  then show ?thesis by (metis cp_step.read)
qed

lemma acts_read: "(\<And>d0. reading.keeping d0 q) \<Longrightarrow> acts e a t (respond q bad good)"
  by (rule acts_respond) (rule reads_step)

lemmas read_defs = reads_are_selects ListAPIKeysByOrganization_def ListSourcesByOrganization_def
  ListGuardrailsByOrg_def ListTransformersByOrg_def ListAlertWebhooksByOrganization_def
  ListSourceGuardrailsByOrg_def ListGuardrailsBySource_def ListSourcesByGuardrail_def
  ListSourcesByTransformer_def ListTransformersBySource_def

lemma reading_services [keeps]:
  "reading.keeping d0 (AuthService_ListAPIKeys a o1)"
  "reading.keeping d0 (SourceService_List e o1)"
  "reading.keeping d0 (SourceService_Get e o1 i)"
  "reading.keeping d0 (GuardrailService_List e o1)"
  "reading.keeping d0 (GuardrailService_Get e o1 i)"
  "reading.keeping d0 (GuardrailService_Test e o1 i txt)"
  "reading.keeping d0 (GuardrailService_ListSources e o1 i)"
  "reading.keeping d0 (GuardrailService_ListBySource e o1 i)"
  "reading.keeping d0 (TransformerService_List e o1)"
  "reading.keeping d0 (TransformerService_Get e o1 i)"
  "reading.keeping d0 (TransformerService_ListSources e o1 i)"
  "reading.keeping d0 (TransformerService_ListBySource e o1 i)"
  "reading.keeping d0 (AlertService_List e o1)"
  "reading.keeping d0 (ListSourceGuardrailsByOrg env o1)"
  "reading.keeping d0 (Login a em pw)"
  unfolding AuthService_ListAPIKeys_def SourceService_List_def SourceService_Get_def GuardrailService_List_def
    GuardrailService_Get_def GuardrailService_Test_def GuardrailService_ListSources_def
    GuardrailService_ListBySource_def TransformerService_List_def TransformerService_Get_def
    TransformerService_ListSources_def TransformerService_ListBySource_def AlertService_List_def Login_def read_defs
  by (intro keeps)+

lemma reading_build: "reading.keeping d0 (Build b)"
  unfolding Build_def build_queries_def Let_def ListAllActiveAPIKeys_def ListAllOrganizationIDs_def ListAllSources_def
    ListAllEnabledGuardrails_def ListAllSourceGuardrails_def ListAllEnabledTransformers_def
    ListAllSourceTransformers_def ListAllEnabledAlertWebhooks_def
  by (intro keeps)

lemmas acting_services [acting] =
  reading_services [THEN acts_read] cp_step.intros(2-) [THEN acts_respond]


lemmas handler_defs = AuthHandler_CreateAPIKey_def AuthHandler_ListAPIKeys_def AuthHandler_RevokeAPIKey_def
  SourceHandler_Create_def SourceHandler_List_def SourceHandler_Get_def SourceHandler_Update_def
  SourceHandler_Delete_def GuardrailHandler_Create_def GuardrailHandler_List_def GuardrailHandler_Get_def
  GuardrailHandler_Test_def GuardrailHandler_Update_def GuardrailHandler_Delete_def
  GuardrailHandler_AttachToSource_def GuardrailHandler_DetachFromSource_def GuardrailHandler_ListSources_def
  GuardrailHandler_ListBySource_def TransformerHandler_Create_def TransformerHandler_List_def
  TransformerHandler_Get_def TransformerHandler_Update_def TransformerHandler_Delete_def
  TransformerHandler_ListSources_def TransformerHandler_DetachFromSource_def TransformerHandler_ListBySource_def
  TransformerHandler_SetSourceTransformers_def AlertHandler_Create_def AlertHandler_List_def
  AlertHandler_Update_def AlertHandler_Delete_def ConnectionsHandler_List_def

lemma acts_special:
  "acts e a t (AuthHandler_Refresh pe w cx)"
  "acts e a t (AuditLogHandler_List pe w r cx)"
  "acts e a t (AuditLogHandler_Analytics pe w r cx)"
  by (simp_all add: AuthHandler_Refresh_def AuditLogHandler_List_def AuditLogHandler_Analytics_def audit_proxy_def
      with_org_def Let_def acts_answer split: sum.split dp_outcome.split)

lemma acts_transformer_attach:
  "acts (pe_cp pe) a (Some (OrgIDFromContext cx)) (TransformerHandler_AttachToSource pe w r cx raw)"
  unfolding TransformerHandler_AttachToSource_def
  by (intro acting) (simp add: acting split: sum.split)

lemma jwt_handler_acts:
  "acts (pe_cp pe) (pe_auth pe) (Some (OrgIDFromContext cx)) (jwt_handler pe jr w r cx)"
  by (cases jr) (simp_all only: jwt_handler.simps acts_special acts_transformer_attach,
    unfold handler_defs Let_def, (intro acting)+)

lemma api_request_step:
  "cp_step (pe_cp (sr_api sr)) (pe_auth (sr_api sr)) (caller sr route r) d
     (fst (fst (cp_serve sr rl (w0, r) new_id now route d st)))"
proof -
  let ?pe = "sr_api sr"
  obtain cx w where cw: "RequestID new_id r (empty_ctx, w0) = (cx, w)" by fastforce
  have pub: "cp_step (pe_cp ?pe) (pe_auth ?pe) None d (fst (AuthHandler_Register ?pe w r d))"
    "cp_step (pe_cp ?pe) (pe_auth ?pe) None d (fst (AuthHandler_Login ?pe w r d))"
    "cp_step (pe_cp ?pe) (pe_auth ?pe) None d (fst (Workspace_Get (sr_builder sr) w r d))"
  proof -
    have "acts (pe_cp ?pe) (pe_auth ?pe) None (AuthHandler_Register ?pe w r)"
      unfolding AuthHandler_Register_def by (intro acting)
    moreover have "acts (pe_cp ?pe) (pe_auth ?pe) None (AuthHandler_Login ?pe w r)"
      unfolding AuthHandler_Login_def by (intro acting)
    moreover have "fst (Workspace_Get (sr_builder sr) w r d) = fst (Build (sr_builder sr) d)"
      by (simp add: Workspace_Get_def Let_def split: prod.splits sum.splits)
    ultimately show "cp_step (pe_cp ?pe) (pe_auth ?pe) None d (fst (AuthHandler_Register ?pe w r d))"
      "cp_step (pe_cp ?pe) (pe_auth ?pe) None d (fst (AuthHandler_Login ?pe w r d))"
      "cp_step (pe_cp ?pe) (pe_auth ?pe) None d (fst (Workspace_Get (sr_builder sr) w r d))"
      using reads_step [OF reading_build] by (simp_all add: acts_def)
  qed
  show ?thesis
  proof (cases route)
    case (Behind_jwt jr)
    show ?thesis
    proof (cases "bearer_claims (pe_auth ?pe) r")
      case None
      then obtain m where "JWTAuth (pe_auth ?pe) w r cx = Inl (reply_error w 401 m)"
        by (cases rule: JWTAuth_cases [where a = "pe_auth ?pe" and w = w and r = r and cx = cx]) auto
      with Behind_jwt cw show ?thesis by (simp add: cp_serve_def cp_step_same)
    next
      case (Some c)
      have "cp_step (pe_cp ?pe) (pe_auth ?pe) (Some (tk_OrgID c)) d (fst (jwt_handler ?pe jr w r (identified c cx) d))"
        using jwt_handler_acts [of ?pe "identified c cx" jr w r] by (simp add: acts_def)
      moreover have "caller sr route r = Some (tk_OrgID c)" using Behind_jwt Some by (simp add: caller_def)
      ultimately show ?thesis unfolding Behind_jwt cp_serve_jwt [OF Some cw]
        by (simp add: Behind_jwt cp_step_same split: prod.split option.split)
    qed
  qed (use cw pub in \<open>simp_all add: cp_serve_def caller_def cp_step_same split: sum.split\<close>)
qed

text \<open>
  C8: every request is one step of the services on behalf of the organization its token names, or of
  nobody on the public routes: whatever the request carries in its path, query and body, the handlers
  do to the database what one service call of that organization does, and a request without a valid
  token behind the JWT changes nothing.
\<close>

theorem api_request_is_step:
  "cp_step (pe_cp (sr_api sr)) (pe_auth (sr_api sr)) (caller sr route r) d
     (fst (fst (cp_serve sr rl (w0, r) new_id now route d st)))"
  by (rule api_request_step)

text \<open>
  C12: the private routes answer only who may ask. Behind the JWT a request without a valid bearer
  token, and at the configuration endpoint of the data planes a request without the configured
  token, gets an error text with status 401 (503 when no data plane token is configured), and
  neither the database nor the rate limiter changes.
\<close>

definition authorized :: "cp_server \<Rightarrow> cp_route \<Rightarrow> http_in \<Rightarrow> bool" where
  "authorized sr route r =
     (case route of
        Behind_jwt jr \<Rightarrow> bearer_claims (pe_auth (sr_api sr)) r \<noteq> None
      | Get_workspace_config \<Rightarrow>
          cc_DataPlaneToken (sr_cfg sr) \<noteq> []
          \<and> (case split_space2 (get_or_empty (in_headers r) ''Authorization'') of
                [b, t] \<Rightarrow> is_bearer b \<and> t = cc_DataPlaneToken (sr_cfg sr) | _ \<Rightarrow> False)
      | _ \<Rightarrow> True)"

theorem private_routes_refuse:
  assumes "\<not> authorized sr route r"
  shows "\<exists>w m s. cp_serve sr rl (w0, r) new_id now route d st = ((d, reply_error w s m), st) \<and> (s = 401 \<or> s = 503)"
proof -
  obtain cx w where cw: "RequestID new_id r (empty_ctx, w0) = (cx, w)" by fastforce
  show ?thesis
  proof (cases route)
    case (Behind_jwt jr)
    with assms have "bearer_claims (pe_auth (sr_api sr)) r = None" by (simp add: authorized_def)
    then obtain m where "JWTAuth (pe_auth (sr_api sr)) w r cx = Inl (reply_error w 401 m)"
      by (cases rule: JWTAuth_cases [where a = "pe_auth (sr_api sr)" and w = w and r = r and cx = cx]) auto
    with Behind_jwt cw show ?thesis
      by (intro exI [of _ w] exI [of _ m] exI [of _ 401]) (simp add: cp_serve_def)
  next
    case Get_workspace_config
    let ?a = "DataPlaneAuth (cc_DataPlaneToken (sr_cfg sr)) w r cx"
    have serve: "cp_serve sr rl (w0, r) new_id now route d st = ((d, rep), st)" if "?a = Inl rep" for rep
      using that Get_workspace_config cw by (simp add: cp_serve_def)
    have "?a = Inl (reply_error w 503 ''data plane endpoint not configured'')
        \<or> ?a = Inl (reply_error w 401 ''invalid authorization header format'')
        \<or> ?a = Inl (reply_error w 401 ''invalid data plane token'')"
      using assms Get_workspace_config by (auto simp: authorized_def DataPlaneAuth_def Let_def two_parts)
    then show ?thesis using serve by blast
  qed (use assms in \<open>simp_all add: authorized_def\<close>)
qed

subsection \<open>Histories of requests\<close>

text \<open>A request with the server it meets: clocks, failures, nonces and tokens' secrets may differ each time.\<close>

record api_request =
  rq_server :: cp_server
  rq_in :: "headers \<times> http_in"
  rq_new_id :: string
  rq_now :: rat
  rq_route :: cp_route

fun api_run :: "'l rate_lib \<Rightarrow> api_request list \<Rightarrow> db \<times> 'l rate_limiter \<Rightarrow> db \<times> 'l rate_limiter" where
  "api_run rl [] s = s"
| "api_run rl (q # qs) s =
     (case cp_serve (rq_server q) rl (rq_in q) (rq_new_id q) (rq_now q) (rq_route q) (fst s) (snd s) of
        (dr, st) \<Rightarrow> api_run rl qs (fst dr, st))"

definition served_with :: "cp_env \<Rightarrow> api_request \<Rightarrow> bool" where
  "served_with b q \<longleftrightarrow> same_setup b (pe_cp (sr_api (rq_server q))) \<and> crypto_ok (pe_cp (sr_api (rq_server q)))"

definition request_caller :: "api_request \<Rightarrow> uuid option" where
  "request_caller q = caller (rq_server q) (rq_route q) (snd (rq_in q))"

text \<open>What every step keeps, every history keeps.\<close>

lemma api_run_keeps:
  assumes "list_all (served_with b) qs" and "reachable_db b (fst s)" and "P (fst s)"
    and "\<And>e a q d d'. cp_step e a (request_caller q) d d' \<Longrightarrow> q \<in> set qs \<Longrightarrow> P d \<Longrightarrow> P d'"
  shows "reachable_db b (fst (api_run rl qs s)) \<and> P (fst (api_run rl qs s))"
  using assms
proof (induction qs arbitrary: s)
  case (Cons q qs)
  let ?pe = "sr_api (rq_server q)"
  obtain d' rep st where run: "cp_serve (rq_server q) rl (rq_in q) (rq_new_id q) (rq_now q) (rq_route q) (fst s) (snd s)
      = ((d', rep), st)" by (metis prod.exhaust)
  have step: "cp_step (pe_cp ?pe) (pe_auth ?pe) (request_caller q) (fst s) d'"
    using api_request_step [of "rq_server q" "rq_route q" "snd (rq_in q)" "fst s" rl "fst (rq_in q)"
        "rq_new_id q" "rq_now q" "snd s"] run by (simp add: request_caller_def)
  have "reachable_db b d'"
    using Cons.prems(1,2) step by (auto simp: served_with_def intro: reachable_step)
  moreover have "P d'" using Cons.prems(4) [OF step] Cons.prems(3) by simp
  ultimately show ?case using Cons.IH [of "(d', st)"] Cons.prems(1,4) run by simp
qed simp


subsection \<open>An example\<close>

text \<open>A token that can be read back: texts are escaped and numbers written in ones.\<close>

definition escaped :: "string \<Rightarrow> string" where
  "escaped s = concat (map (\<lambda>c. [CHR ''+'', c]) s) @ [CHR ''-'']"

fun unescape :: "string \<Rightarrow> (string \<times> string) option" where
  "unescape (m # s) =
     (if m = CHR ''-'' then Some ([], s)
      else (case s of [] \<Rightarrow> None | c # t \<Rightarrow> map_option (\<lambda>(u, rest). (c # u, rest)) (unescape t)))"
| "unescape [] = None"

lemma unescape_escaped [simp]: "unescape (escaped s @ t) = Some (s, t)"
  by (induction s) (simp_all add: escaped_def)

definition in_ones :: "int \<Rightarrow> string" where
  "in_ones i = escaped (if i < 0 then CHR ''m'' # replicate (nat (- i)) CHR ''1'' else replicate (nat i) CHR ''1'')"

definition from_ones :: "string \<Rightarrow> int" where
  "from_ones s = (case s of CHR ''m'' # t \<Rightarrow> - int (length t) | _ \<Rightarrow> int (length s))"

definition example_sign :: "string \<Rightarrow> token_claims \<Rightarrow> string res" where
  "example_sign k c = Inr (escaped k @ escaped (tk_UserID c) @ escaped (tk_OrgID c) @ in_ones (tk_ExpiresAt c)
     @ in_ones (tk_IssuedAt c) @ escaped (tk_Issuer c))"

definition example_verify :: "string \<Rightarrow> int \<Rightarrow> string \<Rightarrow> token_claims res" where
  "example_verify k now t =
     (case Option.bind (unescape t) (\<lambda>(k', t). Option.bind (unescape t) (\<lambda>(u, t). Option.bind (unescape t) (\<lambda>(g, t).
            Option.bind (unescape t) (\<lambda>(ex, t). Option.bind (unescape t) (\<lambda>(iat, t). Option.bind (unescape t) (\<lambda>(iss, t).
              Some (k', \<lparr>tk_UserID = u, tk_OrgID = g, tk_ExpiresAt = from_ones ex, tk_IssuedAt = from_ones iat,
                         tk_Issuer = iss\<rparr>))))))) of
        None \<Rightarrow> Inl ''token is malformed''
      | Some (k', c) \<Rightarrow>
          if k' \<noteq> k then Inl ''token signature is invalid''
          else if now < tk_ExpiresAt c then Inr c else Inl ''token is expired'')"

definition example_jwt_auth :: "auth_env \<Rightarrow> auth_env" where
  "example_jwt_auth a = a\<lparr>jwt_sign := example_sign, jwt_verify := example_verify, au_jwtExpiration := 5\<rparr>"

lemma example_jwt_law: "jwt_law (example_jwt_auth example_auth)"
proof -
  have "unescape (in_ones i @ t) = Some (if i < 0 then CHR ''m'' # replicate (nat (- i)) CHR ''1''
      else replicate (nat i) CHR ''1'', t)" for i t
    by (simp add: in_ones_def)
  moreover have "from_ones (if i < 0 then CHR ''m'' # replicate (nat (- i)) CHR ''1'' else replicate (nat i) CHR ''1'') = i"
    for i by (cases "nat i") (auto simp: from_ones_def)
  moreover have "unescape (escaped s) = Some (s, [])" for s using unescape_escaped [of s "[]"] by simp
  ultimately show ?thesis
    by (simp add: jwt_law_def example_jwt_auth_def example_auth_def example_sign_def example_verify_def)
qed

text \<open>A server over the example of the services, and requests to it.\<close>

definition example_api :: api_env where
  "example_api = \<lparr>pe_cp = example_cp, pe_auth = example_jwt_auth example_auth, pe_uuid = Some, pe_maxBody = 1000,
     pe_catalog = loaded_catalog pricesData, pe_rfc3339 = (\<lambda>_. []), pe_dpURL = ''http://dp'', pe_token = ''shared'',
     pe_dataplane = (\<lambda>_ _. Dp_failed)\<rparr>"

definition example_cp_config :: cp_config where
  "example_cp_config = \<lparr>cc_Port = 8080, cc_ReadTimeout = 30 * 10 ^ 9, cc_WriteTimeout = 60 * 10 ^ 9,
     cc_ShutdownTimeout = 10 * 10 ^ 9, cc_DatabaseURL = ''db'', cc_JWTSecret = ''secret'', cc_JWTExpiration = 5 * 10 ^ 9,
     cc_EncryptionKey = replicate 64 CHR ''0'', cc_DataPlaneToken = ''shared'', cc_DataPlaneURL = ''http://dp'',
     cc_LLMGatewayURL = ''http://localhost:4000'', cc_LLMRequestTimeout = 30 * 10 ^ 9, cc_RateLimitRPS = 100,
     cc_RateLimitBurst = 200, cc_AllowPrivateGuardURLs = False, cc_MaxBodyBytes = 1000, cc_ProxyTimeout = 60 * 10 ^ 9,
     cc_CORSAllowedOrigins = [''http://localhost:3000''], cc_LogLevel = ''info''\<rparr>"

definition example_server :: cp_server where
  "example_server = \<lparr>sr_cfg = example_cp_config, sr_api = example_api,
     sr_builder = \<lparr>bu_env = example_cp, bu_digest = (\<lambda>_. ''0''), bu_now = ''now''\<rparr>, sr_ping = True,
     sr_other = (\<lambda>_ w _. reply_error w 404 [])\<rparr>"

definition example_token :: "uuid \<Rightarrow> uuid \<Rightarrow> string" where
  "example_token u g = (case generateToken (pe_auth example_api) u g of Inr t \<Rightarrow> t | Inl e \<Rightarrow> [])"

definition json_in :: "string \<Rightarrow> json \<Rightarrow> http_in" where
  "json_in authorization j = \<lparr>in_headers = (if authorization = [] then [] else [(''Authorization'', authorization)]),
     in_query = [], in_body = \<lparr>b_value = Some j, b_end = 100, b_trailing = False, b_text = []\<rparr>\<rparr>"

definition example_api_request :: "string \<Rightarrow> cp_route \<Rightarrow> json \<Rightarrow> api_request" where
  "example_api_request authorization route j = \<lparr>rq_server = example_server, rq_in = ([], json_in authorization j),
     rq_new_id = ''r'', rq_now = 1, rq_route = route\<rparr>"

definition example_requests :: "api_request list" where
  "example_requests =
     [example_api_request (''Bearer '' @ example_token ''8'' ''7'') (Behind_jwt (Delete_source ''3'')) JNull,
      example_api_request (''Bearer '' @ example_token ''8'' ''7'') (Behind_jwt Post_guardrails)
        (JObj [(''name'', JStr ''g''), (''guard_type'', JStr ''regex''),
               (''config'', JObj [(''patterns'', JArr [JStr ''x''])])]),
      example_api_request [] Post_register
        (JObj [(''org_name'', JStr ''New''), (''email'', JStr ''n@new''), (''password'', JStr ''password'')])]"

lemma example_served: "list_all (served_with example_cp) example_requests"
  using example_setup
  by (simp add: example_requests_def example_api_request_def served_with_def example_server_def example_api_def)

lemma example_requests_facts:
  "map request_caller example_requests = [Some ''7'', Some ''7'', None]"
  "length (guardrails (fst (api_run bucket_lib example_requests (example_db, NewRateLimiter 100 200)))) = 2"
  by code_simp+


theorem private_routes_refuse_witness:
  "\<exists>w m s. cp_serve example_server bucket_lib ([], json_in ''Bearer forged'' JNull) ''r'' 1
       (Behind_jwt (Delete_source ''3'')) example_db (NewRateLimiter 100 200)
     = ((example_db, reply_error w s m), NewRateLimiter 100 200) \<and> (s = 401 \<or> s = 503)"
proof (rule private_routes_refuse)
  show "\<not> authorized example_server (Behind_jwt (Delete_source ''3'')) (json_in ''Bearer forged'' JNull)"
    by code_simp
qed

end
