(* ===== verification/Api_Session.thy ===== *)
theory Api_Session
  imports Api_Isolation
begin

text \<open>
  Sessions of the dashboard: whoever registered can log in, whatever has been requested since, and
  the token a login or a refresh gives opens the private routes for the user's organization.
\<close>

subsection \<open>Accounts stay\<close>

interpretation account: table_property "\<lambda>d. u \<in> set (users d)" for u
  by unfold_locales simp

lemma account_statements [keeps]:
  "account.keeping u (CreateOrganization env name)"
  "account.keeping u (CreateUser env o1 em pw)"
  "account.keeping u (db_CreateAPIKey env o1 nm kh kp rps bu)"
  "account.keeping u (db_RevokeAPIKey env i o1)"
  "account.keeping u (CreateSource env o1 sc)"
  "account.keeping u (db_UpdateSource env i o1 sc)"
  "account.keeping u (db_DeleteSource env i o1)"
  "account.keeping u (CreateGuardrail env o1 gc)"
  "account.keeping u (db_UpdateGuardrail env i o1 gc)"
  "account.keeping u (db_DeleteGuardrail env i o1)"
  "account.keeping u (db_CreateTransformer env o1 tc)"
  "account.keeping u (db_UpdateTransformer env i o1 tc)"
  "account.keeping u (db_DeleteTransformer env i o1)"
  "account.keeping u (CreateAlertWebhook env o1 ac)"
  "account.keeping u (db_UpdateAlertWebhook env i o1 ac)"
  "account.keeping u (db_DeleteAlertWebhook env i o1)"
  "account.keeping u (AttachGuardrailToSource env i j)"
  "account.keeping u (DetachGuardrailFromSource env i j)"
  "account.keeping u (AttachTransformerToSource env i j)"
  "account.keeping u (DetachTransformerFromSource env i j)"
  "account.keeping u (InsertSourceTransformer env i j pos)"
  "account.keeping u (DeleteSourceTransformers env i)"
  "account.keeping u (CountTransformersByOrgAndIDs env o1 ids)"
  unfolding CreateOrganization_def CreateUser_def db_CreateAPIKey_def db_RevokeAPIKey_def db_DeleteSource_def
    db_DeleteGuardrail_def db_DeleteTransformer_def db_DeleteAlertWebhook_def AttachGuardrailToSource_def
    DetachGuardrailFromSource_def AttachTransformerToSource_def DetachTransformerFromSource_def
    InsertSourceTransformer_def DeleteSourceTransformers_def CountTransformersByOrgAndIDs_def insert_attachment_def
    CreateSource_def db_UpdateSource_def CreateGuardrail_def db_UpdateGuardrail_def
    db_CreateTransformer_def db_UpdateTransformer_def CreateAlertWebhook_def db_UpdateAlertWebhook_def
  by (rule account.kept_stmt; auto simp: Let_def split: if_splits list.splits)+

lemma account_services:
  "account.keeping u (SourceService_Create e o1 sp)" "account.keeping u (SourceService_Update e o1 i sp)"
  "account.keeping u (SourceService_Delete e o1 i)"
  "account.keeping u (GuardrailService_Create e o1 gp)" "account.keeping u (GuardrailService_Update e o1 i gp)"
  "account.keeping u (GuardrailService_Delete e o1 i)"
  "account.keeping u (GuardrailService_AttachToSource e o1 i j)"
  "account.keeping u (GuardrailService_DetachFromSource e o1 i j)"
  "account.keeping u (TransformerService_Create e o1 tp)" "account.keeping u (TransformerService_Update e o1 i tp)"
  "account.keeping u (TransformerService_Delete e o1 i)"
  "account.keeping u (TransformerService_AttachToSource e o1 i j)"
  "account.keeping u (TransformerService_DetachFromSource e o1 i j)"
  "account.keeping u (SetSourceTransformers e o1 i ids)"
  "account.keeping u (AlertService_Create e o1 ap)" "account.keeping u (AlertService_Update e o1 i ap)"
  "account.keeping u (AlertService_Delete e o1 i)"
  "account.keeping u (Register a nm em pw)" "account.keeping u (AuthService_CreateAPIKey a o1 nm rps bu)"
  "account.keeping u (AuthService_RevokeAPIKey a o1 i)"
  unfolding service_defs reads_are_selects Let_def
  by (intro keeps account.kept_insert_chain)+

lemma cp_step_account: "cp_step e a t d d' \<Longrightarrow> u \<in> set (users d) \<Longrightarrow> u \<in> set (users d')"
  by (cases rule: cp_step.cases, assumption; simp add: account_services [THEN account.keptD])

subsection \<open>Registration, login and tokens\<close>

text \<open>Two environments of one deployment: the same secret, and the same verification of hashes and tokens.\<close>

definition same_auth :: "auth_env \<Rightarrow> auth_env \<Rightarrow> bool" where
  "same_auth a a' \<longleftrightarrow> au_jwtSecret a' = au_jwtSecret a \<and> bcrypt_matches a' = bcrypt_matches a
     \<and> jwt_header a' = jwt_header a \<and> jwt_verify a' = jwt_verify a"

definition auth_at :: "api_request \<Rightarrow> auth_env" where
  "auth_at q = pe_auth (sr_api (rq_server q))"

lemma Register_Inr:
  assumes "Register a nm em pw d = (d', Inr (org, user, token))"
  shows "user \<in> set (users d')" and "us_Email user = em" and "us_OrganizationID user = og_ID org"
    and "bcrypt_hash a pw = Inr (us_PasswordHash user)" and "generateToken a (us_ID user) (og_ID org) = Inr token"
  using assms
  by (auto simp: Register_def q_bind_def q_wrap_def err_wrap_Inr_iff CreateUser_def run_stmt_def Let_def
      split: prod.splits sum.splits option.splits if_splits)

text \<open>A token opens the private routes for the user, until it expires.\<close>

lemma token_opens:
  assumes "jwt_law a" and "generateToken a u g = Inr token" and "same_auth a a'"
    and "au_now a' < au_now a + au_jwtExpiration a"
    and "get_or_empty (in_headers r) ''Authorization'' = ''Bearer '' @ token"
  shows "\<exists>c. bearer_claims a' r = Some c \<and> tk_UserID c = u \<and> tk_OrgID c = g"
proof -
  let ?c = "\<lparr>tk_UserID = u, tk_OrgID = g, tk_ExpiresAt = au_now a + au_jwtExpiration a, tk_IssuedAt = au_now a,
      tk_Issuer = ''sheeld''\<rparr>"
  have "jwt_sign a (au_jwtSecret a) ?c = Inr token" using assms(2) by (simp add: generateToken_def)
  with assms(1) have "jwt_header a token = Inr (True, ''HS256'')"
    and "jwt_verify a (au_jwtSecret a) (au_now a') token = Inr ?c"
    using assms(4) unfolding jwt_law_def by (blast, fastforce)
  with assms(3) have "ValidateToken a' token = Inr ?c" by (simp add: ValidateToken_def same_auth_def)
  moreover have "split_space2 (''Bearer '' @ token) = [''Bearer'', token]" by (simp add: split_space2_def)
  moreover have "is_bearer ''Bearer''" by code_simp
  ultimately show ?thesis using assms(5) by (simp add: bearer_claims_def)
qed

lemma register_served:
  assumes "cp_serve sr rl (w0, r) new_id now Post_register d st = ((d', rep), st')" and "rep_status rep = 201"
    and "decode_body (sr_api sr) registerRequest r = Inr (nm, em, pw)"
  obtains org user token where "Register (pe_auth (sr_api sr)) nm em pw d = (d', Inr (org, user, token))"
    and "rep_body rep = Json_body (JObj [(''organization'', marshal_organization (sr_api sr) org),
           (''user'', marshal_user (sr_api sr) user), (''token'', JStr token)])"
    and "em \<noteq> []" and "8 \<le> length pw"
proof -
  obtain cx w where cw: "RequestID new_id r (empty_ctx, w0) = (cx, w)" by fastforce
  with assms(1) have h: "AuthHandler_Register (sr_api sr) w r d = (d', rep)" by (simp add: cp_serve_def)
  show thesis
  proof (cases "Register (pe_auth (sr_api sr)) nm em pw d")
    case (Pair d1 res)
    with h assms(2,3) that show thesis
      by (auto simp: AuthHandler_Register_def with_body_def answer_def respond_def says_def ValidationError_def
          split: if_splits sum.splits prod.splits)
  qed
qed

lemma filter_key: "distinct (map f xs) \<Longrightarrow> x \<in> set xs \<Longrightarrow> filter (\<lambda>y. f y = f x) xs = [x]"
proof (induction xs)
  case (Cons y ys)
  then show ?case by (cases "y = x") (auto simp: filter_empty_conv, metis imageI)
qed simp

lemma login_served:
  assumes "db_ok d" and "user \<in> set (users d)" and "db_fails (au_db (pe_auth (sr_api sr))) (statements d) = None"
    and "us_Email user \<noteq> []" and "pw \<noteq> []" and "bcrypt_matches (pe_auth (sr_api sr)) (us_PasswordHash user) pw"
    and "generateToken (pe_auth (sr_api sr)) (us_ID user) (us_OrganizationID user) = Inr token"
    and "decode_body (sr_api sr) loginRequest r = Inr (us_Email user, pw)"
  shows "\<exists>d' rep. cp_serve sr rl (w0, r) new_id now Post_login d st = ((d', rep), st) \<and> rep_status rep = 200
     \<and> rep_body rep = Json_body (JObj [(''user'', marshal_user (sr_api sr) user), (''token'', JStr token)])"
proof -
  obtain cx w where cw: "RequestID new_id r (empty_ctx, w0) = (cx, w)" by fastforce
  let ?a = "pe_auth (sr_api sr)" let ?d = "d\<lparr>statements := Suc (statements d)\<rparr>"
  have "distinct (map us_Email (users d))" using assms(1) by (simp add: db_ok_def)
  then have "filter (\<lambda>r. us_Email r = us_Email user) (users d) = [user]"
    using assms(2) by (rule filter_key)
  then have "GetUserByEmail (au_db ?a) (us_Email user) d = (?d, Inr user)"
    using assms(3) by (simp add: GetUserByEmail_def select_one_def run_stmt_def Let_def)
  then have "Login ?a (us_Email user) pw d = (?d, Inr (user, token))"
    using assms(6,7) by (simp add: Login_def q_bind_def q_replace_err_def err_wrap_def)
  with assms(4,5,8) cw show ?thesis
    by (simp add: cp_serve_def AuthHandler_Login_def with_body_def respond_def)
qed

text \<open>
  C11: whoever registered can log in. After a registration answered with 201, and whatever requests
  followed, a login with the same address and password is answered with 200 and a token, if the
  database answers and tokens can be signed; and until it expires that token opens every private
  route as this user of the organization the registration created.
\<close>

theorem registered_can_log_in:
  assumes "reachable_db b d0" and "list_all (served_with b) (reg # since_then)"
    and "cp_serve (rq_server reg) rl (rq_in reg) (rq_new_id reg) (rq_now reg) Post_register d0 st0 = ((d1, rep), st1)"
    and "rq_route reg = Post_register" and "rep_status rep = 201"
    and "decode_body (sr_api (rq_server reg)) registerRequest (snd (rq_in reg)) = Inr (nm, em, pw)"
    and "api_run rl since_then (d1, st1) = (d2, st2)"
    and "decode_body (sr_api (rq_server q)) loginRequest (snd (rq_in q)) = Inr (em, pw)"
    and "bcrypt_law (auth_at reg)" and "same_auth (auth_at reg) (auth_at q)"
    and "db_fails (au_db (auth_at q)) (statements d2) = None"
    and "jwt_law (auth_at q)" and "\<forall>u g. \<not> is_err (generateToken (auth_at q) u g)"
  shows "\<exists>org user token d3 rep'.
     cp_serve (rq_server q) rl (rq_in q) (rq_new_id q) (rq_now q) Post_login d2 st2 = ((d3, rep'), st2)
     \<and> rep_status rep' = 200
     \<and> rep_body rep' = Json_body (JObj [(''user'', marshal_user (sr_api (rq_server q)) user), (''token'', JStr token)])
     \<and> us_Email user = em
     \<and> (\<exists>t. rep_body rep = Json_body (JObj [(''organization'', marshal_organization (sr_api (rq_server reg)) org),
           (''user'', marshal_user (sr_api (rq_server reg)) user), (''token'', JStr t)]))
     \<and> (\<forall>a r. same_auth (auth_at q) a \<and> au_now a < au_now (auth_at q) + au_jwtExpiration (auth_at q)
           \<and> get_or_empty (in_headers r) ''Authorization'' = ''Bearer '' @ token \<longrightarrow>
          (\<exists>c. bearer_claims a r = Some c \<and> tk_UserID c = us_ID user \<and> tk_OrgID c = og_ID org))"
proof -
  let ?a = "auth_at q"
  obtain w0 r where in0: "rq_in reg = (w0, r)" by fastforce
  obtain w1 r1 where in1: "rq_in q = (w1, r1)" by fastforce
  obtain org user t where reg: "Register (auth_at reg) nm em pw d0 = (d1, Inr (org, user, t))"
    and body: "rep_body rep = Json_body (JObj [(''organization'', marshal_organization (sr_api (rq_server reg)) org),
           (''user'', marshal_user (sr_api (rq_server reg)) user), (''token'', JStr t)])"
    and creds: "em \<noteq> []" "8 \<le> length pw"
    by (rule register_served [OF assms(3) [unfolded in0] assms(5) assms(6) [unfolded in0 snd_conv], folded auth_at_def])
      (rule that)
  note user = Register_Inr [OF reg]
  have "reachable_db b d1"
    using api_run_keeps [of b "[reg]" "(d0, st0)" "\<lambda>_. True" rl] assms(1-4) by simp
  then have "reachable_db b d2 \<and> user \<in> set (users d2)"
    using api_run_keeps [of b since_then "(d1, st1)" "\<lambda>d. user \<in> set (users d)" rl] assms(2,7) user(1)
      cp_step_account by fastforce
  moreover obtain token where token: "generateToken ?a (us_ID user) (us_OrganizationID user) = Inr token"
    using assms(13) by (metis is_err_def sum.case(1) sum.exhaust_sel sum.collapse(1) sum.collapse(2))
  moreover have "bcrypt_matches ?a (us_PasswordHash user) pw"
    using assms(9,10) user(4) by (simp add: bcrypt_law_def same_auth_def)
  moreover have "pw \<noteq> []" using creds by auto
  ultimately obtain d3 rep' where "cp_serve (rq_server q) rl (w1, r1) (rq_new_id q) (rq_now q) Post_login d2 st2 = ((d3, rep'), st2)"
    "rep_status rep' = 200"
    "rep_body rep' = Json_body (JObj [(''user'', marshal_user (sr_api (rq_server q)) user), (''token'', JStr token)])"
    using login_served [of d2 user "rq_server q" pw token r1 rl w1 "rq_new_id q" "rq_now q" st2] reachable_ok
      assms(8,11) creds user(2) in1 unfolding auth_at_def by auto
  moreover have "\<exists>c. bearer_claims a r = Some c \<and> tk_UserID c = us_ID user \<and> tk_OrgID c = og_ID org"
    if "same_auth ?a a" "au_now a < au_now ?a + au_jwtExpiration ?a"
      "get_or_empty (in_headers r) ''Authorization'' = ''Bearer '' @ token" for a r
    using token_opens [OF assms(12) _ that] token user(3) by simp
  ultimately show ?thesis using body user(2) in1
    by (intro exI [of _ org] exI [of _ user] exI [of _ token] exI [of _ d3] exI [of _ rep']) auto
qed

definition example_registration :: api_request where
  "example_registration = example_api_request [] Post_register
     (JObj [(''org_name'', JStr ''Gamma''), (''email'', JStr ''c@gamma''), (''password'', JStr ''password'')])"

definition example_login :: api_request where
  "example_login = example_api_request [] Post_login
     (JObj [(''email'', JStr ''c@gamma''), (''password'', JStr ''password'')])"

definition example_registered :: "(db \<times> reply) \<times> bucket rate_limiter" where
  "example_registered = cp_serve (rq_server example_registration) bucket_lib (rq_in example_registration)
     (rq_new_id example_registration) (rq_now example_registration) Post_register example_db (NewRateLimiter 100 200)"

lemma example_registration_201: "rep_status (snd (fst example_registered)) = 201"
  by code_simp

lemma example_credentials:
  "decode_body (sr_api (rq_server example_registration)) registerRequest (snd (rq_in example_registration))
     = Inr (''Gamma'', ''c@gamma'', ''password'')"
  "decode_body (sr_api (rq_server example_login)) loginRequest (snd (rq_in example_login))
     = Inr (''c@gamma'', ''password'')"
  by code_simp+

lemma example_auth_laws:
  "bcrypt_law (auth_at example_registration)" "same_auth (auth_at example_registration) (auth_at example_login)"
  "jwt_law (auth_at example_login)" "db_fails (au_db (auth_at example_login)) n = None"
  "\<not> is_err (generateToken (auth_at example_login) u g)"
proof -
  have a: "auth_at example_registration = example_jwt_auth example_auth" "auth_at example_login = example_jwt_auth example_auth"
    by (simp_all add: auth_at_def example_registration_def example_login_def example_api_request_def example_server_def
        example_api_def)
  show "jwt_law (auth_at example_login)" unfolding a by (rule example_jwt_law)
  show "bcrypt_law (auth_at example_registration)" "same_auth (auth_at example_registration) (auth_at example_login)"
    "db_fails (au_db (auth_at example_login)) n = None" "\<not> is_err (generateToken (auth_at example_login) u g)"
    unfolding a by (simp_all add: bcrypt_law_def same_auth_def example_jwt_auth_def example_auth_def example_dbenv_def
        generateToken_def example_sign_def is_err_def)
qed

theorem registered_can_log_in_witness:
  "\<exists>user token d3 rep'.
     cp_serve (rq_server example_login) bucket_lib (rq_in example_login) (rq_new_id example_login) (rq_now example_login)
       Post_login (fst (api_run bucket_lib example_requests (apfst fst example_registered)))
       (snd (api_run bucket_lib example_requests (apfst fst example_registered)))
     = ((d3, rep'), snd (api_run bucket_lib example_requests (apfst fst example_registered)))
     \<and> rep_status rep' = 200 \<and> us_Email user = ''c@gamma''
     \<and> rep_body rep' = Json_body (JObj [(''user'', marshal_user example_api user), (''token'', JStr token)])"
proof -
  obtain d1 rep st1 where r: "example_registered = ((d1, rep), st1)" by (metis prod.exhaust)
  obtain d2 st2 where run: "api_run bucket_lib example_requests (d1, st1) = (d2, st2)" by fastforce
  have "list_all (served_with example_cp) (example_registration # example_requests)"
    using example_served example_setup
    by (simp add: example_registration_def example_api_request_def served_with_def example_server_def example_api_def)
  moreover have "rq_route example_registration = Post_register" "sr_api (rq_server example_login) = example_api"
    by (simp_all add: example_registration_def example_login_def example_api_request_def example_server_def)
  moreover have "rep_status rep = 201" using example_registration_201 unfolding r by simp
  ultimately obtain user token d3 rep' where
    "cp_serve (rq_server example_login) bucket_lib (rq_in example_login) (rq_new_id example_login) (rq_now example_login)
       Post_login d2 st2 = ((d3, rep'), st2)" "rep_status rep' = 200" "us_Email user = ''c@gamma''"
    "rep_body rep' = Json_body (JObj [(''user'', marshal_user example_api user), (''token'', JStr token)])"
    using registered_can_log_in [OF example_reachable _ r [unfolded example_registered_def] _ _ example_credentials(1) run
      example_credentials(2) example_auth_laws(1,2,4,3)] example_auth_laws(5)
    by metis
  then show ?thesis unfolding r run by (auto simp: run)
qed

end
