(* ===== verification/Audit_Queries.thy ===== *)
theory Audit_Queries
  imports Audit_Ledger Control_Service
begin

text \<open>
  Reading the audit log, \<open>internal/dataplane/auditstore/handler.go\<close> and \<open>analytics.go\<close> with
  their queries: the listing with its filters and its keyset pagination, and the aggregated usage.
\<close>

subsection \<open>audit_logs.sql.go: listing\<close>

record list_params =
  lq_OrganizationID :: uuid
  lq_SourceID :: "uuid option"
  lq_Status :: "string option"
  lq_FromTime :: "int option"
  lq_ToTime :: "int option"
  lq_BeforeTime :: "int option"
  lq_BeforeID :: "uuid option"
  lq_LimitCount :: int

text \<open>
  The \<open>WHERE\<close> clause, and with a cursor the comparison of rows \<open>(created_at, id) < (t, i)\<close>,
  which is unknown, so not true, when it comes down to an absent \<open>i\<close>.
\<close>

definition row_key :: "audit_row \<Rightarrow> int \<times> uuid" where
  "row_key r = (ar_CreatedAt r, ar_ID r)"

definition row_matches :: "list_params \<Rightarrow> audit_row \<Rightarrow> bool" where
  "row_matches p r \<longleftrightarrow>
     ar_OrganizationID r = lq_OrganizationID p
     \<and> (case lq_SourceID p of None \<Rightarrow> True | Some s \<Rightarrow> ar_SourceID r = s)
     \<and> (case lq_Status p of None \<Rightarrow> True | Some s \<Rightarrow> ar_OverallResult r = s)
     \<and> (case lq_FromTime p of None \<Rightarrow> True | Some t \<Rightarrow> t \<le> ar_CreatedAt r)
     \<and> (case lq_ToTime p of None \<Rightarrow> True | Some t \<Rightarrow> ar_CreatedAt r \<le> t)
     \<and> (case lq_BeforeTime p of
          None \<Rightarrow> True
        | Some t \<Rightarrow> (case lq_BeforeID p of
                       None \<Rightarrow> ar_CreatedAt r < t
                     | Some i \<Rightarrow> row_key r < (t, i)))"

definition audit_select :: "db_env \<Rightarrow> (audit_row list \<Rightarrow> 'a) \<Rightarrow> 'a audit_query" where
  "audit_select env f = audit_stmt env (\<lambda>_ _ rows. (rows, Inr (f rows)))"

text \<open>\<open>ORDER BY created_at DESC, id DESC LIMIT\<close>.\<close>

definition newest_first :: "list_params \<Rightarrow> audit_row list \<Rightarrow> audit_row list" where
  "newest_first p rows = rev (sort_key row_key (filter (row_matches p) rows))"

definition page_of :: "list_params \<Rightarrow> audit_row list \<Rightarrow> audit_row list" where
  "page_of p rows = take (nat (lq_LimitCount p)) (newest_first p rows)"

definition ListAuditLogs :: "db_env \<Rightarrow> list_params \<Rightarrow> audit_row list audit_query" where
  "ListAuditLogs env p = audit_select env (page_of p)"

subsection \<open>handler.go\<close>

text \<open>
  \<open>strconv.Atoi\<close>: an optional sign and decimal digits, within 64 bits.
\<close>

definition is_digit :: "char \<Rightarrow> bool" where
  "is_digit c \<longleftrightarrow> 48 \<le> (of_char c :: nat) \<and> (of_char c :: nat) \<le> 57"

definition Atoi :: "string \<Rightarrow> int option" where
  "Atoi s =
     (let (sign, ds) = (case s of
            [] \<Rightarrow> (1, [])
          | c # cs \<Rightarrow> if c = CHR ''-'' then (-1, cs) else if c = CHR ''+'' then (1, cs) else (1, s))
      in if ds = [] \<or> \<not> list_all is_digit ds then None
         else (let n = sign * int (atoi ds) in if - (2 ^ 63) \<le> n \<and> n < 2 ^ 63 then Some n else None))"

text \<open>
  \<open>uuid.Parse\<close> (the canonical text) and \<open>time.Parse\<close> of an RFC 3339 time, as the microseconds the
  driver sends, are arguments, as is the printing of times.
\<close>

record query_lib =
  parse_uuid :: "string \<Rightarrow> uuid option"
  parse_time :: "string \<Rightarrow> int option"
  print_time :: "int \<Rightarrow> string"
  print_day :: "int \<Rightarrow> string"

definition list_limit :: "(string, string) gomap \<Rightarrow> int" where
  "list_limit q = (case Atoi (get_or_empty q ''limit'') of
     Some n \<Rightarrow> if n > 0 \<and> n \<le> 200 then n else 50 | None \<Rightarrow> 50)"

text \<open>An optional parameter: absent, or parsed, or the reply's error text.\<close>

definition optional_param :: "string \<Rightarrow> (string \<Rightarrow> 'a option) \<Rightarrow> go_error \<Rightarrow> 'a option res" where
  "optional_param v parse err =
     (if v = [] then Inr None else (case parse v of None \<Rightarrow> Inl err | Some x \<Rightarrow> Inr (Some x)))"

definition parse_cursor :: "query_lib \<Rightarrow> (string, string) gomap \<Rightarrow> (int \<times> uuid) option res" where
  "parse_cursor lib q =
     (let before = get_or_empty q ''before''; beforeID = get_or_empty q ''before_id'' in
      if before = [] \<and> beforeID = [] then Inr None
      else if before = [] \<or> beforeID = [] then Inl ''before and before_id must be provided together''
      else (case parse_time lib before of
              None \<Rightarrow> Inl ''invalid before cursor (want RFC3339)''
            | Some t \<Rightarrow>
                (case parse_uuid lib beforeID of
                   None \<Rightarrow> Inl ''invalid before_id cursor'' | Some i \<Rightarrow> Inr (Some (t, i)))))"

definition parse_list_params :: "query_lib \<Rightarrow> (string, string) gomap \<Rightarrow> list_params res" where
  "parse_list_params lib q =
     (case parse_uuid lib (get_or_empty q ''org_id'') of
        None \<Rightarrow> Inl ''invalid or missing org_id''
      | Some orgID \<Rightarrow>
          res_bind (optional_param (get_or_empty q ''source_id'') (parse_uuid lib) ''invalid source_id'') (\<lambda>src.
          res_bind (optional_param (get_or_empty q ''status'')
                      (\<lambda>v. if v = ''pass'' \<or> v = ''fail'' then Some v else None)
                      ''status must be \"pass\" or \"fail\"'') (\<lambda>status.
          res_bind (optional_param (get_or_empty q ''from'') (parse_time lib) ''invalid from (want RFC3339)'') (\<lambda>fr.
          res_bind (optional_param (get_or_empty q ''to'') (parse_time lib) ''invalid to (want RFC3339)'') (\<lambda>till.
          res_bind (parse_cursor lib q) (\<lambda>cursor.
            Inr \<lparr>lq_OrganizationID = orgID, lq_SourceID = src, lq_Status = status, lq_FromTime = fr, lq_ToTime = till,
                 lq_BeforeTime = map_option fst cursor, lq_BeforeID = map_option snd cursor,
                 lq_LimitCount = list_limit q\<rparr>))))))"

definition or_null :: "('a \<Rightarrow> json) \<Rightarrow> 'a option \<Rightarrow> json" where
  "or_null f v = (case v of None \<Rightarrow> JNull | Some x \<Rightarrow> f x)"

definition marshal_audit_row :: "query_lib \<Rightarrow> audit_row \<Rightarrow> json" where
  "marshal_audit_row lib r = JObj
     [(''id'', JStr (ar_ID r)), (''organization_id'', JStr (ar_OrganizationID r)),
      (''source_id'', JStr (ar_SourceID r)), (''input_hash'', or_null JStr (ar_InputHash r)),
      (''guard_results'', ar_GuardResults r), (''overall_result'', JStr (ar_OverallResult r)),
      (''latency_ms'', JInt (ar_LatencyMs r)), (''created_at'', JStr (print_time lib (ar_CreatedAt r))),
      (''prompt_tokens'', or_null JInt (ar_PromptTokens r)),
      (''completion_tokens'', or_null JInt (ar_CompletionTokens r)),
      (''total_tokens'', or_null JInt (ar_TotalTokens r)), (''model'', or_null JStr (ar_Model r))]"

definition AuditHandler_List ::
    "query_lib \<Rightarrow> db_env \<Rightarrow> (string, string) gomap \<Rightarrow> http_in \<Rightarrow> audit_db \<Rightarrow> audit_db \<times> reply" where
  "AuditHandler_List lib env w r d =
     (case parse_list_params lib (in_query r) of
        Inl msg \<Rightarrow> (d, reply_error w 400 msg)
      | Inr p \<Rightarrow>
          (case ListAuditLogs env p d of
             (d', Inl e) \<Rightarrow> (d', reply_error w 500 ''failed to list audit logs'')
           | (d', Inr logs) \<Rightarrow> (d', reply_json w 200 (JArr (map (marshal_audit_row lib) logs)))))"

subsection \<open>Keyset pagination\<close>

text \<open>
  A client that pages: it asks for a page, and for the next one with the last row of the page as the
  cursor. The table may have changed in between, so each request meets its own rows.
\<close>

definition after_row :: "audit_row \<Rightarrow> list_params \<Rightarrow> list_params" where
  "after_row r p = p\<lparr>lq_BeforeTime := Some (ar_CreatedAt r), lq_BeforeID := Some (ar_ID r)\<rparr>"

fun pages :: "list_params \<Rightarrow> audit_row list list \<Rightarrow> audit_row list list" where
  "pages p [] = []"
| "pages p (rows # later) =
     (let page = page_of p rows in
      page # (if page = [] then [] else pages (after_row (last page) p) later))"

text \<open>Rows in strictly descending order of their keys.\<close>

abbreviation descending :: "audit_row list \<Rightarrow> bool" where
  "descending \<equiv> sorted_wrt (\<lambda>a b. row_key b < row_key a)"

lemma set_newest_first [simp]: "set (newest_first p rows) = {r \<in> set rows. row_matches p r}"
  by (auto simp: newest_first_def)

lemma descending_newest_first:
  assumes "distinct (map row_key rows)"
  shows "descending (newest_first p rows)"
proof -
  let ?s = "sort_key row_key (filter (row_matches p) rows)"
  have "distinct (map row_key (filter (row_matches p) rows))" using assms by (rule distinct_map_filter)
  then have "distinct (map row_key ?s)"
    by (simp add: distinct_map)
  moreover have "sorted (map row_key ?s)" by simp
  ultimately have "sorted_wrt (<) (map row_key ?s)" by (simp add: strict_sorted_iff)
  then show ?thesis by (simp add: newest_first_def sorted_wrt_rev sorted_wrt_map)
qed

lemma descending_unique: "descending xs \<Longrightarrow> descending ys \<Longrightarrow> set xs = set ys \<Longrightarrow> xs = ys"
proof (induction xs arbitrary: ys)
  case Nil
  then show ?case by simp
next
  case (Cons x xs)
  then obtain y ys' where ys: "ys = y # ys'" by (cases ys) auto
  have "x \<in> insert y (set ys')" "y \<in> insert x (set xs)" using Cons.prems(3) unfolding ys by auto
  with Cons.prems(1,2) have "x = y" unfolding ys by (auto dest: less_asym)
  moreover have "x \<notin> set xs" "y \<notin> set ys'" using Cons.prems(1,2) unfolding ys by auto
  ultimately have "set xs = set ys'" using Cons.prems(3) unfolding ys by (simp add: insert_ident)
  with Cons.prems(1,2) Cons.IH [of ys'] \<open>x = y\<close> show ?case unfolding ys by simp
qed

lemma row_matches_after:
  assumes "row_matches p c"
  shows "row_matches (after_row c p) r \<longleftrightarrow> row_matches p r \<and> row_key r < row_key c"
  using assms by (auto simp: row_matches_def after_row_def row_key_def split: option.splits)

lemma descending_drop:
  assumes "descending xs" and "xs = as @ c # bs"
  shows "set bs = {r \<in> set xs. row_key r < row_key c}"
  using assms(1) unfolding assms(2) by (auto simp: sorted_wrt_append dest: less_asym)

lemma take_last_split:
  assumes "take n xs \<noteq> []"
  shows "xs = butlast (take n xs) @ last (take n xs) # drop (length (take n xs)) xs"
  using append_butlast_last_id [OF assms] append_take_drop_id [of n xs]
  by (metis append.assoc append_Cons append_Nil append_eq_conv_conj)

lemma take_pages:
  fixes xs :: "'a list"
  assumes "take l xs = page" and "n = length page"
  shows "page @ take (l * k) (drop n xs) = take (l * Suc k) xs"
proof (cases "l \<le> length xs")
  case True
  with assms have "n = l" by auto
  then show ?thesis using assms(1) by (simp add: take_add)
next
  case False
  with assms show ?thesis by simp
qed

text \<open>One page, and then the pages after it; \<open>S\<close> is the full answer and \<open>as @ [c]\<close> what was delivered.\<close>

lemma pages_follow:
  assumes "descending S" and "S = as @ c # bs" and "0 < l"
    and "lq_LimitCount q = l" and "\<And>r. row_matches q r \<longleftrightarrow> row_matches p r \<and> row_key r < row_key c"
    and "\<forall>T \<in> set Ts. distinct (map row_key T)
           \<and> {r \<in> set T. row_matches p r \<and> row_key r < row_key c} = {r \<in> set S. row_key r < row_key c}"
  shows "concat (pages q Ts) = take (nat l * length Ts) bs"
  using assms
proof (induction Ts arbitrary: as c bs q)
  case Nil
  then show ?case by simp
next
  case (Cons T Ts)
  have "descending bs" using Cons.prems(1) unfolding Cons.prems(2) by (simp add: sorted_wrt_append)
  moreover have "descending (newest_first q T)" using Cons.prems(6) by (intro descending_newest_first) simp
  moreover have "set (newest_first q T) = set bs"
    using Cons.prems(5,6) descending_drop [OF Cons.prems(1,2)] by auto
  ultimately have nf: "newest_first q T = bs" by (metis descending_unique)
  have page: "page_of q T = take (nat l) bs" by (simp add: page_of_def nf Cons.prems(4))
  show ?case
  proof (cases "bs = []")
    case True
    then show ?thesis by (simp add: page)
  next
    case False
    with Cons.prems(3) have ne: "take (nat l) bs \<noteq> []" by simp
    define c' where "c' = last (take (nat l) bs)"
    define as' where "as' = as @ c # butlast (take (nat l) bs)"
    define bs' where "bs' = drop (length (take (nat l) bs)) bs"
    have bs: "bs = butlast (take (nat l) bs) @ c' # bs'"
      unfolding c'_def bs'_def by (rule take_last_split [OF ne])
    then have S: "S = as' @ c' # bs'" unfolding as'_def Cons.prems(2) by simp
    have c'q: "row_matches q c'"
      using last_in_set [OF ne] set_newest_first [of q T] unfolding nf c'_def by (auto dest: in_set_takeD)
    have c'c: "row_key c' < row_key c" using c'q Cons.prems(5) by blast
    have m: "row_matches (after_row c' q) r \<longleftrightarrow> row_matches p r \<and> row_key r < row_key c'" for r
      unfolding row_matches_after [OF c'q] Cons.prems(5) using c'c by (auto dest: order.strict_trans)
    have "\<forall>T \<in> set Ts. distinct (map row_key T)
       \<and> {r \<in> set T. row_matches p r \<and> row_key r < row_key c'} = {r \<in> set S. row_key r < row_key c'}"
    proof
      fix T' assume "T' \<in> set Ts"
      with Cons.prems(6) have "distinct (map row_key T')"
        and eq: "{r \<in> set T'. row_matches p r \<and> row_key r < row_key c} = {r \<in> set S. row_key r < row_key c}" by auto
      moreover have "r \<in> {r \<in> set T'. row_matches p r \<and> row_key r < row_key c'} \<longleftrightarrow> r \<in> {r \<in> set S. row_key r < row_key c'}" for r
        using arg_cong [OF eq, of "\<lambda>A. r \<in> A"] c'c by (auto dest: order.strict_trans)
      ultimately show "distinct (map row_key T')
        \<and> {r \<in> set T'. row_matches p r \<and> row_key r < row_key c'} = {r \<in> set S. row_key r < row_key c'}" by blast
    qed
    from Cons.IH [OF Cons.prems(1) S Cons.prems(3) _ m this]
    have "concat (pages (after_row c' q) Ts) = take (nat l * length Ts) bs'"
      using Cons.prems(4) by (simp add: after_row_def)
    then show ?thesis
      using take_pages [of "nat l" bs, OF refl refl, of "length Ts"] ne unfolding bs'_def c'_def
      by (simp add: page Let_def)
  qed
qed

text \<open>
  C37: paging through the audit log shows every matching entry exactly once, newest first, whatever the
  page size, even when newer entries are recorded between the requests: the pages joined are the
  beginning of the full answer at the time of the first request.
\<close>

theorem pagination_complete:
  assumes "0 < lq_LimitCount p" and "\<forall>T \<in> set (T0 # Ts). distinct (map ar_ID T)"
    and "\<forall>T \<in> set Ts. \<exists>new. set T = set T0 \<union> new \<and> (\<forall>r \<in> new. \<forall>r0 \<in> set T0. row_key r0 < row_key r)"
  shows "concat (pages p (T0 # Ts)) = take (nat (lq_LimitCount p) * length (T0 # Ts)) (newest_first p T0)"
proof -
  have dist: "distinct (map row_key T)" if "T \<in> set (T0 # Ts)" for T
    using assms(2) that by (auto simp: distinct_map inj_on_def row_key_def)
  define l where "l = lq_LimitCount p"
  define S where "S = newest_first p T0"
  have S: "descending S" unfolding S_def by (rule descending_newest_first) (simp add: dist)
  have page: "page_of p T0 = take (nat l) S" by (simp add: page_of_def S_def l_def)
  show ?thesis
  proof (cases "S = []")
    case True
    then show ?thesis using page by (simp add: S_def)
  next
    case False
    with assms(1) have ne: "take (nat l) S \<noteq> []" by (simp add: l_def)
    define c where "c = last (take (nat l) S)"
    define bs where "bs = drop (length (take (nat l) S)) S"
    have split: "S = butlast (take (nat l) S) @ c # bs"
      unfolding c_def bs_def by (rule take_last_split [OF ne])
    have "c \<in> set S" unfolding c_def using last_in_set [OF ne] by (rule in_set_takeD)
    then have c: "row_matches p c" "c \<in> set T0" by (simp_all add: S_def)
    have "\<forall>T \<in> set Ts. distinct (map row_key T)
       \<and> {r \<in> set T. row_matches p r \<and> row_key r < row_key c} = {r \<in> set S. row_key r < row_key c}"
    proof
      fix T assume T: "T \<in> set Ts"
      then obtain new where "set T = set T0 \<union> new" "\<forall>r \<in> new. \<forall>r0 \<in> set T0. row_key r0 < row_key r"
        using assms(3) by blast
      with c(2) have "{r \<in> set T. row_matches p r \<and> row_key r < row_key c} = {r \<in> set S. row_key r < row_key c}"
        by (auto simp: S_def dest: less_asym)
      with dist T show "distinct (map row_key T)
        \<and> {r \<in> set T. row_matches p r \<and> row_key r < row_key c} = {r \<in> set S. row_key r < row_key c}" by simp
    qed
    from pages_follow [OF S split _ _ row_matches_after [OF c(1)] this, of l]
    have "concat (pages (after_row c p) Ts) = take (nat l * length Ts) bs"
      using assms(1) by (simp add: after_row_def l_def)
    then show ?thesis
      using take_pages [of "nat l" S, OF refl refl, of "length Ts"] ne
      unfolding bs_def c_def S_def [symmetric] l_def [symmetric] by (simp add: page Let_def)
  qed
qed

definition example_page :: list_params where
  "example_page = \<lparr>lq_OrganizationID = ''o'', lq_SourceID = None, lq_Status = Some ''pass'', lq_FromTime = None,
     lq_ToTime = None, lq_BeforeTime = None, lq_BeforeID = None, lq_LimitCount = 2\<rparr>"

definition example_row_at :: "uuid \<Rightarrow> int \<Rightarrow> audit_row" where
  "example_row_at i t = audit_row_of i t (entry_params (entry_of (\<lambda>t. t) example_record))"

lemma row_at_sel [simp]:
  "ar_ID (example_row_at i t) = i" "row_key (example_row_at i t) = (t, i)"
  by (simp_all add: example_row_at_def audit_row_of_def row_key_def)

theorem pagination_complete_witness:
  "map ar_ID (concat (pages example_page
      [[example_row_at ''b'' 1, example_row_at ''a'' 1, example_row_at ''c'' 2],
       [example_row_at ''b'' 1, example_row_at ''a'' 1, example_row_at ''c'' 2, example_row_at ''d'' 3]]))
   = [''c'', ''b'', ''a'']"
proof -
  let ?T0 = "[example_row_at ''b'' 1, example_row_at ''a'' 1, example_row_at ''c'' 2]"
  let ?T1 = "[example_row_at ''b'' 1, example_row_at ''a'' 1, example_row_at ''c'' 2, example_row_at ''d'' 3]"
  have "concat (pages example_page [?T0, ?T1]) = take (nat (lq_LimitCount example_page) * length [?T0, ?T1]) (newest_first example_page ?T0)"
  proof (rule pagination_complete)
    show "\<forall>T \<in> set [?T1]. \<exists>new. set T = set ?T0 \<union> new \<and> (\<forall>r \<in> new. \<forall>r0 \<in> set ?T0. row_key r0 < row_key r)"
      by (auto intro!: exI [of _ "{example_row_at ''d'' 3}"])
  qed (simp_all add: example_page_def)
  moreover have "map ar_ID (take 4 (newest_first example_page ?T0)) = [''c'', ''b'', ''a'']" by code_simp
  ultimately show ?thesis by (simp add: example_page_def)
qed

subsection \<open>audit_logs.sql.go: aggregates\<close>

text \<open>\<open>COALESCE(SUM(column), 0)\<close>; sums of 32-bit columns fit a \<open>bigint\<close>.\<close>

definition sum_column :: "(audit_row \<Rightarrow> int option) \<Rightarrow> audit_row list \<Rightarrow> int" where
  "sum_column f rows = sum_list (map (\<lambda>r. case f r of None \<Rightarrow> 0 | Some n \<Rightarrow> n) rows)"

definition count_rows :: "(audit_row \<Rightarrow> bool) \<Rightarrow> audit_row list \<Rightarrow> int" where
  "count_rows P rows = sum_list (map (\<lambda>r. if P r then 1 else 0) rows)"

text \<open>\<open>GROUP BY\<close>: the rows of each key.\<close>

definition groups :: "('a \<Rightarrow> 'k) \<Rightarrow> 'a list \<Rightarrow> ('k \<times> 'a list) list" where
  "groups key rows = map (\<lambda>k. (k, filter (\<lambda>r. key r = k) rows)) (remdups (map key rows))"

definition in_window :: "uuid \<Rightarrow> int \<Rightarrow> audit_row list \<Rightarrow> audit_row list" where
  "in_window orgID from_time rows = filter (\<lambda>r. ar_OrganizationID r = orgID \<and> from_time \<le> ar_CreatedAt r) rows"

record audit_summary =
  su_TotalRequests :: int
  su_Passed :: int
  su_PromptTokens :: int
  su_CompletionTokens :: int
  su_TotalTokens :: int

definition AuditSummary :: "db_env \<Rightarrow> uuid \<Rightarrow> int \<Rightarrow> audit_summary audit_query" where
  "AuditSummary env orgID from_time = audit_select env (\<lambda>rows. let rows = in_window orgID from_time rows in
     \<lparr>su_TotalRequests = count_rows (\<lambda>_. True) rows, su_Passed = count_rows (\<lambda>r. ar_OverallResult r = ''pass'') rows,
      su_PromptTokens = sum_column ar_PromptTokens rows, su_CompletionTokens = sum_column ar_CompletionTokens rows,
      su_TotalTokens = sum_column ar_TotalTokens rows\<rparr>)"

text \<open>\<open>day_of\<close> is \<open>date_trunc('day', created_at)\<close> in the session's time zone.\<close>

record daily_row =
  dr_Day :: int
  dr_Requests :: int
  dr_TotalTokens :: int

definition AuditDailySeries :: "(int \<Rightarrow> int) \<Rightarrow> db_env \<Rightarrow> uuid \<Rightarrow> int \<Rightarrow> daily_row list audit_query" where
  "AuditDailySeries day_of env orgID from_time = audit_select env (\<lambda>rows.
     sort_key dr_Day (map (\<lambda>(day, rs). \<lparr>dr_Day = day, dr_Requests = count_rows (\<lambda>_. True) rs,
         dr_TotalTokens = sum_column ar_TotalTokens rs\<rparr>)
       (groups (\<lambda>r. day_of (ar_CreatedAt r)) (in_window orgID from_time rows))))"

record model_row =
  mr_Model :: "string option"
  mr_Requests :: int
  mr_PromptTokens :: int
  mr_CompletionTokens :: int
  mr_TotalTokens :: int

definition AuditByModel :: "db_env \<Rightarrow> uuid \<Rightarrow> int \<Rightarrow> model_row list audit_query" where
  "AuditByModel env orgID from_time = audit_select env (\<lambda>rows.
     sort_key (\<lambda>m. - mr_TotalTokens m) (map (\<lambda>(model, rs). \<lparr>mr_Model = model, mr_Requests = count_rows (\<lambda>_. True) rs,
         mr_PromptTokens = sum_column ar_PromptTokens rs, mr_CompletionTokens = sum_column ar_CompletionTokens rs,
         mr_TotalTokens = sum_column ar_TotalTokens rs\<rparr>)
       (groups ar_Model (filter (\<lambda>r. ar_Model r \<noteq> None) (in_window orgID from_time rows)))))"

record by_source_row =
  bs_SourceID :: uuid
  bs_Requests :: int
  bs_Rejected :: int
  bs_TotalTokens :: int

definition AuditBySource :: "db_env \<Rightarrow> uuid \<Rightarrow> int \<Rightarrow> by_source_row list audit_query" where
  "AuditBySource env orgID from_time = audit_select env (\<lambda>rows.
     sort_key (\<lambda>s. - bs_Requests s) (map (\<lambda>(src, rs). \<lparr>bs_SourceID = src, bs_Requests = count_rows (\<lambda>_. True) rs,
         bs_Rejected = count_rows (\<lambda>r. ar_OverallResult r \<noteq> ''pass'') rs,
         bs_TotalTokens = sum_column ar_TotalTokens rs\<rparr>)
       (groups ar_SourceID (in_window orgID from_time rows))))"

subsection \<open>analytics.go\<close>

record daily_point =
  dp_Day :: string
  dp_Requests :: int
  dp_TotalTokens :: int

record model_usage =
  mu_Model :: string
  mu_Requests :: int
  mu_TotalTokens :: int
  mu_EstimatedCostUSD :: "rat option"

record source_usage =
  ss_SourceID :: uuid
  ss_Requests :: int
  ss_Rejected :: int
  ss_TotalTokens :: int

record analytics_response =
  an_Days :: int
  an_TotalRequests :: int
  an_Passed :: int
  an_Rejected :: int
  an_PromptTokens :: int
  an_CompletionTokens :: int
  an_TotalTokens :: int
  an_EstimatedCostUSD :: rat
  an_UnpricedRequests :: int
  an_Daily :: "daily_point list"
  an_ByModel :: "model_usage list"
  an_BySource :: "source_usage list"
  an_PricesAsOf :: string

definition model_string :: "model_row \<Rightarrow> string" where
  "model_string m = (case mr_Model m of None \<Rightarrow> [] | Some s \<Rightarrow> s)"

text \<open>The loop over the models: the estimated cost and the unpriced requests add up.\<close>

fun price_models :: "catalog_file \<Rightarrow> model_row list \<Rightarrow> rat \<times> int \<times> model_usage list \<Rightarrow> rat \<times> int \<times> model_usage list" where
  "price_models cat [] acc = acc"
| "price_models cat (m # ms) (spent, unpriced, out) =
     (let cost = Cost cat (model_string m) (mr_PromptTokens m) (mr_CompletionTokens m);
          mu = \<lparr>mu_Model = model_string m, mu_Requests = mr_Requests m, mu_TotalTokens = mr_TotalTokens m,
                mu_EstimatedCostUSD = cost\<rparr>
      in case cost of
           Some c \<Rightarrow> price_models cat ms (spent + c, unpriced, out @ [mu])
         | None \<Rightarrow> price_models cat ms (spent, unpriced + mr_Requests m, out @ [mu]))"

definition analytics_of :: "query_lib \<Rightarrow> catalog_file \<Rightarrow> int \<Rightarrow> audit_summary \<Rightarrow> daily_row list \<Rightarrow> model_row list
    \<Rightarrow> by_source_row list \<Rightarrow> analytics_response" where
  "analytics_of lib cat days su ds ms ss =
     (let (cost, unpriced, models) = price_models cat ms (0, 0, []) in
      \<lparr>an_Days = days, an_TotalRequests = su_TotalRequests su, an_Passed = su_Passed su,
       an_Rejected = su_TotalRequests su - su_Passed su, an_PromptTokens = su_PromptTokens su,
       an_CompletionTokens = su_CompletionTokens su, an_TotalTokens = su_TotalTokens su,
       an_EstimatedCostUSD = cost, an_UnpricedRequests = unpriced,
       an_Daily = map (\<lambda>d. \<lparr>dp_Day = print_day lib (dr_Day d), dp_Requests = dr_Requests d,
                             dp_TotalTokens = dr_TotalTokens d\<rparr>) ds,
       an_ByModel = models,
       an_BySource = map (\<lambda>s. \<lparr>ss_SourceID = bs_SourceID s, ss_Requests = bs_Requests s,
                               ss_Rejected = bs_Rejected s, ss_TotalTokens = bs_TotalTokens s\<rparr>) ss,
       an_PricesAsOf = cat_AsOf cat\<rparr>)"

definition analytics_days :: "(string, string) gomap \<Rightarrow> int" where
  "analytics_days q = (case Atoi (get_or_empty q ''days'') of
     Some n \<Rightarrow> if n > 0 \<and> n \<le> 365 then n else 30 | None \<Rightarrow> 30)"

text \<open>\<open>days_ago\<close> is \<open>time.Now().AddDate(0, 0, -days)\<close>.\<close>

record analytics_env =
  ae_lib :: query_lib
  ae_catalog :: catalog_file
  ae_day_of :: "int \<Rightarrow> int"
  ae_days_ago :: "int \<Rightarrow> int"

definition a_bind :: "'a audit_query \<Rightarrow> ('a \<Rightarrow> 'b audit_query) \<Rightarrow> 'b audit_query" where
  "a_bind m f d = (case m d of (d', Inl e) \<Rightarrow> (d', Inl e) | (d', Inr x) \<Rightarrow> f x d')"

definition a_replace_err :: "go_error \<Rightarrow> 'a audit_query \<Rightarrow> 'a audit_query" where
  "a_replace_err msg m d = (case m d of (d', Inl _) \<Rightarrow> (d', Inl msg) | (d', Inr x) \<Rightarrow> (d', Inr x))"

definition load_analytics :: "analytics_env \<Rightarrow> db_env \<Rightarrow> uuid \<Rightarrow> int \<Rightarrow> analytics_response audit_query" where
  "load_analytics ae env orgID days =
     (let from_time = ae_days_ago ae days in
      a_bind (a_replace_err ''failed to load summary'' (AuditSummary env orgID from_time)) (\<lambda>su.
      a_bind (a_replace_err ''failed to load daily series'' (AuditDailySeries (ae_day_of ae) env orgID from_time)) (\<lambda>ds.
      a_bind (a_replace_err ''failed to load model breakdown'' (AuditByModel env orgID from_time)) (\<lambda>ms.
      a_bind (a_replace_err ''failed to load source breakdown'' (AuditBySource env orgID from_time)) (\<lambda>ss d.
        (d, Inr (analytics_of (ae_lib ae) (ae_catalog ae) days su ds ms ss)))))))"

definition marshal_analytics :: "analytics_response \<Rightarrow> json" where
  "marshal_analytics a = JObj
     [(''days'', JInt (an_Days a)),
      (''summary'', JObj [(''total_requests'', JInt (an_TotalRequests a)), (''passed'', JInt (an_Passed a)),
         (''rejected'', JInt (an_Rejected a)), (''prompt_tokens'', JInt (an_PromptTokens a)),
         (''completion_tokens'', JInt (an_CompletionTokens a)), (''total_tokens'', JInt (an_TotalTokens a)),
         (''estimated_cost_usd'', JFloat (an_EstimatedCostUSD a)),
         (''unpriced_requests'', JInt (an_UnpricedRequests a))]),
      (''daily'', JArr (map (\<lambda>d. JObj [(''day'', JStr (dp_Day d)), (''requests'', JInt (dp_Requests d)),
         (''total_tokens'', JInt (dp_TotalTokens d))]) (an_Daily a))),
      (''by_model'', JArr (map (\<lambda>m. JObj [(''model'', JStr (mu_Model m)), (''requests'', JInt (mu_Requests m)),
         (''total_tokens'', JInt (mu_TotalTokens m)),
         (''estimated_cost_usd'', or_null JFloat (mu_EstimatedCostUSD m))]) (an_ByModel a))),
      (''by_source'', JArr (map (\<lambda>s. JObj [(''source_id'', JStr (ss_SourceID s)), (''requests'', JInt (ss_Requests s)),
         (''rejected'', JInt (ss_Rejected s)), (''total_tokens'', JInt (ss_TotalTokens s))]) (an_BySource a))),
      (''prices_as_of'', JStr (an_PricesAsOf a))]"

definition AuditHandler_Analytics ::
    "analytics_env \<Rightarrow> db_env \<Rightarrow> (string, string) gomap \<Rightarrow> http_in \<Rightarrow> audit_db \<Rightarrow> audit_db \<times> reply" where
  "AuditHandler_Analytics ae env w r d =
     (case parse_uuid (ae_lib ae) (get_or_empty (in_query r) ''org_id'') of
        None \<Rightarrow> (d, reply_error w 400 ''invalid or missing org_id'')
      | Some orgID \<Rightarrow>
          (case load_analytics ae env orgID (analytics_days (in_query r)) d of
             (d', Inl msg) \<Rightarrow> (d', reply_error w 500 msg)
           | (d', Inr a) \<Rightarrow> (d', reply_json w 200 (marshal_analytics a))))"

text \<open>The handlers as the router of the data plane calls them on a state of the table.\<close>

definition audit_handlers ::
    "analytics_env \<Rightarrow> db_env \<Rightarrow> audit_db \<Rightarrow> dp_route \<Rightarrow> (string, string) gomap \<Rightarrow> http_in \<Rightarrow> reply" where
  "audit_handlers ae env logs route w r =
     (case route of
        Get_audit_logs \<Rightarrow> snd (AuditHandler_List (ae_lib ae) env w r logs)
      | Get_analytics \<Rightarrow> snd (AuditHandler_Analytics ae env w r logs)
      | _ \<Rightarrow> reply_error w 404 ''not found'')"

text \<open>The statements a request has run; only the statement counter moves.\<close>

definition audit_queried ::
    "analytics_env \<Rightarrow> db_env \<Rightarrow> dp_route \<Rightarrow> http_in \<Rightarrow> audit_db \<Rightarrow> audit_db" where
  "audit_queried ae env route r logs =
     (case route of
        Get_audit_logs \<Rightarrow> fst (AuditHandler_List (ae_lib ae) env [] r logs)
      | Get_analytics \<Rightarrow> fst (AuditHandler_Analytics ae env [] r logs)
      | _ \<Rightarrow> logs)"

definition only_counts :: "'a audit_query \<Rightarrow> bool" where
  "only_counts q \<longleftrightarrow> (\<forall>d. audit_logs (fst (q d)) = audit_logs d \<and> audit_statements d \<le> audit_statements (fst (q d)))"

lemma only_counts_select: "only_counts (audit_select env f)"
  by (simp add: only_counts_def audit_select_def audit_stmt_def Let_def split: option.split)

lemma only_counts_replace: "only_counts q \<Longrightarrow> only_counts (a_replace_err msg q)"
  by (auto simp: only_counts_def a_replace_err_def split: prod.split sum.split) (metis fst_conv)+

lemma only_counts_bind: "only_counts q \<Longrightarrow> (\<And>x. only_counts (f x)) \<Longrightarrow> only_counts (a_bind q f)"
  unfolding only_counts_def a_bind_def
  by (auto split: prod.split sum.split) (metis fst_conv le_trans)+

lemma only_counts_load: "only_counts (load_analytics ae env o' days)"
  unfolding load_analytics_def AuditSummary_def AuditDailySeries_def AuditByModel_def AuditBySource_def Let_def
  by (intro only_counts_bind only_counts_replace only_counts_select) (simp add: only_counts_def)

lemma audit_queried_counts:
  "audit_logs (audit_queried ae env route r logs) = audit_logs logs"
  "audit_statements logs \<le> audit_statements (audit_queried ae env route r logs)"
proof -
  have l: "audit_logs (fst (ListAuditLogs env p logs)) = audit_logs logs"
    "audit_statements logs \<le> audit_statements (fst (ListAuditLogs env p logs))" for p
    using only_counts_select [of env "page_of p"] by (simp_all add: only_counts_def ListAuditLogs_def)
  have a: "audit_logs (fst (load_analytics ae env o' n logs)) = audit_logs logs"
    "audit_statements logs \<le> audit_statements (fst (load_analytics ae env o' n logs))" for o' n
    using only_counts_load [of ae env o' n] by (simp_all add: only_counts_def)
  have "audit_logs (fst (AuditHandler_List (ae_lib ae) env [] r logs)) = audit_logs logs
      \<and> audit_statements logs \<le> audit_statements (fst (AuditHandler_List (ae_lib ae) env [] r logs))"
    using l by (auto simp: AuditHandler_List_def split: sum.split prod.split) (metis fst_conv)+
  moreover have "audit_logs (fst (AuditHandler_Analytics ae env [] r logs)) = audit_logs logs
      \<and> audit_statements logs \<le> audit_statements (fst (AuditHandler_Analytics ae env [] r logs))"
    using a by (auto simp: AuditHandler_Analytics_def split: option.split sum.split prod.split) (metis fst_conv)+
  ultimately show "audit_logs (audit_queried ae env route r logs) = audit_logs logs"
    "audit_statements logs \<le> audit_statements (audit_queried ae env route r logs)"
    by (simp_all add: audit_queried_def split: dp_route.split)
qed

subsection \<open>The aggregates agree\<close>

lemma sum_groups:
  assumes "\<And>k. g k (filter (\<lambda>r. key r = k) rows) = (sum_list (map f (filter (\<lambda>r. key r = k) rows)) :: 'b::comm_monoid_add)"
  shows "sum_list (map (\<lambda>(k, rs). g k rs) (groups key rows)) = sum_list (map f rows)"
proof -
  have "(\<Sum>k \<in> K. sum_list (map f (filter (\<lambda>r. key r = k) rows))) = sum_list (map f rows)"
    if "finite K" "key ` set rows \<subseteq> K" for K
    using that
  proof (induction rows)
    case (Cons r rows)
    have "(\<Sum>k \<in> K. sum_list (map f (filter (\<lambda>r. key r = k) (r # rows))))
        = (\<Sum>k \<in> K. (if key r = k then f r else 0) + sum_list (map f (filter (\<lambda>r. key r = k) rows)))"
      by (rule sum.cong) auto
    also have "\<dots> = f r + sum_list (map f rows)" using Cons by (simp add: sum.distrib sum.delta')
    finally show ?case by simp
  qed simp
  from this [of "set (map key rows)"] show ?thesis
    by (simp add: groups_def comp_def assms sum_list_distinct_conv_sum_set)
qed

lemma sum_list_sort_key: "sum_list (map g (sort_key h xs)) = (sum_list (map g xs) :: 'b::comm_monoid_add)"
  by (metis mset_map mset_sort sum_mset_sum_list)

lemma sum_sorted_groups:
  "sum_list (map g (sort_key h (map (\<lambda>(k, rs). c k rs) xs))) = (sum_list (map (\<lambda>(k, rs). g (c k rs)) xs) :: 'b::comm_monoid_add)"
proof -
  have "sum_list (map g (map (\<lambda>(k, rs). c k rs) xs)) = sum_list (map (\<lambda>(k, rs). g (c k rs)) xs)"
    by (induction xs) auto
  then show ?thesis by (simp only: sum_list_sort_key)
qed

text \<open>What one recorded request cost, with absent token counts as zero.\<close>

definition tokens :: "int option \<Rightarrow> int" where "tokens t = (case t of None \<Rightarrow> 0 | Some n \<Rightarrow> n)"

definition priced :: "catalog_file \<Rightarrow> audit_row \<Rightarrow> rat option" where
  "priced cat r = (case ar_Model r of None \<Rightarrow> None
     | Some m \<Rightarrow> Cost cat m (tokens (ar_PromptTokens r)) (tokens (ar_CompletionTokens r)))"

definition row_cost :: "catalog_file \<Rightarrow> audit_row \<Rightarrow> rat" where
  "row_cost cat r = (case priced cat r of None \<Rightarrow> 0 | Some c \<Rightarrow> c)"

definition unpriced :: "catalog_file \<Rightarrow> audit_row \<Rightarrow> bool" where
  "unpriced cat r \<longleftrightarrow> ar_Model r \<noteq> None \<and> priced cat r = None"

lemma Cost_linear:
  obtains (none) "\<And>p c. Cost cat m p c = None"
  | (some) i j where "\<And>p c. Cost cat m p c = Some (of_int p * i + of_int c * j)"
proof (cases "lookup_model cat m")
  case None
  then show ?thesis using none by (simp add: Cost_def)
next
  case (Some e)
  show ?thesis
  proof (cases "mo_InputPer1M e = 0 \<and> mo_OutputPer1M e = 0")
    case True
    with Some show ?thesis using none by (simp add: Cost_def)
  next
    case False
    with Some show ?thesis
      using some [of "mo_InputPer1M e / 10 ^ 6" "mo_OutputPer1M e / 10 ^ 6"] by (auto simp: Cost_def)
  qed
qed

lemma sum_column_tokens: "sum_column f rows = sum_list (map (\<lambda>r. tokens (f r)) rows)"
  by (simp add: sum_column_def tokens_def)

text \<open>The price of a group of requests for one model is the sum of their prices.\<close>

lemma group_cost:
  assumes "\<forall>r \<in> set rs. ar_Model r = Some m"
  shows "(case Cost cat m (sum_column ar_PromptTokens rs) (sum_column ar_CompletionTokens rs) of None \<Rightarrow> 0 | Some c \<Rightarrow> c)
      = sum_list (map (row_cost cat) rs)"
    and "(if Cost cat m p c = None then count_rows (\<lambda>_. True) rs else 0) = count_rows (unpriced cat) rs"
proof -
  show "(case Cost cat m (sum_column ar_PromptTokens rs) (sum_column ar_CompletionTokens rs) of None \<Rightarrow> 0 | Some c \<Rightarrow> c)
      = sum_list (map (row_cost cat) rs)"
    using assms
  proof (cases rule: Cost_linear [of cat m])
    case none
    with assms show ?thesis by (induction rs) (simp_all add: row_cost_def priced_def)
  next
    case (some i j)
    with assms show ?thesis
      by (induction rs) (simp_all add: row_cost_def priced_def sum_column_tokens algebra_simps)
  qed
  show "(if Cost cat m p c = None then count_rows (\<lambda>_. True) rs else 0) = count_rows (unpriced cat) rs"
  proof (cases rule: Cost_linear [of cat m])
    case none
    with assms show ?thesis by (induction rs) (simp_all add: count_rows_def unpriced_def priced_def)
  next
    case (some i j)
    with assms show ?thesis by (induction rs) (simp_all add: count_rows_def unpriced_def priced_def)
  qed
qed

lemma price_models_eq:
  "price_models cat ms (spent, n, out) =
     (spent + sum_list (map (\<lambda>m. case Cost cat (model_string m) (mr_PromptTokens m) (mr_CompletionTokens m) of
        None \<Rightarrow> 0 | Some c \<Rightarrow> c) ms),
      n + sum_list (map (\<lambda>m. if Cost cat (model_string m) (mr_PromptTokens m) (mr_CompletionTokens m) = None
        then mr_Requests m else 0) ms),
      out @ map (\<lambda>m. \<lparr>mu_Model = model_string m, mu_Requests = mr_Requests m, mu_TotalTokens = mr_TotalTokens m,
        mu_EstimatedCostUSD = Cost cat (model_string m) (mr_PromptTokens m) (mr_CompletionTokens m)\<rparr>) ms)"
  by (induction ms arbitrary: spent n out) (simp_all add: Let_def split: option.splits)

lemma audit_select_Inr:
  "audit_select env f d = (d', Inr x) \<Longrightarrow> x = f (audit_logs d) \<and> audit_logs d' = audit_logs d"
  by (auto simp: audit_select_def audit_stmt_def Let_def split: option.splits)

lemma a_bind_Inr:
  assumes "a_bind (a_replace_err msg (audit_select env f)) g d = (d', Inr y)"
  obtains d1 where "audit_logs d1 = audit_logs d" "g (f (audit_logs d)) d1 = (d', Inr y)"
  using assms audit_select_Inr [of env f d]
  by (fastforce simp: a_bind_def a_replace_err_def split: prod.splits sum.splits)

lemmas aggregate_defs = AuditSummary_def AuditDailySeries_def AuditByModel_def AuditBySource_def

lemma load_analytics_Inr:
  assumes "load_analytics ae env orgID days d = (d', Inr a)"
  defines "rows \<equiv> in_window orgID (ae_days_ago ae days) (audit_logs d)"
  shows "a = analytics_of (ae_lib ae) (ae_catalog ae) days
     \<lparr>su_TotalRequests = count_rows (\<lambda>_. True) rows, su_Passed = count_rows (\<lambda>r. ar_OverallResult r = ''pass'') rows,
      su_PromptTokens = sum_column ar_PromptTokens rows, su_CompletionTokens = sum_column ar_CompletionTokens rows,
      su_TotalTokens = sum_column ar_TotalTokens rows\<rparr>
     (sort_key dr_Day (map (\<lambda>(day, rs). \<lparr>dr_Day = day, dr_Requests = count_rows (\<lambda>_. True) rs,
         dr_TotalTokens = sum_column ar_TotalTokens rs\<rparr>) (groups (\<lambda>r. ae_day_of ae (ar_CreatedAt r)) rows)))
     (sort_key (\<lambda>m. - mr_TotalTokens m) (map (\<lambda>(model, rs). \<lparr>mr_Model = model, mr_Requests = count_rows (\<lambda>_. True) rs,
         mr_PromptTokens = sum_column ar_PromptTokens rs, mr_CompletionTokens = sum_column ar_CompletionTokens rs,
         mr_TotalTokens = sum_column ar_TotalTokens rs\<rparr>) (groups ar_Model (filter (\<lambda>r. ar_Model r \<noteq> None) rows))))
     (sort_key (\<lambda>s. - bs_Requests s) (map (\<lambda>(src, rs). \<lparr>bs_SourceID = src, bs_Requests = count_rows (\<lambda>_. True) rs,
         bs_Rejected = count_rows (\<lambda>r. ar_OverallResult r \<noteq> ''pass'') rs,
         bs_TotalTokens = sum_column ar_TotalTokens rs\<rparr>) (groups ar_SourceID rows)))"
  using assms(1) unfolding load_analytics_def aggregate_defs Let_def rows_def
  by (auto elim!: a_bind_Inr)

lemma count_filter: "count_rows (\<lambda>_. True) (filter P rows) = count_rows P rows"
  by (induction rows) (simp_all add: count_rows_def)

lemma count_add: "count_rows P rows + count_rows (\<lambda>r. \<not> P r) rows = count_rows (\<lambda>_. True) rows"
  by (induction rows) (simp_all add: count_rows_def)

lemma count_rows_length: "count_rows (\<lambda>_. True) rows = int (length rows)"
  by (induction rows) (simp_all add: count_rows_def)

lemma groups_count:
  "sum_list (map (\<lambda>(k, rs). count_rows P rs) (groups key rows)) = count_rows P rows"
  unfolding count_rows_def by (rule sum_groups) simp

lemma groups_sum_column:
  "sum_list (map (\<lambda>(k, rs). sum_column f rs) (groups key rows)) = sum_column f rows"
  unfolding sum_column_def by (rule sum_groups) simp


definition example_analytics :: analytics_env where
  "example_analytics = \<lparr>ae_lib = \<lparr>parse_uuid = (\<lambda>s. if s = [] then None else Some s), parse_time = (\<lambda>_. None),
       print_time = int_text, print_day = int_text\<rparr>,
     ae_catalog = loaded_catalog pricesData, ae_day_of = (\<lambda>t. t div 10), ae_days_ago = (\<lambda>n. 0)\<rparr>"

definition example_log :: audit_db where
  "example_log = \<lparr>audit_logs = [example_row_at ''a'' 1, example_row_at ''b'' 12, example_row_at ''c'' 13],
     audit_statements = 0\<rparr>"

lemma example_loads:
  "\<exists>d' a. load_analytics example_analytics example_audit_env ''o'' 30 example_log = (d', Inr a)"
  by (simp add: load_analytics_def aggregate_defs audit_select_def audit_stmt_def a_bind_def a_replace_err_def
      example_audit_env_def Let_def)


end
