(* ===== verification/Api_Audit.thy ===== *)
theory Api_Audit
  imports Api_Isolation Gateway Audit_Queries
begin

text \<open>
  The audit log across both planes: the dashboard's request passes the control plane's
  authentication and its proxy, the data plane's token check and its audit handlers.
\<close>

subsection \<open>The data plane behind the proxy\<close>

text \<open>
  The data plane as the proxy reaches it: its router, with the audit handlers on a given state of
  the audit database.
\<close>

definition reach_data_plane ::
    "dp_config \<Rightarrow> 'm rate_lib \<Rightarrow> (string \<Rightarrow> string) \<Rightarrow> processor \<Rightarrow> string \<Rightarrow> rat \<Rightarrow> exec_env \<Rightarrow> 'm rate_limiter
     \<Rightarrow> analytics_env \<Rightarrow> db_env \<Rightarrow> audit_db \<Rightarrow> string \<Rightarrow> http_in \<Rightarrow> dp_outcome" where
  "reach_data_plane cfg rl sha_hex p new_id now xenv st ae env logs path r =
     (let route = (if path = ''/v1/internal/audit-logs'' then Get_audit_logs else Get_analytics) in
      case dp_answer (fst (serve cfg rl sha_hex p ([], r) new_id now xenv (audit_handlers ae env logs) route st)) of
        None \<Rightarrow> Dp_failed
      | Some rep \<Rightarrow> Dp_answer (rep_status rep) (rep_body rep))"

subsection \<open>Audit queries see one organization\<close>

text \<open>The audit database with one organization's rows only.\<close>

definition log_of :: "uuid \<Rightarrow> audit_db \<Rightarrow> audit_db" where
  "log_of o' d = d\<lparr>audit_logs := filter (\<lambda>x. ar_OrganizationID x = o') (audit_logs d)\<rparr>"

definition blind :: "uuid \<Rightarrow> 'a audit_query \<Rightarrow> bool" where
  "blind o' m \<longleftrightarrow> (\<forall>d. m (log_of o' d) = (log_of o' (fst (m d)), snd (m d)))"

lemma blind_select:
  assumes "\<And>rows. f (filter (\<lambda>x. ar_OrganizationID x = o') rows) = f rows"
  shows "blind o' (audit_select env f)"
  using assms by (simp add: blind_def audit_select_def audit_stmt_def log_of_def Let_def split: option.split)

lemma blind_bind: "blind o' m \<Longrightarrow> (\<And>x. blind o' (f x)) \<Longrightarrow> blind o' (a_bind m f)"
  by (simp add: blind_def a_bind_def split: prod.split sum.split)

lemma blind_replace: "blind o' m \<Longrightarrow> blind o' (a_replace_err msg m)"
  by (simp add: blind_def a_replace_err_def split: prod.split sum.split)

lemma in_window_own: "in_window o' t (filter (\<lambda>x. ar_OrganizationID x = o') rows) = in_window o' t rows"
  by (simp add: in_window_def conj_ac)

lemma blind_queries:
  "blind o' (AuditSummary env o' t)" "blind o' (AuditDailySeries f env o' t)"
  "blind o' (AuditByModel env o' t)" "blind o' (AuditBySource env o' t)"
  unfolding AuditSummary_def AuditDailySeries_def AuditByModel_def AuditBySource_def
  by (rule blind_select; simp only: in_window_own)+

lemma blind_list: "lq_OrganizationID p = o' \<Longrightarrow> blind o' (ListAuditLogs env p)"
proof -
  assume "lq_OrganizationID p = o'"
  then have "filter (row_matches p) (filter (\<lambda>x. ar_OrganizationID x = o') rows) = filter (row_matches p) rows" for rows
    by (auto simp: row_matches_def intro: filter_cong)
  then show ?thesis unfolding ListAuditLogs_def by (intro blind_select) (simp add: page_of_def newest_first_def)
qed

lemma blind_load: "blind o' (load_analytics ae env o' days)"
  unfolding load_analytics_def Let_def
  by (intro blind_bind blind_replace blind_queries) (simp add: blind_def)

lemma parse_list_org:
  assumes "parse_list_params lib q = Inr p"
  shows "parse_uuid lib (get_or_empty q ''org_id'') = Some (lq_OrganizationID p)"
  using assms by (auto simp: parse_list_params_def res_bind_Inr_iff split: option.splits)

text \<open>The handlers answer as if the table held the named organization's rows only.\<close>

lemma audit_handlers_own:
  assumes "parse_uuid (ae_lib ae) (get_or_empty (in_query r) ''org_id'') = Some o'"
  shows "audit_handlers ae env (log_of o' logs) route w r = audit_handlers ae env logs route w r"
proof -
  have "snd (AuditHandler_List (ae_lib ae) env w r (log_of o' logs)) = snd (AuditHandler_List (ae_lib ae) env w r logs)"
  proof (cases "parse_list_params (ae_lib ae) (in_query r)")
    case (Inr p)
    with parse_list_org [OF this] assms have "blind o' (ListAuditLogs env p)" by (intro blind_list) simp
    with Inr show ?thesis
      by (cases "ListAuditLogs env p logs") (auto simp: AuditHandler_List_def blind_def split: sum.split)
  qed (simp add: AuditHandler_List_def)
  moreover have "snd (AuditHandler_Analytics ae env w r (log_of o' logs)) = snd (AuditHandler_Analytics ae env w r logs)"
    using blind_load [of o' ae env "analytics_days (in_query r)"] assms
    by (cases "load_analytics ae env o' (analytics_days (in_query r)) logs")
      (auto simp: AuditHandler_Analytics_def blind_def split: sum.split)
  ultimately show ?thesis by (simp add: audit_handlers_def split: dp_route.split)
qed

lemma pass_params_other: "k \<notin> set ks \<Longrightarrow> m_get (pass_params ks given q) k = m_get q k"
  by (induction ks given q rule: pass_params.induct) (simp_all add: Let_def gomap_simps)

lemma serve_audit_own:
  assumes "parse_uuid (ae_lib ae) (get_or_empty (in_query r) ''org_id'') = Some o'"
    and "route = Get_audit_logs \<or> route = Get_analytics"
  shows "serve cfg rl sha_hex p (w, r) new_id now xenv (audit_handlers ae env (log_of o' logs)) route st
       = serve cfg rl sha_hex p (w, r) new_id now xenv (audit_handlers ae env logs) route st"
  using assms(2) audit_handlers_own [OF assms(1), of env logs]
  by (auto simp: serve_def split: prod.split sum.split)

lemma proxied_own:
  assumes "parse_uuid (ae_lib ae) (get_or_empty q ''org_id'') = Some o'"
    and "F = reach_data_plane cfg rl sha_hex p new_id now xenv st ae env"
  shows "audit_proxy (pe\<lparr>pe_dataplane := F (log_of o' logs)\<rparr>) w path q = audit_proxy (pe\<lparr>pe_dataplane := F logs\<rparr>) w path q"
  using assms(1)
  by (simp add: audit_proxy_def assms(2) reach_data_plane_def serve_audit_own Let_def)

text \<open>
  C9: the audit log shows a tenant itself only. Through the whole path (token, control-plane proxy,
  data-plane token, audit handlers) the listing and the analytics answer a tenant exactly as if the
  audit table held that tenant's entries only, whatever parameters, an \<open>org_id\<close> of another tenant
  included, the request carries.
\<close>

definition with_audit :: "(audit_db \<Rightarrow> string \<Rightarrow> http_in \<Rightarrow> dp_outcome) \<Rightarrow> audit_db \<Rightarrow> cp_server \<Rightarrow> cp_server" where
  "with_audit F logs sr = sr\<lparr>sr_api := (sr_api sr)\<lparr>pe_dataplane := F logs\<rparr>\<rparr>"

theorem audit_log_is_private:
  assumes "bearer_claims (pe_auth (sr_api sr)) r = Some c"
    and "parse_uuid (ae_lib ae) (tk_OrgID c) = Some (tk_OrgID c)"
    and "jr = Get_audit \<or> jr = Get_usage"
    and "F = reach_data_plane cfg dp_rl sha_hex p dp_id dp_now xenv dp_st ae env"
  shows "cp_serve (with_audit F (log_of (tk_OrgID c) logs) sr) rl (w0, r) new_id now (Behind_jwt jr) d st
       = cp_serve (with_audit F logs sr) rl (w0, r) new_id now (Behind_jwt jr) d st"
proof -
  obtain cx w where cw: "RequestID new_id r (empty_ctx, w0) = (cx, w)" by fastforce
  let ?cx = "identified c cx"
  have "get_or_empty (audit_query ks (tk_OrgID c) r) ''org_id'' = tk_OrgID c" if "''org_id'' \<notin> set ks" for ks
    using that by (simp add: audit_query_def get_or_empty_def pass_params_other gomap_simps)
  then have "audit_proxy ((sr_api sr)\<lparr>pe_dataplane := F (log_of (tk_OrgID c) logs)\<rparr>) w path (audit_query ks (tk_OrgID c) r)
      = audit_proxy ((sr_api sr)\<lparr>pe_dataplane := F logs\<rparr>) w path (audit_query ks (tk_OrgID c) r)"
    if "''org_id'' \<notin> set ks" for path ks
    using that assms(2) by (intro proxied_own [OF _ assms(4)]) simp
  then have "jwt_handler ((sr_api sr)\<lparr>pe_dataplane := F (log_of (tk_OrgID c) logs)\<rparr>) jr w r ?cx
      = jwt_handler ((sr_api sr)\<lparr>pe_dataplane := F logs\<rparr>) jr w r ?cx"
    using assms(3) by (auto simp: AuditLogHandler_List_def AuditLogHandler_Analytics_def with_org_def)
  then show ?thesis
    using assms(1) cw by (simp add: cp_serve_jwt [where c = c and cx = cx and w = w] with_audit_def split: prod.split option.split)
qed

text \<open>Two tenants' entries; the first asks with the other's \<open>org_id\<close> in the query.\<close>

definition shared_log :: audit_db where
  "shared_log = \<lparr>audit_logs = [(example_row_at ''a'' 1)\<lparr>ar_OrganizationID := ''0''\<rparr>,
     (example_row_at ''b'' 2)\<lparr>ar_OrganizationID := ''7''\<rparr>], audit_statements = 0\<rparr>"

definition audit_request :: http_in where
  "audit_request = (json_in (''Bearer '' @ example_token ''1'' ''0'') JNull)\<lparr>in_query := [(''org_id'', ''7'')]\<rparr>"

definition example_reach :: "audit_db \<Rightarrow> string \<Rightarrow> http_in \<Rightarrow> dp_outcome" where
  "example_reach = reach_data_plane (example_dp_config\<lparr>cfg_Token := ''shared''\<rparr>) bucket_lib (\<lambda>s. s) example_gateway ''r2'' 1
     (example_env [''hi'']) (NewRateLimiter 100 200) example_analytics example_audit_env"

definition audit_answer :: "audit_db \<Rightarrow> (db \<times> reply) \<times> bucket rate_limiter" where
  "audit_answer logs = cp_serve (with_audit example_reach logs example_server) bucket_lib ([], audit_request) ''r1'' 1
     (Behind_jwt Get_audit) example_db (NewRateLimiter 100 200)"

definition rows_shown :: "reply \<Rightarrow> nat" where
  "rows_shown rep = (case rep_body rep of Json_body (JArr rows) \<Rightarrow> length rows | _ \<Rightarrow> 0)"

lemma audit_request_claims:
  "map_option tk_OrgID (bearer_claims (pe_auth (sr_api example_server)) audit_request) = Some ''0''"
  by code_simp

lemma audit_answer_shows: "rows_shown (snd (fst (audit_answer shared_log))) = 1"
  by code_simp

theorem audit_log_is_private_witness:
  "audit_answer (log_of ''0'' shared_log) = audit_answer shared_log
   \<and> rows_shown (snd (fst (audit_answer shared_log))) = 1 \<and> length (audit_logs shared_log) = 2"
proof -
  obtain c where c: "bearer_claims (pe_auth (sr_api example_server)) audit_request = Some c" "tk_OrgID c = ''0''"
    using audit_request_claims by auto
  have u: "parse_uuid (ae_lib example_analytics) (tk_OrgID c) = Some (tk_OrgID c)"
    using c(2) by (simp add: example_analytics_def)
  have "audit_answer (log_of ''0'' shared_log) = audit_answer shared_log"
    unfolding audit_answer_def
    by (rule audit_log_is_private [OF c(1) u disjI1 [OF refl] example_reach_def, unfolded c(2)])
  moreover have "length (audit_logs shared_log) = 2" by (simp add: shared_log_def)
  ultimately show ?thesis using audit_answer_shows by blast
qed

end
