(* ===== verification/Api_Confidential.thy ===== *)
theory Api_Confidential
  imports Api_Isolation
begin

text \<open>
  What the reading routes tell a tenant: two databases that differ in other tenants' rows only give
  the same answers.
\<close>

subsection \<open>Queries that see a view\<close>

text \<open>
  A view of the database does not see the statement counter. A query sees no more than the view
  when databases with the same view and counter give the same result, and the same again afterwards.
\<close>

locale db_view =
  fixes V :: "db \<Rightarrow> 'v"
  assumes view_counter [simp]: "V (d\<lparr>statements := n\<rparr>) = V d"
begin

definition alike :: "db \<Rightarrow> db \<Rightarrow> bool" where
  "alike d d' \<longleftrightarrow> V d = V d' \<and> statements d = statements d'"

definition sees :: "(db \<Rightarrow> db \<times> 'r) \<Rightarrow> bool" where
  "sees m \<longleftrightarrow> (\<forall>d d'. alike d d' \<longrightarrow> snd (m d) = snd (m d') \<and> alike (fst (m d)) (fst (m d')))"

lemma sees_basic: "sees (q_return x)" "sees (q_fail er)" "sees (q_lift r)" "sees (answer rep)"
  by (simp_all add: sees_def answer_def)

lemma sees_bind:
  assumes "sees m" and "\<And>x. sees (f x)"
  shows "sees (q_bind m f)"
  unfolding sees_def
proof (intro allI impI)
  fix d d' assume "alike d d'"
  with assms(1) have r: "snd (m d) = snd (m d')" "alike (fst (m d)) (fst (m d'))" by (auto simp: sees_def)
  then show "snd (q_bind m f d) = snd (q_bind m f d') \<and> alike (fst (q_bind m f d)) (fst (q_bind m f d'))"
    using assms(2) by (cases "m d"; cases "m d'"; cases "snd (m d)") (auto simp: q_bind_def sees_def)
qed

lemma sees_wrap: "sees m \<Longrightarrow> sees (q_wrap s m)"
  by (auto simp: sees_def q_wrap_def split: prod.split) (metis fst_conv snd_conv)+

lemma sees_respond: "sees q \<Longrightarrow> sees (respond q bad good)"
  unfolding sees_def
proof (intro allI impI)
  fix d d' assume q: "\<forall>d d'. alike d d' \<longrightarrow> snd (q d) = snd (q d') \<and> alike (fst (q d)) (fst (q d'))" and "alike d d'"
  then have "snd (q d) = snd (q d')" "alike (fst (q d)) (fst (q d'))" by blast+
  then show "snd (respond q bad good d) = snd (respond q bad good d')
      \<and> alike (fst (respond q bad good d)) (fst (respond q bad good d'))"
    by (cases "q d"; cases "q d'"; cases "snd (q d)") (auto simp: respond_def)
qed

lemma sees_stmt:
  assumes "\<And>new now d. fst (body new now d) = d"
    and "\<And>new now d d'. V d = V d' \<Longrightarrow> snd (body new now d) = snd (body new now d')"
  shows "sees (run_stmt env body)"
  unfolding sees_def
proof (intro allI impI)
  fix d d' assume a: "alike d d'"
  let ?n = "statements d" let ?b = "\<lambda>d. body (db_uuid env ?n) (db_now env ?n) (d\<lparr>statements := ?n + 1\<rparr>)"
  have n: "statements d' = ?n" and v: "V (d\<lparr>statements := ?n + 1\<rparr>) = V (d'\<lparr>statements := ?n + 1\<rparr>)"
    using a by (simp_all add: alike_def)
  have "snd (?b d) = snd (?b d')" by (rule assms(2) [OF v])
  moreover have "fst (?b d) = d\<lparr>statements := ?n + 1\<rparr>" "fst (?b d') = d'\<lparr>statements := ?n + 1\<rparr>"
    by (rule assms(1))+
  moreover have "alike (d\<lparr>statements := ?n + 1\<rparr>) (d'\<lparr>statements := ?n + 1\<rparr>)"
    using v by (simp add: alike_def)
  ultimately show "snd (run_stmt env body d) = snd (run_stmt env body d')
      \<and> alike (fst (run_stmt env body d)) (fst (run_stmt env body d'))"
    by (cases "?b d"; cases "?b d'"; cases "snd (?b d)"; cases "db_fails env ?n")
      (simp_all add: run_stmt_def Let_def n)
qed

lemma sees_select:
  assumes "\<And>d d'. V d = V d' \<Longrightarrow> rows d = rows d'"
  shows "sees (select_many env rows)" and "sees (select_one env rows)"
  unfolding select_many_def select_one_def by (rule sees_stmt; simp; drule assms; simp)+

lemma sees_guards:
  "(\<And>o1. sees (k o1)) \<Longrightarrow> sees (with_org w cx k)"
  "(\<And>i. sees (k' i)) \<Longrightarrow> sees (with_id pe w raw msg k')"
  "(\<And>x. sees (k'' x)) \<Longrightarrow> sees (with_body pe w dec r k'')"
  by (simp_all add: with_org_def with_id_def with_body_def sees_basic split: option.split sum.split)

end

interpretation own: db_view "tenant_view o'" for o'
  by unfold_locales (simp add: tenant_view_def)

lemma own_selects:
  "own.sees t (ListAPIKeysByOrganization env t)" "own.sees t (ListSourcesByOrganization env t)"
  "own.sees t (ListGuardrailsByOrg env t)" "own.sees t (ListTransformersByOrg env t)"
  "own.sees t (ListAlertWebhooksByOrganization env t)"
  "own.sees t (GetSource env i t)" "own.sees t (GetGuardrail env i t)" "own.sees t (GetTransformer env i t)"
proof -
  have owned: "filter (owns_source i t) ss = filter (\<lambda>r. so_ID r = i) (rows_of so_OrganizationID t ss)"
    "filter (owns_guardrail i t) gs = filter (\<lambda>r. gr_ID r = i) (rows_of gr_OrganizationID t gs)"
    "filter (owns_transformer i t) ts = filter (\<lambda>r. tf_ID r = i) (rows_of tf_OrganizationID t ts)" for ss gs ts
    by (auto simp: rows_of_def owns_defs intro: filter_cong)
  show "own.sees t (ListAPIKeysByOrganization env t)" "own.sees t (ListSourcesByOrganization env t)"
    "own.sees t (ListGuardrailsByOrg env t)" "own.sees t (ListTransformersByOrg env t)"
    "own.sees t (ListAlertWebhooksByOrganization env t)"
    "own.sees t (GetSource env i t)" "own.sees t (GetGuardrail env i t)" "own.sees t (GetTransformer env i t)"
    unfolding read_defs owned rows_of_def [symmetric]
    by (rule own.sees_select; simp add: tenant_view_def Let_def)+
qed

text \<open>The routes that read a tenant's own objects, attachments aside.\<close>

fun own_read :: "jwt_route \<Rightarrow> bool" where
  "own_read Get_api_keys = True"
| "own_read Get_sources = True"
| "own_read (Get_source i) = True"
| "own_read Get_guardrails = True"
| "own_read (Get_guardrail i) = True"
| "own_read (Post_guardrail_test i) = True"
| "own_read Get_transformers = True"
| "own_read (Get_transformer i) = True"
| "own_read Get_alerts = True"
| "own_read jr = False"

lemma own_read_sees:
  assumes "own_read jr"
  shows "own.sees (OrgIDFromContext cx) (jwt_handler pe jr w r cx)"
proof -
  let ?t = "OrgIDFromContext cx"
  have org: "with_org w cx k = (if ?t = uuid_Nil then answer (reply_error w 401 ''unauthorized'') else k ?t)" for k :: "uuid \<Rightarrow> endpoint"
    by (simp add: with_org_def)
  have test: "own.sees ?t (GuardrailService_Test e ?t i inp)" for e i inp
    unfolding GuardrailService_Test_def GuardrailService_Get_def
    by (intro own.sees_bind own.sees_wrap own.sees_basic own_selects)
  have if_sees: "own.sees t m \<Longrightarrow> own.sees t m' \<Longrightarrow> own.sees t (if b then m else m')" for t b and m m' :: endpoint
    by simp
  show ?thesis
    using assms
    by (cases jr)
      (simp_all only: own_read.simps jwt_handler.simps simp_thms,
       unfold handler_defs org AuthService_ListAPIKeys_def SourceService_List_def SourceService_Get_def
         GuardrailService_List_def GuardrailService_Get_def TransformerService_List_def TransformerService_Get_def
         AlertService_List_def,
       (intro if_sees own.sees_respond own.sees_guards(2,3) own.sees_basic own_selects test)+)
qed

text \<open>
  C10: a tenant learns nothing of other tenants by reading its own objects. For the keys, sources,
  guardrails, transformers and alerts, listed or read one by one, and for the dry run of a guardrail,
  databases that agree on the tenant's own rows give the same answer, whatever the other tenants'
  rows are and whatever identifier the request names.
\<close>

theorem reads_tell_own_rows:
  assumes "bearer_claims (pe_auth (sr_api sr)) r = Some c" and "own_read jr"
    and "tenant_view (tk_OrgID c) d = tenant_view (tk_OrgID c) d'" and "statements d = statements d'"
  shows "snd (fst (cp_serve sr rl (w0, r) new_id now (Behind_jwt jr) d st))
       = snd (fst (cp_serve sr rl (w0, r) new_id now (Behind_jwt jr) d' st))"
proof -
  obtain cx w where cw: "RequestID new_id r (empty_ctx, w0) = (cx, w)" by fastforce
  let ?cx = "identified c cx"
  have "own.sees (tk_OrgID c) (jwt_handler (sr_api sr) jr w r ?cx)"
    using own_read_sees [OF assms(2), of ?cx "sr_api sr" w r] by simp
  then have "snd (jwt_handler (sr_api sr) jr w r ?cx d) = snd (jwt_handler (sr_api sr) jr w r ?cx d')"
    using assms(3,4) unfolding own.sees_def own.alike_def by blast
  then show ?thesis
    unfolding cp_serve_jwt [OF assms(1) cw] by (simp split: prod.split option.split)
qed

text \<open>A guardrail of the second tenant makes no difference to the first one's list.\<close>

definition foreign_guardrail :: guardrail_row where
  "foreign_guardrail = \<lparr>gr_ID = ''99'', gr_OrganizationID = ''7'', gr_Name = ''other'', gr_GuardType = ''regex'',
     gr_Phase = ''input'', gr_Config = JObj [], gr_Enabled = True, gr_CreatedAt = 9, gr_UpdatedAt = 9\<rparr>"

definition example_db_more :: db where
  "example_db_more = example_db\<lparr>guardrails := guardrails example_db @ [foreign_guardrail]\<rparr>"

definition list_request :: http_in where
  "list_request = json_in (''Bearer '' @ example_token ''1'' ''0'') JNull"

definition guardrails_answer :: "db \<Rightarrow> reply" where
  "guardrails_answer d = snd (fst (cp_serve example_server bucket_lib ([], list_request) ''r'' 1
     (Behind_jwt Get_guardrails) d (NewRateLimiter 100 200)))"

lemma list_request_claims:
  "map_option tk_OrgID (bearer_claims (pe_auth (sr_api example_server)) list_request) = Some ''0''"
  by code_simp

theorem reads_tell_own_rows_witness:
  "guardrails_answer example_db = guardrails_answer example_db_more
     \<and> guardrails example_db_more = guardrails example_db @ [foreign_guardrail]"
proof -
  obtain c where c: "bearer_claims (pe_auth (sr_api example_server)) list_request = Some c" "tk_OrgID c = ''0''"
    using list_request_claims by auto
  have "tenant_view (tk_OrgID c) example_db = tenant_view (tk_OrgID c) example_db_more"
    by (simp add: c(2) tenant_view_def Let_def example_db_more_def foreign_guardrail_def)
  then have "guardrails_answer example_db = guardrails_answer example_db_more"
    unfolding guardrails_answer_def
    by (intro reads_tell_own_rows [OF c(1)]) (simp_all add: example_db_more_def)
  then show ?thesis by (simp add: example_db_more_def)
qed

end
