(* ===== verification/Process_Start.thy ===== *)
theory Process_Start
  imports Sheeld_Prelude
begin

text \<open>
  What the two servers' entry points share, \<open>cmd/sheeld-server/main.go\<close> and
  \<open>cmd/control-plane/main.go\<close>: the log level, the migrations (\<open>db/migrate.go\<close> of each plane), the
  effects of a process and how it ends.
\<close>

datatype log_level = LevelDebug | LevelInfo | LevelWarn | LevelError

definition log_level_of :: "string \<Rightarrow> log_level" where
  "log_level_of s =
     (if s = ''debug'' then LevelDebug else if s = ''warn'' then LevelWarn
      else if s = ''error'' then LevelError else LevelInfo)"

text \<open>Whether a logger of the level prints what \<open>slog.Info\<close> is given.\<close>

fun prints_info :: "log_level \<Rightarrow> bool" where
  "prints_info LevelDebug = True"
| "prints_info LevelInfo = True"
| "prints_info LevelWarn = False"
| "prints_info LevelError = False"

text \<open>The two calls of the migration library, with their errors.\<close>

definition RunMigrations :: "go_error option \<Rightarrow> go_error option \<Rightarrow> go_error option" where
  "RunMigrations dialect up =
     (case dialect of
        Some e \<Rightarrow> Some (''setting goose dialect: '' @ e)
      | None \<Rightarrow> map_option (\<lambda>e. ''running migrations: '' @ e) up)"

datatype process_effect =
    Pool_opened | Migrations_run | Writer_started | Background_started | Listening | Server_stopped
  | Writer_closed | Drain_timed_out | Pool_closed

text \<open>The failures a process meets while it starts, while it serves (\<open>None\<close>: a signal came), and at its shutdown.\<close>

record start_env =
  se_pool :: "go_error option"
  se_ping :: "go_error option"
  se_dialect :: "go_error option"
  se_up :: "go_error option"
  se_listen :: "go_error option"
  se_shutdown :: "go_error option"

text \<open>
  The end of a process: its exit code, the error \<open>run\<close> returned, its effects with those of the
  deferred calls, and the state it ended in if it came to serve.
\<close>

record 's process_end =
  rn_exit :: int
  rn_error :: "go_error option"
  rn_effects :: "process_effect list"
  rn_server :: "'s option"

text \<open>\<open>main\<close>: the exit code after \<open>run\<close> has returned.\<close>

definition returned :: "go_error option \<Rightarrow> process_effect list \<Rightarrow> 's option \<Rightarrow> 's process_end" where
  "returned err effects s = \<lparr>rn_exit = (if err = None then 0 else 1), rn_error = err, rn_effects = effects, rn_server = s\<rparr>"

text \<open>The connection to the database: a failure with its effects, or nothing.\<close>

definition connect_db :: "start_env \<Rightarrow> (go_error \<times> process_effect list) option" where
  "connect_db se =
     (case se_pool se of
        Some e \<Rightarrow> Some (''connecting to database: '' @ e, [])
      | None \<Rightarrow>
          (case se_ping se of
             Some e \<Rightarrow> Some (''pinging database: '' @ e, [Pool_opened, Pool_closed])
           | None \<Rightarrow>
               (case RunMigrations (se_dialect se) (se_up se) of
                  Some e \<Rightarrow> Some (''running migrations: '' @ e, [Pool_opened, Pool_closed])
                | None \<Rightarrow> None)))"

text \<open>How the serving ends: the error of the listener, of the graceful shutdown, or none.\<close>

definition serving_error :: "start_env \<Rightarrow> go_error option" where
  "serving_error se =
     (case se_listen se of
        Some e \<Rightarrow> Some (''server error: '' @ e)
      | None \<Rightarrow> map_option (\<lambda>e. ''server shutdown: '' @ e) (se_shutdown se))"

lemma connect_db_effects:
  "connect_db se = Some (e, effects) \<Longrightarrow> effects = [] \<or> effects = [Pool_opened, Pool_closed]"
  by (auto simp: connect_db_def split: option.splits)

end
