(* ===== verification/Request_Metrics.thy ===== *)
theory Request_Metrics
  imports Gateway
begin

text \<open>
  \<open>internal/shared/metrics/metrics.go\<close> and \<open>internal/shared/middleware/logging.go\<close>: the collectors,
  the response writers that note a status, and what the two middlewares record of a request. The
  registry and the text format of the scrape belong to Prometheus; a counter's \<open>Add\<close> of a negative
  number panics, as its documentation says. The latency of the guard phases is left out.
\<close>

subsection \<open>Collectors\<close>

type_synonym series = "string \<times> string list"

definition HTTPRequests :: string where "HTTPRequests = ''sheeld_http_requests_total''"
definition HTTPDuration :: string where "HTTPDuration = ''sheeld_http_request_duration_seconds''"
definition ProxyRequests :: string where "ProxyRequests = ''sheeld_proxy_requests_total''"
definition ProxyDuration :: string where "ProxyDuration = ''sheeld_proxy_request_duration_seconds''"
definition LLMRequests :: string where "LLMRequests = ''sheeld_llm_requests_total''"
definition LLMRetries :: string where "LLMRetries = ''sheeld_llm_retries_total''"
definition LLMTokens :: string where "LLMTokens = ''sheeld_llm_tokens_total''"
definition AlertsSent :: string where "AlertsSent = ''sheeld_alerts_sent_total''"
definition ConfigLoaded :: string where "ConfigLoaded = ''sheeld_config_loaded''"
definition ConfigLastReload :: string where "ConfigLastReload = ''sheeld_config_last_reload_timestamp_seconds''"

lemmas collector_defs = HTTPRequests_def HTTPDuration_def ProxyRequests_def ProxyDuration_def LLMRequests_def
  LLMRetries_def LLMTokens_def AlertsSent_def ConfigLoaded_def ConfigLastReload_def

text \<open>
  The series that exist, by collector and label values. A histogram keeps what it observed, in
  milliseconds. The gauge of the audit buffer is registered at most once and reads the
  writer it was last pointed at.
\<close>

record metrics =
  mx_counters :: "(series, int) gomap"
  mx_histograms :: "(series, int list) gomap"
  mx_gauges :: "(string, int) gomap"
  mx_depth_gauges :: nat
  mx_depth_of :: "nat option"

definition no_metrics :: metrics where
  "no_metrics = \<lparr>mx_counters = [], mx_histograms = [], mx_gauges = [], mx_depth_gauges = 0, mx_depth_of = None\<rparr>"

definition count_of :: "series \<Rightarrow> metrics \<Rightarrow> int" where
  "count_of s m = (case m_get (mx_counters m) s of None \<Rightarrow> 0 | Some n \<Rightarrow> n)"

definition counter_inc :: "series \<Rightarrow> metrics \<Rightarrow> metrics" where
  "counter_inc s m = m\<lparr>mx_counters := m_set s (count_of s m + 1) (mx_counters m)\<rparr>"

definition counter_add :: "series \<Rightarrow> int \<Rightarrow> metrics \<Rightarrow> metrics option" where
  "counter_add s n m =
     (if n < 0 then None else Some (m\<lparr>mx_counters := m_set s (count_of s m + n) (mx_counters m)\<rparr>))"

definition observe :: "series \<Rightarrow> int \<Rightarrow> metrics \<Rightarrow> metrics" where
  "observe s v m =
     m\<lparr>mx_histograms := m_set s ((case m_get (mx_histograms m) s of None \<Rightarrow> [] | Some vs \<Rightarrow> vs) @ [v]) (mx_histograms m)\<rparr>"

definition set_gauge :: "string \<Rightarrow> int \<Rightarrow> metrics \<Rightarrow> metrics" where
  "set_gauge g v m = m\<lparr>mx_gauges := m_set g v (mx_gauges m)\<rparr>"

definition ConfigApplied :: "int \<Rightarrow> metrics \<Rightarrow> metrics" where
  "ConfigApplied now m = set_gauge ConfigLastReload now (set_gauge ConfigLoaded 1 m)"

text \<open>Writers are numbered; \<open>lengths\<close> gives the current length of each one's channel.\<close>

definition RegisterAuditBufferDepth :: "nat \<Rightarrow> metrics \<Rightarrow> metrics" where
  "RegisterAuditBufferDepth writer m =
     m\<lparr>mx_depth_of := Some writer, mx_depth_gauges := (if mx_depth_gauges m = 0 then 1 else mx_depth_gauges m)\<rparr>"

definition scraped_depth :: "metrics \<Rightarrow> (nat \<Rightarrow> nat) \<Rightarrow> nat" where
  "scraped_depth m lengths = (case mx_depth_of m of None \<Rightarrow> 0 | Some writer \<Rightarrow> lengths writer)"

subsection \<open>Response writers\<close>

text \<open>
  What a handler does to its response writer. \<open>net/http\<close> sends the first status that is not
  informational, 200 when a body is written before any or when nothing is written at all, and
  ignores every later one.
\<close>

datatype write_action =
    Write_header int
  | Write_bytes

fun wire_status :: "write_action list \<Rightarrow> int" where
  "wire_status [] = 200"
| "wire_status (Write_bytes # acts) = 200"
| "wire_status (Write_header c # acts) =
     (if 100 \<le> c \<and> c \<le> 199 \<and> c \<noteq> 101 then wire_status acts else c)"

record status_recorder =
  rec_status :: int
  rec_wroteHeader :: bool

definition new_recorder :: status_recorder where
  "new_recorder = \<lparr>rec_status = 200, rec_wroteHeader = False\<rparr>"

fun recorder_write :: "write_action \<Rightarrow> status_recorder \<Rightarrow> status_recorder" where
  "recorder_write (Write_header c) r =
     (if \<not> rec_wroteHeader r then r\<lparr>rec_status := c, rec_wroteHeader := True\<rparr> else r)"
| "recorder_write Write_bytes r = r\<lparr>rec_wroteHeader := True\<rparr>"

definition recorded_status :: "write_action list \<Rightarrow> int" where
  "recorded_status acts = rec_status (fold recorder_write acts new_recorder)"

text \<open>The writer of the request log keeps the last status instead.\<close>

fun log_write :: "write_action \<Rightarrow> int \<Rightarrow> int" where
  "log_write (Write_header c) s = c"
| "log_write Write_bytes s = s"

definition logged_status :: "write_action list \<Rightarrow> int" where
  "logged_status acts = fold log_write acts 200"

text \<open>The writes behind a reply of the model: a status, and a body in one or several pieces.\<close>

definition reply_writes :: "reply \<Rightarrow> write_action list" where
  "reply_writes rep = Write_header (rep_status rep)
     # (case rep_body rep of No_body \<Rightarrow> [] | Event_body evs \<Rightarrow> replicate (length evs) Write_bytes | _ \<Rightarrow> [Write_bytes])"

subsection \<open>The middlewares\<close>

text \<open>
  \<open>HTTP\<close> counts after the handler has returned, so not when it panicked; \<open>pattern\<close> is the route
  pattern chi matched.
\<close>

definition metrics_HTTP :: "string \<Rightarrow> string \<Rightarrow> write_action list \<Rightarrow> bool \<Rightarrow> int \<Rightarrow> metrics \<Rightarrow> metrics" where
  "metrics_HTTP method pattern acts panicked elapsed m =
     (if panicked then m
      else (let route = (if pattern = [] then ''unmatched'' else pattern) in
        observe (HTTPDuration, [method, route]) elapsed
          (counter_inc (HTTPRequests, [method, route, int_text (recorded_status acts)]) m)))"

record log_line =
  ll_method :: string
  ll_path :: string
  ll_status :: int
  ll_duration_ms :: int
  ll_remote_addr :: string
  ll_request_id :: "string option"

definition Logger :: "string \<Rightarrow> string \<Rightarrow> string \<Rightarrow> req_ctx \<Rightarrow> write_action list \<Rightarrow> int \<Rightarrow> log_line" where
  "Logger method path remote cx acts elapsed =
     \<lparr>ll_method = method, ll_path = path, ll_status = logged_status acts, ll_duration_ms = elapsed,
      ll_remote_addr = remote, ll_request_id = cx_request_id cx\<rparr>"

subsection \<open>The counters of an execution\<close>

text \<open>
  The deferred function of \<open>ChatCompletionAt\<close> with the retries counted before; \<open>None\<close> is the panic
  at a negative token count, with the metrics up to it on the left.
\<close>

definition count_llm :: "llm_outcome \<Rightarrow> metrics \<Rightarrow> metrics \<times> bool" where
  "count_llm call m =
     (let m = (counter_inc (LLMRetries, []) ^^ lo_retries call) m in
      case lo_result call of
        Inl _ \<Rightarrow> (counter_inc (LLMRequests, [''error'']) m, False)
      | Inr resp \<Rightarrow>
          (let m = counter_inc (LLMRequests, [''success'']) m in
           case counter_add (LLMTokens, [''prompt'']) (PromptTokens (Usage resp)) m of
             None \<Rightarrow> (m, True)
           | Some m1 \<Rightarrow>
               (case counter_add (LLMTokens, [''completion'']) (CompletionTokens (Usage resp)) m1 of
                  None \<Rightarrow> (m1, True) | Some m2 \<Rightarrow> (m2, False))))"

text \<open>
  The deferred function of \<open>Execute\<close>: while a panic unwinds there is neither a result nor an error,
  so the default case counts the request as passed.
\<close>

definition count_proxy :: "bool \<Rightarrow> exec_outcome \<Rightarrow> int \<Rightarrow> metrics \<Rightarrow> metrics" where
  "count_proxy panicked x elapsed m =
     (let m = observe (ProxyDuration, []) elapsed m;
          label = (if panicked then (''pass'', []) else xo_metric x)
      in counter_inc (ProxyRequests, [fst label, snd label]) m)"

text \<open>An execution with its metrics, and whether it panicked.\<close>

definition count_execution :: "exec_outcome \<Rightarrow> int \<Rightarrow> metrics \<Rightarrow> metrics \<times> bool" where
  "count_execution x elapsed m =
     (case (case xo_llm x of None \<Rightarrow> (m, False) | Some (_, call) \<Rightarrow> count_llm call m) of
        (m1, panicked) \<Rightarrow> (count_proxy panicked x elapsed m1, panicked))"

definition exec_panics :: "exec_outcome \<Rightarrow> bool" where
  "exec_panics x \<longleftrightarrow> (case xo_llm x of None \<Rightarrow> False | Some (_, call) \<Rightarrow>
     (case lo_result call of Inl _ \<Rightarrow> False
      | Inr resp \<Rightarrow> PromptTokens (Usage resp) < 0 \<or> CompletionTokens (Usage resp) < 0))"

subsection \<open>Which series a step touches\<close>

lemma counter_inc [simp]: "count_of s' (counter_inc s m) = count_of s' m + (if s' = s then 1 else 0)"
  by (simp add: counter_inc_def count_of_def)

lemma counter_observe [simp]: "count_of s' (observe s v m) = count_of s' m"
  by (simp add: observe_def count_of_def)

lemma counter_set_gauge [simp]: "count_of s' (set_gauge g v m) = count_of s' m"
  by (simp add: set_gauge_def count_of_def)

lemma counter_config [simp]: "count_of s' (ConfigApplied now m) = count_of s' m"
  by (simp add: ConfigApplied_def)

lemma counter_inc_repeat [simp]:
  "count_of s' ((counter_inc s ^^ n) m) = count_of s' m + (if s' = s then int n else 0)"
  by (induction n) simp_all

lemma counter_llm:
  assumes "fst s \<notin> {LLMRetries, LLMRequests, LLMTokens}"
  shows "count_of s (fst (count_llm call m)) = count_of s m"
proof (cases "lo_result call")
  case (Inl e)
  with assms show ?thesis by (auto simp: count_llm_def Let_def)
next
  case (Inr resp)
  define m1 where "m1 = counter_inc (LLMRequests, [''success'']) ((counter_inc (LLMRetries, []) ^^ lo_retries call) m)"
  from assms have "count_of s m1 = count_of s m" by (auto simp: m1_def)
  moreover from assms have ne: "s \<noteq> (LLMTokens, ls)" for ls by auto
  ultimately show ?thesis
    by (simp add: count_llm_def Inr Let_def m1_def [symmetric] counter_add_def) (simp add: count_of_def)
qed

lemma count_llm_panics:
  "snd (count_llm call m) = (case lo_result call of Inl _ \<Rightarrow> False
     | Inr resp \<Rightarrow> PromptTokens (Usage resp) < 0 \<or> CompletionTokens (Usage resp) < 0)"
proof (cases "lo_result call")
  case (Inr resp)
  show ?thesis
  proof (cases "PromptTokens (Usage resp) < 0")
    case False
    with Inr show ?thesis
      by (cases "CompletionTokens (Usage resp) < 0") (simp_all add: count_llm_def counter_add_def Let_def)
  qed (simp add: Inr count_llm_def counter_add_def Let_def)
qed (simp add: count_llm_def Let_def)

lemma count_execution_panics [simp]: "snd (count_execution x elapsed m) = exec_panics x"
proof (cases "xo_llm x")
  case (Some rc)
  then show ?thesis
    using count_llm_panics [of "snd rc" m] by (cases rc; cases "count_llm (snd rc) m") (simp add: count_execution_def exec_panics_def)
qed (simp add: count_execution_def exec_panics_def)

lemma counter_execution:
  assumes "fst s \<notin> {LLMRetries, LLMRequests, LLMTokens}"
  shows "count_of s (fst (count_execution x elapsed m)) = count_of s m
     + (if s = (ProxyRequests, if exec_panics x then [''pass'', []] else [fst (xo_metric x), snd (xo_metric x)])
        then 1 else 0)"
proof -
  define mp where "mp = (case xo_llm x of None \<Rightarrow> (m, False) | Some (_, call) \<Rightarrow> count_llm call m)"
  have "count_of s (fst mp) = count_of s m"
    using counter_llm [OF assms] by (simp add: mp_def split: option.split prod.split)
  moreover have "fst (count_execution x elapsed m) = count_proxy (snd mp) x elapsed (fst mp)"
    "snd mp = exec_panics x"
    using count_execution_panics [of x elapsed m] by (simp_all add: count_execution_def mp_def [symmetric] split: prod.splits)
  ultimately show ?thesis by (simp add: count_proxy_def Let_def)
qed

lemma counter_HTTP:
  "count_of s (metrics_HTTP method pattern acts panicked elapsed m) = count_of s m
     + (if \<not> panicked \<and> s = (HTTPRequests, [method, if pattern = [] then ''unmatched'' else pattern,
          int_text (recorded_status acts)]) then 1 else 0)"
  by (simp add: metrics_HTTP_def Let_def)

lemma collectors_distinct [simp]:
  "HTTPRequests \<noteq> ProxyRequests" "ProxyRequests \<noteq> HTTPRequests"
  "HTTPRequests \<noteq> LLMRetries" "HTTPRequests \<noteq> LLMRequests" "HTTPRequests \<noteq> LLMTokens" "HTTPRequests \<noteq> AlertsSent"
  "ProxyRequests \<noteq> LLMRetries" "ProxyRequests \<noteq> LLMRequests" "ProxyRequests \<noteq> LLMTokens" "ProxyRequests \<noteq> AlertsSent"
  by (simp_all add: collector_defs)

subsection \<open>The status that is counted is the status that was sent\<close>

lemma recorder_keeps: "rec_wroteHeader r \<Longrightarrow> rec_status (fold recorder_write acts r) = rec_status r"
proof (induction acts arbitrary: r)
  case (Cons a acts)
  then show ?case by (cases a) simp_all
qed simp

text \<open>For handlers that send no informational status the recorder agrees with the wire.\<close>

lemma recorded_is_sent:
  assumes "\<And>c. Write_header c \<in> set acts \<Longrightarrow> 200 \<le> c"
  shows "recorded_status acts = wire_status acts"
proof (cases acts)
  case (Cons a rest)
  show ?thesis
  proof (cases a)
    case (Write_header c)
    with assms [of c] Cons show ?thesis by (simp add: recorded_status_def new_recorder_def recorder_keeps)
  qed (simp add: Cons recorded_status_def new_recorder_def recorder_keeps)
qed (simp add: recorded_status_def new_recorder_def)

lemma recorded_first [simp]: "recorded_status (Write_header c # acts) = c"
  by (simp add: recorded_status_def new_recorder_def recorder_keeps)

lemma recorded_reply [simp]: "recorded_status (reply_writes rep) = rep_status rep"
  by (simp add: reply_writes_def)

text \<open>
  The deadline middleware of chi writes 504 after a handler that has already answered: the client and
  the metrics have the first status, the log has 504.
\<close>

lemma timed_out_log_differs:
  assumes "200 \<le> rep_status rep"
  shows "wire_status (reply_writes rep @ [Write_header 504]) = rep_status rep"
    and "recorded_status (reply_writes rep @ [Write_header 504]) = rep_status rep"
    and "logged_status (reply_writes rep @ [Write_header 504]) = 504"
  using assms by (simp_all add: reply_writes_def logged_status_def)

text \<open>However many writers are made, the gauge of the buffer is registered once and reads the last one.\<close>

lemma depth_gauge_once:
  "mx_depth_gauges (fold RegisterAuditBufferDepth (writers @ [writer]) no_metrics) = 1"
  "scraped_depth (fold RegisterAuditBufferDepth (writers @ [writer]) no_metrics) lengths = lengths writer"
proof -
  have "mx_depth_gauges m \<le> 1 \<Longrightarrow> mx_depth_gauges (fold RegisterAuditBufferDepth ws m) \<le> 1" for ws m
    by (induction ws arbitrary: m) (simp_all add: RegisterAuditBufferDepth_def)
  from this [of no_metrics writers] have "mx_depth_gauges (fold RegisterAuditBufferDepth writers no_metrics) \<le> 1"
    by (simp add: no_metrics_def)
  then show "mx_depth_gauges (fold RegisterAuditBufferDepth (writers @ [writer]) no_metrics) = 1"
    by (simp add: RegisterAuditBufferDepth_def)
qed (simp add: RegisterAuditBufferDepth_def scraped_depth_def)

end
