(* ===== verification/Data_Plane_Server.thy ===== *)
theory Data_Plane_Server
  imports Process_Start Request_Metrics Audit_Ledger Audit_Queries Guard_Registry Config_Poller
begin

text \<open>
  The data plane as a process, \<open>cmd/sheeld-server/main.go\<close> with \<open>internal/dataplane/db/migrate.go\<close>:
  how its components are wired, what happens while it serves, in every interleaving of requests, polls,
  sweeps and the goroutine of the audit writer, and how it starts and ends.
\<close>

subsection \<open>Wiring\<close>

text \<open>The libraries and the database a process runs with; \<open>wi_scrape\<close> prints the metrics.\<close>

record ('l, 'a) dp_wiring =
  wi_cfg :: dp_config
  wi_lib :: go_lib
  wi_net :: net_env
  wi_rl :: "'l rate_lib"
  wi_al :: "'a limiter_lib"
  wi_sha :: "string \<Rightarrow> string"
  wi_utc :: "string \<Rightarrow> string"
  wi_db :: db_env
  wi_ae :: analytics_env
  wi_scrape :: "metrics \<Rightarrow> string"

definition dp_registry :: "('l, 'a) dp_wiring \<Rightarrow> guard_registry" where
  "dp_registry wi = NewRegistry (wi_lib wi) (wi_net wi) (cfg_AllowPrivateGuardURLs (wi_cfg wi))"

definition dp_transform_registry :: "('l, 'a) dp_wiring \<Rightarrow> transform_registry" where
  "dp_transform_registry wi = NewTransformRegistry (wi_lib wi) (wi_net wi) (cfg_AllowPrivateGuardURLs (wi_cfg wi))"

definition dp_poller :: "dp_config \<Rightarrow> poller" where
  "dp_poller cfg =
     (let p = NewPoller (cfg_ControlPlaneURL cfg) (cfg_Token cfg) (cfg_PollInterval cfg) in
      if cfg_ConfigSnapshotPath cfg \<noteq> []
      then WithSnapshotter \<lparr>ss_path = cfg_ConfigSnapshotPath cfg, ss_hexKey = cfg_ConfigSnapshotKey cfg\<rparr> p
      else p)"

definition dp_processor :: "dp_config \<Rightarrow> store \<Rightarrow> processor" where
  "dp_processor cfg st =
     \<lparr>p_store = st,
      p_client = WithRetry (cfg_LLMMaxRetries cfg) (cfg_LLMRetryBackoff cfg)
                   (NewClient (cfg_LLMGatewayURL cfg) (cfg_LLMRequestTimeout cfg)),
      p_has_audit = True, p_has_alerts = True\<rparr>"

subsection \<open>The state of the process\<close>

text \<open>
  A request with the route and pattern it matches and the address \<open>RealIP\<close> finds, what its execution
  meets, the network of its alerts, and whether the deadline of the proxy routes, which starts behind
  the rate limiter, has passed when the handler returns.
\<close>

record dp_call =
  dc_method :: string
  dc_route :: dp_route
  dc_pattern :: string
  dc_path :: string
  dc_remote :: string
  dc_in :: http_in
  dc_new_id :: string
  dc_now :: rat
  dc_env :: exec_env
  dc_alert_net :: network
  dc_timed_out :: bool
  dc_elapsed :: int

record served_call =
  sc_call :: dp_call
  sc_reply :: "reply option"
  sc_exec :: "exec_outcome option"

text \<open>What was answered: the status on the wire, the reply, the execution, and whether it panicked.\<close>

record dp_answered =
  da_call :: dp_call
  da_status :: int
  da_reply :: reply
  da_exec :: "exec_outcome option"
  da_panicked :: bool

record ('l, 'a) dp_server =
  sv_poll :: poll_state
  sv_wait :: int
  sv_limiter :: "'l rate_limiter"
  sv_alerts :: "(uuid, 'a) gomap"
  sv_writer :: audit_writer
  sv_log :: audit_db
  sv_metrics :: metrics
  sv_lines :: "log_line list"
  sv_inflight :: "served_call list"
  sv_answers :: "dp_answered list"

subsection \<open>Steps\<close>

definition dp_others :: "('l, 'a) dp_wiring \<Rightarrow> metrics \<Rightarrow> audit_db \<Rightarrow> dp_route
    \<Rightarrow> (string, string) gomap \<Rightarrow> http_in \<Rightarrow> reply" where
  "dp_others wi m logs route w r =
     (if route = Get_metrics then \<lparr>rep_status = 200, rep_headers = w, rep_body = Text_body (wi_scrape wi m)\<rparr>
      else audit_handlers (wi_ae wi) (wi_db wi) logs route w r)"

text \<open>
  A request arrives: authentication, limiter and configuration are read now, and the handler's
  result is fixed by them and by what the execution meets. Its effects follow when it finishes.
\<close>

definition dp_arrive :: "('l, 'a) dp_wiring \<Rightarrow> dp_call \<Rightarrow> ('l, 'a) dp_server \<Rightarrow> ('l, 'a) dp_server" where
  "dp_arrive wi c s =
     (case serve (wi_cfg wi) (wi_rl wi) (wi_sha wi) (dp_processor (wi_cfg wi) (ps_store (sv_poll s)))
             ([], dc_in c) (dc_new_id c) (dc_now c) (dc_env c) (dp_others wi (sv_metrics s) (sv_log s))
             (dc_route c) (sv_limiter s) of
        (r, lims) \<Rightarrow>
          s\<lparr>sv_limiter := lims,
            sv_log := (case staticTokenAuth (cfg_Token (wi_cfg wi)) [] (dc_in c) empty_ctx of
                         Inl _ \<Rightarrow> sv_log s
                       | Inr _ \<Rightarrow> audit_queried (wi_ae wi) (wi_db wi) (dc_route c) (dc_in c) (sv_log s)),
            sv_inflight := sv_inflight s @ [\<lparr>sc_call = c, sc_reply = dp_answer r, sc_exec = dp_exec r\<rparr>]\<rparr>)"

text \<open>The sinks of an execution: the audit writer, which panics when closed, and the notifier.\<close>

fun record_all :: "(string \<Rightarrow> string) \<Rightarrow> audit_record list \<Rightarrow> audit_writer \<Rightarrow> audit_writer option" where
  "record_all sha_hex [] w = Some w"
| "record_all sha_hex (r # rs) w =
     (case Record sha_hex r w of None \<Rightarrow> None | Some w' \<Rightarrow> record_all sha_hex rs w')"

fun alert_all ::
    "('l, 'a) dp_wiring \<Rightarrow> network \<Rightarrow> store \<Rightarrow> alert_event list \<Rightarrow> (uuid, 'a) gomap \<times> metrics
     \<Rightarrow> (uuid, 'a) gomap \<times> metrics" where
  "alert_all wi net st [] am = am"
| "alert_all wi net st (ev # evs) am =
     (case Notify (wi_al wi) (wi_utc wi) st ev (fst am) of
        (sent, suppressed, lims) \<Rightarrow>
          (let m = (counter_inc (AlertsSent, [''suppressed'']) ^^ suppressed) (snd am);
               m = fold (\<lambda>(url, format, e). counter_inc (AlertsSent, [deliver net url format e])) sent m
           in alert_all wi net st evs (lims, m)))"

text \<open>
  What an execution leaves: writer, limiters of the notifier and metrics, and whether it panicked. A
  panic in the model call comes before the sinks, one in \<open>Record\<close> before the alerts.
\<close>

definition dp_effects ::
    "('l, 'a) dp_wiring \<Rightarrow> dp_call \<Rightarrow> exec_outcome option \<Rightarrow> ('l, 'a) dp_server \<Rightarrow> ('l, 'a) dp_server \<times> bool" where
  "dp_effects wi c x s =
     (case x of
        None \<Rightarrow> (s, False)
      | Some x \<Rightarrow>
          (case count_execution x (dc_elapsed c) (sv_metrics s) of
             (m, True) \<Rightarrow> (s\<lparr>sv_metrics := m\<rparr>, True)
           | (m, False) \<Rightarrow>
               (case record_all (wi_sha wi) (xo_audit x) (sv_writer s) of
                  None \<Rightarrow> (s\<lparr>sv_metrics := m\<rparr>, True)
                | Some w \<Rightarrow>
                    (case alert_all wi (dc_alert_net c) (ps_store (sv_poll s)) (xo_alerts x) (sv_alerts s, m) of
                       (lims, m') \<Rightarrow> (s\<lparr>sv_writer := w, sv_alerts := lims, sv_metrics := m'\<rparr>, False)))))"

text \<open>
  The writes behind an answer. The deadline's 504 comes after the handler's writes, or, while a panic
  unwinds, before the 500 of chi's \<open>Recoverer\<close>, which is the outer one.
\<close>

definition deadline_writes :: "dp_call \<Rightarrow> write_action list" where
  "deadline_writes c =
     (case dc_route c of Post_proxy _ \<Rightarrow> if dc_timed_out c then [Write_header 504] else [] | _ \<Rightarrow> [])"

definition recovered_reply :: "dp_call \<Rightarrow> reply" where
  "recovered_reply c =
     \<lparr>rep_status = (if deadline_writes c = [] then 500 else 504),
      rep_headers = snd (RequestID (dc_new_id c) (dc_in c) (empty_ctx, [])), rep_body = No_body\<rparr>"

definition call_writes :: "dp_call \<Rightarrow> bool \<Rightarrow> reply \<Rightarrow> write_action list" where
  "call_writes c panicked rep =
     (if panicked then deadline_writes c @ [Write_header 500] else reply_writes rep @ deadline_writes c)"

definition call_line :: "dp_call \<Rightarrow> write_action list \<Rightarrow> log_line" where
  "call_line c acts =
     Logger (dc_method c) (dc_path c) (dc_remote c) (fst (RequestID (dc_new_id c) (dc_in c) (empty_ctx, []))) acts (dc_elapsed c)"

definition dp_finish :: "('l, 'a) dp_wiring \<Rightarrow> nat \<Rightarrow> ('l, 'a) dp_server \<Rightarrow> ('l, 'a) dp_server option" where
  "dp_finish wi i s =
     (if i < length (sv_inflight s)
      then (let sc = sv_inflight s ! i; c = sc_call sc in
        case sc_reply sc of
          None \<Rightarrow> None
        | Some rep \<Rightarrow>
            (case dp_effects wi c (sc_exec sc) s of
               (s', panicked) \<Rightarrow>
                 (let rep' = (if panicked then recovered_reply c else rep); acts = call_writes c panicked rep' in
                  Some (s'\<lparr>sv_metrics := metrics_HTTP (dc_method c) (dc_pattern c) acts panicked (dc_elapsed c) (sv_metrics s'),
                    sv_lines := sv_lines s @ (if prints_info (log_level_of (cfg_LogLevel (wi_cfg wi))) then [call_line c acts] else []),
                    sv_inflight := take i (sv_inflight s) @ drop (Suc i) (sv_inflight s),
                    sv_answers := sv_answers s @ [\<lparr>da_call = c, da_status = wire_status acts, da_reply = rep',
                      da_exec = sc_exec sc, da_panicked = panicked\<rparr>]\<rparr>))))
      else None)"

definition dp_poll :: "('l, 'a) dp_wiring \<Rightarrow> poll_env \<Rightarrow> int \<Rightarrow> ('l, 'a) dp_server \<Rightarrow> ('l, 'a) dp_server" where
  "dp_poll wi env now s =
     (case Run_round (dp_registry wi) (dp_transform_registry wi) (dp_poller (wi_cfg wi)) env (sv_poll s, sv_wait s) of
        (ps, wait) \<Rightarrow>
          s\<lparr>sv_poll := ps, sv_wait := wait,
            sv_metrics := (if ps_applied (sv_poll s) < ps_applied ps then ConfigApplied now (sv_metrics s)
                           else sv_metrics s)\<rparr>)"

text \<open>
  The steps of the process: requests, the poller, the consumer and the ticker of the audit writer, the
  sweepers of the rate limiter and of the audit table.
\<close>

datatype dp_event =
    Arrive dp_call
  | Finish nat
  | Poll poll_env int
  | Consume
  | Tick
  | Evict rat
  | Prune "nat \<Rightarrow> bool" int

definition with_writer :: "(audit_writer \<times> audit_db) option \<Rightarrow> ('l, 'a) dp_server \<Rightarrow> ('l, 'a) dp_server option" where
  "with_writer wd s = map_option (\<lambda>(w, d). s\<lparr>sv_writer := w, sv_log := d\<rparr>) wd"

fun dp_do :: "('l, 'a) dp_wiring \<Rightarrow> dp_event \<Rightarrow> ('l, 'a) dp_server \<Rightarrow> ('l, 'a) dp_server option" where
  "dp_do wi (Arrive c) s = Some (dp_arrive wi c s)"
| "dp_do wi (Finish i) s = dp_finish wi i s"
| "dp_do wi (Poll env now) s = Some (dp_poll wi env now s)"
| "dp_do wi Consume s = with_writer (writer_do (wi_sha wi) (wi_db wi) Ev_Receive (sv_writer s, sv_log s)) s"
| "dp_do wi Tick s = with_writer (writer_do (wi_sha wi) (wi_db wi) Ev_Tick (sv_writer s, sv_log s)) s"
| "dp_do wi (Evict now) s = Some (s\<lparr>sv_limiter := fst (evictIdle now (sv_limiter s))\<rparr>)"
| "dp_do wi (Prune cancelled now) s =
     Some (s\<lparr>sv_log := Pruner_Run (wi_db wi) cancelled (cfg_AuditRetention (wi_cfg wi)) [now] (sv_log s)\<rparr>)"

fun dp_run :: "('l, 'a) dp_wiring \<Rightarrow> dp_event list \<Rightarrow> ('l, 'a) dp_server \<Rightarrow> ('l, 'a) dp_server option" where
  "dp_run wi [] s = Some s"
| "dp_run wi (ev # evs) s = (case dp_do wi ev s of None \<Rightarrow> None | Some s' \<Rightarrow> dp_run wi evs s')"

subsection \<open>main.go: start and end\<close>

text \<open>
  What a process meets: the configuration read, the failures of start and end, the table and files it
  finds, the first fetches, the steps while it serves, and how many entries the writer's goroutine handles
  in the five seconds of \<open>Close\<close>.
\<close>

record dp_boot =
  bo_config :: "dp_config res"
  bo_start :: start_env
  bo_log :: audit_db
  bo_files :: files
  bo_waits :: "wait_event list"
  bo_timeout_text :: string
  bo_now :: int
  bo_events :: "dp_event list"
  bo_drain :: nat

definition dp_initial :: "('l, 'a) dp_wiring \<Rightarrow> dp_boot \<Rightarrow> poll_state \<Rightarrow> ('l, 'a) dp_server" where
  "dp_initial wi b ps =
     \<lparr>sv_poll = ps, sv_wait = cfg_PollInterval (wi_cfg wi),
      sv_limiter = NewRateLimiter (cfg_RateLimitRPS (wi_cfg wi)) (cfg_RateLimitBurst (wi_cfg wi)),
      sv_alerts = [], sv_writer = NewWriter, sv_log = bo_log b,
      sv_metrics = (let m = RegisterAuditBufferDepth 0 no_metrics in
                    if 0 < ps_applied ps then ConfigApplied (bo_now b) m else m),
      sv_lines = [],
      sv_inflight = [], sv_answers = []\<rparr>"

text \<open>\<open>Writer.Close\<close> and \<open>pool.Close\<close>, the deferred calls in their order.\<close>

definition dp_close :: "('l, 'a) dp_wiring \<Rightarrow> dp_boot \<Rightarrow> go_error option \<Rightarrow> process_effect list \<Rightarrow> ('l, 'a) dp_server
    \<Rightarrow> ('l, 'a) dp_server process_end option" where
  "dp_close wi b err effects s =
     (let w = sv_writer s in
      case writer_run (wi_sha wi) (wi_db wi)
             (Ev_Close # replicate (min (bo_drain b) (Suc (length (wr_ch w)))) Ev_Receive) (w, sv_log s) of
        None \<Rightarrow> None
      | Some (w', d') \<Rightarrow>
          Some (returned err (effects @ [if wr_done w' then Writer_closed else Drain_timed_out, Pool_closed])
                 (Some (s\<lparr>sv_writer := w', sv_log := d'\<rparr>))))"

definition dp_started :: "process_effect list" where
  "dp_started = [Pool_opened, Migrations_run, Writer_started, Background_started, Listening]"

text \<open>
  \<open>run\<close>. The missing snapshot key exits at once, without the deferred calls. \<open>None\<close>: what the process
  meets is not possible or does not decide its end; in particular a graceful shutdown without error
  means that no request is in flight any more.
\<close>

definition dp_main :: "('l, 'a) dp_wiring \<Rightarrow> dp_boot \<Rightarrow> ('l, 'a) dp_server process_end option" where
  "dp_main wi0 b =
     (case err_wrap ''loading config: '' (dp_Load (bo_config b)) of
        Inl e \<Rightarrow> Some (returned (Some e) [] None)
      | Inr cfg \<Rightarrow>
      (let wi = wi0\<lparr>wi_cfg := cfg\<rparr> in
       case connect_db (bo_start b) of
         Some (e, effects) \<Rightarrow> Some (returned (Some e) effects None)
       | None \<Rightarrow>
          if cfg_ConfigSnapshotPath cfg \<noteq> [] \<and> cfg_ConfigSnapshotKey cfg = []
          then Some \<lparr>rn_exit = 1, rn_error = None, rn_effects = [Pool_opened, Migrations_run, Writer_started],
                     rn_server = None\<rparr>
          else
       (case snd (WaitForInitial (dp_registry wi) (dp_transform_registry wi) (dp_poller cfg) (bo_timeout_text b)
               (bo_waits b) \<lparr>ps_store = NewStore, ps_lastETag = [], ps_files = bo_files b, ps_applied = 0\<rparr>) of
          None \<Rightarrow> None
        | Some (ps, _) \<Rightarrow>
       (case dp_run wi (bo_events b) (dp_initial wi b ps) of
          None \<Rightarrow> None
        | Some s \<Rightarrow>
            (case serving_error (bo_start b) of
               Some e \<Rightarrow> dp_close wi b (Some e) dp_started s
             | None \<Rightarrow>
                 if sv_inflight s = [] then dp_close wi b None (dp_started @ [Server_stopped]) s else None)))))"

end
