(* ===== verification/Server_Accounts.thy ===== *)
theory Server_Accounts
  imports Data_Plane_Server
begin

text \<open>
  What the running data plane guarantees, whatever the interleaving of its requests with polls, ticks,
  sweeps and the audit writer: every delivered answer has its audit entry, the counters are
  those of the answers, and a process that starts ends in order.
\<close>

subsection \<open>What a served request carries\<close>

fun is_proxy :: "dp_route \<Rightarrow> bool" where
  "is_proxy (Post_proxy _) = True"
| "is_proxy _ = False"

definition delivering :: "int \<Rightarrow> bool" where
  "delivering status \<longleftrightarrow> status = 200 \<or> status = 422"

text \<open>A reply of the proxy delivers or rejects exactly when the execution has its one audit record.\<close>

definition reply_audited :: "reply option \<Rightarrow> exec_outcome option \<Rightarrow> bool" where
  "reply_audited ans x \<longleftrightarrow> (\<exists>rep. ans = Some rep \<and> 200 \<le> rep_status rep
     \<and> length (case x of None \<Rightarrow> [] | Some x \<Rightarrow> xo_audit x) = (if delivering (rep_status rep) then 1 else 0))"

lemma reply_audited_simps [simp]:
  "reply_audited (Some rep) None \<longleftrightarrow> 200 \<le> rep_status rep \<and> \<not> delivering (rep_status rep)"
  "reply_audited (Some rep) (Some x) \<longleftrightarrow> 200 \<le> rep_status rep
     \<and> length (xo_audit x) = (if delivering (rep_status rep) then 1 else 0)"
  by (simp_all add: reply_audited_def)

lemma Execute_audit_count:
  assumes "p_has_audit p"
  shows "length (xo_audit (Execute p env o' route req)) = (case xo_result (Execute p env o' route req) of Inl _ \<Rightarrow> 0 | Inr _ \<Rightarrow> 1)"
proof (cases rule: Execute_cases [where p = p and env = env and orgID = o' and route = route and req = req])
  case (error e llm)
  then show ?thesis by (simp add: failed_def)
next
  case (rejected src msgs ts results latency)
  show ?thesis unfolding rejected(5) by (simp add: audit_def assms)
next
  case (called src msgs ts results ctx call resp)
  show ?thesis
    unfolding called(7)
    by (rule execute_output_cases [where p = p and env = env and orgID = o' and src = src
        and inText = "ExtractInputText (req\<lparr>Messages := msgs\<rparr>)" and gr = results and ts = ts and ctx = ctx
        and llm = "(req\<lparr>Messages := msgs, req_Model := rs_LLMModel src\<rparr>, call)" and ?resp0.0 = resp])
      (simp_all add: failed_def audit_def assms)
qed

lemma proxy_reply_audited:
  assumes "p_has_audit p"
  shows "reply_audited (proxy_reply w stream (xo_result (Execute p env o' route req))) (Some (Execute p env o' route req))"
proof (cases "xo_result (Execute p env o' route req)")
  case (Inl e)
  with Execute_audit_count [OF assms, of env o' route req] show ?thesis
    by (simp add: proxy_reply_def delivering_def)
next
  case (Inr r)
  with Execute_audit_count [OF assms, of env o' route req] have one: "length (xo_audit (Execute p env o' route req)) = 1"
    by simp
  from Execute_result_shape [OF Inr] show ?thesis
  proof
    assume "pr_Status r = ''rejected'' \<and> pr_Phase r \<in> {''input'', ''output''} \<and> pr_LLMResponse r = None"
    with Inr one show ?thesis by (simp add: proxy_reply_def delivering_def Let_def)
  next
    assume "pr_Status r = ''pass'' \<and> (\<exists>resp. pr_LLMResponse r = Some resp)"
    then obtain resp where "pr_Status r = ''pass''" "pr_LLMResponse r = Some resp" by blast
    with Inr one writeSSEResponse_Some [of resp] show ?thesis
      by (auto simp: proxy_reply_def delivering_def Let_def)
  qed
qed

lemma Handle_audited:
  assumes "p_has_audit p"
  shows "reply_audited (fst (Handle maxBytes p env w route r cx)) (snd (Handle maxBytes p env w route r cx))"
proof (cases "OrgIDFromContext cx = uuid_Nil \<or> route = []")
  case True
  then show ?thesis by (auto simp: Handle_def delivering_def Let_def)
next
  case False
  with proxy_reply_audited [OF assms] show ?thesis
    by (auto simp: Handle_def delivering_def Let_def split: sum.split)
qed

lemma serve_audited:
  assumes "p_has_audit p"
  shows "reply_audited (dp_answer (fst (serve cfg rl sha_hex p wr new_id now env others (Post_proxy route) st)))
    (dp_exec (fst (serve cfg rl sha_hex p wr new_id now env others (Post_proxy route) st)))"
proof (cases rule: serve_proxy_cases [where cfg = cfg and rl = rl and sha_hex = sha_hex and p = p and wr = wr
      and new_id = new_id and now = now and env = env and others = others and route = route and st = st])
  case (refused s m w)
  then show ?thesis by (auto simp: delivering_def middleware_refusals_def)
next
  case (handled bearer key info cx w)
  with Handle_audited [OF assms] show ?thesis by simp
qed

lemma audit_handlers_status: "200 \<le> rep_status (audit_handlers ae env logs route w r)"
  by (auto simp: audit_handlers_def AuditHandler_List_def AuditHandler_Analytics_def
      split: dp_route.split sum.split prod.split option.split)

lemma serve_other:
  assumes "\<not> is_proxy route"
  shows "dp_exec (fst (serve cfg rl sha_hex p wr new_id now env (dp_others wi m logs) route st)) = None"
    and "\<exists>rep. dp_answer (fst (serve cfg rl sha_hex p wr new_id now env (dp_others wi m logs) route st)) = Some rep
       \<and> 200 \<le> rep_status rep"
  using assms audit_handlers_status [of "wi_ae wi" "wi_db wi" logs]
  by (cases route; auto simp: serve_def healthz_def dp_others_def staticTokenAuth_def Let_def split: prod.split sum.split)+

definition served_ok :: "served_call \<Rightarrow> bool" where
  "served_ok sc \<longleftrightarrow>
     (if is_proxy (dc_route (sc_call sc)) then reply_audited (sc_reply sc) (sc_exec sc)
      else sc_exec sc = None \<and> (\<exists>rep. sc_reply sc = Some rep \<and> 200 \<le> rep_status rep))"

text \<open>What a finished request has recorded, and whether its answer was delivered or rejected.\<close>

definition answer_audits :: "dp_answered \<Rightarrow> audit_record list" where
  "answer_audits a = (if da_panicked a then [] else case da_exec a of None \<Rightarrow> [] | Some x \<Rightarrow> xo_audit x)"

definition audited :: "dp_answered list \<Rightarrow> audit_record list" where
  "audited as = concat (map answer_audits as)"

definition delivered :: "dp_answered \<Rightarrow> bool" where
  "delivered a \<longleftrightarrow> is_proxy (dc_route (da_call a)) \<and> delivering (da_status a)"

definition answer_ok :: "dp_answered \<Rightarrow> bool" where
  "answer_ok a \<longleftrightarrow> length (answer_audits a) = (if delivered a then 1 else 0) \<and> da_status a = rep_status (da_reply a)"

lemma audited_append [simp]: "audited (as @ [a]) = audited as @ answer_audits a"
  by (simp add: audited_def)

lemma audited_length: "list_all answer_ok as \<Longrightarrow> length (audited as) = length (filter delivered as)"
  by (induction as) (auto simp: audited_def answer_ok_def)

lemma call_writes_status:
  "200 \<le> rep_status rep \<Longrightarrow> wire_status (call_writes c False rep) = rep_status rep"
  "recorded_status (call_writes c False rep) = rep_status rep"
  "wire_status (call_writes c True (recovered_reply c)) = rep_status (recovered_reply c)"
  by (simp_all add: call_writes_def reply_writes_def recovered_reply_def deadline_writes_def split: dp_route.split)

subsection \<open>The steps, one lemma each\<close>

lemma dp_arrive_sel [simp]:
  "sv_poll (dp_arrive wi c s) = sv_poll s" "sv_writer (dp_arrive wi c s) = sv_writer s"
  "sv_metrics (dp_arrive wi c s) = sv_metrics s" "sv_answers (dp_arrive wi c s) = sv_answers s"
  "audit_logs (sv_log (dp_arrive wi c s)) = audit_logs (sv_log s)"
  "audit_statements (sv_log s) \<le> audit_statements (sv_log (dp_arrive wi c s))"
  by (simp_all add: dp_arrive_def audit_queried_counts split: prod.split sum.split)

lemma dp_arrive_inflight:
  obtains sc where "sv_inflight (dp_arrive wi c s) = sv_inflight s @ [sc]" "sc_call sc = c" "served_ok sc"
proof -
  let ?p = "dp_processor (wi_cfg wi) (ps_store (sv_poll s))"
  let ?r = "serve (wi_cfg wi) (wi_rl wi) (wi_sha wi) ?p ([], dc_in c) (dc_new_id c) (dc_now c) (dc_env c)
      (dp_others wi (sv_metrics s) (sv_log s)) (dc_route c) (sv_limiter s)"
  let ?sc = "\<lparr>sc_call = c, sc_reply = dp_answer (fst ?r), sc_exec = dp_exec (fst ?r)\<rparr>"
  have "p_has_audit ?p" by (simp add: dp_processor_def)
  have "served_ok ?sc"
  proof (cases "is_proxy (dc_route c)")
    case True
    then obtain route where "dc_route c = Post_proxy route" by (cases "dc_route c") auto
    with \<open>p_has_audit ?p\<close> show ?thesis by (simp add: served_ok_def serve_audited)
  next
    case False
    then show ?thesis by (simp add: served_ok_def serve_other)
  qed
  with that [of ?sc] show thesis by (simp add: dp_arrive_def split: prod.split)
qed

lemma dp_effects_frame:
  assumes "dp_effects wi c x s = (s', panicked)"
  shows "sv_log s' = sv_log s" "sv_answers s' = sv_answers s" "sv_inflight s' = sv_inflight s" "sv_poll s' = sv_poll s"
    and "if panicked then sv_writer s' = sv_writer s
      else record_all (wi_sha wi) (case x of None \<Rightarrow> [] | Some x \<Rightarrow> xo_audit x) (sv_writer s) = Some (sv_writer s')"
  using assms by (auto simp: dp_effects_def split: option.splits prod.splits bool.splits)

text \<open>A finished request: its entry has moved from the requests in flight to the answers.\<close>

lemma dp_finish_cases:
  assumes "dp_finish wi i s = Some s'"
  obtains sc rep s1 panicked rep' where "i < length (sv_inflight s)" "sc = sv_inflight s ! i" "sc_reply sc = Some rep"
    "dp_effects wi (sc_call sc) (sc_exec sc) s = (s1, panicked)"
    "rep' = (if panicked then recovered_reply (sc_call sc) else rep)"
    "s' = s1\<lparr>sv_metrics := metrics_HTTP (dc_method (sc_call sc)) (dc_pattern (sc_call sc)) (call_writes (sc_call sc) panicked rep')
               panicked (dc_elapsed (sc_call sc)) (sv_metrics s1),
             sv_lines := sv_lines s @ (if prints_info (log_level_of (cfg_LogLevel (wi_cfg wi)))
               then [call_line (sc_call sc) (call_writes (sc_call sc) panicked rep')] else []),
             sv_inflight := take i (sv_inflight s) @ drop (Suc i) (sv_inflight s),
             sv_answers := sv_answers s @ [\<lparr>da_call = sc_call sc, da_status = wire_status (call_writes (sc_call sc) panicked rep'),
               da_reply = rep', da_exec = sc_exec sc, da_panicked = panicked\<rparr>]\<rparr>"
  using assms by (auto simp: dp_finish_def Let_def split: if_splits option.splits prod.splits)

text \<open>Requests in flight and answers keep the relation between status and audit record.\<close>

definition calls_ok :: "('l, 'a) dp_server \<Rightarrow> bool" where
  "calls_ok s \<longleftrightarrow> list_all served_ok (sv_inflight s) \<and> list_all answer_ok (sv_answers s)"

lemma with_writer_sel:
  "with_writer wd s = Some s' \<Longrightarrow> sv_inflight s' = sv_inflight s \<and> sv_answers s' = sv_answers s
     \<and> sv_metrics s' = sv_metrics s \<and> sv_poll s' = sv_poll s \<and> wd = Some (sv_writer s', sv_log s')"
  by (auto simp: with_writer_def)

lemma dp_poll_sel [simp]:
  "sv_inflight (dp_poll wi env now s) = sv_inflight s" "sv_answers (dp_poll wi env now s) = sv_answers s"
  "sv_writer (dp_poll wi env now s) = sv_writer s" "sv_log (dp_poll wi env now s) = sv_log s"
  "count_of ls (sv_metrics (dp_poll wi env now s)) = count_of ls (sv_metrics s)"
  by (simp_all add: dp_poll_def split: prod.split)

lemma finished_ok:
  assumes "served_ok sc" and "sc_reply sc = Some rep" and "rep' = (if panicked then recovered_reply (sc_call sc) else rep)"
  shows "answer_ok \<lparr>da_call = sc_call sc, da_status = wire_status (call_writes (sc_call sc) panicked rep'), da_reply = rep',
    da_exec = sc_exec sc, da_panicked = panicked\<rparr>"
proof -
  from assms have "200 \<le> rep_status rep'"
    by (auto simp: served_ok_def reply_audited_def recovered_reply_def split: if_splits)
  with assms(3) have "wire_status (call_writes (sc_call sc) panicked rep') = rep_status rep'"
    by (cases panicked) (simp_all add: call_writes_status)
  with assms show ?thesis
    by (auto simp: served_ok_def reply_audited_def answer_ok_def answer_audits_def delivered_def delivering_def
        recovered_reply_def split: if_splits)
qed

lemma calls_ok_step:
  assumes "dp_do wi ev s = Some s'" and "calls_ok s"
  shows "calls_ok s'"
proof (cases ev)
  case (Arrive c)
  obtain sc where "sv_inflight (dp_arrive wi c s) = sv_inflight s @ [sc]" "served_ok sc"
    by (rule dp_arrive_inflight)
  with assms Arrive show ?thesis by (auto simp: calls_ok_def)
next
  case (Finish i)
  with assms(1) have "dp_finish wi i s = Some s'" by simp
  then show ?thesis
  proof (cases rule: dp_finish_cases)
    case (1 sc rep s1 panicked rep')
    with assms(2) have "served_ok sc" by (auto simp: calls_ok_def list_all_length)
    from finished_ok [OF this 1(3,5)] assms(2) 1(6) show ?thesis
      by (auto simp: calls_ok_def list_all_iff dest: in_set_takeD in_set_dropD)
  qed
qed (use assms in \<open>auto simp: calls_ok_def dest!: with_writer_sel\<close>)

subsection \<open>The audit log of a running process\<close>

text \<open>
  A ledger of the audit writer that statements of the audit queries do not disturb survives every
  step of the process; requests only add accepted entries to it. Without retention nothing is pruned.
\<close>

locale server_ledger = writer_ledger +
  assumes queried: "L acc (w, d) \<Longrightarrow> audit_logs d' = audit_logs d
    \<Longrightarrow> audit_statements d \<le> audit_statements d' \<Longrightarrow> L acc (w, d')"
begin

definition account :: "(string \<Rightarrow> string) \<Rightarrow> audit_record list \<Rightarrow> audit_writer \<times> audit_db \<Rightarrow> bool" where
  "account sha_hex rs wd \<longleftrightarrow> (\<exists>acc. L acc wd \<and> writer_ok (fst wd) \<and> subseq acc (map (entry_of sha_hex) rs)
     \<and> length acc + wr_dropped (fst wd) = length rs)"

lemma account_record:
  assumes "account sha_hex rs (w, d)" and "record_all sha_hex rs' w = Some w'"
  shows "account sha_hex (rs @ rs') (w', d)"
  using assms
proof (induction rs' arbitrary: rs w)
  case (Cons r rs')
  from Cons.prems(2) obtain w1 where r: "Record sha_hex r w = Some w1" "record_all sha_hex rs' w1 = Some w'"
    by (auto split: option.splits)
  from Cons.prems(1) obtain acc where acc: "L acc (w, d)" "writer_ok w" "subseq acc (map (entry_of sha_hex) rs)"
    "length acc + wr_dropped w = length rs" by (auto simp: account_def)
  from record_step [OF _ acc(1,2), of sha_hex r w1 d] r(1) obtain m where
    m: "subseq m [entry_of sha_hex r]" "length m + wr_dropped w1 = Suc (wr_dropped w)" "L (acc @ m) (w1, d)" "writer_ok w1"
    by auto
  have "subseq (acc @ m) (map (entry_of sha_hex) (rs @ [r]))"
    using list_emb_append_mono [OF acc(3) m(1)] by simp
  with m acc(4) have "account sha_hex (rs @ [r]) (w1, d)"
    by (auto simp: account_def intro!: exI [of _ "acc @ m"])
  from Cons.IH [OF this r(2)] show ?case by simp
qed simp

lemma account_consumer:
  assumes "account sha_hex rs (w, d)" and "writer_do sha_hex env ev (w, d) = Some (w', d')" and "ev \<in> {Ev_Receive, Ev_Tick, Ev_Close}"
  shows "account sha_hex rs (w', d')"
proof -
  from assms(1) obtain acc where acc: "L acc (w, d)" "writer_ok w" "subseq acc (map (entry_of sha_hex) rs)"
    "length acc + wr_dropped w = length rs" by (auto simp: account_def)
  from assms(2,3) consumer_steps [OF _ acc(1,2)] have "L acc (w', d') \<and> writer_ok w' \<and> wr_dropped w' = wr_dropped w"
    by auto
  with acc show ?thesis by (auto simp: account_def)
qed

lemma account_queried:
  "account sha_hex rs (w, d) \<Longrightarrow> audit_logs d' = audit_logs d \<Longrightarrow> audit_statements d \<le> audit_statements d'
     \<Longrightarrow> account sha_hex rs (w, d')"
  unfolding account_def using queried by fastforce

lemma account_step:
  assumes "dp_do wi ev s = Some s'" and "wi_db wi = env" and "cfg_AuditRetention (wi_cfg wi) \<le> 0"
    and "account (wi_sha wi) (audited (sv_answers s)) (sv_writer s, sv_log s)"
  shows "account (wi_sha wi) (audited (sv_answers s')) (sv_writer s', sv_log s')"
proof (cases ev)
  case (Arrive c)
  with assms(1) have "s' = dp_arrive wi c s" by simp
  then show ?thesis using account_queried [OF assms(4), of "sv_log s'"] by simp
next
  case (Finish i)
  with assms(1) have "dp_finish wi i s = Some s'" by simp
  then show ?thesis
  proof (cases rule: dp_finish_cases)
    case (1 sc rep s1 panicked rep')
    note f = dp_effects_frame [OF 1(4)]
    show ?thesis
    proof (cases panicked)
      case True
      with f 1(6) assms(4) show ?thesis by (simp add: answer_audits_def)
    next
      case False
      with f(5) account_record [OF assms(4)] have
        "account (wi_sha wi) (audited (sv_answers s) @ (case sc_exec sc of None \<Rightarrow> [] | Some x \<Rightarrow> xo_audit x)) (sv_writer s1, sv_log s)"
        by simp
      with False f 1(6) show ?thesis by (simp add: answer_audits_def)
    qed
  qed
next
  case Consume
  with assms(1) have "with_writer (writer_do (wi_sha wi) (wi_db wi) Ev_Receive (sv_writer s, sv_log s)) s = Some s'"
    by (simp del: writer_do.simps)
  with account_consumer [OF assms(4), of Ev_Receive] assms(2) show ?thesis by (auto dest!: with_writer_sel)
next
  case Tick
  with assms(1) have "with_writer (writer_do (wi_sha wi) (wi_db wi) Ev_Tick (sv_writer s, sv_log s)) s = Some s'"
    by (simp del: writer_do.simps)
  with account_consumer [OF assms(4), of Ev_Tick] assms(2) show ?thesis by (auto dest!: with_writer_sel)
qed (use assms in \<open>auto simp: Pruner_Run_def\<close>)

lemma account_run:
  assumes "dp_run wi evs s = Some s'" and "wi_db wi = env" and "cfg_AuditRetention (wi_cfg wi) \<le> 0"
    and "account (wi_sha wi) (audited (sv_answers s)) (sv_writer s, sv_log s)"
  shows "account (wi_sha wi) (audited (sv_answers s')) (sv_writer s', sv_log s')"
  using assms(1,4)
proof (induction evs arbitrary: s)
  case (Cons ev evs)
  then show ?case using account_step [OF _ assms(2,3)] by (auto split: option.splits)
qed simp

lemma account_close:
  assumes "writer_run sha_hex env (Ev_Close # replicate n Ev_Receive) (w, d) = Some (w', d')"
    and "account sha_hex rs (w, d)"
  shows "account sha_hex rs (w', d')"
proof -
  have "account sha_hex rs (w', d')" if "writer_run sha_hex env (replicate k Ev_Receive) (v, e) = Some (w', d')"
    "account sha_hex rs (v, e)" for k v e
    using that
  proof (induction k arbitrary: v e)
    case (Suc k)
    then show ?case using account_consumer [of sha_hex rs _ _ Ev_Receive]
      by (auto split: option.splits simp del: writer_do.simps)
  qed simp
  with assms show ?thesis using account_consumer [OF assms(2), of Ev_Close] by simp
qed

end

interpretation counted_server: server_ledger env "ledger rows0" for env rows0
  by unfold_locales (simp add: ledger_def)

interpretation exact_server: server_ledger env "exact_ledger env rows0" for env rows0
  by unfold_locales (auto simp: exact_ledger_def reliable_def fresh_ids_def)

lemma calls_ok_run: "dp_run wi evs s = Some s' \<Longrightarrow> calls_ok s \<Longrightarrow> calls_ok s'"
  by (induction evs arbitrary: s) (auto split: option.splits dest: calls_ok_step)

lemma initial_ok:
  "calls_ok (dp_initial wi b ps)" "sv_writer (dp_initial wi b ps) = NewWriter" "sv_log (dp_initial wi b ps) = bo_log b"
  "sv_answers (dp_initial wi b ps) = []"
  by (simp_all add: dp_initial_def calls_ok_def)

lemma dp_main_served:
  assumes "dp_main wi0 b = Some e" and "rn_server e = Some s"
  obtains cfg ps s1 err effects where "dp_Load (bo_config b) = Inr cfg"
    "dp_run (wi0\<lparr>wi_cfg := cfg\<rparr>) (bo_events b) (dp_initial (wi0\<lparr>wi_cfg := cfg\<rparr>) b ps) = Some s1"
    "dp_close (wi0\<lparr>wi_cfg := cfg\<rparr>) b err effects s1 = Some e"
  using assms
  by (auto simp: dp_main_def Let_def returned_def err_wrap_Inr_iff split: sum.splits option.splits if_splits prod.splits)

lemma dp_close_cases:
  assumes "dp_close wi b err effects s1 = Some e"
  obtains w' d' n where "writer_run (wi_sha wi) (wi_db wi) (Ev_Close # replicate n Ev_Receive) (sv_writer s1, sv_log s1) = Some (w', d')"
    "e = returned err (effects @ [if wr_done w' then Writer_closed else Drain_timed_out, Pool_closed])
           (Some (s1\<lparr>sv_writer := w', sv_log := d'\<rparr>))"
proof -
  define n where "n = min (bo_drain b) (Suc (length (wr_ch (sv_writer s1))))"
  have "dp_close wi b err effects s1 =
     (case writer_run (wi_sha wi) (wi_db wi) (Ev_Close # replicate n Ev_Receive) (sv_writer s1, sv_log s1) of
        None \<Rightarrow> None
      | Some (w', d') \<Rightarrow> Some (returned err (effects @ [if wr_done w' then Writer_closed else Drain_timed_out, Pool_closed])
           (Some (s1\<lparr>sv_writer := w', sv_log := d'\<rparr>))))"
    by (simp only: dp_close_def Let_def n_def)
  with assms that show thesis by (auto simp del: writer_run.simps split: option.splits prod.splits)
qed


subsection \<open>An example process\<close>

definition example_chat_source :: source_config where
  "example_chat_source = example_source\<lparr>sc_Route := ''chat'', sc_GuardrailIDs := [], sc_TransformerIDs := []\<rparr>"

definition example_served_config :: workspace_config where
  "example_served_config = \<lparr>ws_Version = ''v1'', ws_GeneratedAt = [], ws_Organizations =
     [example_org\<lparr>org_APIKeys := [\<lparr>ak_KeyHash = ''digest'', ak_RateLimitRPS = None, ak_RateLimitBurst = None\<rparr>],
        org_Sources := [example_chat_source], org_Transformers := []\<rparr>]\<rparr>"

definition example_wiring :: "(bucket, int) dp_wiring" where
  "example_wiring =
     \<lparr>wi_cfg = example_dp_config, wi_lib = eq_lib,
      wi_net = \<lparr>parse_url = (\<lambda>_. None), parse_ip = (\<lambda>_. None), lookup_ip = (\<lambda>_. Inl ''no host''), ip_text = (\<lambda>_. [])\<rparr>,
      wi_rl = bucket_lib, wi_al = \<lparr>NewLimiter = (\<lambda>_ n. n), Allow = (\<lambda>n. (0 < n, n - 1))\<rparr>,
      wi_sha = example_digest, wi_utc = (\<lambda>t. t), wi_db = example_audit_env, wi_ae = example_analytics,
      wi_scrape = (\<lambda>_. [])\<rparr>"

text \<open>A proxy request to a model that answers with the given usage.\<close>

definition example_model :: "int \<Rightarrow> exec_env" where
  "example_model prompt = (example_env [])\<lparr>xe_llm := (\<lambda>_. \<lparr>ae_net = (\<lambda>_. Response 200
       \<lparr>b_value = Some (JObj [(''choices'', JArr [JObj [(''message'', JObj [(''content'', JStr ''hi'')])]]),
                            (''usage'', JObj [(''prompt_tokens'', JInt prompt)])]),
        b_end = 100, b_trailing = False, b_text = []\<rparr>),
     ae_cancelled = (\<lambda>_. False), ae_read_err = None, ae_ctx_err = None, ae_wait_err = None\<rparr>)\<rparr>"

definition example_call :: "int \<Rightarrow> dp_call" where
  "example_call prompt =
     \<lparr>dc_method = ''POST'', dc_route = Post_proxy ''chat'', dc_pattern = ''/v1/proxy/{sourceRoute}'',
      dc_path = ''/v1/proxy/chat'', dc_remote = ''10.0.0.9'', dc_in = example_in,
      dc_new_id = ''r1'', dc_now = 5, dc_env = example_model prompt, dc_alert_net = (\<lambda>_. Do_error ''down''),
      dc_timed_out = False, dc_elapsed = 12\<rparr>"

definition undisturbed :: start_env where
  "undisturbed = \<lparr>se_pool = None, se_ping = None, se_dialect = None, se_up = None, se_listen = None, se_shutdown = None\<rparr>"

text \<open>
  The configuration is fetched at once; two requests overlap, the second finishes first; then a
  signal comes. The argument is the token count the model reports to the second request.
\<close>

definition example_boot :: "int \<Rightarrow> dp_boot" where
  "example_boot prompt =
     \<lparr>bo_config = Inr example_dp_config, bo_start = undisturbed,
      bo_log = empty_audit_db, bo_files = [],
      bo_waits = [\<lparr>we_env = \<lparr>pe_fetch = (\<lambda>_. Fetched 200 ''e1'' (Inr example_served_config)), pe_disk = example_disk\<rparr>,
                   we_late = False, we_ctx = None\<rparr>],
      bo_timeout_text = ''1m'', bo_now = 5,
      bo_events = [Arrive (example_call 3), Arrive (example_call prompt), Finish 1, Finish 0, Consume], bo_drain = 100\<rparr>"

definition example_end :: "int \<Rightarrow> (bucket, int) dp_server process_end" where
  "example_end prompt = the (dp_main example_wiring (example_boot prompt))"

definition example_final :: "int \<Rightarrow> (bucket, int) dp_server" where
  "example_final prompt = the (rn_server (example_end prompt))"

definition ends_well :: "(bucket, int) dp_server process_end option \<Rightarrow> bool" where
  "ends_well x = (case x of None \<Rightarrow> False | Some e \<Rightarrow> (case rn_server e of None \<Rightarrow> False | Some s \<Rightarrow>
     rn_exit e = 0 \<and> Pool_opened \<in> set (rn_effects e) \<and> wr_done (sv_writer s) \<and> wr_dropped (sv_writer s) = 0
     \<and> map (\<lambda>a. (da_status a, delivered a)) (sv_answers s) = [(200, True), (200, True)]))"

lemma example_ends: "ends_well (dp_main example_wiring (example_boot 4))"
  by code_simp

lemma example_facts:
  "dp_main example_wiring (example_boot 4) = Some (example_end 4)" "rn_server (example_end 4) = Some (example_final 4)"
  using example_ends by (auto simp: ends_well_def example_end_def example_final_def split: option.splits)

lemma example_final_facts:
  "wr_done (sv_writer (example_final 4))" "wr_dropped (sv_writer (example_final 4)) = 0"
  "map (\<lambda>a. (da_status a, delivered a)) (sv_answers (example_final 4)) = [(200, True), (200, True)]"
  "rn_exit (example_end 4) = 0" "Pool_opened \<in> set (rn_effects (example_end 4))"
  using example_ends by (simp_all add: ends_well_def example_facts)


subsection \<open>The counters are those of the answers\<close>

definition http_labels :: "dp_answered \<Rightarrow> string list" where
  "http_labels a = [dc_method (da_call a),
     if dc_pattern (da_call a) = [] then ''unmatched'' else dc_pattern (da_call a), int_text (da_status a)]"

definition proxy_labels :: "exec_outcome \<Rightarrow> string list" where
  "proxy_labels x = (if exec_panics x then [''pass'', []] else [fst (xo_metric x), snd (xo_metric x)])"

definition counted_proxy :: "string list \<Rightarrow> dp_answered \<Rightarrow> bool" where
  "counted_proxy ls a \<longleftrightarrow> (case da_exec a of None \<Rightarrow> False | Some x \<Rightarrow> proxy_labels x = ls)"

definition metrics_account :: "('l, 'a) dp_server \<Rightarrow> bool" where
  "metrics_account s \<longleftrightarrow> (\<forall>ls.
     count_of (HTTPRequests, ls) (sv_metrics s)
       = int (length (filter (\<lambda>a. \<not> da_panicked a \<and> http_labels a = ls) (sv_answers s)))
   \<and> count_of (ProxyRequests, ls) (sv_metrics s) = int (length (filter (counted_proxy ls) (sv_answers s))))"

lemma count_deliveries:
  "fst s \<noteq> AlertsSent \<Longrightarrow> count_of s (fold (\<lambda>(url, format, e). counter_inc (AlertsSent, [f url format e])) sent m) = count_of s m"
  by (induction sent arbitrary: m) (auto split: prod.splits)

lemma count_alerts: "fst s \<noteq> AlertsSent \<Longrightarrow> count_of s (snd (alert_all wi net st evs am)) = count_of s (snd am)"
proof (induction evs arbitrary: am)
  case (Cons ev evs)
  obtain sent n lims where "Notify (wi_al wi) (wi_utc wi) st ev (fst am) = (sent, n, lims)" by (metis prod_cases3)
  with Cons show ?case by (auto simp: Let_def count_deliveries)
qed simp

lemma count_effects:
  assumes "dp_effects wi c x s = (s', panicked)" and "fst k \<in> {HTTPRequests, ProxyRequests}"
  shows "count_of k (sv_metrics s') = count_of k (sv_metrics s)
     + (case x of None \<Rightarrow> 0 | Some x \<Rightarrow> if k = (ProxyRequests, proxy_labels x) then 1 else 0)"
proof (cases x)
  case None
  with assms show ?thesis by (simp add: dp_effects_def)
next
  case (Some y)
  obtain m p where e: "count_execution y (dc_elapsed c) (sv_metrics s) = (m, p)" by fastforce
  have "fst k \<noteq> AlertsSent" and "fst k \<notin> {LLMRetries, LLMRequests, LLMTokens}"
    using assms(2) by (auto simp: collector_defs)
  then have "count_of k m = count_of k (sv_metrics s) + (if k = (ProxyRequests, proxy_labels y) then 1 else 0)"
    and a: "count_of k (snd (alert_all wi net st evs (l, m))) = count_of k m" for net st evs l
    using counter_execution [of k y "dc_elapsed c" "sv_metrics s"] e by (simp_all add: proxy_labels_def count_alerts)
  with assms(1) e a show ?thesis
    by (auto simp: dp_effects_def Some split: bool.splits option.splits prod.splits) (metis snd_conv)+
qed

lemma metrics_step:
  assumes "dp_do wi ev s = Some s'" and "calls_ok s" and "metrics_account s"
  shows "metrics_account s'"
proof (cases ev)
  case (Finish i)
  with assms(1) have "dp_finish wi i s = Some s'" by simp
  then show ?thesis
  proof (cases rule: dp_finish_cases)
    case (1 sc rep s1 panicked rep')
    with assms(2) have "served_ok sc" by (auto simp: calls_ok_def list_all_length)
    from finished_ok [OF this 1(3,5)] have "wire_status (call_writes (sc_call sc) panicked rep') = rep_status rep'"
      by (simp add: answer_ok_def)
    then have "\<not> panicked \<Longrightarrow> recorded_status (call_writes (sc_call sc) panicked rep') = wire_status (call_writes (sc_call sc) panicked rep')"
      by (simp add: call_writes_status)
    with assms(3) count_effects [OF 1(4)] dp_effects_frame(2) [OF 1(4)] 1(6) show ?thesis
      by (auto simp: metrics_account_def counter_HTTP http_labels_def counted_proxy_def split: option.split)
  qed
qed (use assms in \<open>auto simp: metrics_account_def dest!: with_writer_sel\<close>)

lemma metrics_initial: "metrics_account (dp_initial wi b ps)"
  by (simp add: metrics_account_def dp_initial_def Let_def)
    (simp add: RegisterAuditBufferDepth_def no_metrics_def count_of_def)

lemma metrics_run:
  "dp_run wi evs s = Some s' \<Longrightarrow> calls_ok s \<Longrightarrow> metrics_account s \<Longrightarrow> metrics_account s'"
  by (induction evs arbitrary: s) (auto split: option.splits dest: calls_ok_step metrics_step)


text \<open>One request, to a store without configuration, is counted under its status.\<close>

definition example_start :: "(bucket, int) dp_server" where
  "example_start = dp_initial example_wiring (example_boot 4) \<lparr>ps_store = NewStore, ps_lastETag = [], ps_files = [], ps_applied = 0\<rparr>"

definition example_counted :: "(bucket, int) dp_server" where
  "example_counted = the (dp_run example_wiring [Arrive (example_call 4), Finish 0] example_start)"

lemma example_counts:
  "case dp_run example_wiring [Arrive (example_call 4), Finish 0] example_start of None \<Rightarrow> False
   | Some s \<Rightarrow> map (\<lambda>a. (da_panicked a, http_labels a)) (sv_answers s)
       = [(False, [''POST'', ''/v1/proxy/{sourceRoute}'', ''503''])]"
  by code_simp

lemma example_counted_facts:
  "dp_run example_wiring [Arrive (example_call 4), Finish 0] example_start = Some example_counted"
  "map (\<lambda>a. (da_panicked a, http_labels a)) (sv_answers example_counted)
     = [(False, [''POST'', ''/v1/proxy/{sourceRoute}'', ''503''])]"
  using example_counts by (simp_all add: example_counted_def del: dp_run.simps split: option.splits)


subsection \<open>The request log\<close>

text \<open>
  A process that prints at level info or below logs every answer, those after a panic too, in the order
  they were finished, with the request's id. The status in the line is the one on the wire except
  after the deadline of a proxy request: then the line has 504 for an answer that had another
  status, and 500 for a panic that was answered by 504.
\<close>

definition line_status :: "dp_answered \<Rightarrow> int" where
  "line_status a = (if deadline_writes (da_call a) = [] then da_status a else if da_panicked a then 500 else 504)"

definition lines_agree :: "('l, 'a) dp_server \<Rightarrow> bool" where
  "lines_agree s \<longleftrightarrow> map ll_status (sv_lines s) = map line_status (sv_answers s)
     \<and> map ll_path (sv_lines s) = map (\<lambda>a. dc_path (da_call a)) (sv_answers s)
     \<and> list_all (\<lambda>l. ll_request_id l \<noteq> None) (sv_lines s)"

lemma logged_call_writes:
  "logged_status (call_writes c panicked rep)
     = (if panicked then 500 else if deadline_writes c = [] then rep_status rep else 504)"
proof -
  have keep: "(log_write Write_bytes ^^ n) k = k" for n k by (induction n) simp_all
  show ?thesis
    by (auto simp: logged_status_def call_writes_def reply_writes_def deadline_writes_def keep
        split: dp_route.split reply_body.split)
qed

lemma logged_step:
  assumes "dp_do wi ev s = Some s'" and "calls_ok s" and "lines_agree s"
    and "prints_info (log_level_of (cfg_LogLevel (wi_cfg wi)))"
  shows "lines_agree s'"
proof (cases ev)
  case (Finish i)
  with assms(1) have "dp_finish wi i s = Some s'" by simp
  then show ?thesis
  proof (cases rule: dp_finish_cases)
    case (1 sc rep s1 panicked rep')
    with assms(2) have "served_ok sc" by (auto simp: calls_ok_def list_all_length)
    from finished_ok [OF this 1(3,5)] have "wire_status (call_writes (sc_call sc) panicked rep') = rep_status rep'"
      by (simp add: answer_ok_def)
    with assms(3,4) 1(5,6) show ?thesis
      by (simp add: lines_agree_def line_status_def call_line_def Logger_def logged_call_writes RequestID_def
          recovered_reply_def Let_def)
  qed
next
  case (Arrive c)
  with assms(1,3) show ?thesis by (auto simp: lines_agree_def dp_arrive_def split: prod.splits)
next
  case (Poll env now)
  with assms(1,3) show ?thesis by (auto simp: lines_agree_def dp_poll_def split: prod.splits)
qed (use assms in \<open>auto simp: lines_agree_def with_writer_def\<close>)

lemma request_log_agrees:
  assumes "dp_run wi evs (dp_initial wi b ps) = Some s" and "prints_info (log_level_of (cfg_LogLevel (wi_cfg wi)))"
  shows "lines_agree s"
proof -
  have "lines_agree s" if "dp_run wi evs s0 = Some s" "calls_ok s0" "lines_agree s0" for s0
    using that by (induction evs arbitrary: s0) (auto split: option.splits dest: calls_ok_step logged_step [OF _ _ _ assms(2)])
  from this [OF assms(1) initial_ok(1)] show ?thesis by (simp add: lines_agree_def dp_initial_def)
qed

subsection \<open>A negative token count\<close>

text \<open>
  Prometheus counters refuse negative numbers with a panic. A provider whose usage has a negative
  token count makes every request to it fail after the model was called and its answer decoded: the
  client gets an empty 500, there is no audit entry and no alert, the request does not appear among
  the HTTP requests, and the proxy counter says it passed.
\<close>

lemma negative_usage_unaccounted:
  assumes "i < length (sv_inflight s)" and "sc_exec (sv_inflight s ! i) = Some x" and "exec_panics x"
    and "sc_reply (sv_inflight s ! i) = Some rep"
  shows "\<exists>s' a. dp_finish wi i s = Some s' \<and> sv_answers s' = sv_answers s @ [a] \<and> da_reply a = recovered_reply (da_call a)
     \<and> sv_writer s' = sv_writer s \<and> sv_alerts s' = sv_alerts s
     \<and> count_of (HTTPRequests, ls) (sv_metrics s') = count_of (HTTPRequests, ls) (sv_metrics s)
     \<and> count_of (ProxyRequests, [''pass'', []]) (sv_metrics s') = count_of (ProxyRequests, [''pass'', []]) (sv_metrics s) + 1"
proof -
  let ?sc = "sv_inflight s ! i" let ?c = "sc_call ?sc"
  obtain m where e: "count_execution x (dc_elapsed ?c) (sv_metrics s) = (m, True)"
    using count_execution_panics [of x "dc_elapsed ?c" "sv_metrics s"] assms(3) by (metis prod.collapse)
  then have d: "dp_effects wi ?c (sc_exec ?sc) s = (s\<lparr>sv_metrics := m\<rparr>, True)"
    by (simp add: dp_effects_def assms(2))
  have "count_of (HTTPRequests, ls) m = count_of (HTTPRequests, ls) (sv_metrics s)"
    "count_of (ProxyRequests, [''pass'', []]) m = count_of (ProxyRequests, [''pass'', []]) (sv_metrics s) + 1"
    using counter_execution [of "(HTTPRequests, ls)" x "dc_elapsed ?c" "sv_metrics s"]
      counter_execution [of "(ProxyRequests, [''pass'', []])" x "dc_elapsed ?c" "sv_metrics s"] e assms(3) by simp_all
  with d assms show ?thesis by (simp add: dp_finish_def Let_def metrics_HTTP_def)
qed

lemma example_negative_usage:
  "(let s = example_final (-4) in (map (\<lambda>a. (da_status a, da_panicked a)) (sv_answers s), length (audit_logs (sv_log s))))
     = ([(500, True), (200, False)], 1)"
  by code_simp

subsection \<open>Start and end\<close>

lemma closed_stays:
  "writer_run sha_hex env (replicate n Ev_Receive) (w, d) = Some (w', d') \<Longrightarrow> wr_closed w \<Longrightarrow> wr_closed w'"
proof (induction n arbitrary: w d)
  case (Suc n)
  then obtain w1 d1 where step: "writer_do sha_hex env Ev_Receive (w, d) = Some (w1, d1)"
    and rest: "writer_run sha_hex env (replicate n Ev_Receive) (w1, d1) = Some (w', d')"
    by (auto split: option.splits simp del: writer_do.simps)
  from step have "wr_closed w1 = wr_closed w"
    by (auto simp: Let_def flush_batch_def split: if_splits list.splits prod.splits)
  with Suc rest show ?case by simp
qed simp

lemma dp_close_ends:
  assumes "dp_close wi b err effects s1 = Some e"
  shows "\<exists>s. rn_server e = Some s \<and> wr_closed (sv_writer s) \<and> sv_inflight s = sv_inflight s1 \<and> rn_error e = err
     \<and> rn_exit e = (if err = None then 0 else 1)
     \<and> rn_effects e = effects @ [if wr_done (sv_writer s) then Writer_closed else Drain_timed_out, Pool_closed]"
  using assms
proof (cases rule: dp_close_cases)
  case (1 w' d' n)
  then have "wr_closed w'" by (auto dest: closed_stays)
  with 1(2) show ?thesis by (simp add: returned_def)
qed



end
