(* ===== verification/Mock_Llm.thy ===== *)
theory Mock_Llm
  imports Http_Service Llm_Client
begin

text \<open>
  \<open>cmd/mock-llm/main.go\<close>: the stand-in for a model provider of the development setup, and what the
  data plane's client gets from it.
\<close>

subsection \<open>The server\<close>

text \<open>The canned text, with its dash in UTF-8; Go counts its bytes.\<close>

definition mock_content :: string where
  "mock_content = ''Hello from Sheeld! This is a mock LLM response '' @ [CHR 0xE2, CHR 0x80, CHR 0x94]
     @ '' the guardrail pipeline ran end to end. Point your source at a real OpenAI-compatible provider to go live.''"

text \<open>\<open>chatRequest\<close>: the model, and role and content of every message.\<close>

record mock_request =
  mr_model :: string
  mr_messages :: "(string \<times> string) list"

fun decode_mock_messages :: "json list \<Rightarrow> (string \<times> string) list option" where
  "decode_mock_messages [] = Some []"
| "decode_mock_messages (j # js) =
     (case struct_members j of
        None \<Rightarrow> None
      | Some kvs \<Rightarrow>
          (case (dec_str (field_vals ''role'' kvs) [], dec_str (field_vals ''content'' kvs) [], decode_mock_messages js) of
             (Some r, Some c, Some ms) \<Rightarrow> Some ((r, c) # ms)
           | _ \<Rightarrow> None))"

fun decode_mock_slice :: "json list \<Rightarrow> (string \<times> string) list \<Rightarrow> (string \<times> string) list option" where
  "decode_mock_slice [] cur = Some cur"
| "decode_mock_slice (JNull # vs) cur = decode_mock_slice vs []"
| "decode_mock_slice (JArr xs # vs) cur =
     (case decode_mock_messages xs of None \<Rightarrow> None | Some ms \<Rightarrow> decode_mock_slice vs ms)"
| "decode_mock_slice (_ # vs) cur = None"

definition decode_mock_request :: "json \<Rightarrow> mock_request option" where
  "decode_mock_request j =
     (case struct_members j of
        None \<Rightarrow> None
      | Some kvs \<Rightarrow>
          (case (dec_str (field_vals ''model'' kvs) [], decode_mock_slice (field_vals ''messages'' kvs) []) of
             (Some m, Some ms) \<Rightarrow> Some \<lparr>mr_model = m, mr_messages = ms\<rparr>
           | _ \<Rightarrow> None))"

definition http_error :: "int \<Rightarrow> string \<Rightarrow> reply" where
  "http_error status text =
     \<lparr>rep_status = status, rep_headers = [(''Content-Type'', ''text/plain; charset=utf-8''), (''X-Content-Type-Options'', ''nosniff'')],
      rep_body = Text_body (text @ [CHR 0x0A])\<rparr>"

definition prompt_tokens :: "(string \<times> string) list \<Rightarrow> int" where
  "prompt_tokens ms = sum_list (map (\<lambda>(_, c). int (length c div 4)) ms)"

text \<open>
  The handler, at the clock readings \<open>nanos\<close> and \<open>secs\<close>; \<open>body\<close> is the value the request's body starts
  with. Go prints a map with its keys sorted.
\<close>

definition handleChat :: "int \<Rightarrow> int \<Rightarrow> string \<Rightarrow> json option \<Rightarrow> reply" where
  "handleChat nanos secs meth body =
     (if meth \<noteq> ''POST'' then http_error 405 ''method not allowed''
      else (case Option.bind body decode_mock_request of
              None \<Rightarrow> http_error 400 ''{\"error\":{\"message\":\"invalid request body\"}}''
            | Some req \<Rightarrow>
                (let prompt = prompt_tokens (mr_messages req); completion = int (length mock_content div 4) in
                 \<lparr>rep_status = 200, rep_headers = [(''Content-Type'', ''application/json'')],
                  rep_body = Json_body (JObj
                    [(''choices'', JArr [JObj [(''finish_reason'', JStr ''stop''), (''index'', JInt 0),
                        (''message'', JObj [(''content'', JStr mock_content), (''role'', JStr ''assistant'')])]]),
                     (''created'', JInt secs), (''id'', JStr (''chatcmpl-mock-'' @ int_text nanos)),
                     (''model'', JStr (mr_model req)), (''object'', JStr ''chat.completion''),
                     (''usage'', JObj [(''completion_tokens'', JInt completion), (''prompt_tokens'', JInt prompt),
                        (''total_tokens'', JInt (prompt + completion))])])\<rparr>)))"

definition mock_serve :: "int \<Rightarrow> int \<Rightarrow> string \<Rightarrow> string \<Rightarrow> json option \<Rightarrow> reply" where
  "mock_serve nanos secs path meth body =
     (if path = ''/healthz'' then \<lparr>rep_status = 200, rep_headers = [], rep_body = Text_body ''{\"status\":\"ok\"}''\<rparr>
      else if path = ''/chat/completions'' \<or> path = ''/v1/chat/completions'' then handleChat nanos secs meth body
      else http_error 404 ''404 page not found'')"

subsection \<open>As a network of the client\<close>

text \<open>
  What the client meets: the path of a URL, how a value is printed, and what value a text starts with,
  are the libraries'.
\<close>

record mock_wire =
  mw_path :: "string \<Rightarrow> string"
  mw_print :: "json \<Rightarrow> string"
  mw_parse :: "string \<Rightarrow> json option"

definition body_of :: "mock_wire \<Rightarrow> reply_body \<Rightarrow> http_body" where
  "body_of mw b =
     (case b of
        Json_body j \<Rightarrow> \<lparr>b_value = Some j, b_end = length (mw_print mw j), b_trailing = False, b_text = mw_print mw j\<rparr>
      | Text_body t \<Rightarrow> \<lparr>b_value = mw_parse mw t, b_end = length t, b_trailing = False, b_text = t\<rparr>
      | _ \<Rightarrow> \<lparr>b_value = None, b_end = 0, b_trailing = False, b_text = []\<rparr>)"

definition mock_network :: "mock_wire \<Rightarrow> int \<Rightarrow> int \<Rightarrow> network" where
  "mock_network mw nanos secs rq =
     (let rep = mock_serve nanos secs (mw_path mw (rq_url rq)) (rq_method rq) (rq_body rq)
      in Response (rep_status rep) (body_of mw (rep_body rep)))"

subsection \<open>Requests of the data plane are understood\<close>

lemma field_vals_set:
  "field_vals n kvs = [] \<Longrightarrow> fold_key k = n \<Longrightarrow> field_vals n (m_set k v kvs) = [v]"
  "fold_key k \<noteq> n \<Longrightarrow> field_vals n (m_set k v kvs) = field_vals n kvs"
  by (induction kvs) (auto simp: field_vals_def split: if_splits)

text \<open>A request whose messages are texts and whose other members do not shadow the ones that are read.\<close>

definition plain_message :: "message \<Rightarrow> bool" where
  "plain_message m \<longleftrightarrow> contentRaw m = None \<and> field_vals ''role'' (msg_extra m) = [] \<and> field_vals ''content'' (msg_extra m) = []"

definition plain_request :: "chat_request \<Rightarrow> bool" where
  "plain_request req \<longleftrightarrow> list_all plain_message (Messages req)
     \<and> field_vals ''model'' (req_extra req) = [] \<and> field_vals ''messages'' (req_extra req) = []"

lemma fold_keys:
  "fold_key ''role'' = ''role''" "fold_key ''content'' = ''content''" "fold_key ''model'' = ''model''"
  "fold_key ''messages'' = ''messages''" "fold_key ''stream'' = ''stream''"
  by (simp_all add: fold_key.simps ascii_lower_def)

lemma mock_reads_messages:
  "list_all plain_message ms \<Longrightarrow> decode_mock_messages (map marshal_message ms) = Some (map (\<lambda>m. (Role m, Content m)) ms)"
  by (induction ms) (simp_all add: plain_message_def marshal_message_def message_fields_def struct_members_def
      field_vals_set fold_keys)

lemma mock_reads_request:
  assumes "plain_request req"
  shows "decode_mock_request (marshal_request req)
     = Some \<lparr>mr_model = req_Model req, mr_messages = map (\<lambda>m. (Role m, Content m)) (Messages req)\<rparr>"
  using assms mock_reads_messages [of "Messages req"]
  by (simp add: plain_request_def decode_mock_request_def marshal_request_def request_fields_def struct_members_def
      field_vals_set fold_keys)

subsection \<open>Its answers are understood\<close>

definition mock_json :: "int \<Rightarrow> int \<Rightarrow> string \<Rightarrow> int \<Rightarrow> json" where
  "mock_json nanos secs model prompt = JObj
     [(''choices'', JArr [JObj [(''finish_reason'', JStr ''stop''), (''index'', JInt 0),
         (''message'', JObj [(''content'', JStr mock_content), (''role'', JStr ''assistant'')])]]),
      (''created'', JInt secs), (''id'', JStr (''chatcmpl-mock-'' @ int_text nanos)),
      (''model'', JStr model), (''object'', JStr ''chat.completion''),
      (''usage'', JObj [(''completion_tokens'', JInt (int (length mock_content div 4))), (''prompt_tokens'', JInt prompt),
         (''total_tokens'', JInt (prompt + int (length mock_content div 4)))])]"

lemma usage_keys:
  "fold_key ''prompt_tokens'' = ''prompt_tokens''" "fold_key ''completion_tokens'' = ''completion_tokens''"
  "fold_key ''total_tokens'' = ''total_tokens''"
  by (simp_all add: fold_key.simps ascii_lower_def)

lemma mock_content_length: "length mock_content = 156"
  by (simp add: mock_content_def)

text \<open>The answer the client is to have.\<close>

definition mock_answer :: "string \<Rightarrow> int \<Rightarrow> chat_response \<Rightarrow> bool" where
  "mock_answer model prompt resp \<longleftrightarrow> resp_Model resp = model
     \<and> map (\<lambda>c. (Index c, Role (Message c), Content (Message c), FinishReason c)) (Choices resp)
         = [(0, ''assistant'', mock_content, ''stop'')]
     \<and> Usage resp = \<lparr>PromptTokens = prompt, CompletionTokens = 39, TotalTokens = prompt + 39\<rparr>"

lemma mock_json_read:
  assumes "0 \<le> prompt" and "prompt + 39 < 2 ^ 63"
  shows "\<exists>resp. unmarshal_response (mock_json nanos secs model prompt) = Inr resp \<and> mock_answer model prompt resp"
proof -
  have i: "int64_ok prompt" "int64_ok (prompt + 39)" using assms by (simp_all add: int64_ok_def)
  have z: "int64_ok 0" "int64_ok 39" by (simp_all add: int64_ok_def)
  show ?thesis
    by (simp add: unmarshal_response_def mock_json_def raw_members_def m_of_entries_def mock_answer_def str_field_def
        choices_field_def unmarshal_choice_def int_field_def message_field_def unmarshal_message_def zero_message_def
        usage_field_def field_vals_def usage_keys mock_content_length i z)
qed

text \<open>
  C27: the stand-in serves the data plane. Whatever request the data plane sends to the mock server,
  as long as its messages are texts: the first attempt succeeds, no retry is made, and what the
  client decodes is the canned text as the only choice, under the model asked for, with the usage
  the server computed from the lengths of the messages it was sent.
\<close>

theorem mock_answers_client:
  assumes "plain_request req" and "0 \<le> maxRetries c"
    and "mw_path mw ((if baseURL = [] then c_baseURL c else baseURL) @ ''/chat/completions'')
       \<in> {''/chat/completions'', ''/v1/chat/completions''}"
    and "\<And>n. ae_net (envs n) = mock_network mw nanos secs" and "ae_read_err (envs 0) = None"
    and "prompt = sum_list (map (\<lambda>m. int (length (Content m) div 4)) (Messages req))" and "prompt + 39 < 2 ^ 63"
  shows "\<exists>resp. ChatCompletionAt c envs baseURL apiKey req
       = \<lparr>lo_result = Inr resp, lo_attempts = 1, lo_waits = [], lo_retries = 0\<rparr> \<and> mock_answer (req_Model req) prompt resp"
proof -
  let ?url = "if baseURL = [] then c_baseURL c else baseURL"
  have "0 \<le> prompt" unfolding assms(6) by (rule sum_list_nonneg) auto
  from mock_json_read [OF this assms(7)] obtain resp where
    resp: "unmarshal_response (mock_json nanos secs (req_Model req) prompt) = Inr resp" "mock_answer (req_Model req) prompt resp"
    by blast
  have "prompt_tokens (map (\<lambda>m. (Role m, Content m)) (Messages req)) = prompt"
    unfolding assms(6) prompt_tokens_def by (simp add: comp_def)
  then have "mock_network mw nanos secs (chat_http_request ?url apiKey req)
      = Response 200 (body_of mw (Json_body (mock_json nanos secs (req_Model req) prompt)))"
    using assms(3) mock_reads_request [OF assms(1)]
    by (auto simp: mock_network_def mock_serve_def chat_http_request_def post_request_def handleChat_def mock_json_def Let_def)
  then have once: "doOnce (envs 0) ?url apiKey req = Answer resp"
    using assms(4,5) resp(1) by (simp add: doOnce_def body_of_def unmarshal_body_def)
  have "nat (maxRetries c + 1) = Suc (nat (maxRetries c))" using assms(2) by simp
  with once resp(2) show ?thesis by (simp add: ChatCompletionAt_def Let_def)
qed

definition example_wire :: mock_wire where
  "example_wire = \<lparr>mw_path = (\<lambda>u. drop 11 u), mw_print = (\<lambda>_. []), mw_parse = (\<lambda>_. None)\<rparr>"

definition example_mock_request :: chat_request where
  "example_mock_request = \<lparr>req_Model = ''gpt-4o'', Messages = [zero_message\<lparr>Role := ''user'', Content := ''hello there''\<rparr>],
     Stream = False, req_extra = []\<rparr>"

theorem mock_answers_client_witness:
  "\<exists>resp. lo_result (ChatCompletionAt (NewClient ''http://mock'' 30) (\<lambda>_. \<lparr>ae_net = mock_network example_wire 7 5,
        ae_cancelled = (\<lambda>_. False), ae_read_err = None, ae_ctx_err = None, ae_wait_err = None\<rparr>) [] ''key'' example_mock_request)
       = Inr resp \<and> TotalTokens (Usage resp) = 41"
proof -
  let ?env = "\<lparr>ae_net = mock_network example_wire 7 5, ae_cancelled = (\<lambda>_. False), ae_read_err = None,
     ae_ctx_err = None, ae_wait_err = None\<rparr>"
  have "plain_request example_mock_request"
    by (simp add: plain_request_def plain_message_def example_mock_request_def zero_message_def field_vals_def)
  moreover have "0 \<le> maxRetries (NewClient ''http://mock'' 30)"
    "mw_path example_wire ((if [] = [] then c_baseURL (NewClient ''http://mock'' 30) else []) @ ''/chat/completions'')
       \<in> {''/chat/completions'', ''/v1/chat/completions''}"
    by (simp_all add: NewClient_def example_wire_def)
  moreover have "2 = sum_list (map (\<lambda>m. int (length (Content m) div 4)) (Messages example_mock_request))"
    by (simp add: example_mock_request_def)
  ultimately obtain resp where "ChatCompletionAt (NewClient ''http://mock'' 30) (\<lambda>_. ?env) [] ''key'' example_mock_request
      = \<lparr>lo_result = Inr resp, lo_attempts = 1, lo_waits = [], lo_retries = 0\<rparr>"
    "mock_answer (req_Model example_mock_request) 2 resp"
    using mock_answers_client [of example_mock_request "NewClient ''http://mock'' 30" example_wire "[]" "\<lambda>_. ?env" 7 5 2]
    by auto
  then show ?thesis by (simp add: mock_answer_def)
qed

end
