(* ===== verification/Control_Plane_Server.thy ===== *)
theory Control_Plane_Server
  imports Process_Start Api_Isolation
begin

text \<open>
  The control plane as a process, \<open>cmd/control-plane/main.go\<close>: what its start checks, how the
  configuration reaches the services and the router, and what a series of its lives does to the database.
\<close>

subsection \<open>Wiring\<close>

text \<open>
  The environment of a request with everything that the configuration determines: the registries, the
  key and URL policy of the services, the secret of the tokens, and the router's settings.
\<close>

definition cp_wired :: "cp_config \<Rightarrow> cp_server \<Rightarrow> cp_server" where
  "cp_wired cfg sr =
     (let ce0 = pe_cp (sr_api sr);
          ce = ce0\<lparr>ce_encKey := cc_EncryptionKey cfg, ce_allowPrivate := cc_AllowPrivateGuardURLs cfg,
                 ce_reg := NewRegistry (ce_lib ce0) (ce_net ce0) (cc_AllowPrivateGuardURLs cfg),
                 ce_treg := NewTransformRegistry (ce_lib ce0) (ce_net ce0) (cc_AllowPrivateGuardURLs cfg)\<rparr>;
          au = (pe_auth (sr_api sr))\<lparr>au_jwtSecret := cc_JWTSecret cfg, au_jwtExpiration := cc_JWTExpiration cfg\<rparr>
      in sr\<lparr>sr_cfg := cfg,
           sr_api := (sr_api sr)\<lparr>pe_cp := ce, pe_auth := au, pe_maxBody := cc_MaxBodyBytes cfg,
                       pe_dpURL := cc_DataPlaneURL cfg, pe_token := cc_DataPlaneToken cfg\<rparr>,
           sr_builder := (sr_builder sr)\<lparr>bu_env := ce\<rparr>\<rparr>)"

definition wired_request :: "cp_config \<Rightarrow> api_request \<Rightarrow> api_request" where
  "wired_request cfg q = q\<lparr>rq_server := cp_wired cfg (rq_server q)\<rparr>"

subsection \<open>main.go\<close>

record cp_boot =
  cb_config :: "cp_config res"
  cb_start :: start_env
  cb_requests :: "api_request list"

definition cp_main :: "'l rate_lib \<Rightarrow> cp_boot \<Rightarrow> db \<Rightarrow> (db \<times> 'l rate_limiter) process_end" where
  "cp_main rl b d =
     (case err_wrap ''loading config: '' (cp_Load (cb_config b)) of
        Inl e \<Rightarrow> returned (Some e) [] None
      | Inr cfg \<Rightarrow>
          (case ValidateKey (cc_EncryptionKey cfg) of
             Inl e \<Rightarrow> returned (Some (''invalid SHEELD_ENCRYPTION_KEY: '' @ e)) [] None
           | Inr _ \<Rightarrow>
               (case connect_db (cb_start b) of
                  Some (e, effects) \<Rightarrow> returned (Some e) effects None
                | None \<Rightarrow>
                    (let s = api_run rl (map (wired_request cfg) (cb_requests b))
                               (d, NewRateLimiter (cc_RateLimitRPS cfg) (cc_RateLimitBurst cfg));
                         err = serving_error (cb_start b)
                     in returned err ([Pool_opened, Migrations_run, Listening]
                          @ (if err = None then [Server_stopped] else []) @ [Pool_closed]) (Some s)))))"

text \<open>What a life leaves in the database, and one life after another.\<close>

definition cp_life :: "'l rate_lib \<Rightarrow> cp_boot \<Rightarrow> db \<Rightarrow> db" where
  "cp_life rl b d = (case rn_server (cp_main rl b d) of None \<Rightarrow> d | Some s \<Rightarrow> fst s)"

definition cp_lives :: "'l rate_lib \<Rightarrow> cp_boot list \<Rightarrow> db \<Rightarrow> db" where
  "cp_lives rl bs d = fold (cp_life rl) bs d"

subsection \<open>Restarts\<close>

text \<open>The requests a start gets to see.\<close>

definition boot_requests :: "cp_boot \<Rightarrow> api_request list" where
  "boot_requests b =
     (case cb_config b of Inl _ \<Rightarrow> [] | Inr cfg \<Rightarrow> map (wired_request cfg) (cb_requests b))"

lemma cp_main_cases:
  obtains (failed) e effects where "cp_main rl b d = returned (Some e) effects None"
      "effects = [] \<or> effects = [Pool_opened, Pool_closed]"
  | (served) cfg where "cb_config b = Inr cfg" "ValidateKey (cc_EncryptionKey cfg) = Inr ()"
      "rn_server (cp_main rl b d) = Some (api_run rl (boot_requests b)
         (d, NewRateLimiter (cc_RateLimitRPS cfg) (cc_RateLimitBurst cfg)))"
proof (cases "cb_config b")
  case (Inl e)
  then show ?thesis using failed by (simp add: cp_main_def cp_Load_def)
next
  case (Inr cfg)
  show ?thesis
  proof (cases "ValidateKey (cc_EncryptionKey cfg)")
    case (Inl e)
    with Inr show ?thesis using failed by (simp add: cp_main_def cp_Load_def)
  next
    case ok: (Inr u)
    show ?thesis
    proof (cases "connect_db (cb_start b)")
      case None
      with Inr ok show ?thesis by (intro served) (simp_all add: cp_main_def cp_Load_def returned_def boot_requests_def Let_def)
    next
      case (Some ee)
      with Inr ok connect_db_effects [of "cb_start b" "fst ee" "snd ee"] show ?thesis
        by (intro failed [of "fst ee" "snd ee"]) (auto simp: cp_main_def cp_Load_def split: prod.split)
    qed
  qed
qed


text \<open>A life with requests of the second tenant, a start that finds no database, and another life.\<close>

definition example_life :: "go_error option \<Rightarrow> api_request list \<Rightarrow> cp_boot" where
  "example_life ping qs = \<lparr>cb_config = Inr example_cp_config,
     cb_start = \<lparr>se_pool = None, se_ping = ping, se_dialect = None, se_up = None, se_listen = None, se_shutdown = None\<rparr>,
     cb_requests = qs\<rparr>"

definition example_lives :: "cp_boot list" where
  "example_lives = [example_life None (take 1 example_requests), example_life (Some ''refused'') example_requests,
     example_life None (drop 1 example_requests)]"

lemma example_lives_served: "list_all (served_with example_cp) (concat (map boot_requests example_lives))"
proof -
  have "same_setup example_cp (pe_cp (sr_api (cp_wired example_cp_config example_server)))
      \<and> crypto_ok (pe_cp (sr_api (cp_wired example_cp_config example_server)))"
    using example_setup
    by (simp add: same_setup_def crypto_ok_def cp_wired_def Let_def example_server_def example_api_def example_cp_config_def
        example_cp_def)
  then show ?thesis
    by (simp add: example_lives_def example_life_def boot_requests_def wired_request_def served_with_def
        example_requests_def example_api_request_def)
qed

text \<open>Who a request speaks for depends on the configuration through the secret of the tokens only.\<close>

lemma wired_caller:
  assumes "au_jwtSecret (pe_auth (sr_api (rq_server q))) = cc_JWTSecret cfg"
  shows "request_caller (wired_request cfg q) = request_caller q"
proof -
  have t: "ValidateToken (a\<lparr>au_jwtSecret := k, au_jwtExpiration := n\<rparr>) token = ValidateToken a token"
    if "au_jwtSecret a = k" for a :: auth_env and k n token
    using that by (auto simp: ValidateToken_def split: sum.split prod.split)
  have "bearer_claims (a\<lparr>au_jwtSecret := k, au_jwtExpiration := n\<rparr>) r = bearer_claims a r"
    if "au_jwtSecret a = k" for a :: auth_env and k n r
    unfolding bearer_claims_def t [OF that] ..
  with assms show ?thesis
    by (simp add: request_caller_def wired_request_def caller_def cp_wired_def Let_def split: cp_route.split)
qed

lemma example_lives_callers:
  "map request_caller (concat (map boot_requests example_lives)) = [Some ''7'', Some ''7'', Some ''7'', None, Some ''7'', None]"
proof -
  have "\<forall>q \<in> set example_requests. au_jwtSecret (pe_auth (sr_api (rq_server q))) = cc_JWTSecret example_cp_config"
    by (simp add: example_requests_def example_api_request_def example_server_def example_api_def example_cp_config_def
        example_jwt_auth_def example_auth_def)
  then have eq: "map (\<lambda>q. request_caller (wired_request example_cp_config q)) qs = map request_caller qs"
    if "set qs \<subseteq> set example_requests" for qs
    using that wired_caller [of _ example_cp_config] by (auto intro!: map_cong)
  have "concat (map boot_requests example_lives)
      = map (wired_request example_cp_config) (take 1 example_requests @ example_requests @ drop 1 example_requests)"
    by (simp add: example_lives_def example_life_def boot_requests_def)
  then have "map request_caller (concat (map boot_requests example_lives))
      = map request_caller (take 1 example_requests @ example_requests @ drop 1 example_requests)"
    using eq [of "take 1 example_requests @ example_requests @ drop 1 example_requests"]
    by (simp add: comp_def set_take_subset set_drop_subset)
  also have "\<dots> = take 1 (map request_caller example_requests) @ map request_caller example_requests
      @ drop 1 (map request_caller example_requests)" by (simp add: take_map drop_map)
  finally show ?thesis unfolding example_requests_facts(1) by simp
qed


text \<open>A start with a malformed encryption key never gets to the database.\<close>

lemma bad_key_never_connects:
  assumes "cb_config b = Inr cfg" and "ValidateKey (cc_EncryptionKey cfg) = Inl e"
  shows "rn_effects (cp_main rl b d) = [] \<and> rn_exit (cp_main rl b d) = 1 \<and> cp_life rl b d = d"
  using assms by (simp add: cp_life_def cp_main_def cp_Load_def returned_def)

end
