(* ===== verification/Spec2Isabelle.thy ===== *)
theory Spec2Isabelle
  imports Guard_Registry Llm_Client Config_Poller Crypto_Aes Plane_Agreement Audit_Ledger Api_Session Api_Audit Api_Confidential
    Server_Accounts Mock_Llm Control_Plane_Server
begin

text \<open>
  Sheeld is a guarding proxy in front of language models. It has two servers, and this development
  models both, from the packages under \<open>src/internal\<close> and the entry points under \<open>src/cmd\<close>.

  \<^bold>\<open>The program.\<close> The \<^emph>\<open>data plane\<close> (\<open>dataplane/\<close>) receives chat completions. Its gateway
  authenticates the caller's API key, limits its rate, finds the configured source and hands the
  request to the processor, which runs the input guards and transformers, calls the model provider
  through the LLM client, runs the output guards and transformers, and records an audit entry, an
  alert and metrics. A stream is the replay of the checked answer. The \<^emph>\<open>control plane\<close>
  (\<open>controlplane/\<close>) keeps organizations, users, API keys, sources, guardrails, transformers and
  alert webhooks in a database: its router authenticates the dashboard's token, its handlers decode
  and check, its services validate and run the queries. The planes meet in two places: a builder
  assembles all tenants' rows into the workspace configuration the data plane polls, applies and
  keeps as a snapshot, and the audit log of the data plane is read through a proxy of the control
  plane.

  \<^bold>\<open>The shared base.\<close>
  \<^item> \<open>Sheeld_Prelude\<close>: results as sums, Go maps as association lists, the functions of
    \<open>strings\<close>, \<open>strconv\<close> and \<open>fmt\<close> in use, the collections of simplification rules.
  \<^item> \<open>Json_Values\<close>: JSON values and the decoding and encoding of \<open>encoding/json\<close>.
  \<^item> \<open>Http_Service\<close>: \<open>shared/response\<close> and the request id, identity and body size middleware.

  \<^bold>\<open>The data plane.\<close>
  \<^item> \<open>Llm_Types\<close>: \<open>shared/llm/types.go\<close>. What the proxy does not know of a request survives it.
  \<^item> \<open>Url_Policy\<close>: \<open>shared/urlpolicy\<close>. Which URLs are accepted, exactly.
  \<^item> \<open>Guards_Local\<close>, \<open>Guards_Remote\<close>: the seven guards of \<open>shared/guard\<close>, with their requests
    and the decoding of the services' answers.
  \<^item> \<open>Guard_Engine\<close>: \<open>guard.go\<close>, \<open>scope.go\<close>, \<open>engine.go\<close>. The decision of a phase, the schedules
    of the concurrent run (a step relation, one step per finished guard), shadow guards and failing
    services.
  \<^item> \<open>Guard_Registry\<close>: \<open>registry.go\<close>, the required fields of each type.
  \<^item> \<open>Transform_State\<close>, \<open>Anonymization\<close>, \<open>Transformers\<close>, \<open>Transform_Chain\<close>: \<open>shared/transform\<close>. The
    placeholder store as an injective dictionary, the substitution of spans and its inverse, every
    transformer, the chain with its record and its round trip.
  \<^item> \<open>Llm_Client\<close>: \<open>shared/llm/client.go\<close>, attempts, retries and waits.
  \<^item> \<open>Alert_Notifier\<close>, \<open>Processor\<close>: \<open>dataplane/alert\<close>, \<open>dataplane/processor\<close>. The stages of a
    request; audit, alert and metric of every execution.
  \<^item> \<open>Backend_Config\<close>, \<open>Config_Poller\<close>: \<open>shared/domain/workspaceconfig.go\<close>,
    \<open>dataplane/backendconfig\<close>. Applying a configuration as one step, polling, the snapshot file.
  \<^item> \<open>Rate_Limiter\<close>: \<open>shared/middleware/ratelimit.go\<close>. The bound on what passes, with eviction.
  \<^item> \<open>Stream_Replay\<close>, \<open>Gateway\<close>: \<open>dataplane/gateway\<close>, \<open>dataplane/config\<close>. The events of a stream, the
    routes, the API key check, and what the proxy can answer at all.
  \<^item> \<open>Model_Catalog\<close>: \<open>shared/modelcatalog\<close> with its price table.
  \<^item> \<open>Audit_Log\<close>, \<open>Audit_Ledger\<close>, \<open>Audit_Queries\<close>: \<open>dataplane/auditstore\<close>, \<open>dataplane/db/generated\<close>.
    The writer's buffer, consumer, retries and shutdown with the account of every entry; the
    retention sweep; listing by cursor, and the usage totals with their prices.
  \<^item> \<open>Request_Metrics\<close>: \<open>shared/metrics\<close>, \<open>middleware/logging.go\<close>. The collectors, the status a client, the
    metrics and the request log see.
  \<^item> \<open>Process_Start\<close>, \<open>Data_Plane_Server\<close>: \<open>cmd/sheeld-server\<close>, \<open>db/migrate.go\<close>. The wiring, the running
    process as a sequence of steps (requests that arrive and finish, polls, the audit writer's
    consumer and ticker, sweeps), its start and its shutdown.
  \<^item> \<open>Server_Accounts\<close>: for every interleaving of these steps, every delivered answer is audited, counters
    and log lines are those of the answers, and the process ends in order.
  \<^item> \<open>Mock_Llm\<close>: \<open>cmd/mock-llm\<close>, the mock provider, and that the LLM client reads its answers.

  \<^bold>\<open>The control plane.\<close>
  \<^item> \<open>Crypto_Aes\<close>: \<open>shared/crypto\<close>, encryption of secrets.
  \<^item> \<open>Config_Redaction\<close>: \<open>service/sanitize.go\<close>, hiding secrets and keeping them on write-back.
  \<^item> \<open>Control_Db\<close>, \<open>Control_Queries\<close>: the tables and every query of \<open>controlplane/db/generated\<close> with the
    schema's keys, references and cascades.
  \<^item> \<open>Control_Auth\<close>, \<open>Control_Service\<close>: \<open>controlplane/service\<close>, every operation.
  \<^item> \<open>Control_Invariant\<close>: the calls of the services as a step relation, the reachable databases, and
    what holds of them.
  \<^item> \<open>Tenant_Isolation\<close>: what belongs to a tenant and what another tenant's calls can reach.
  \<^item> \<open>Workspace_Builder\<close>, \<open>Served_Config\<close>: \<open>controlplane/workspaceconfig\<close>, and the served configuration as
    a function of the database.
  \<^item> \<open>Control_Api\<close>, \<open>Control_Router\<close>: \<open>controlplane/api\<close>, \<open>controlplane/config\<close>. Every handler with its
    decoding and replies, the three authentication middlewares, the routes.
  \<^item> \<open>Api_Isolation\<close>, \<open>Api_Session\<close>, \<open>Api_Confidential\<close>: every request is at most one service call
    of the organization in its token (a refinement of the server by the step relation), so the
    invariants hold after every sequence of requests; without a token the private routes do nothing;
    a registered user can log in; and what the reading routes tell depends on the tenant's own rows.

  \<^item> \<open>Control_Plane_Server\<close>: \<open>cmd/control-plane\<close>. The checks of a start, the wiring of the configuration,
    and that restarts keep the database sound and the tenants apart.

  \<^bold>\<open>Across the planes.\<close>
  \<^item> \<open>Plane_Agreement\<close>: from every reachable database the build succeeds, the data plane can apply it
    and resolves a source as configured; both planes accept the same API keys and a revoked key is
    refused; what the data plane does for a tenant is not influenced by other tenants' calls.
  \<^item> \<open>Api_Audit\<close>: the audit routes through both planes show a tenant only its own entries.

  \<^bold>\<open>Interfaces.\<close> Each locale is interpreted on the definitions that provide it.
  \<^item> \<open>type_registry\<close>: a table of factories; the registries of guards and of transformers.
  \<^item> \<open>placeholder_store\<close>: a dictionary of originals; the state of a request.
  \<^item> \<open>content_rewriter\<close>: a transformer that keeps all but the text; four transformers, and their chain.
  \<^item> \<open>config_store\<close>: all-or-nothing application; the store of \<open>backendconfig\<close>, used by the poller.
  \<^item> \<open>writer_ledger\<close>: an account kept by the audit writer's steps; the counting one, and the exact one
    for a working database.
  \<^item> \<open>server_ledger\<close>: extends it to an account kept by all steps of the data plane; the same two.
  \<^item> \<open>table_property\<close>: a predicate on the database that every query of a group keeps; the schema's
    integrity, the validity of contents, a tenant's rows, a stored user, the unchanged database.
  \<^item> \<open>db_view\<close>: a part of the database that determines an answer; a tenant's own rows.

  \<^bold>\<open>Conventions.\<close> An operation returns a sum, its error on the left. State is passed explicitly, and
  one operation under a lock, one SQL statement and one HTTP exchange are single steps. A request to
  the running data plane is two steps, its arrival, which reads limiter and configuration, and its end,
  which writes audit log, alerts and metrics; between them any other steps may come. A panic, of a
  counter given a negative number or of a closed audit writer, is a value, and the recovery's answer
  is the request's. The five seconds of the writer's shutdown are a number of entries it gets to. The database
  counts its statements; whether the next one fails, the id it generates and the time it reads are
  functions of that count, so every theorem covers every pattern of failures. \<open>ORDER BY\<close> is a stable
  sort, and a deletion bounded by a limit takes the first matching rows. Conversions to \<open>int32\<close> wrap.
  The retry loops are bounded by the code's own counters; the sweep ends because each full batch
  removes rows; the split of streamed text is a partial function shown to return. Floating-point
  numbers (rates, prices, thresholds) are exact rationals. JSON columns return the value stored.

  \<^bold>\<open>Parameters.\<close> Code outside \<open>src\<close> is an argument: the network and DNS, clocks, random bytes, regular
  expressions, the parsers of URLs, UUIDs, JSON text and times, AES-GCM, bcrypt, JWT signing, SHA-256, and
  the token bucket of \<open>golang.org/x/time/rate\<close>. Where a theorem needs them to behave, a hypothesis says
  which documented law: opening a sealed text under the same key gives it back, a
  hash matches the password it was made from, a signed token validates until it expires, a bucket
  admits at most its burst plus its rate.

  \<^bold>\<open>Not modelled.\<close> The generated connection wrappers (\<open>db.go\<close>), which only store the handle of the
  database; \<open>shared/domain/types.go\<close>, type declarations of which only names for
  \<open>string\<close> are used; the histogram of the guard phases'
  latency, and the text of a metrics scrape; route matching, CORS and the buffering of responses, which
  belong to the router library and \<open>net/http\<close>. The control plane's panics and log lines are not followed
  through its requests. The builder's eight queries are run without writes between them, which the code
  does not enforce. The test files and the dashboard are not part of the program verified here.
\<close>

end
